(* ===== verification/Zing_Types.thy ===== *)
theory Zing_Types
  imports Prelude
begin

text \<open>
  \<^verbatim>\<open>zing-cdn-core/src/types.rs\<close>: the cache states, the tiers a blob can be resolved from
  (ordered as the resolver tries them), the error type with the text its \<^verbatim>\<open>Display\<close>
  instance prints, and the records \<^verbatim>\<open>BlobInfo\<close> and \<^verbatim>\<open>PeerScore\<close>. Rust strings are
  lists of UTF-8 bytes (Isabelle's \<^typ>\<open>string\<close>); \<open>as_bytes\<close> and \<open>from_utf8\<close> are the
  conversions the code uses. Instants are nanoseconds since the epoch.
\<close>

section \<open>Strings and their bytes\<close>

definition as_bytes :: "string \<Rightarrow> bytes" where
  "as_bytes s = map (\<lambda>c. word_of_nat (of_char c)) s"

definition of_bytes :: "bytes \<Rightarrow> string" where
  "of_bytes bs = map (\<lambda>b. char_of (unat b)) bs"

lemma of_bytes_as_bytes [simp]: "of_bytes (as_bytes s) = s"
proof -
  have "char_of (unat (word_of_nat (of_char c) :: u8)) = c" for c :: char
  proof -
    have "of_char c < (256::nat)" using of_char_of [of "of_char c :: nat"] by simp
    then show ?thesis by (simp add: unat_of_nat)
  qed
  then show ?thesis by (simp add: of_bytes_def as_bytes_def o_def)
qed

lemma as_bytes_of_bytes [simp]: "as_bytes (of_bytes bs) = bs"
proof -
  have "word_of_nat (of_char (char_of (unat b))) = b" for b :: u8
    using unat_bound [of b] by simp
  then show ?thesis by (simp add: of_bytes_def as_bytes_def o_def)
qed

lemma as_bytes_eq [simp]: "as_bytes s = as_bytes t \<longleftrightarrow> s = t"
  by (metis of_bytes_as_bytes)

lemma length_as_bytes [simp]: "length (as_bytes s) = length s"
  by (simp add: as_bytes_def)

definition is_cont :: "u8 \<Rightarrow> bool" where
  "is_cont b \<longleftrightarrow> 0x80 \<le> b \<and> b \<le> 0xBF"

text \<open>Well-formed UTF-8, as the standard library checks it.\<close>

fun utf8_valid :: "bytes \<Rightarrow> bool" where
  "utf8_valid [] = True"
| "utf8_valid (b # bs) =
     (if b < 0x80 then utf8_valid bs
      else if 0xC2 \<le> b \<and> b \<le> 0xDF then
        (case bs of c1 # r \<Rightarrow> is_cont c1 \<and> utf8_valid r | _ \<Rightarrow> False)
      else if 0xE0 \<le> b \<and> b \<le> 0xEF then
        (case bs of
           c1 # c2 # r \<Rightarrow>
             is_cont c1 \<and> (b = 0xE0 \<longrightarrow> 0xA0 \<le> c1) \<and> (b = 0xED \<longrightarrow> c1 \<le> 0x9F) \<and>
             is_cont c2 \<and> utf8_valid r
         | _ \<Rightarrow> False)
      else if 0xF0 \<le> b \<and> b \<le> 0xF4 then
        (case bs of
           c1 # c2 # c3 # r \<Rightarrow>
             is_cont c1 \<and> (b = 0xF0 \<longrightarrow> 0x90 \<le> c1) \<and> (b = 0xF4 \<longrightarrow> c1 \<le> 0x8F) \<and>
             is_cont c2 \<and> is_cont c3 \<and> utf8_valid r
         | _ \<Rightarrow> False)
      else False)"

definition from_utf8 :: "bytes \<Rightarrow> string + string" where
  "from_utf8 bs = (if utf8_valid bs then Inr (of_bytes bs) else Inl ''invalid utf-8 sequence'')"

lemma from_utf8_Inr: "from_utf8 bs = Inr s \<longleftrightarrow> utf8_valid bs \<and> bs = as_bytes s"
  by (auto simp: from_utf8_def)

section \<open>The types of types.rs\<close>

datatype cache_state = Pinned | Cached | Evicted

datatype blob_resolution = LocalCache | L1Peer | L3Walrus

text \<open>The order in which the resolver tries the tiers.\<close>

fun tier :: "blob_resolution \<Rightarrow> nat" where
  "tier LocalCache = 0"
| "tier L1Peer = 1"
| "tier L3Walrus = 3"

instantiation blob_resolution :: linorder
begin

definition less_eq_blob_resolution :: "blob_resolution \<Rightarrow> blob_resolution \<Rightarrow> bool" where
  "less_eq_blob_resolution a b \<longleftrightarrow> tier a \<le> tier b"

definition less_blob_resolution :: "blob_resolution \<Rightarrow> blob_resolution \<Rightarrow> bool" where
  "less_blob_resolution a b \<longleftrightarrow> tier a < tier b"

instance
proof
  fix a b :: blob_resolution
  show "a \<le> b \<Longrightarrow> b \<le> a \<Longrightarrow> a = b"
    by (cases a; cases b) (simp_all add: less_eq_blob_resolution_def)
qed (auto simp: less_eq_blob_resolution_def less_blob_resolution_def)

end

datatype zing_error =
    BlobNotFound string
  | BlobExpired
  | WalrusClient string
  | SuiClientErr string
  | P2PNetwork string
  | NoPeersAvailable string
  | CacheErr string
  | VerificationFailed string string
  | DiskFull
  | Io string

type_synonym 'a zresult = "zing_error + 'a"

fun zing_display :: "zing_error \<Rightarrow> string" where
  "zing_display (BlobNotFound s) = ''blob not found: '' @ s"
| "zing_display BlobExpired = ''blob expired (epoch ended)''"
| "zing_display (WalrusClient s) = ''Walrus client error: '' @ s"
| "zing_display (SuiClientErr s) = ''Sui client error: '' @ s"
| "zing_display (P2PNetwork s) = ''P2P network error: '' @ s"
| "zing_display (NoPeersAvailable s) = ''no peers available for blob: '' @ s"
| "zing_display (CacheErr s) = ''cache error: '' @ s"
| "zing_display (VerificationFailed c e) =
     ''verification failed: computed blob ID '' @ c @ '' does not match expected '' @ e"
| "zing_display DiskFull = ''disk full, cannot cache blob''"
| "zing_display (Io s) = ''IO error: '' @ s"

record blob_info =
  bi_blob_id :: string
  bi_size :: u64
  bi_state :: cache_state
  bi_resolution :: "blob_resolution option"
  bi_pinned :: bool
  bi_fetched_at :: int

record peer_score =
  ps_peer_id :: string
  ps_score :: int
  ps_last_seen :: int
  ps_successful_streams :: u32
  ps_failed_verifications :: u32
  ps_dropped_connections :: u32
  ps_false_claims :: u32

end
