(* ===== verification/Table.thy ===== *)
theory Table
  imports Prelude
begin

text \<open>
  The interface the cache's clients rely on: a table that is read with \<open>get\<close>, written with
  \<open>put\<close> and \<open>del\<close>, all three fallible, whose contents are \<open>view\<close>. The locale
  \<open>keyed_table\<close> states what a successful operation promises; \<open>framed_table\<close> adds that
  the operations leave another part of the same state alone. The blob, metadata and pin column
  families interpret both.
\<close>

text \<open>A sequence of fallible updates, stopping at the first error.\<close>

fun try_fold :: "('s \<Rightarrow> 'k \<Rightarrow> 'e + 's) \<Rightarrow> 's \<Rightarrow> 'k list \<Rightarrow> 'e + 's" where
  "try_fold f s [] = Inr s"
| "try_fold f s (k # ks) = try_bind (f s k) (\<lambda>s'. try_fold f s' ks)"

locale keyed_table =
  fixes ok :: "'s \<Rightarrow> bool"
    and view :: "'s \<Rightarrow> 'k \<Rightarrow> 'v option"
    and get :: "'s \<Rightarrow> 'k \<Rightarrow> 'e + 'v option"
    and put :: "'s \<Rightarrow> 'k \<Rightarrow> 'v \<Rightarrow> 'e + 's"
    and del :: "'s \<Rightarrow> 'k \<Rightarrow> 'e + 's"
  assumes get_view: "ok s \<Longrightarrow> get s k = Inr r \<Longrightarrow> r = view s k"
    and put_ok: "ok s \<Longrightarrow> put s k v = Inr s' \<Longrightarrow> ok s'"
    and put_view: "ok s \<Longrightarrow> put s k v = Inr s' \<Longrightarrow> view s' = (view s)(k \<mapsto> v)"
    and del_ok: "ok s \<Longrightarrow> del s k = Inr s' \<Longrightarrow> ok s'"
    and del_view: "ok s \<Longrightarrow> del s k = Inr s' \<Longrightarrow> view s' = (view s)(k := None)"
begin

lemma put_then_get:
  assumes "ok s" and "put s k v = Inr s'" and "get s' k' = Inr r"
  shows "r = (if k' = k then Some v else view s k')"
  using get_view [OF put_ok [OF assms(1,2)] assms(3)] put_view [OF assms(1,2)] by simp

lemma del_then_get:
  assumes "ok s" and "del s k = Inr s'" and "get s' k' = Inr r"
  shows "r = (if k' = k then None else view s k')"
  using get_view [OF del_ok [OF assms(1,2)] assms(3)] del_view [OF assms(1,2)] by simp

lemma put_put_view:
  assumes "ok s" and "put s k v = Inr s1" and "put s1 k w = Inr s2"
  shows "view s2 = (view s)(k \<mapsto> w)"
  using put_view [OF put_ok [OF assms(1,2)] assms(3)] put_view [OF assms(1,2)] by simp

lemma del_put_view:
  assumes "ok s" and "put s k v = Inr s1" and "del s1 k = Inr s2" and "view s k = None"
  shows "view s2 = view s"
  using del_view [OF put_ok [OF assms(1,2)] assms(3)] put_view [OF assms(1,2)] assms(4)
  by (simp add: fun_upd_idem)

lemma del_all:
  assumes "ok s" and "try_fold del s ks = Inr s'"
  shows "ok s' \<and> view s' = view s |` (- set ks)"
  using assms
proof (induction ks arbitrary: s)
  case Nil
  then show ?case by (simp add: restrict_map_def)
next
  case (Cons k ks)
  from Cons.prems(2) obtain s1 where s1: "del s k = Inr s1" "try_fold del s1 ks = Inr s'"
    by (auto simp: try_bind_eq_Inr)
  have "ok s' \<and> view s' = view s1 |` (- set ks)"
    by (rule Cons.IH [OF del_ok [OF Cons.prems(1) s1(1)] s1(2)])
  with del_view [OF Cons.prems(1) s1(1)] show ?case
    by (auto simp: restrict_map_def fun_eq_iff)
qed

end

locale framed_table = keyed_table ok view get put del
  for ok :: "'s \<Rightarrow> bool"
    and view :: "'s \<Rightarrow> 'k \<Rightarrow> 'v option"
    and get :: "'s \<Rightarrow> 'k \<Rightarrow> 'e + 'v option"
    and put :: "'s \<Rightarrow> 'k \<Rightarrow> 'v \<Rightarrow> 'e + 's"
    and del :: "'s \<Rightarrow> 'k \<Rightarrow> 'e + 's" +
  fixes frame :: "'s \<Rightarrow> 'f"
  assumes put_frame: "ok s \<Longrightarrow> put s k v = Inr s' \<Longrightarrow> frame s' = frame s"
    and del_frame: "ok s \<Longrightarrow> del s k = Inr s' \<Longrightarrow> frame s' = frame s"
begin

lemma del_all_frame:
  assumes "ok s" and "try_fold del s ks = Inr s'"
  shows "frame s' = frame s"
  using assms
proof (induction ks arbitrary: s)
  case Nil
  then show ?case by simp
next
  case (Cons k ks)
  from Cons.prems(2) obtain s1 where s1: "del s k = Inr s1" "try_fold del s1 ks = Inr s'"
    by (auto simp: try_bind_eq_Inr)
  have "frame s' = frame s1"
    by (rule Cons.IH [OF del_ok [OF Cons.prems(1) s1(1)] s1(2)])
  with del_frame [OF Cons.prems(1) s1(1)] show ?case by simp
qed

end

end
