(* ===== verification/Blob_Store.thy ===== *)
theory Blob_Store
  imports Zing_Types Table
begin

text \<open>
  \<^verbatim>\<open>zing-cdn-core/src/cache/store.rs\<close>. RocksDB is not part of the repository: its calls
  are the fields of the record \<open>rocksdb\<close>, over a database state \<open>'d\<close>, each fallible the way
  the crate declares it. \<open>rocks_ok\<close> is the documented behaviour the cache relies on: a
  successful read returns the contents, a successful write or delete changes one key of one
  column family, a failed one changes nothing, and iteration from the start lists the keys in
  ascending byte order and may stop with an error. The ghost field \<open>rk_view\<close> names the
  contents; only the laws read it. \<^verbatim>\<open>BlobStore\<close> is a handle to the database, which its
  clones share, so every operation takes and returns the one \<open>blob_store\<close>.
\<close>

record open_opts =
  create_if_missing :: bool
  create_missing_column_families :: bool

record 'd rocksdb =
  rk_open :: "open_opts \<Rightarrow> string \<Rightarrow> string list \<Rightarrow> string + 'd"
  rk_cf :: "'d \<Rightarrow> string \<Rightarrow> bool"
  rk_get :: "'d \<Rightarrow> string \<Rightarrow> bytes \<Rightarrow> string + bytes option"
  rk_put :: "'d \<Rightarrow> string \<Rightarrow> bytes \<Rightarrow> bytes \<Rightarrow> string + 'd"
  rk_delete :: "'d \<Rightarrow> string \<Rightarrow> bytes \<Rightarrow> string + 'd"
  rk_iter :: "'d \<Rightarrow> string \<Rightarrow> (string + bytes \<times> bytes) list"
  rk_view :: "'d \<Rightarrow> string \<Rightarrow> bytes \<Rightarrow> bytes option"

definition iter_of :: "(bytes \<times> bytes) list \<Rightarrow> (string + bytes \<times> bytes) list \<Rightarrow> bool" where
  "iter_of items its \<longleftrightarrow>
     its = map Inr items \<or> (\<exists>n e rest. its = map Inr (take n items) @ Inl e # rest)"

definition rocks_ok :: "'d rocksdb \<Rightarrow> bool" where
  "rocks_ok R \<longleftrightarrow>
     (\<forall>d c k r. rk_get R d c k = Inr r \<longrightarrow> r = rk_view R d c k) \<and>
     (\<forall>d c k v d'. rk_put R d c k v = Inr d' \<longrightarrow>
        rk_view R d' = (rk_view R d)(c := (rk_view R d c)(k \<mapsto> v))) \<and>
     (\<forall>d c k d'. rk_delete R d c k = Inr d' \<longrightarrow>
        rk_view R d' = (rk_view R d)(c := (rk_view R d c)(k := None))) \<and>
     (\<forall>d c. \<exists>items. map_of items = rk_view R d c \<and> sorted_wrt (<) (map fst items) \<and>
        iter_of items (rk_iter R d c))"

lemma rocks_getD: "rocks_ok R \<Longrightarrow> rk_get R d c k = Inr r \<Longrightarrow> r = rk_view R d c k"
  by (simp add: rocks_ok_def)

lemma rocks_putD: "rocks_ok R \<Longrightarrow> rk_put R d c k v = Inr d' \<Longrightarrow>
    rk_view R d' = (rk_view R d)(c := (rk_view R d c)(k \<mapsto> v))"
  unfolding rocks_ok_def by blast

lemma rocks_deleteD: "rocks_ok R \<Longrightarrow> rk_delete R d c k = Inr d' \<Longrightarrow>
    rk_view R d' = (rk_view R d)(c := (rk_view R d c)(k := None))"
  unfolding rocks_ok_def by blast

lemma rocks_iterE:
  assumes "rocks_ok R"
  obtains items where "map_of items = rk_view R d c" "sorted_wrt (<) (map fst items)"
    "iter_of items (rk_iter R d c)"
  using assms unfolding rocks_ok_def by meson

section \<open>The store\<close>

definition BLOBS_CF :: string where "BLOBS_CF = ''blobs''"
definition METADATA_CF :: string where "METADATA_CF = ''metadata''"
definition PINS_CF :: string where "PINS_CF = ''pins''"

lemma cf_distinct [simp]:
  "BLOBS_CF \<noteq> PINS_CF" "PINS_CF \<noteq> BLOBS_CF" "BLOBS_CF \<noteq> METADATA_CF"
  "METADATA_CF \<noteq> BLOBS_CF" "METADATA_CF \<noteq> PINS_CF" "PINS_CF \<noteq> METADATA_CF"
  by (simp_all add: BLOBS_CF_def METADATA_CF_def PINS_CF_def)

record 'd blob_store =
  bs_ops :: "'d rocksdb"
  bs_db :: 'd

definition bs_open :: "'d rocksdb \<Rightarrow> string \<Rightarrow> 'd blob_store zresult" where
  "bs_open R path =
     (let opts = \<lparr>create_if_missing = True, create_missing_column_families = True\<rparr>;
          cfs = [BLOBS_CF, METADATA_CF, PINS_CF]
      in try_bind (map_err CacheErr (rk_open R opts path cfs))
           (\<lambda>db. Inr \<lparr>bs_ops = R, bs_db = db\<rparr>))"

text \<open>The shape every access has: the handle of the column family, then the call.\<close>

definition cf_handle :: "'d blob_store \<Rightarrow> string \<Rightarrow> unit zresult" where
  "cf_handle st c =
     (if rk_cf (bs_ops st) (bs_db st) c then Inr () else Inl (CacheErr (c @ '' CF not found'')))"

definition cf_put :: "'d blob_store \<Rightarrow> string \<Rightarrow> string \<Rightarrow> bytes \<Rightarrow> 'd blob_store zresult" where
  "cf_put st c key val =
     try_bind (cf_handle st c) (\<lambda>_.
       try_bind (map_err CacheErr (rk_put (bs_ops st) (bs_db st) c (as_bytes key) val))
         (\<lambda>db. Inr (st\<lparr>bs_db := db\<rparr>)))"

definition cf_get :: "'d blob_store \<Rightarrow> string \<Rightarrow> string \<Rightarrow> bytes option zresult" where
  "cf_get st c key =
     try_bind (cf_handle st c) (\<lambda>_.
       map_err CacheErr (rk_get (bs_ops st) (bs_db st) c (as_bytes key)))"

definition cf_delete :: "'d blob_store \<Rightarrow> string \<Rightarrow> string \<Rightarrow> 'd blob_store zresult" where
  "cf_delete st c key =
     try_bind (cf_handle st c) (\<lambda>_.
       try_bind (map_err CacheErr (rk_delete (bs_ops st) (bs_db st) c (as_bytes key)))
         (\<lambda>db. Inr (st\<lparr>bs_db := db\<rparr>)))"

text \<open>The loop over an iterator: the first failed item or invalid key ends it.\<close>

fun collect_ids :: "(string + bytes \<times> bytes) list \<Rightarrow> string list zresult" where
  "collect_ids [] = Inr []"
| "collect_ids (item # rest) =
     try_bind (map_err CacheErr item) (\<lambda>(key, _).
       try_bind (map_err CacheErr (from_utf8 key)) (\<lambda>bid.
         try_bind (collect_ids rest) (\<lambda>bids. Inr (bid # bids))))"

definition cf_list :: "'d blob_store \<Rightarrow> string \<Rightarrow> string list zresult" where
  "cf_list st c =
     try_bind (cf_handle st c) (\<lambda>_. collect_ids (rk_iter (bs_ops st) (bs_db st) c))"

definition bs_put :: "'d blob_store \<Rightarrow> string \<Rightarrow> bytes \<Rightarrow> 'd blob_store zresult" where
  "bs_put st blob_id data = cf_put st BLOBS_CF blob_id data"

definition bs_get :: "'d blob_store \<Rightarrow> string \<Rightarrow> bytes option zresult" where
  "bs_get st blob_id = cf_get st BLOBS_CF blob_id"

definition bs_delete :: "'d blob_store \<Rightarrow> string \<Rightarrow> 'd blob_store zresult" where
  "bs_delete st blob_id = cf_delete st BLOBS_CF blob_id"

definition bs_put_metadata :: "'d blob_store \<Rightarrow> string \<Rightarrow> bytes \<Rightarrow> 'd blob_store zresult" where
  "bs_put_metadata st blob_id metadata = cf_put st METADATA_CF blob_id metadata"

definition bs_get_metadata :: "'d blob_store \<Rightarrow> string \<Rightarrow> bytes option zresult" where
  "bs_get_metadata st blob_id = cf_get st METADATA_CF blob_id"

definition bs_list_blob_ids :: "'d blob_store \<Rightarrow> string list zresult" where
  "bs_list_blob_ids st = cf_list st BLOBS_CF"

definition bs_blob_size :: "'d blob_store \<Rightarrow> string \<Rightarrow> u64 option zresult" where
  "bs_blob_size st blob_id =
     try_bind (bs_get st blob_id) (\<lambda>data. Inr (map_option (\<lambda>d. word_of_nat (length d)) data))"

fun sum_sizes :: "'d blob_store \<Rightarrow> u64 \<Rightarrow> string list \<Rightarrow> u64 zresult" where
  "sum_sizes st acc [] = Inr acc"
| "sum_sizes st acc (bid # bids) =
     try_bind (bs_blob_size st bid) (\<lambda>size.
       sum_sizes st (case size of Some n \<Rightarrow> acc + n | None \<Rightarrow> acc) bids)"

definition bs_total_size :: "'d blob_store \<Rightarrow> u64 zresult" where
  "bs_total_size st = try_bind (bs_list_blob_ids st) (sum_sizes st 0)"

section \<open>Contents, and the laws the clients use\<close>

definition store_ok :: "'d blob_store \<Rightarrow> bool" where
  "store_ok st \<longleftrightarrow> rocks_ok (bs_ops st)"

definition cf_view :: "'d blob_store \<Rightarrow> string \<Rightarrow> string \<Rightarrow> bytes option" where
  "cf_view st c bid = rk_view (bs_ops st) (bs_db st) c (as_bytes bid)"

definition other_cfs :: "'d blob_store \<Rightarrow> string \<Rightarrow> string \<Rightarrow> bytes \<Rightarrow> bytes option" where
  "other_cfs st c = (rk_view (bs_ops st) (bs_db st))(c := Map.empty)"

abbreviation blobs_view :: "'d blob_store \<Rightarrow> string \<Rightarrow> bytes option" where
  "blobs_view st \<equiv> cf_view st BLOBS_CF"

lemmas cf_access_defs = cf_put_def cf_get_def cf_delete_def cf_handle_def

lemma cf_get_view: "store_ok st \<Longrightarrow> cf_get st c bid = Inr r \<Longrightarrow> r = cf_view st c bid"
  by (auto simp: cf_access_defs store_ok_def cf_view_def try_bind_eq_Inr split: if_splits
      dest: rocks_getD)

lemma cf_put_spec:
  assumes "store_ok st" and "cf_put st c bid v = Inr st'"
  shows "store_ok st' \<and> bs_ops st' = bs_ops st \<and>
    rk_view (bs_ops st) (bs_db st') =
      (rk_view (bs_ops st) (bs_db st))(c := (rk_view (bs_ops st) (bs_db st) c)(as_bytes bid \<mapsto> v))"
  using assms by (auto simp: cf_access_defs store_ok_def try_bind_eq_Inr split: if_splits
      dest: rocks_putD)

lemma cf_delete_spec:
  assumes "store_ok st" and "cf_delete st c bid = Inr st'"
  shows "store_ok st' \<and> bs_ops st' = bs_ops st \<and>
    rk_view (bs_ops st) (bs_db st') =
      (rk_view (bs_ops st) (bs_db st))(c := (rk_view (bs_ops st) (bs_db st) c)(as_bytes bid := None))"
  using assms by (auto simp: cf_access_defs store_ok_def try_bind_eq_Inr split: if_splits
      dest: rocks_deleteD)

lemma cf_put_view:
  "store_ok st \<Longrightarrow> cf_put st c bid v = Inr st' \<Longrightarrow> cf_view st' c = (cf_view st c)(bid \<mapsto> v)"
  by (drule (1) cf_put_spec) (auto simp: cf_view_def fun_eq_iff)

lemma cf_delete_view:
  "store_ok st \<Longrightarrow> cf_delete st c bid = Inr st' \<Longrightarrow> cf_view st' c = (cf_view st c)(bid := None)"
  by (drule (1) cf_delete_spec) (auto simp: cf_view_def fun_eq_iff)

lemma cf_put_other:
  "store_ok st \<Longrightarrow> cf_put st c bid v = Inr st' \<Longrightarrow> other_cfs st' c = other_cfs st c"
  by (drule (1) cf_put_spec) (auto simp: other_cfs_def fun_eq_iff)

lemma cf_delete_other:
  "store_ok st \<Longrightarrow> cf_delete st c bid = Inr st' \<Longrightarrow> other_cfs st' c = other_cfs st c"
  by (drule (1) cf_delete_spec) (auto simp: other_cfs_def fun_eq_iff)

lemma other_cfs_view: "other_cfs st' c = other_cfs st c \<Longrightarrow> c' \<noteq> c \<Longrightarrow> cf_view st' c' = cf_view st c'"
  by (auto simp: other_cfs_def cf_view_def fun_eq_iff split: if_splits)

interpretation blobs: framed_table store_ok "\<lambda>st. cf_view st BLOBS_CF" bs_get bs_put bs_delete
    "\<lambda>st. other_cfs st BLOBS_CF"
  by unfold_locales
    (auto simp: bs_get_def bs_put_def bs_delete_def
      dest: cf_get_view cf_put_spec cf_delete_spec cf_put_view cf_delete_view cf_put_other
        cf_delete_other)

section \<open>Listing\<close>

lemma collect_ids_take:
  assumes "collect_ids (map Inr items @ its) = Inr bids"
  shows "\<exists>ids'. collect_ids its = Inr ids' \<and> map as_bytes bids = map fst items @ map as_bytes ids'"
  using assms
proof (induction items arbitrary: bids)
  case Nil
  then show ?case by simp
next
  case (Cons a items)
  from Cons.prems obtain bid tl where "utf8_valid (fst a)" "fst a = as_bytes bid"
    "collect_ids (map Inr items @ its) = Inr tl" "bids = bid # tl"
    by (auto simp: try_bind_eq_Inr from_utf8_Inr split: prod.splits)
  with Cons.IH show ?case by fastforce
qed

lemma collect_ids_iter:
  assumes "iter_of items its" and "collect_ids its = Inr bids"
  shows "map as_bytes bids = map fst items"
  using assms(1) unfolding iter_of_def
proof (elim disjE exE)
  assume "its = map Inr items"
  with assms(2) show ?thesis using collect_ids_take [of items "[]"] by simp
next
  fix n e rest
  assume "its = map Inr (take n items) @ Inl e # rest"
  with assms(2) show ?thesis using collect_ids_take [of "take n items" "Inl e # rest"] by auto
qed

lemma cf_list_spec:
  assumes "store_ok st" and "cf_list st c = Inr bids"
  shows "sorted_wrt (<) (map as_bytes bids)"
    and "set (map as_bytes bids) = dom (rk_view (bs_ops st) (bs_db st) c)"
proof -
  obtain items where items: "map_of items = rk_view (bs_ops st) (bs_db st) c"
    "sorted_wrt (<) (map fst items)" "iter_of items (rk_iter (bs_ops st) (bs_db st) c)"
    using assms(1) unfolding store_ok_def by (rule rocks_iterE)
  have "collect_ids (rk_iter (bs_ops st) (bs_db st) c) = Inr bids"
    using assms(2) by (auto simp: cf_list_def cf_handle_def try_bind_eq_Inr split: if_splits)
  from collect_ids_iter [OF items(3) this] have keys: "map as_bytes bids = map fst items" .
  show "sorted_wrt (<) (map as_bytes bids)" using items(2) keys by simp
  show "set (map as_bytes bids) = dom (rk_view (bs_ops st) (bs_db st) c)"
    using items(1) keys by (metis dom_map_of_conv_image_fst list.set_map)
qed

lemma cf_list_mem:
  assumes "store_ok st" and "cf_list st c = Inr bids"
  shows "bid \<in> set bids \<longleftrightarrow> cf_view st c bid \<noteq> None"
proof -
  have "bid \<in> set bids \<longleftrightarrow> as_bytes bid \<in> set (map as_bytes bids)"
    by (auto simp: image_iff)
  also have "\<dots> \<longleftrightarrow> cf_view st c bid \<noteq> None"
    unfolding cf_list_spec(2) [OF assms] by (auto simp: cf_view_def dom_def)
  finally show ?thesis .
qed

lemma cf_list_distinct:
  assumes "store_ok st" and "cf_list st c = Inr bids"
  shows "distinct bids"
proof -
  have "sorted_wrt (<) (map as_bytes bids)" by (rule cf_list_spec(1) [OF assms])
  then have "distinct (map as_bytes bids)" by (simp add: strict_sorted_iff)
  then show ?thesis by (simp add: distinct_map)
qed

section \<open>Sizes\<close>

definition blob_len :: "'d blob_store \<Rightarrow> string \<Rightarrow> nat" where
  "blob_len st bid = (case blobs_view st bid of Some d \<Rightarrow> length d | None \<Rightarrow> 0)"

text \<open>The bytes of all cached blobs.\<close>

definition blob_bytes :: "'d blob_store \<Rightarrow> nat" where
  "blob_bytes st = (\<Sum>bid | blobs_view st bid \<noteq> None. blob_len st bid)"

lemma bs_blob_size_spec:
  "store_ok st \<Longrightarrow> bs_blob_size st bid = Inr r \<Longrightarrow>
     r = map_option (\<lambda>d. word_of_nat (length d)) (blobs_view st bid)"
  by (auto simp: bs_blob_size_def try_bind_eq_Inr dest: blobs.get_view)

lemma sum_sizes_spec:
  "store_ok st \<Longrightarrow> sum_sizes st acc bids = Inr r \<Longrightarrow>
     r = acc + word_of_nat (\<Sum>bid\<leftarrow>bids. blob_len st bid)"
proof (induction bids arbitrary: acc)
  case Nil
  then show ?case by simp
next
  case (Cons bid bids)
  from Cons.prems(2) obtain sz where sz: "bs_blob_size st bid = Inr sz"
    "sum_sizes st (case sz of Some n \<Rightarrow> acc + n | None \<Rightarrow> acc) bids = Inr r"
    by (auto simp: try_bind_eq_Inr)
  from Cons.IH [OF Cons.prems(1) sz(2)] bs_blob_size_spec [OF Cons.prems(1) sz(1)]
  show ?case by (auto simp: blob_len_def split: option.splits)
qed

lemma listed_bytes:
  assumes "store_ok st" and "bs_list_blob_ids st = Inr bids"
  shows "blob_bytes st = (\<Sum>bid\<leftarrow>bids. blob_len st bid)"
proof -
  have "{bid. blobs_view st bid \<noteq> None} = set bids"
    using cf_list_mem [OF assms(1)] assms(2) by (auto simp: bs_list_blob_ids_def)
  then show ?thesis
    using cf_list_distinct [OF assms(1)] assms(2)
    by (simp add: blob_bytes_def bs_list_blob_ids_def sum_list_distinct_conv_sum_set)
qed

lemma bs_total_size_spec:
  assumes "store_ok st" and "bs_total_size st = Inr n"
  shows "n = word_of_nat (blob_bytes st)"
proof -
  obtain bids where bids: "bs_list_blob_ids st = Inr bids" "sum_sizes st 0 bids = Inr n"
    using assms(2) by (auto simp: bs_total_size_def try_bind_eq_Inr)
  from sum_sizes_spec [OF assms(1) bids(2)] listed_bytes [OF assms(1) bids(1)]
  show ?thesis by simp
qed

section \<open>A database in memory\<close>

text \<open>
  A concrete database that satisfies the laws, for the concrete runs that show the hypotheses
  of the properties can hold: a column family is an association list, the newest entry first.
\<close>

type_synonym mem_db = "string \<Rightarrow> (bytes \<times> bytes) list"

definition mem_items :: "(bytes \<times> bytes) list \<Rightarrow> (bytes \<times> bytes) list" where
  "mem_items xs = map (\<lambda>k. (k, the (map_of xs k))) (sort (remdups (map fst xs)))"

definition mem_rocks :: "mem_db rocksdb" where
  "mem_rocks =
     \<lparr>rk_open = (\<lambda>_ _ _. Inr (\<lambda>_. [])),
      rk_cf = (\<lambda>d c. c \<in> {BLOBS_CF, METADATA_CF, PINS_CF}),
      rk_get = (\<lambda>d c k. Inr (map_of (d c) k)),
      rk_put = (\<lambda>d c k v. Inr (d(c := (k, v) # d c))),
      rk_delete = (\<lambda>d c k. Inr (d(c := filter (\<lambda>e. fst e \<noteq> k) (d c)))),
      rk_iter = (\<lambda>d c. map Inr (mem_items (d c))),
      rk_view = (\<lambda>d c. map_of (d c))\<rparr>"

definition mem_store :: "mem_db blob_store" where
  "mem_store = \<lparr>bs_ops = mem_rocks, bs_db = (\<lambda>_. [])\<rparr>"

lemma map_of_map_self: "map_of (map (\<lambda>k. (k, f k)) ks) = (\<lambda>k. if k \<in> set ks then Some (f k) else None)"
  by (induction ks) auto

lemma map_of_mem_items: "map_of (mem_items xs) = map_of xs"
proof
  fix k
  show "map_of (mem_items xs) k = map_of xs k"
  proof (cases "map_of xs k")
    case None
    then have "k \<notin> fst ` set xs" by (simp add: map_of_eq_None_iff)
    with None show ?thesis by (simp add: mem_items_def map_of_map_self)
  next
    case (Some v)
    then have "k \<in> fst ` set xs" by (metis domI dom_map_of_conv_image_fst)
    with Some show ?thesis by (simp add: mem_items_def map_of_map_self)
  qed
qed

lemma sorted_mem_items: "sorted_wrt (<) (map fst (mem_items xs))"
  by (simp add: mem_items_def o_def strict_sorted_iff)

lemma map_of_filter_neq: "map_of (filter (\<lambda>e. fst e \<noteq> k) xs) = (map_of xs)(k := None)"
  by (induction xs) (auto simp: fun_eq_iff)

lemma mem_rocks_ok [simp]: "rocks_ok mem_rocks"
  unfolding rocks_ok_def mem_rocks_def iter_of_def
  using map_of_mem_items sorted_mem_items by (auto simp: map_of_filter_neq)

lemma mem_store_ok [simp]: "store_ok (mem_store\<lparr>bs_db := d\<rparr>)" "store_ok mem_store"
  by (simp_all add: store_ok_def mem_store_def)

end
