(* ===== verification/Pinning.thy ===== *)
theory Pinning
  imports Blob_Store
begin

text \<open>
  \<^verbatim>\<open>zing-cdn-core/src/cache/pinning.rs\<close>. \<^verbatim>\<open>PinningManager\<close> holds a clone of the
  \<^verbatim>\<open>BlobStore\<close>, that is the same database, so its operations act on the \<open>blob_store\<close>.
  A blob is pinned when the pin column family has its key, whatever the value.
\<close>

definition pin :: "'d blob_store \<Rightarrow> string \<Rightarrow> 'd blob_store zresult" where
  "pin st blob_id = cf_put st PINS_CF blob_id (as_bytes ''1'')"

definition unpin :: "'d blob_store \<Rightarrow> string \<Rightarrow> 'd blob_store zresult" where
  "unpin st blob_id = cf_delete st PINS_CF blob_id"

definition is_pinned :: "'d blob_store \<Rightarrow> string \<Rightarrow> bool zresult" where
  "is_pinned st blob_id =
     try_bind (cf_get st PINS_CF blob_id) (\<lambda>result. Inr (result \<noteq> None))"

definition list_pinned :: "'d blob_store \<Rightarrow> string list zresult" where
  "list_pinned st = cf_list st PINS_CF"

definition pinned :: "'d blob_store \<Rightarrow> string \<Rightarrow> bool" where
  "pinned st bid \<longleftrightarrow> cf_view st PINS_CF bid \<noteq> None"

text \<open>The pins as a table with no values.\<close>

definition pin_entry :: "'d blob_store \<Rightarrow> string \<Rightarrow> unit option" where
  "pin_entry st bid = (if pinned st bid then Some () else None)"

definition pin_get :: "'d blob_store \<Rightarrow> string \<Rightarrow> unit option zresult" where
  "pin_get st bid = try_bind (is_pinned st bid) (\<lambda>b. Inr (if b then Some () else None))"

interpretation pins: framed_table store_ok pin_entry pin_get "\<lambda>st bid _. pin st bid" unpin
    "\<lambda>st. other_cfs st PINS_CF"
proof unfold_locales
  fix st :: "'d blob_store" and bid r
  assume "store_ok st" "pin_get st bid = Inr r"
  then show "r = pin_entry st bid"
    using cf_get_view [of st PINS_CF bid]
    by (fastforce simp: pin_get_def is_pinned_def try_bind_eq_Inr pin_entry_def pinned_def)
next
  fix st st' :: "'d blob_store" and bid and v :: unit
  assume a: "store_ok st" "pin st bid = Inr st'"
  then have "store_ok st' \<and> cf_view st' PINS_CF = (cf_view st PINS_CF)(bid \<mapsto> as_bytes ''1'')"
    unfolding pin_def using cf_put_spec cf_put_view by blast
  then show "store_ok st'" "pin_entry st' = (pin_entry st)(bid \<mapsto> v)"
    by (auto simp: pin_entry_def pinned_def)
  show "other_cfs st' PINS_CF = other_cfs st PINS_CF"
    using a unfolding pin_def by (rule cf_put_other)
next
  fix st st' :: "'d blob_store" and bid
  assume a: "store_ok st" "unpin st bid = Inr st'"
  then have "store_ok st' \<and> cf_view st' PINS_CF = (cf_view st PINS_CF)(bid := None)"
    unfolding unpin_def using cf_delete_spec cf_delete_view by blast
  then show "store_ok st'" "pin_entry st' = (pin_entry st)(bid := None)"
    by (auto simp: pin_entry_def pinned_def)
  show "other_cfs st' PINS_CF = other_cfs st PINS_CF"
    using a unfolding unpin_def by (rule cf_delete_other)
qed

lemma is_pinned_spec:
  assumes "store_ok st" and "is_pinned st bid = Inr b"
  shows "b = pinned st bid"
proof -
  obtain r where "cf_get st PINS_CF bid = Inr r" "b = (r \<noteq> None)"
    using assms(2) by (auto simp: is_pinned_def try_bind_eq_Inr)
  with cf_get_view [OF assms(1)] show ?thesis by (simp add: pinned_def)
qed

lemma pinned_pin_entry: "pinned st bid \<longleftrightarrow> pin_entry st bid \<noteq> None"
  by (simp add: pin_entry_def)

lemma pin_is_pinned:
  assumes "store_ok st" and "pin st bid = Inr st'" and "is_pinned st' bid' = Inr b"
  shows "b = (bid' = bid \<or> pinned st bid')"
  using is_pinned_spec [OF pins.put_ok [OF assms(1,2)] assms(3)] pins.put_view [OF assms(1,2)]
  by (auto simp: pinned_pin_entry)

lemma unpin_is_pinned:
  assumes "store_ok st" and "unpin st bid = Inr st'" and "is_pinned st' bid' = Inr b"
  shows "b = (bid' \<noteq> bid \<and> pinned st bid')"
  using is_pinned_spec [OF pins.del_ok [OF assms(1,2)] assms(3)] pins.del_view [OF assms(1,2)]
  by (auto simp: pinned_pin_entry)

text \<open>Pinning and unpinning leave the blobs alone; caching and deleting leave the pins alone.\<close>

lemma pin_blobs: "store_ok st \<Longrightarrow> pin st bid = Inr st' \<Longrightarrow> blobs_view st' = blobs_view st"
  by (rule other_cfs_view [where c = PINS_CF]) (simp_all add: pins.put_frame)

lemma unpin_blobs: "store_ok st \<Longrightarrow> unpin st bid = Inr st' \<Longrightarrow> blobs_view st' = blobs_view st"
  by (rule other_cfs_view [where c = PINS_CF]) (simp_all add: pins.del_frame)

lemma pinned_frame:
  assumes "other_cfs st' BLOBS_CF = other_cfs st BLOBS_CF"
  shows "pinned st' = pinned st"
  using other_cfs_view [OF assms, of PINS_CF] by (simp add: pinned_def fun_eq_iff)

lemma put_pinned: "store_ok st \<Longrightarrow> bs_put st bid v = Inr st' \<Longrightarrow> pinned st' = pinned st"
  by (rule pinned_frame) (rule blobs.put_frame)

lemma delete_pinned: "store_ok st \<Longrightarrow> bs_delete st bid = Inr st' \<Longrightarrow> pinned st' = pinned st"
  by (rule pinned_frame) (rule blobs.del_frame)

lemma list_pinned_mem:
  "store_ok st \<Longrightarrow> list_pinned st = Inr bids \<Longrightarrow> bid \<in> set bids \<longleftrightarrow> pinned st bid"
  by (simp add: list_pinned_def pinned_def cf_list_mem)

text \<open>
  A pin, once made, is kept by everything but unpinning that blob: after pinning a blob,
  caching any other or the same blob, and deleting any blob, a successful check still answers
  that it is pinned, and a successful listing of the pins names it.
\<close>

theorem pin_survives_cache_traffic:
  assumes "store_ok st" and "pin st bid = Inr st1" and "bs_put st1 b1 v = Inr st2"
    and "bs_delete st2 b2 = Inr st3" and "is_pinned st3 bid = Inr r" and "list_pinned st3 = Inr l"
  shows "r \<and> bid \<in> set l"
proof -
  have ok1: "store_ok st1" using assms(1,2) by (rule pins.put_ok)
  have ok2: "store_ok st2" using ok1 assms(3) by (rule blobs.put_ok)
  have ok3: "store_ok st3" using ok2 assms(4) by (rule blobs.del_ok)
  have "pinned st1 bid" using pins.put_view [OF assms(1,2)] by (simp add: pinned_pin_entry)
  then have "pinned st3 bid"
    using put_pinned [OF ok1 assms(3)] delete_pinned [OF ok2 assms(4)] by simp
  with is_pinned_spec [OF ok3 assms(5)] list_pinned_mem [OF ok3 assms(6)] show ?thesis by simp
qed

theorem pin_survives_cache_traffic_witness:
  "\<exists>st1 st2 st3 l. pin mem_store ''a'' = Inr st1 \<and> bs_put st1 ''a'' [1] = Inr st2 \<and>
     bs_delete st2 ''a'' = Inr st3 \<and> is_pinned st3 ''a'' = Inr True \<and> list_pinned st3 = Inr l \<and>
     ''a'' \<in> set l"
proof -
  let ?db1 = "(\<lambda>_. [])(PINS_CF := [(as_bytes ''a'', as_bytes ''1'')])"
  let ?st1 = "mem_store\<lparr>bs_db := ?db1\<rparr>"
  let ?st2 = "mem_store\<lparr>bs_db := ?db1(BLOBS_CF := [(as_bytes ''a'', [1])])\<rparr>"
  let ?st3 = "mem_store\<lparr>bs_db := ?db1(BLOBS_CF := [])\<rparr>"
  note defs = cf_access_defs mem_store_def mem_rocks_def
  have run: "pin mem_store ''a'' = Inr ?st1" "bs_put ?st1 ''a'' [1] = Inr ?st2"
    "bs_delete ?st2 ''a'' = Inr ?st3" "is_pinned ?st3 ''a'' = Inr True"
    by (simp_all add: pin_def bs_put_def bs_delete_def is_pinned_def defs)
  have l: "list_pinned ?st3 = Inr [''a'']"
    by (simp add: list_pinned_def cf_list_def mem_items_def as_bytes_def from_utf8_def
        of_bytes_def char_of_def bit_0 defs)
  show ?thesis
    using pin_survives_cache_traffic [OF _ run(1-4) l] run l by auto
qed

end
