(* ===== verification/Eviction.thy ===== *)
theory Eviction
  imports Pinning
begin

text \<open>
  \<^verbatim>\<open>zing-cdn-core/src/cache/eviction.rs\<close>. \<open>ev_run budget st\<close> is
  \<^verbatim>\<open>EvictionManager::run\<close> with the manager's budget over the shared store. An error in
  the middle leaves the deletions made so far, so the result carries the store on every path.
  Sizes are \<^typ>\<open>u64\<close> and the running total wraps as in a release build; that it never does
  for a store of less than \<open>2 ^ 64\<close> bytes is proved.
\<close>

fun ev_candidates :: "'d blob_store \<Rightarrow> string list \<Rightarrow> (string \<times> u64) list zresult" where
  "ev_candidates st [] = Inr []"
| "ev_candidates st (bid # bids) =
     try_bind (is_pinned st bid) (\<lambda>p.
       if p then ev_candidates st bids
       else try_bind (bs_blob_size st bid) (\<lambda>found.
         try_bind (ok_or (CacheErr (''blob '' @ bid @ '' has no size'')) found) (\<lambda>sz.
           try_bind (ev_candidates st bids) (\<lambda>cs. Inr ((bid, sz) # cs)))))"

fun ev_loop :: "u64 \<Rightarrow> 'd blob_store \<Rightarrow> u64 \<Rightarrow> (string \<times> u64) list \<Rightarrow> 'd blob_store \<times> unit zresult" where
  "ev_loop budget st total_size [] = (st, Inr ())"
| "ev_loop budget st total_size ((bid, sz) # cs) =
     (if total_size \<le> budget then (st, Inr ())
      else case bs_delete st bid of
        Inl e \<Rightarrow> (st, Inl e)
      | Inr st' \<Rightarrow> ev_loop budget st' (total_size - sz) cs)"

definition ev_run :: "u64 \<Rightarrow> 'd blob_store \<Rightarrow> 'd blob_store \<times> unit zresult" where
  "ev_run budget st =
     (case bs_total_size st of
        Inl e \<Rightarrow> (st, Inl e)
      | Inr total_size \<Rightarrow>
          if total_size \<le> budget then (st, Inr ())
          else case try_bind (bs_list_blob_ids st) (ev_candidates st) of
            Inl e \<Rightarrow> (st, Inl e)
          | Inr candidates \<Rightarrow> ev_loop budget st total_size candidates)"

section \<open>What is evicted\<close>

text \<open>
  The abstract policy over sizes: of the unpinned blobs in key order, drop the shortest prefix
  that brings the total within the budget, all of them if none does.
\<close>

fun evict_count :: "nat \<Rightarrow> nat \<Rightarrow> nat list \<Rightarrow> nat" where
  "evict_count budget total_size [] = 0"
| "evict_count budget total_size (s # ss) =
     (if total_size \<le> budget then 0 else Suc (evict_count budget (total_size - s) ss))"

lemma evict_count_le: "evict_count b t ss \<le> length ss"
  by (induction b t ss rule: evict_count.induct) auto

lemma evict_count_within:
  "evict_count b t ss < length ss \<Longrightarrow> t - sum_list (take (evict_count b t ss) ss) \<le> b"
  by (induction b t ss rule: evict_count.induct) (auto split: if_splits)

lemma evict_count_minimal:
  "m < evict_count b t ss \<Longrightarrow> b < t - sum_list (take m ss)"
proof (induction b t ss arbitrary: m rule: evict_count.induct)
  case (1 budget total)
  then show ?case by simp
next
  case (2 budget total s ss)
  then show ?case by (cases m) (auto split: if_splits)
qed

lemma ev_candidates_spec:
  assumes "store_ok st" and "ev_candidates st bids = Inr cs"
  shows "map fst cs = filter (\<lambda>b. \<not> pinned st b) bids \<and>
    (\<forall>(b, s) \<in> set cs. s = word_of_nat (blob_len st b) \<and> blobs_view st b \<noteq> None)"
  using assms(2)
proof (induction bids arbitrary: cs)
  case Nil
  then show ?case by simp
next
  case (Cons bid bids)
  from Cons.prems obtain p where p: "is_pinned st bid = Inr p"
    "(if p then ev_candidates st bids = Inr cs else
      (\<exists>sz rest. bs_blob_size st bid = Inr (Some sz) \<and>
        ev_candidates st bids = Inr rest \<and> cs = (bid, sz) # rest))"
    by (auto simp: try_bind_eq_Inr ok_or_def split: if_splits option.splits)
  have pin: "p = pinned st bid" using is_pinned_spec [OF assms(1) p(1)] .
  show ?case
  proof (cases p)
    case True
    with p(2) Cons.IH [of cs] pin show ?thesis by simp
  next
    case False
    with p(2) obtain sz rest where r: "bs_blob_size st bid = Inr (Some sz)"
      "ev_candidates st bids = Inr rest" "cs = (bid, sz) # rest"
      by auto
    from bs_blob_size_spec [OF assms(1) r(1)]
    have "sz = word_of_nat (blob_len st bid) \<and> blobs_view st bid \<noteq> None"
      by (cases "blobs_view st bid") (simp_all add: blob_len_def)
    with r Cons.IH [OF r(2)] False pin show ?thesis by auto
  qed
qed

lemma restrict_map_remove: "(m(k := None)) |` (- A) = m |` (- insert k A)"
  by (auto simp: restrict_map_def fun_eq_iff)

text \<open>Whatever happens in the loop, only candidates go, and nothing but blobs changes.\<close>

lemma ev_loop_frame:
  assumes "store_ok st" and "ev_loop budget st t cs = (st', r)"
  shows "store_ok st' \<and> other_cfs st' BLOBS_CF = other_cfs st BLOBS_CF \<and>
    (\<exists>n. blobs_view st' = blobs_view st |` (- set (map fst (take n cs))))"
  using assms
proof (induction budget st t cs arbitrary: st' r rule: ev_loop.induct)
  case (1 budget st t)
  then show ?case by (auto intro!: exI [of _ 0] simp: restrict_map_def)
next
  case (2 budget st t bid sz cs)
  show ?case
  proof (cases "t \<le> budget")
    case True
    with 2 show ?thesis by (auto intro!: exI [of _ 0] simp: restrict_map_def)
  next
    case over: False
    show ?thesis
    proof (cases "bs_delete st bid")
      case (Inl e)
      with 2 over show ?thesis by (auto intro!: exI [of _ 0] simp: restrict_map_def)
    next
      case (Inr st1)
      note del = blobs.del_ok [OF "2.prems"(1) Inr] blobs.del_frame [OF "2.prems"(1) Inr]
        blobs.del_view [OF "2.prems"(1) Inr]
      have run: "ev_loop budget st1 (t - sz) cs = (st', r)"
        using "2.prems"(2) over Inr by simp
      obtain n where n: "store_ok st'" "other_cfs st' BLOBS_CF = other_cfs st1 BLOBS_CF"
        "blobs_view st' = blobs_view st1 |` (- set (map fst (take n cs)))"
        using "2.IH" [OF over Inr del(1) run] by blast
      have "blobs_view st' = blobs_view st |` (- set (map fst (take (Suc n) ((bid, sz) # cs))))"
        unfolding n(3) del(3) restrict_map_remove by simp
      with n(1,2) del(2) show ?thesis by metis
    qed
  qed
qed

text \<open>A run of the loop that ends well deletes exactly the prefix the policy chooses.\<close>

lemma ev_loop_policy:
  assumes "store_ok st" and "ev_loop budget st t cs = (st', Inr ())"
    and "\<And>b s. (b, s) \<in> set cs \<Longrightarrow> unat s = f b" and "sum_list (map (f \<circ> fst) cs) \<le> unat t"
  shows "blobs_view st' =
    blobs_view st |` (- set (map fst (take (evict_count (unat budget) (unat t) (map (f \<circ> fst) cs)) cs)))"
  using assms
proof (induction budget st t cs rule: ev_loop.induct)
  case (1 budget st t)
  then show ?case by (simp add: restrict_map_def)
next
  case (2 budget st t bid sz cs)
  show ?case
  proof (cases "t \<le> budget")
    case True
    with "2.prems" show ?thesis by (simp add: restrict_map_def word_le_nat_alt)
  next
    case over: False
    with "2.prems"(2) obtain st1 where del: "bs_delete st bid = Inr st1"
      "ev_loop budget st1 (t - sz) cs = (st', Inr ())"
      by (auto split: sum.splits)
    have sz: "unat sz = f bid" using "2.prems"(3) by simp
    have sub: "unat (t - sz) = unat t - f bid"
      using "2.prems"(4) sz by (simp add: unat_sub word_le_nat_alt)
    have "blobs_view st' = blobs_view st1 |`
        (- set (map fst (take (evict_count (unat budget) (unat (t - sz)) (map (f \<circ> fst) cs)) cs)))"
        (is "_ = _ |` (- ?gone)")
      using "2.prems"(3,4) sub
      by (intro "2.IH" [OF over del(1) blobs.del_ok [OF "2.prems"(1) del(1)] del(2)]) auto
    then have "blobs_view st' = blobs_view st |` (- insert bid ?gone)"
      unfolding blobs.del_view [OF "2.prems"(1) del(1)] restrict_map_remove .
    with over sub show ?thesis by (simp add: word_le_nat_alt o_def)
  qed
qed

lemma blob_bytes_restrict:
  assumes fin: "finite {b. blobs_view st b \<noteq> None}" and "distinct gone"
    and present: "\<And>b. b \<in> set gone \<Longrightarrow> blobs_view st b \<noteq> None"
    and left: "blobs_view st' = blobs_view st |` (- set gone)"
  shows "blob_bytes st' = blob_bytes st - sum_list (map (blob_len st) gone)"
proof -
  let ?all = "{b. blobs_view st b \<noteq> None}"
  have same: "{b. blobs_view st' b \<noteq> None} = ?all - set gone"
    using left by (auto simp: restrict_map_def)
  have len: "blob_len st' b = blob_len st b" if "b \<in> ?all - set gone" for b
    using left that by (auto simp: blob_len_def restrict_map_def)
  have "blob_bytes st' = (\<Sum>b \<in> ?all - set gone. blob_len st b)"
    unfolding blob_bytes_def same using len by (rule sum.cong [OF refl])
  also have "\<dots> = blob_bytes st - (\<Sum>b \<in> set gone. blob_len st b)"
    unfolding blob_bytes_def using fin present by (intro sum_diff_nat) auto
  finally show ?thesis
    using \<open>distinct gone\<close> by (simp add: sum_list_distinct_conv_sum_set)
qed

section \<open>The properties of a run\<close>

lemma ev_run_cases:
  assumes "ev_run budget st = (st', r)"
  obtains (early) "st' = st"
  | (loop) t bids cs where "bs_total_size st = Inr t" "\<not> t \<le> budget"
      "bs_list_blob_ids st = Inr bids" "ev_candidates st bids = Inr cs"
      "ev_loop budget st t cs = (st', r)"
  using assms
  by (auto simp: ev_run_def try_bind_eq_Inr split: sum.splits if_splits)

lemma bs_delete_ops: "bs_delete st bid = Inr st' \<Longrightarrow> bs_ops st' = bs_ops st"
  by (auto simp: bs_delete_def cf_delete_def try_bind_eq_Inr)

lemma ev_loop_ops: "ev_loop budget st t cs = (st', r) \<Longrightarrow> bs_ops st' = bs_ops st"
proof (induction budget st t cs arbitrary: st' r rule: ev_loop.induct)
  case (2 budget st t bid sz cs)
  show ?case
  proof (cases "bs_delete st bid")
    case (Inl e)
    with "2.prems" show ?thesis by (simp split: if_splits)
  next
    case (Inr st1)
    show ?thesis
    proof (cases "t \<le> budget")
      case False
      with "2.prems" Inr have "ev_loop budget st1 (t - sz) cs = (st', r)" by simp
      from "2.IH" [OF False Inr this] bs_delete_ops [OF Inr] show ?thesis by simp
    qed (use "2.prems" in simp)
  qed
qed simp

lemma ev_run_ops: "ev_run budget st = (st', r) \<Longrightarrow> bs_ops st' = bs_ops st"
  by (elim ev_run_cases) (simp, blast dest: ev_loop_ops)

lemma candidates_unpinned:
  assumes "store_ok st" and "ev_candidates st bids = Inr cs" and "b \<in> set (map fst (take n cs))"
  shows "\<not> pinned st b \<and> blobs_view st b \<noteq> None"
proof -
  have "b \<in> set (map fst cs)" using assms(3) by (auto dest: in_set_takeD)
  then obtain s where "(b, s) \<in> set cs" by auto
  moreover have "b \<in> set (filter (\<lambda>b. \<not> pinned st b) bids)"
    using \<open>b \<in> set (map fst cs)\<close> ev_candidates_spec [OF assms(1,2)] by metis
  ultimately show ?thesis using ev_candidates_spec [OF assms(1,2)] by fastforce
qed

lemma ev_run_frame:
  assumes "store_ok st" and "ev_run budget st = (st', r)"
  shows "pinned st' = pinned st \<and>
    (\<forall>b. pinned st b \<longrightarrow> blobs_view st' b = blobs_view st b) \<and>
    (\<forall>b. blobs_view st' b \<in> {None, blobs_view st b})"
  using assms(2)
proof (cases rule: ev_run_cases)
  case early
  then show ?thesis by simp
next
  case (loop t bids cs)
  from ev_loop_frame [OF assms(1) loop(5)] obtain n where
    n: "other_cfs st' BLOBS_CF = other_cfs st BLOBS_CF"
      "blobs_view st' = blobs_view st |` (- set (map fst (take n cs)))"
    by blast
  have "pinned st' = pinned st" using n(1) by (rule pinned_frame)
  moreover have "blobs_view st' b = blobs_view st b" if "pinned st b" for b
  proof -
    have "b \<notin> set (map fst (take n cs))"
      using candidates_unpinned [OF assms(1) loop(4)] that by blast
    then show ?thesis unfolding n(2) by (simp add: restrict_map_def)
  qed
  moreover have "blobs_view st' b \<in> {None, blobs_view st b}" for b
    unfolding n(2) by (simp add: restrict_map_def)
  ultimately show ?thesis by blast
qed

text \<open>
  C2: eviction never drops a pinned blob and never touches pins: whatever the run returns, an
  error in the middle included, a pinned blob has the contents it had, every blob that is left
  is unchanged, and the same blobs are pinned.
\<close>

theorem eviction_keeps_pinned:
  assumes "store_ok st" and "ev_run budget st = (st', r)"
  shows "pinned st' = pinned st \<and>
    (\<forall>b. pinned st b \<longrightarrow> blobs_view st' b = blobs_view st b) \<and>
    (\<forall>b. blobs_view st' b \<in> {None, blobs_view st b})"
  using assms by (rule ev_run_frame)

text \<open>
  The refinement: a run that ends well is the abstract policy on the listed blobs.
\<close>

lemma ev_run_policy:
  assumes ok: "store_ok st" and run: "ev_run budget st = (st', Inr ())"
    and small: "blob_bytes st < 2 ^ 64" and bids: "bs_list_blob_ids st = Inr bids"
  shows "blobs_view st' = blobs_view st |` (- set (take
    (evict_count (unat budget) (blob_bytes st) (map (blob_len st) (filter (\<lambda>b. \<not> pinned st b) bids)))
    (filter (\<lambda>b. \<not> pinned st b) bids)))"
proof (cases "bs_total_size st")
  case (Inl e)
  with run show ?thesis by (simp add: ev_run_def)
next
  case total: (Inr t)
  have t: "unat t = blob_bytes st"
    using bs_total_size_spec [OF ok total] small by (simp add: unat_of_nat)
  show ?thesis
  proof (cases "t \<le> budget")
    case True
    with run total t show ?thesis
      by (cases "filter (\<lambda>b. \<not> pinned st b) bids")
        (simp_all add: ev_run_def word_le_nat_alt restrict_map_def)
  next
    case over: False
    with run total bids obtain cs where cs: "ev_candidates st bids = Inr cs"
      "ev_loop budget st t cs = (st', Inr ())"
      by (auto simp: ev_run_def try_bind_eq_Inr split: sum.splits)
    note spec = ev_candidates_spec [OF ok cs(1)]
    have names: "map fst cs = filter (\<lambda>b. \<not> pinned st b) bids" using spec by blast
    have part: "blob_len st b \<le> blob_bytes st" if "b \<in> set bids" for b
      using that listed_bytes [OF ok bids] by (simp add: member_le_sum_list)
    have sizes: "unat s = blob_len st b" if "(b, s) \<in> set cs" for b s
    proof -
      have "b \<in> set (map fst cs)" using that by force
      then have "b \<in> set bids" using names by auto
      with part small that spec show ?thesis by (fastforce simp: unat_of_nat)
    qed
    have lens: "map (blob_len st \<circ> fst) cs = map (blob_len st) (filter (\<lambda>b. \<not> pinned st b) bids)"
      using names by (metis map_map)
    have "sum_list (map (blob_len st) (filter P bids)) \<le> sum_list (map (blob_len st) bids)" for P
      by (induction bids) auto
    then have le: "sum_list (map (blob_len st \<circ> fst) cs) \<le> unat t"
      unfolding lens t listed_bytes [OF ok bids] .
    from ev_loop_policy [OF ok cs(2) sizes le] show ?thesis
      unfolding lens t by (simp add: take_map [symmetric] names)
  qed
qed

lemma bs_list_spec:
  assumes "store_ok st" and "bs_list_blob_ids st = Inr bids"
  shows "set bids = {b. blobs_view st b \<noteq> None}" and "distinct bids"
    and "sorted_wrt (<) (map as_bytes bids)"
  using cf_list_mem [OF assms(1)] cf_list_distinct [OF assms(1)] cf_list_spec(1) [OF assms(1)]
    assms(2)
  unfolding bs_list_blob_ids_def by blast+

text \<open>
  C3: a run that ends well leaves at most the budget, or nothing unpinned at all; it removes no
  blob when the total already fits.
\<close>

theorem eviction_meets_budget:
  assumes "store_ok st" and "ev_run budget st = (st', Inr ())" and "blob_bytes st < 2 ^ 64"
  shows "(blob_bytes st' \<le> unat budget \<or> (\<forall>b. blobs_view st' b \<noteq> None \<longrightarrow> pinned st b)) \<and>
    (blob_bytes st \<le> unat budget \<longrightarrow> st' = st)"
proof -
  obtain t where total: "bs_total_size st = Inr t"
    using assms(2) by (auto simp: ev_run_def split: sum.splits)
  then obtain bids where bids: "bs_list_blob_ids st = Inr bids"
    by (auto simp: bs_total_size_def try_bind_eq_Inr)
  have t: "unat t = blob_bytes st"
    using bs_total_size_spec [OF assms(1) total] assms(3) by (simp add: unat_of_nat)
  define cs where "cs = filter (\<lambda>b. \<not> pinned st b) bids"
  define n where "n = evict_count (unat budget) (blob_bytes st) (map (blob_len st) cs)"
  have view: "blobs_view st' = blobs_view st |` (- set (take n cs))"
    using ev_run_policy [OF assms bids] unfolding cs_def n_def .
  note list = bs_list_spec [OF assms(1) bids]
  have left: "blob_bytes st' = blob_bytes st - sum_list (map (blob_len st) (take n cs))"
  proof (rule blob_bytes_restrict [OF _ _ _ view])
    show "finite {b. blobs_view st b \<noteq> None}" using list(1) by (metis finite_set)
    show "distinct (take n cs)" using list(2) by (simp add: cs_def)
    show "blobs_view st b \<noteq> None" if "b \<in> set (take n cs)" for b
      using in_set_takeD [OF that] list(1) by (auto simp: cs_def)
  qed
  have "blob_bytes st' \<le> unat budget \<or> (\<forall>b. blobs_view st' b \<noteq> None \<longrightarrow> pinned st b)"
  proof (cases "n < length cs")
    case True
    then have "blob_bytes st - sum_list (take n (map (blob_len st) cs)) \<le> unat budget"
      unfolding n_def by (intro evict_count_within) simp
    with left show ?thesis by (simp add: take_map)
  next
    case False
    then have "take n cs = cs" by simp
    with view list(1) show ?thesis by (auto simp: restrict_map_def cs_def)
  qed
  moreover have "blob_bytes st \<le> unat budget \<longrightarrow> st' = st"
    using assms(2) total t by (auto simp: ev_run_def word_le_nat_alt)
  ultimately show ?thesis ..
qed

text \<open>
  The order is the byte order of the keys and nothing else: a run that ends well and drops
  a blob has dropped every unpinned blob with a smaller key, and without dropping it (and the
  larger ones) the budget would have been exceeded.
\<close>

theorem eviction_in_key_order:
  assumes ok: "store_ok st" and run: "ev_run budget st = (st', Inr ())"
    and small: "blob_bytes st < 2 ^ 64"
    and gone: "blobs_view st b \<noteq> None" "blobs_view st' b = None"
  shows "(\<forall>a. as_bytes a < as_bytes b \<longrightarrow> \<not> pinned st a \<longrightarrow> blobs_view st' a = None) \<and>
    unat budget < blob_bytes st -
      (\<Sum>a | blobs_view st a \<noteq> None \<and> \<not> pinned st a \<and> as_bytes a < as_bytes b. blob_len st a)"
proof -
  obtain bids where bids: "bs_list_blob_ids st = Inr bids"
    using run by (auto simp: ev_run_def bs_total_size_def try_bind_eq_Inr split: sum.splits)
  define cs where "cs = filter (\<lambda>b. \<not> pinned st b) bids"
  define n where "n = evict_count (unat budget) (blob_bytes st) (map (blob_len st) cs)"
  have view: "blobs_view st' = blobs_view st |` (- set (take n cs))"
    using ev_run_policy [OF ok run small bids] unfolding cs_def n_def .
  note list = bs_list_spec [OF ok bids]
  have sorted: "sorted_wrt (\<lambda>x y. as_bytes x < as_bytes y) cs"
    using list(3) by (simp add: cs_def sorted_wrt_map sorted_wrt_filter)
  have "b \<in> set (take n cs)" using gone view by (auto simp: restrict_map_def split: if_splits)
  then obtain m where m: "m < n" "m < length cs" "cs ! m = b"
    by (auto simp: in_set_conv_nth)
  have before: "set (take m cs) = {a. blobs_view st a \<noteq> None \<and> \<not> pinned st a \<and> as_bytes a < as_bytes b}"
    (is "_ = ?less")
    unfolding sorted_take_less [OF sorted m(2)] m(3) using list(1) by (auto simp: cs_def)
  have "blobs_view st' a = None" if "as_bytes a < as_bytes b" "\<not> pinned st a" for a
  proof (cases "blobs_view st a")
    case (Some d)
    then have "a \<in> set (take m cs)" unfolding before using that by simp
    then have "a \<in> set (take n cs)" using m(1) set_take_subset_set_take [of m n cs] by auto
    then show ?thesis unfolding view by (simp add: restrict_map_def)
  qed (simp add: view restrict_map_def)
  moreover have "unat budget < blob_bytes st - (\<Sum>a \<in> ?less. blob_len st a)"
  proof -
    have "unat budget < blob_bytes st - sum_list (take m (map (blob_len st) cs))"
      using m(1) unfolding n_def by (rule evict_count_minimal)
    moreover have "distinct (take m cs)" using list(2) by (simp add: cs_def)
    ultimately show ?thesis
      unfolding before [symmetric] by (simp add: take_map sum_list_distinct_conv_sum_set)
  qed
  ultimately show ?thesis by blast
qed

section \<open>Concrete runs\<close>

definition ev_demo :: "mem_db blob_store" where
  "ev_demo = mem_store\<lparr>bs_db := (\<lambda>_. [])(
     BLOBS_CF := [(as_bytes ''c'', [5, 6]), (as_bytes ''a'', [1, 2]), (as_bytes ''b'', [3, 4])],
     PINS_CF := [(as_bytes ''a'', as_bytes ''1'')])\<rparr>"

definition ev_demo_after :: "mem_db blob_store" where
  "ev_demo_after = mem_store\<lparr>bs_db := (\<lambda>_. [])(
     BLOBS_CF := [(as_bytes ''c'', [5, 6]), (as_bytes ''a'', [1, 2])],
     PINS_CF := [(as_bytes ''a'', as_bytes ''1'')])\<rparr>"

lemmas store_eval = bs_total_size_def bs_list_blob_ids_def cf_list_def cf_handle_def
  bs_blob_size_def bs_get_def bs_put_def bs_delete_def cf_get_def cf_put_def cf_delete_def
  is_pinned_def pin_def unpin_def mem_store_def mem_rocks_def mem_items_def as_bytes_def
  from_utf8_def of_bytes_def cf_view_def blob_len_def

lemma ev_demo_run: "ev_run 4 ev_demo = (ev_demo_after, Inr ())"
  by (simp add: ev_run_def ev_demo_def ev_demo_after_def store_eval fun_upd_twist fun_eq_iff)

lemma ev_demo_ok: "store_ok ev_demo"
  by (simp add: ev_demo_def)

lemma ev_demo_bytes: "blob_bytes ev_demo = 6"
proof -
  have bids: "bs_list_blob_ids ev_demo = Inr [''a'', ''b'', ''c'']"
    by (simp add: ev_demo_def store_eval char_of_def bit_0)
  show ?thesis
    using listed_bytes [OF ev_demo_ok bids] by (simp add: ev_demo_def store_eval)
qed

lemma ev_demo_pins: "pinned ev_demo b \<longleftrightarrow> b = ''a''"
proof -
  have "pinned ev_demo b \<longleftrightarrow> as_bytes b = as_bytes ''a''"
    unfolding ev_demo_def pinned_def cf_view_def mem_store_def mem_rocks_def by simp
  then show ?thesis unfolding as_bytes_eq .
qed

theorem eviction_keeps_pinned_witness:
  "ev_run 4 ev_demo = (ev_demo_after, Inr ()) \<and> pinned ev_demo ''a'' \<and>
   blobs_view ev_demo_after ''a'' = blobs_view ev_demo ''a''"
  using eviction_keeps_pinned [OF ev_demo_ok ev_demo_run] ev_demo_run ev_demo_pins by simp

theorem eviction_meets_budget_witness:
  "ev_run 4 ev_demo = (ev_demo_after, Inr ()) \<and> blob_bytes ev_demo = 6 \<and>
   (blob_bytes ev_demo_after \<le> 4 \<or> (\<forall>b. blobs_view ev_demo_after b = None \<or> pinned ev_demo b))"
  using eviction_meets_budget [OF ev_demo_ok ev_demo_run] ev_demo_run ev_demo_bytes by auto

lemma ev_demo_gone: "blobs_view ev_demo ''b'' \<noteq> None" "blobs_view ev_demo_after ''b'' = None"
  by (simp_all add: ev_demo_def ev_demo_after_def store_eval)

theorem eviction_in_key_order_witness:
  "ev_run 4 ev_demo = (ev_demo_after, Inr ()) \<and> blobs_view ev_demo_after ''b'' = None \<and>
   4 < 6 - (\<Sum>a | blobs_view ev_demo a \<noteq> None \<and> \<not> pinned ev_demo a \<and>
     as_bytes a < as_bytes ''b''. blob_len ev_demo a)"
  using eviction_in_key_order [OF ev_demo_ok ev_demo_run _ ev_demo_gone] ev_demo_run ev_demo_gone
    ev_demo_bytes
  by simp

end
