(* ===== verification/Reputation.thy ===== *)
theory Reputation
  imports Zing_Types
begin

text \<open>
  \<^verbatim>\<open>zing-cdn-core/src/mesh/reputation.rs\<close>. \<^verbatim>\<open>PeerReputationTable\<close> is its one field, the
  map from peer ids to scores. The code reads the wall clock up to three times in one
  operation; the readings are a \<open>clocks\<close> argument: \<open>ck_new\<close> when the entry is created,
  \<open>ck_seen\<close> for \<^verbatim>\<open>last_seen\<close> and \<open>ck_decay\<close> in \<^verbatim>\<open>apply_decay\<close>, in nanoseconds.
\<close>

type_synonym rep_table = "string \<rightharpoonup> peer_score"

record clocks =
  ck_new :: int
  ck_seen :: int
  ck_decay :: int

definition BLACKLIST_THRESHOLD :: int where "BLACKLIST_THRESHOLD = -10"
definition SCORE_DECAY_INTERVAL_SECS :: int where "SCORE_DECAY_INTERVAL_SECS = 3600"

definition rep_new :: rep_table where "rep_new = (\<lambda>_. None)"

definition get_score :: "rep_table \<Rightarrow> string \<Rightarrow> int option" where
  "get_score t peer_id = map_option ps_score (t peer_id)"

definition get_peer_score :: "rep_table \<Rightarrow> string \<Rightarrow> peer_score option" where
  "get_peer_score t peer_id = t peer_id"

definition peer_count :: "rep_table \<Rightarrow> nat" where
  "peer_count t = card (dom t)"

definition is_blacklisted :: "rep_table \<Rightarrow> string \<Rightarrow> bool" where
  "is_blacklisted t peer_id =
     (case t peer_id of None \<Rightarrow> False | Some s \<Rightarrow> ps_score s \<le> BLACKLIST_THRESHOLD)"

text \<open>\<^verbatim>\<open>entry(..).or_insert_with(..)\<close>\<close>

definition fresh_score :: "string \<Rightarrow> int \<Rightarrow> peer_score" where
  "fresh_score peer_id now =
     \<lparr>ps_peer_id = peer_id, ps_score = 0, ps_last_seen = now, ps_successful_streams = 0,
      ps_failed_verifications = 0, ps_dropped_connections = 0, ps_false_claims = 0\<rparr>"

definition rep_entry :: "rep_table \<Rightarrow> string \<Rightarrow> int \<Rightarrow> peer_score" where
  "rep_entry t peer_id now = (case t peer_id of Some s \<Rightarrow> s | None \<Rightarrow> fresh_score peer_id now)"

definition num_seconds :: "int \<Rightarrow> int" where
  "num_seconds ns = trunc_div ns 1000000000"

definition apply_decay :: "int \<Rightarrow> peer_score \<Rightarrow> peer_score" where
  "apply_decay now entry =
     (let elapsed = num_seconds (now - ps_last_seen entry)
      in if elapsed > SCORE_DECAY_INTERVAL_SECS then
           (let decays = trunc_div elapsed SCORE_DECAY_INTERVAL_SECS
            in if ps_score entry > 0
               then entry\<lparr>ps_score := max (wrap_i32 (ps_score entry - wrap_i32 decays)) 0\<rparr>
               else entry)
         else entry)"

definition record_success :: "clocks \<Rightarrow> rep_table \<Rightarrow> string \<Rightarrow> rep_table" where
  "record_success ck t peer_id =
     (let e = rep_entry t peer_id (ck_new ck);
          e = e\<lparr>ps_score := wrap_i32 (ps_score e + 1)\<rparr>;
          e = e\<lparr>ps_successful_streams := ps_successful_streams e + 1\<rparr>;
          e = e\<lparr>ps_last_seen := ck_seen ck\<rparr>
      in t(peer_id \<mapsto> apply_decay (ck_decay ck) e))"

definition record_corruption :: "clocks \<Rightarrow> rep_table \<Rightarrow> string \<Rightarrow> rep_table" where
  "record_corruption ck t peer_id =
     (let e = rep_entry t peer_id (ck_new ck);
          e = e\<lparr>ps_score := wrap_i32 (ps_score e - 3)\<rparr>;
          e = e\<lparr>ps_failed_verifications := ps_failed_verifications e + 1\<rparr>
      in t(peer_id \<mapsto> e\<lparr>ps_last_seen := ck_seen ck\<rparr>))"

definition record_dropped :: "clocks \<Rightarrow> rep_table \<Rightarrow> string \<Rightarrow> rep_table" where
  "record_dropped ck t peer_id =
     (let e = rep_entry t peer_id (ck_new ck);
          e = e\<lparr>ps_score := wrap_i32 (ps_score e - 1)\<rparr>;
          e = e\<lparr>ps_dropped_connections := ps_dropped_connections e + 1\<rparr>
      in t(peer_id \<mapsto> e\<lparr>ps_last_seen := ck_seen ck\<rparr>))"

definition record_false_claim :: "clocks \<Rightarrow> rep_table \<Rightarrow> string \<Rightarrow> rep_table" where
  "record_false_claim ck t peer_id =
     (let e = rep_entry t peer_id (ck_new ck);
          e = e\<lparr>ps_score := wrap_i32 (ps_score e - 5)\<rparr>;
          e = e\<lparr>ps_false_claims := ps_false_claims e + 1\<rparr>
      in t(peer_id \<mapsto> e\<lparr>ps_last_seen := ck_seen ck\<rparr>))"

section \<open>Histories\<close>

text \<open>
  The abstract account: a history of events, each about one peer, and the balance it gives.
\<close>

datatype rep_kind = Success | Corruption | Dropped | False_Claim

record rep_event =
  ev_kind :: rep_kind
  ev_peer :: string
  ev_clocks :: clocks

fun rep_apply :: "rep_kind \<Rightarrow> clocks \<Rightarrow> rep_table \<Rightarrow> string \<Rightarrow> rep_table" where
  "rep_apply Success = record_success"
| "rep_apply Corruption = record_corruption"
| "rep_apply Dropped = record_dropped"
| "rep_apply False_Claim = record_false_claim"

definition rep_step :: "rep_event \<Rightarrow> rep_table \<Rightarrow> rep_table" where
  "rep_step e t = rep_apply (ev_kind e) (ev_clocks e) t (ev_peer e)"

definition rep_run :: "rep_event list \<Rightarrow> rep_table" where
  "rep_run evs = fold rep_step evs rep_new"

fun delta :: "rep_kind \<Rightarrow> int" where
  "delta Success = 1"
| "delta Corruption = -3"
| "delta Dropped = -1"
| "delta False_Claim = -5"

definition about :: "string \<Rightarrow> rep_event list \<Rightarrow> rep_kind list" where
  "about p evs = map ev_kind (filter (\<lambda>e. ev_peer e = p) evs)"

definition balance :: "rep_kind list \<Rightarrow> int" where
  "balance ks = sum_list (map delta ks)"

text \<open>
  The two readings of one \<^verbatim>\<open>record_success\<close> are less than an hour and a second apart. Nothing is
  said of the time between two operations.
\<close>

definition steady :: "clocks \<Rightarrow> bool" where
  "steady ck \<longleftrightarrow> ck_decay ck - ck_seen ck < 3601 * 1000000000"

lemma num_seconds_le: "ns < 3601 * 1000000000 \<Longrightarrow> num_seconds ns \<le> 3600"
proof (cases "0 < ns")
  case True
  assume "ns < 3601 * 1000000000"
  then have "ns div 1000000000 < 3601" by (simp add: div_less_iff_less_mult)
  with True show ?thesis by (simp add: num_seconds_def trunc_div_def)
next
  case False
  then have "sgn ns \<le> 0" by (simp add: sgn_if)
  then have "num_seconds ns \<le> 0"
    by (auto simp: num_seconds_def trunc_div_def mult_nonpos_nonneg pos_imp_zdiv_nonneg_iff)
  then show ?thesis by simp
qed

lemma apply_decay_idle:
  "now - ps_last_seen e < 3601 * 1000000000 \<Longrightarrow> apply_decay now e = e"
  using num_seconds_le [of "now - ps_last_seen e"]
  by (simp add: apply_decay_def SCORE_DECAY_INTERVAL_SECS_def Let_def)

lemmas record_defs = record_success_def record_corruption_def record_dropped_def
  record_false_claim_def

text \<open>Every event changes the entry of its own peer only.\<close>

lemma rep_step_other: "p \<noteq> ev_peer e \<Longrightarrow> rep_step e t p = t p"
  by (cases "ev_kind e") (simp_all add: rep_step_def record_defs Let_def)

text \<open>One event on its own peer: the score moves by \<open>delta\<close>, one counter by one.\<close>

definition counts :: "peer_score \<Rightarrow> rep_kind \<Rightarrow> u32" where
  "counts s k = (case k of Success \<Rightarrow> ps_successful_streams s
     | Corruption \<Rightarrow> ps_failed_verifications s
     | Dropped \<Rightarrow> ps_dropped_connections s
     | False_Claim \<Rightarrow> ps_false_claims s)"

lemma rep_step_own:
  assumes "steady (ev_clocks e)"
  shows "\<exists>s. rep_step e t (ev_peer e) = Some s \<and> ps_last_seen s = ck_seen (ev_clocks e) \<and>
    (let s0 = rep_entry t (ev_peer e) (ck_new (ev_clocks e)) in
      ps_peer_id s = ps_peer_id s0 \<and> ps_score s = wrap_i32 (ps_score s0 + delta (ev_kind e)) \<and>
      (\<forall>k. counts s k = counts s0 k + (if k = ev_kind e then 1 else 0)))"
proof -
  have idle: "apply_decay (ck_decay (ev_clocks e)) s = s"
    if "ps_last_seen s = ck_seen (ev_clocks e)" for s
    using assms that by (intro apply_decay_idle) (simp add: steady_def)
  show ?thesis
    by (cases "ev_kind e") (auto simp: rep_step_def record_defs Let_def counts_def idle split: rep_kind.splits)
qed

lemma balance_simps [simp]:
  "balance [] = 0" "balance (ks @ [k]) = balance ks + delta k"
  by (simp_all add: balance_def)

lemma balance_bound: "\<bar>balance ks\<bar> \<le> 5 * int (length ks)"
proof (induction ks rule: rev_induct)
  case (snoc k ks)
  then show ?case by (cases k) auto
qed simp

lemma about_snoc:
  "about p (evs @ [e]) = about p evs @ (if ev_peer e = p then [ev_kind e] else [])"
  by (simp add: about_def)

lemma rep_run_snoc: "rep_run (evs @ [e]) = rep_step e (rep_run evs)"
  by (simp add: rep_run_def)

lemma length_about: "length (about p evs) \<le> length evs"
  by (simp add: about_def)

text \<open>What the table holds about a peer with a given history.\<close>

definition accounts :: "rep_kind list \<Rightarrow> string \<Rightarrow> peer_score option \<Rightarrow> bool" where
  "accounts ks p m \<longleftrightarrow> (case m of
     None \<Rightarrow> ks = []
   | Some s \<Rightarrow> ks \<noteq> [] \<and> ps_peer_id s = p \<and> ps_score s = balance ks \<and>
       (\<forall>k. unat (counts s k) = count_list ks k))"

lemma accounts_step:
  assumes "accounts ks (ev_peer e) (t (ev_peer e))" and "steady (ev_clocks e)"
    and "5 * int (Suc (length ks)) < 2 ^ 31"
  shows "accounts (ks @ [ev_kind e]) (ev_peer e) (rep_step e t (ev_peer e))"
proof -
  define s0 where "s0 = rep_entry t (ev_peer e) (ck_new (ev_clocks e))"
  obtain s where s: "rep_step e t (ev_peer e) = Some s" "ps_peer_id s = ps_peer_id s0"
    "ps_score s = wrap_i32 (ps_score s0 + delta (ev_kind e))"
    "\<And>k. counts s k = counts s0 k + (if k = ev_kind e then 1 else 0)"
    using rep_step_own [OF assms(2), of t] unfolding Let_def s0_def by blast
  have s0: "ps_peer_id s0 = ev_peer e" "ps_score s0 = balance ks"
    "unat (counts s0 k) = count_list ks k" for k
    using assms(1)
    by (auto simp: s0_def rep_entry_def accounts_def fresh_score_def counts_def
        split: option.splits rep_kind.splits)
  have "\<bar>balance (ks @ [ev_kind e])\<bar> \<le> 5 * int (length (ks @ [ev_kind e]))"
    by (rule balance_bound)
  then have "ps_score s = balance (ks @ [ev_kind e])"
    unfolding s(3) s0(2) balance_simps(2) using assms(3) by (intro wrap_i32_id) auto
  moreover have "unat (counts s k) = count_list (ks @ [ev_kind e]) k" for k
  proof -
    have "count_list ks k \<le> length ks" by (rule count_le_length)
    then have "unat (counts s0 k) + 1 < 2 ^ LENGTH(32)" unfolding s0(3) using assms(3) by simp
    then have "unat (counts s0 k + 1) = unat (counts s0 k) + 1"
      by (simp add: unat_word_ariths)
    then show ?thesis using s(4) s0(3) by simp
  qed
  ultimately show ?thesis using s(1,2) s0(1) by (simp add: accounts_def)
qed

lemma accounts_run:
  assumes "\<And>e. e \<in> set evs \<Longrightarrow> steady (ev_clocks e)" and "5 * int (length evs) < 2 ^ 31"
  shows "accounts (about p evs) p (rep_run evs p)"
  using assms
proof (induction evs rule: rev_induct)
  case Nil
  then show ?case by (simp add: rep_run_def rep_new_def accounts_def about_def)
next
  case (snoc e evs)
  have IH: "accounts (about p evs) p (rep_run evs p)" using snoc by auto
  have small: "5 * int (Suc (length (about p evs))) < 2 ^ 31"
    using length_about [of p evs] snoc.prems(2) by simp
  have steady: "steady (ev_clocks e)" using snoc.prems(1) by simp
  show ?case
  proof (cases "ev_peer e = p")
    case True
    then show ?thesis
      using accounts_step [of "about p evs" e "rep_run evs"] IH small steady
      by (auto simp: about_snoc rep_run_snoc)
  next
    case False
    with IH show ?thesis by (simp add: about_snoc rep_run_snoc rep_step_other)
  qed
qed

text \<open>
  C11: the score is the ledger of the peer's own history: over any history of fewer than
  \<open>2 ^ 31 / 5\<close> events, however long the pauses between them, a peer never heard of has no
  score, and any other has successes minus three times its corruptions minus its dropped
  connections minus five times its false claims, with the four counters equal to the numbers of
  those events; the events of other peers do not show.
\<close>

theorem score_is_ledger:
  assumes "\<And>e. e \<in> set evs \<Longrightarrow> steady (ev_clocks e)" and "5 * int (length evs) < 2 ^ 31"
  shows "case get_peer_score (rep_run evs) p of
      None \<Rightarrow> about p evs = []
    | Some s \<Rightarrow>
        let n = count_list (about p evs) in
        ps_peer_id s = p \<and>
        ps_score s = int (n Success) - 3 * int (n Corruption) - int (n Dropped) - 5 * int (n False_Claim) \<and>
        unat (ps_successful_streams s) = n Success \<and>
        unat (ps_failed_verifications s) = n Corruption \<and>
        unat (ps_dropped_connections s) = n Dropped \<and>
        unat (ps_false_claims s) = n False_Claim"
proof -
  have balance: "balance ks = int (count_list ks Success) - 3 * int (count_list ks Corruption)
    - int (count_list ks Dropped) - 5 * int (count_list ks False_Claim)" for ks
  proof (induction ks rule: rev_induct)
    case (snoc k ks)
    then show ?case by (cases k) simp_all
  qed simp
  show ?thesis
  proof (cases "rep_run evs p")
    case None
    with accounts_run [OF assms, of p] show ?thesis by (simp add: get_peer_score_def accounts_def)
  next
    case (Some s)
    with accounts_run [OF assms, of p] have acc: "ps_peer_id s = p" "ps_score s = balance (about p evs)"
      "\<And>k. unat (counts s k) = count_list (about p evs) k"
      by (auto simp: accounts_def)
    from acc(3) [of Success] acc(3) [of Corruption] acc(3) [of Dropped] acc(3) [of False_Claim]
    show ?thesis using Some acc(1,2) by (simp add: get_peer_score_def counts_def balance Let_def)
  qed
qed

text \<open>
  A peer is blacklisted exactly when its balance is at most -10, the bound included: two
  false claims (-10) are enough.
\<close>

theorem blacklist_iff_balance:
  assumes "\<And>e. e \<in> set evs \<Longrightarrow> steady (ev_clocks e)" and "5 * int (length evs) < 2 ^ 31"
  shows "is_blacklisted (rep_run evs) p \<longleftrightarrow> balance (about p evs) \<le> -10"
  using accounts_run [OF assms, of p]
  by (auto simp: accounts_def is_blacklisted_def BLACKLIST_THRESHOLD_def split: option.splits)

text \<open>
  C12: decay never takes effect: \<^verbatim>\<open>record_success\<close> refreshes \<^verbatim>\<open>last_seen\<close> before it looks at
  its age, so the new score is the old one plus one however long the peer was idle; and a
  score of zero or less would not decay at all.
\<close>

theorem decay_never_fires:
  assumes "t p = Some s" and "steady ck" and "- (2 ^ 31) \<le> ps_score s" and "ps_score s < 2 ^ 31 - 1"
  shows "get_score (record_success ck t p) p = Some (ps_score s + 1) \<and>
    (ps_score s' \<le> 0 \<longrightarrow> apply_decay now s' = s')"
proof -
  obtain e where e: "e = \<lparr>ev_kind = Success, ev_peer = p, ev_clocks = ck\<rparr>" by simp
  have "get_score (rep_step e t) p = Some (wrap_i32 (ps_score s + 1))"
    using rep_step_own [of e t] assms(1,2) unfolding e Let_def
    by (auto simp: get_score_def rep_entry_def)
  moreover have "wrap_i32 (ps_score s + 1) = ps_score s + 1"
    using assms(3,4) by (intro wrap_i32_id) auto
  ultimately show ?thesis by (simp add: e rep_step_def apply_decay_def Let_def)
qed

definition rep_demo :: "rep_event list" where
  "rep_demo =
     (let ck = \<lparr>ck_new = 0, ck_seen = 1000, ck_decay = 2000\<rparr>;
          late = \<lparr>ck_new = 0, ck_seen = 86400000000000, ck_decay = 86400000000500\<rparr>
      in [\<lparr>ev_kind = False_Claim, ev_peer = ''p'', ev_clocks = ck\<rparr>,
          \<lparr>ev_kind = Success, ev_peer = ''q'', ev_clocks = ck\<rparr>,
          \<lparr>ev_kind = False_Claim, ev_peer = ''p'', ev_clocks = ck\<rparr>,
          \<lparr>ev_kind = Success, ev_peer = ''q'', ev_clocks = late\<rparr>])"

lemma rep_demo_steady: "e \<in> set rep_demo \<Longrightarrow> steady (ev_clocks e)"
  by (auto simp: rep_demo_def steady_def Let_def)

lemma rep_demo_about:
  "about ''p'' rep_demo = [False_Claim, False_Claim]" "about ''q'' rep_demo = [Success, Success]"
  "length rep_demo = 4"
  by (simp_all add: rep_demo_def about_def Let_def)

theorem score_is_ledger_witness:
  "map_option ps_score (get_peer_score (rep_run rep_demo) ''q'') = Some 2"
  using score_is_ledger [of rep_demo "''q''"] rep_demo_steady rep_demo_about
  by (auto split: option.splits)

theorem blacklist_iff_balance_witness:
  "is_blacklisted (rep_run rep_demo) ''p'' \<and> balance (about ''p'' rep_demo) = -10"
  using blacklist_iff_balance [of rep_demo "''p''"] rep_demo_steady rep_demo_about
  by (auto simp: balance_def)

theorem decay_never_fires_witness:
  "get_score (record_success \<lparr>ck_new = 0, ck_seen = 10 ^ 18, ck_decay = 10 ^ 18 + 50\<rparr>
     [''p'' \<mapsto> (fresh_score ''p'' 0)\<lparr>ps_score := 7\<rparr>] ''p'') ''p'' = Some 8"
  using decay_never_fires [of "[''p'' \<mapsto> (fresh_score ''p'' 0)\<lparr>ps_score := 7\<rparr>]" "''p''"
      "(fresh_score ''p'' 0)\<lparr>ps_score := 7\<rparr>"
      "\<lparr>ck_new = 0, ck_seen = 10 ^ 18, ck_decay = 10 ^ 18 + 50\<rparr>"]
  by (simp add: steady_def)

end
