(* ===== verification/Codec.thy ===== *)
theory Codec
  imports Zing_Types
begin

text \<open>
  \<^verbatim>\<open>zing-cdn-core/src/p2p/protocol.rs\<close>: the four request-response codecs. A writer is the
  bytes it sends; a reader takes the bytes the peer sends until it closes the stream and
  returns the message with what is left, or the error. Every message is a frame, a
  little-endian \<^typ>\<open>u32\<close> length and that many bytes. Peer ids and multiaddresses are libp2p's:
  their conversions are the record \<open>addr_lib\<close>. The locale \<open>framed_codec\<close> states the contract
  of a codec; each of them interprets it.
\<close>

datatype io_error = Unexpected_Eof | Invalid_Data string

definition ZING_CDN_BLOB_PROTOCOL :: string where "ZING_CDN_BLOB_PROTOCOL = ''/zing-cdn/data/3.0''"
definition ZING_CDN_RANGE_PROTOCOL :: string where "ZING_CDN_RANGE_PROTOCOL = ''/zing-cdn/range/2.0''"
definition ZING_CDN_SLIVER_PROTOCOL :: string where "ZING_CDN_SLIVER_PROTOCOL = ''/zing-cdn/sliver/1.0''"
definition ZING_CDN_ADDR_PROTOCOL :: string where "ZING_CDN_ADDR_PROTOCOL = ''/zing-cdn/addr/1.0''"
definition MAX_MESSAGE_SIZE :: nat where "MAX_MESSAGE_SIZE = 64 * 1024 * 1024"

section \<open>Frames\<close>

definition read_exact :: "nat \<Rightarrow> bytes \<Rightarrow> io_error + bytes \<times> bytes" where
  "read_exact n s = (if length s < n then Inl Unexpected_Eof else Inr (take n s, drop n s))"

definition read_u32_le :: "bytes \<Rightarrow> io_error + u32 \<times> bytes" where
  "read_u32_le s = try_bind (read_exact 4 s) (\<lambda>(buf, s'). Inr (u32_from_le buf, s'))"

definition write_u32_le :: "u32 \<Rightarrow> bytes" where
  "write_u32_le v = u32_to_le v"

text \<open>The start of every reader: the length, its check, and the body.\<close>

definition read_frame :: "(nat \<Rightarrow> bool) \<Rightarrow> (nat \<Rightarrow> string) \<Rightarrow> bytes \<Rightarrow> io_error + bytes \<times> bytes" where
  "read_frame valid msg s =
     try_bind (read_u32_le s) (\<lambda>(w, s1).
       let len = unat w in
       if \<not> valid len then Inl (Invalid_Data (msg len))
       else read_exact len s1)"

text \<open>The check the four response readers share.\<close>

definition response_len_ok :: "nat \<Rightarrow> bool" where
  "response_len_ok len \<longleftrightarrow> 1 \<le> len \<and> len \<le> MAX_MESSAGE_SIZE"

section \<open>The blob protocol\<close>

record blob_request =
  brq_blob_id :: bytes
  brq_version :: u8
  brq_payment :: bytes

record blob_response =
  brs_size :: "u64 option"
  brs_data :: "bytes option"

definition blob_have :: "bytes \<Rightarrow> blob_response" where
  "blob_have d = \<lparr>brs_size = Some (word_of_nat (length d)), brs_data = Some d\<rparr>"

definition blob_not_found :: blob_response where
  "blob_not_found = \<lparr>brs_size = None, brs_data = None\<rparr>"

definition blob_is_have :: "blob_response \<Rightarrow> bool" where
  "blob_is_have r \<longleftrightarrow> brs_data r \<noteq> None"

definition read_blob_request :: "bytes \<Rightarrow> io_error + blob_request \<times> bytes" where
  "read_blob_request s =
     try_bind (read_frame (\<lambda>len. 65 \<le> len \<and> len \<le> MAX_MESSAGE_SIZE)
                 (\<lambda>len. ''invalid request length: '' @ dec len) s) (\<lambda>(buf, s').
       Inr (\<lparr>brq_blob_id = take 32 buf, brq_version = buf ! 32,
              brq_payment = take 32 (drop 33 buf)\<rparr>, s'))"

definition read_blob_response :: "bytes \<Rightarrow> io_error + blob_response \<times> bytes" where
  "read_blob_response s =
     try_bind (read_frame response_len_ok (\<lambda>len. ''invalid response length: '' @ dec len) s)
       (\<lambda>(buf, s').
         if buf ! 0 = 0 then Inr (blob_not_found, s')
         else if buf ! 0 = 1 then
           if length buf < 5 then Inl (Invalid_Data ''have response too short'')
           else let data_len = unat (u32_from_le (take 4 (drop 1 buf))) in
             if length buf \<noteq> 5 + data_len
             then Inl (Invalid_Data ''have response length mismatch'')
             else Inr (blob_have (drop 5 buf), s')
         else Inl (Invalid_Data (''unknown status: '' @ dec (unat (buf ! 0)))))"

definition write_blob_request :: "blob_request \<Rightarrow> bytes" where
  "write_blob_request r =
     write_u32_le 65 @ brq_blob_id r @ [brq_version r] @ brq_payment r"

definition write_blob_response :: "blob_response \<Rightarrow> bytes" where
  "write_blob_response r =
     (case brs_data r of
        Some d \<Rightarrow>
          let data_len = word_of_nat (length d) :: u32
          in write_u32_le (5 + data_len) @ [1] @ u32_to_le data_len @ d
      | None \<Rightarrow> write_u32_le 1 @ [0])"

section \<open>The range protocol\<close>

record range_request =
  rrq_blob_id :: bytes
  rrq_offset :: u64
  rrq_length :: u64
  rrq_payment :: bytes

record range_response =
  rrs_data :: "bytes option"

definition range_have :: "bytes \<Rightarrow> range_response" where
  "range_have d = \<lparr>rrs_data = Some d\<rparr>"

definition range_not_found :: range_response where
  "range_not_found = \<lparr>rrs_data = None\<rparr>"

definition read_range_request :: "bytes \<Rightarrow> io_error + range_request \<times> bytes" where
  "read_range_request s =
     try_bind (read_frame (\<lambda>len. len = 80)
                 (\<lambda>len. ''invalid range request length: '' @ dec len @ '' (expected 80)'') s)
       (\<lambda>(buf, s').
         Inr (\<lparr>rrq_blob_id = take 32 buf,
                rrq_offset = u64_from_le (take 8 (drop 32 buf)),
                rrq_length = u64_from_le (take 8 (drop 40 buf)),
                rrq_payment = take 32 (drop 48 buf)\<rparr>, s'))"

definition read_range_response :: "bytes \<Rightarrow> io_error + range_response \<times> bytes" where
  "read_range_response s =
     try_bind (read_frame response_len_ok (\<lambda>len. ''invalid response length: '' @ dec len) s)
       (\<lambda>(buf, s').
         if buf ! 0 = 0 then Inr (range_not_found, s')
         else if buf ! 0 = 1 then Inr (range_have (drop 1 buf), s')
         else Inl (Invalid_Data (''unknown status: '' @ dec (unat (buf ! 0)))))"

definition write_range_request :: "range_request \<Rightarrow> bytes" where
  "write_range_request r =
     write_u32_le 80 @ rrq_blob_id r @ u64_to_le (rrq_offset r) @ u64_to_le (rrq_length r) @
       rrq_payment r"

definition write_range_response :: "range_response \<Rightarrow> bytes" where
  "write_range_response r =
     (case rrs_data r of
        Some d \<Rightarrow>
          let total_len = 1 + (word_of_nat (length d) :: u32)
          in write_u32_le total_len @ [1] @ d
      | None \<Rightarrow> write_u32_le 1 @ [0])"

section \<open>The sliver protocol\<close>

record sliver_request =
  srq_blob_id :: bytes
  srq_index :: u16
  srq_axis :: u8

definition AXIS_PRIMARY :: u8 where "AXIS_PRIMARY = 0"
definition AXIS_SECONDARY :: u8 where "AXIS_SECONDARY = 1"

record sliver_response =
  srs_data :: "bytes option"

definition sliver_have :: "bytes \<Rightarrow> sliver_response" where
  "sliver_have d = \<lparr>srs_data = Some d\<rparr>"

definition sliver_not_found :: sliver_response where
  "sliver_not_found = \<lparr>srs_data = None\<rparr>"

definition read_sliver_request :: "bytes \<Rightarrow> io_error + sliver_request \<times> bytes" where
  "read_sliver_request s =
     try_bind (read_frame (\<lambda>len. len = 35)
                 (\<lambda>len. ''invalid sliver request length: '' @ dec len @ '' (expected 35)'') s)
       (\<lambda>(buf, s').
         Inr (\<lparr>srq_blob_id = take 32 buf, srq_index = u16_from_le (take 2 (drop 32 buf)),
                srq_axis = buf ! 34\<rparr>, s'))"

definition read_sliver_response :: "bytes \<Rightarrow> io_error + sliver_response \<times> bytes" where
  "read_sliver_response s =
     try_bind (read_frame response_len_ok (\<lambda>len. ''invalid response length: '' @ dec len) s)
       (\<lambda>(buf, s').
         if buf ! 0 = 0 then Inr (sliver_not_found, s')
         else if buf ! 0 = 1 then Inr (sliver_have (drop 1 buf), s')
         else Inl (Invalid_Data (''unknown status: '' @ dec (unat (buf ! 0)))))"

definition write_sliver_request :: "sliver_request \<Rightarrow> bytes" where
  "write_sliver_request r =
     write_u32_le 35 @ srq_blob_id r @ u16_to_le (srq_index r) @ [srq_axis r]"

definition write_sliver_response :: "sliver_response \<Rightarrow> bytes" where
  "write_sliver_response r =
     (case srs_data r of
        Some d \<Rightarrow>
          let total_len = 1 + (word_of_nat (length d) :: u32)
          in write_u32_le total_len @ [1] @ d
      | None \<Rightarrow> write_u32_le 1 @ [0])"

section \<open>The address protocol\<close>

record ('p, 'a) addr_lib =
  pid_to_bytes :: "'p \<Rightarrow> bytes"
  pid_from_bytes :: "bytes \<Rightarrow> string + 'p"
  ma_to_vec :: "'a \<Rightarrow> bytes"
  ma_try_from :: "bytes \<Rightarrow> string + 'a"

record 'p addr_request =
  arq_peer_id :: 'p

record 'a addr_response =
  ars_addresses :: "'a list"

definition addr_found :: "'a list \<Rightarrow> 'a addr_response" where
  "addr_found as = \<lparr>ars_addresses = as\<rparr>"

definition addr_not_found :: "'a addr_response" where
  "addr_not_found = \<lparr>ars_addresses = []\<rparr>"

definition read_addr_request :: "('p, 'a) addr_lib \<Rightarrow> bytes \<Rightarrow> io_error + 'p addr_request \<times> bytes" where
  "read_addr_request L s =
     try_bind (read_frame (\<lambda>len. 1 \<le> len \<and> len \<le> 256)
                 (\<lambda>len. ''invalid addr request length: '' @ dec len) s) (\<lambda>(buf, s').
       try_bind (map_err (\<lambda>e. Invalid_Data (''invalid PeerId bytes: '' @ e)) (pid_from_bytes L buf))
         (\<lambda>pid. Inr (\<lparr>arq_peer_id = pid\<rparr>, s')))"

text \<open>The loop over the announced number of addresses; those libp2p cannot parse are skipped.\<close>

fun read_addrs :: "('p, 'a) addr_lib \<Rightarrow> bytes \<Rightarrow> nat \<Rightarrow> nat \<Rightarrow> 'a list \<Rightarrow> io_error + 'a list" where
  "read_addrs L buf 0 pos addresses = Inr addresses"
| "read_addrs L buf (Suc n) pos addresses =
     (if pos + 2 > length buf then Inl (Invalid_Data ''addr response truncated'')
      else let addr_len = unat (u16_from_le (take 2 (drop pos buf))); pos = pos + 2 in
        if pos + addr_len > length buf then Inl (Invalid_Data ''addr response truncated'')
        else let addresses =
               (case ma_try_from L (take addr_len (drop pos buf)) of
                  Inr addr \<Rightarrow> addresses @ [addr]
                | Inl _ \<Rightarrow> addresses)
          in read_addrs L buf n (pos + addr_len) addresses)"

definition read_addr_response :: "('p, 'a) addr_lib \<Rightarrow> bytes \<Rightarrow> io_error + 'a addr_response \<times> bytes" where
  "read_addr_response L s =
     try_bind (read_frame response_len_ok (\<lambda>len. ''invalid addr response length: '' @ dec len) s)
       (\<lambda>(buf, s').
         if buf ! 0 = 0 then Inr (addr_not_found, s')
         else if buf ! 0 = 1 then
           if length buf < 3 then Inl (Invalid_Data ''addr response too short'')
           else let count = unat (u16_from_le (take 2 (drop 1 buf))) in
             try_bind (read_addrs L buf count 3 []) (\<lambda>addresses. Inr (addr_found addresses, s'))
         else Inl (Invalid_Data (''unknown addr status: '' @ dec (unat (buf ! 0)))))"

definition write_addr_request :: "('p, 'a) addr_lib \<Rightarrow> 'p addr_request \<Rightarrow> bytes" where
  "write_addr_request L r =
     (let peer_bytes = pid_to_bytes L (arq_peer_id r)
      in write_u32_le (word_of_nat (length peer_bytes)) @ peer_bytes)"

definition write_addr :: "('p, 'a) addr_lib \<Rightarrow> 'a \<Rightarrow> bytes" where
  "write_addr L addr =
     (let bs = ma_to_vec L addr;
          len = word_of_nat (min (length bs) 65535) :: u16
      in u16_to_le len @ take (unat len) bs)"

definition write_addr_response :: "('p, 'a) addr_lib \<Rightarrow> 'a addr_response \<Rightarrow> bytes" where
  "write_addr_response L r =
     (if ars_addresses r = [] then write_u32_le 1 @ [0]
      else
        let count = word_of_nat (min (length (ars_addresses r)) 65535) :: u16;
            payload = [1] @ u16_to_le count @ concat (map (write_addr L) (ars_addresses r))
        in write_u32_le (word_of_nat (length payload)) @ payload)"

section \<open>The contract of a codec\<close>

text \<open>Reading messages one after the other from one stream.\<close>

fun read_all :: "(bytes \<Rightarrow> io_error + 'm \<times> bytes) \<Rightarrow> nat \<Rightarrow> bytes \<Rightarrow> io_error + 'm list \<times> bytes" where
  "read_all read 0 s = Inr ([], s)"
| "read_all read (Suc n) s =
     try_bind (read s) (\<lambda>(m, s'). try_bind (read_all read n s') (\<lambda>(ms, r). Inr (m # ms, r)))"

locale framed_codec =
  fixes good :: "'m \<Rightarrow> bool"
    and emit :: "'m \<Rightarrow> bytes"
    and parse :: "bytes \<Rightarrow> io_error + 'm \<times> bytes"
  assumes parse_emit: "good m \<Longrightarrow> parse (emit m @ rest) = Inr (m, rest)"
    and parse_cut: "good m \<Longrightarrow> k < length (emit m) \<Longrightarrow> parse (take k (emit m)) = Inl Unexpected_Eof"
begin

lemma emit_prefix_free:
  assumes "good m" and "good m'" and "emit m @ r = emit m' @ r'"
  shows "m = m' \<and> r = r'"
  using parse_emit [OF assms(1), of r] unfolding assms(3) parse_emit [OF assms(2)] by simp

lemma read_all_emit:
  assumes "\<And>m. m \<in> set ms \<Longrightarrow> good m"
  shows "read_all parse (length ms) (concat (map emit ms) @ rest) = Inr (ms, rest)"
  using assms by (induction ms) (simp_all add: parse_emit)

text \<open>A stream cut inside a message gives the messages before it and then the end-of-file error.\<close>

lemma read_all_cut:
  assumes "\<And>m. m \<in> set (ms @ [m']) \<Longrightarrow> good m" and "k < length (emit m')"
  shows "read_all parse (length ms) (concat (map emit ms) @ take k (emit m')) =
      Inr (ms, take k (emit m')) \<and>
    read_all parse (Suc (length ms)) (concat (map emit ms) @ take k (emit m')) = Inl Unexpected_Eof"
  using assms by (induction ms) (simp_all add: parse_emit parse_cut)

end

section \<open>Each codec meets the contract\<close>

lemma read_frame_ok:
  assumes "unat w = length body" and "valid (length body)"
  shows "read_frame valid msg (write_u32_le w @ body @ rest) = Inr (body, rest)"
  using assms by (simp add: read_frame_def read_u32_le_def read_exact_def write_u32_le_def)

lemma read_frame_bad:
  assumes "\<not> valid (unat w)"
  shows "read_frame valid msg (write_u32_le w @ rest) = Inl (Invalid_Data (msg (unat w)))"
  using assms by (simp add: read_frame_def read_u32_le_def read_exact_def write_u32_le_def)

lemma read_frame_cut:
  assumes "unat w = length body" and "valid (length body)" and "k < 4 + length body"
  shows "read_frame valid msg (take k (write_u32_le w @ body)) = Inl Unexpected_Eof"
proof (cases "k < 4")
  case True
  then show ?thesis
    by (simp add: read_frame_def read_u32_le_def read_exact_def write_u32_le_def)
next
  case False
  with assms show ?thesis
    by (auto simp: read_frame_def read_u32_le_def read_exact_def write_u32_le_def Let_def)
qed

lemma unat_u32_small: "n < 2 ^ 32 \<Longrightarrow> unat (word_of_nat n :: u32) = n"
  by (simp add: unat_of_nat)

lemma unat_u16_small: "n < 2 ^ 16 \<Longrightarrow> unat (word_of_nat n :: u16) = n"
  by (simp add: unat_of_nat)

lemma unat_u32_plus:
  "m + n < 2 ^ 32 \<Longrightarrow> unat (word_of_nat m + word_of_nat n :: u32) = m + n"
  using unat_u32_small [of "m + n"] by simp

text \<open>
  A codec whose writer sends one frame and whose reader decodes its body meets the contract.
\<close>

lemma frame_codec:
  assumes "\<And>m. good m \<Longrightarrow> \<exists>w body. emit m = write_u32_le w @ body \<and> unat w = length body \<and>
      valid (length body) \<and> decode body = Inr m"
    and "\<And>s. parse s = try_bind (read_frame valid msg s)
      (\<lambda>(buf, s'). try_bind (decode buf) (\<lambda>m. Inr (m, s')))"
  shows "framed_codec good emit parse"
proof
  fix m rest assume "good m"
  from assms(1) [OF this] obtain w body where
    "emit m = write_u32_le w @ body" "unat w = length body" "valid (length body)" "decode body = Inr m"
    by blast
  then show "parse (emit m @ rest) = Inr (m, rest)" by (simp add: assms(2) read_frame_ok)
next
  fix m and k :: nat assume "good m" and k: "k < length (emit m)"
  from assms(1) [OF this(1)] obtain w body where
    w: "emit m = write_u32_le w @ body" "unat w = length body" "valid (length body)"
    by blast
  have "k < 4 + length body" using k unfolding w(1) by (simp add: write_u32_le_def)
  from read_frame_cut [where valid = valid, OF w(2,3) this] show "parse (take k (emit m)) = Inl Unexpected_Eof"
    unfolding assms(2) w(1) by simp
qed

definition blob_request_ok :: "blob_request \<Rightarrow> bool" where
  "blob_request_ok r \<longleftrightarrow> length (brq_blob_id r) = 32 \<and> length (brq_payment r) = 32"

definition blob_response_ok :: "blob_response \<Rightarrow> bool" where
  "blob_response_ok r \<longleftrightarrow> (case brs_data r of
     None \<Rightarrow> brs_size r = None
   | Some d \<Rightarrow> brs_size r = Some (word_of_nat (length d)) \<and> length d + 5 \<le> MAX_MESSAGE_SIZE)"

definition range_request_ok :: "range_request \<Rightarrow> bool" where
  "range_request_ok r \<longleftrightarrow> length (rrq_blob_id r) = 32 \<and> length (rrq_payment r) = 32"

definition range_response_ok :: "range_response \<Rightarrow> bool" where
  "range_response_ok r \<longleftrightarrow> (case rrs_data r of
     None \<Rightarrow> True | Some d \<Rightarrow> length d + 1 \<le> MAX_MESSAGE_SIZE)"

definition sliver_request_ok :: "sliver_request \<Rightarrow> bool" where
  "sliver_request_ok r \<longleftrightarrow> length (srq_blob_id r) = 32"

definition sliver_response_ok :: "sliver_response \<Rightarrow> bool" where
  "sliver_response_ok r \<longleftrightarrow> (case srs_data r of
     None \<Rightarrow> True | Some d \<Rightarrow> length d + 1 \<le> MAX_MESSAGE_SIZE)"

text \<open>What the code relies on from libp2p: its own encodings parse, and peer ids are short.\<close>

definition addr_lib_ok :: "('p, 'a) addr_lib \<Rightarrow> bool" where
  "addr_lib_ok L \<longleftrightarrow>
     (\<forall>p. pid_from_bytes L (pid_to_bytes L p) = Inr p \<and> 1 \<le> length (pid_to_bytes L p) \<and>
        length (pid_to_bytes L p) \<le> 256) \<and>
     (\<forall>a. ma_try_from L (ma_to_vec L a) = Inr a)"

definition addr_payload :: "('p, 'a) addr_lib \<Rightarrow> 'a list \<Rightarrow> nat" where
  "addr_payload L as = 3 + length (concat (map (write_addr L) as))"

definition addr_response_ok :: "('p, 'a) addr_lib \<Rightarrow> 'a addr_response \<Rightarrow> bool" where
  "addr_response_ok L r \<longleftrightarrow>
     addr_lib_ok L \<and> length (ars_addresses r) \<le> 65535 \<and>
     (\<forall>a \<in> set (ars_addresses r). length (ma_to_vec L a) \<le> 65535) \<and>
     addr_payload L (ars_addresses r) \<le> MAX_MESSAGE_SIZE"

lemma max_small: "MAX_MESSAGE_SIZE < 2 ^ 32"
  by (simp add: MAX_MESSAGE_SIZE_def)

interpretation blob_req: framed_codec blob_request_ok write_blob_request read_blob_request
proof (rule frame_codec)
  fix m assume "blob_request_ok m"
  then show "\<exists>w body. write_blob_request m = write_u32_le w @ body \<and> unat w = length body \<and>
      (65 \<le> length body \<and> length body \<le> MAX_MESSAGE_SIZE) \<and>
      Inr \<lparr>brq_blob_id = take 32 body, brq_version = body ! 32, brq_payment = take 32 (drop 33 body)\<rparr> =
      Inr m"
    by (intro exI [of _ 65] exI [of _ "brq_blob_id m @ [brq_version m] @ brq_payment m"])
      (simp add: write_blob_request_def blob_request_ok_def MAX_MESSAGE_SIZE_def nth_append)
qed (simp add: read_blob_request_def)

definition blob_response_body :: "bytes \<Rightarrow> io_error + blob_response" where
  "blob_response_body buf =
     (if buf ! 0 = 0 then Inr blob_not_found
       else if buf ! 0 = 1 then
         if length buf < 5 then Inl (Invalid_Data ''have response too short'')
         else if length buf \<noteq> 5 + unat (u32_from_le (take 4 (drop 1 buf)))
           then Inl (Invalid_Data ''have response length mismatch'')
           else Inr (blob_have (drop 5 buf))
       else Inl (Invalid_Data (''unknown status: '' @ dec (unat (buf ! 0)))))"

lemma read_blob_response_frame:
  "read_blob_response s =
     try_bind (read_frame response_len_ok (\<lambda>len. ''invalid response length: '' @ dec len) s)
       (\<lambda>(buf, s'). try_bind (blob_response_body buf) (\<lambda>m. Inr (m, s')))"
  unfolding read_blob_response_def blob_response_body_def Let_def
  by (intro arg_cong [where f = "try_bind _"] ext)
    (simp only: split_beta if_distrib [of "\<lambda>r. try_bind r _"] try_bind_Inr try_bind_Inl)

lemma one_status_frame: "unat (1 :: u32) = length [0 :: u8]" "response_len_ok (length [0 :: u8])"
  by (simp_all add: response_len_ok_def MAX_MESSAGE_SIZE_def)

interpretation blob_resp: framed_codec blob_response_ok write_blob_response read_blob_response
proof (rule frame_codec [OF _ read_blob_response_frame])
  fix m assume ok: "blob_response_ok m"
  show "\<exists>w body. write_blob_response m = write_u32_le w @ body \<and> unat w = length body \<and>
      response_len_ok (length body) \<and> blob_response_body body = Inr m"
  proof (cases "brs_data m")
    case None
    with ok have "m = blob_not_found" by (simp add: blob_response_ok_def blob_not_found_def)
    then show ?thesis
      using one_status_frame
      by (intro exI [of _ 1] exI [of _ "[0]"])
        (simp add: write_blob_response_def blob_not_found_def blob_response_body_def)
  next
    case (Some d)
    with ok have d: "m = blob_have d" "length d + 5 \<le> MAX_MESSAGE_SIZE"
      by (auto simp: blob_response_ok_def blob_have_def)
    have small: "length d + 5 < 2 ^ 32" using d(2) max_small by simp
    let ?n = "word_of_nat (length d) :: u32"
    have "unat ?n = length d" using small by (intro unat_u32_small) simp
    moreover have "unat (5 + ?n) = 5 + length d" using unat_u32_plus [of 5 "length d"] small by simp
    ultimately show ?thesis
      using d
      by (intro exI [of _ "5 + ?n"] exI [of _ "[1] @ u32_to_le ?n @ d"])
        (simp add: write_blob_response_def blob_have_def blob_response_body_def response_len_ok_def Let_def)
  qed
qed

interpretation range_req: framed_codec range_request_ok write_range_request read_range_request
proof (rule frame_codec)
  fix m assume "range_request_ok m"
  then show "\<exists>w body. write_range_request m = write_u32_le w @ body \<and> unat w = length body \<and>
      length body = 80 \<and>
      Inr \<lparr>rrq_blob_id = take 32 body, rrq_offset = u64_from_le (take 8 (drop 32 body)),
        rrq_length = u64_from_le (take 8 (drop 40 body)), rrq_payment = take 32 (drop 48 body)\<rparr> = Inr m"
    by (intro exI [of _ 80] exI [of _ "rrq_blob_id m @ u64_to_le (rrq_offset m) @
        u64_to_le (rrq_length m) @ rrq_payment m"])
      (simp add: write_range_request_def range_request_ok_def)
qed (simp add: read_range_request_def)

interpretation sliver_req: framed_codec sliver_request_ok write_sliver_request read_sliver_request
proof (rule frame_codec)
  fix m assume "sliver_request_ok m"
  then show "\<exists>w body. write_sliver_request m = write_u32_le w @ body \<and> unat w = length body \<and>
      length body = 35 \<and>
      Inr \<lparr>srq_blob_id = take 32 body, srq_index = u16_from_le (take 2 (drop 32 body)),
        srq_axis = body ! 34\<rparr> = Inr m"
    by (intro exI [of _ 35] exI [of _ "srq_blob_id m @ u16_to_le (srq_index m) @ [srq_axis m]"])
      (simp add: write_sliver_request_def sliver_request_ok_def nth_append)
qed (simp add: read_sliver_request_def)

text \<open>The range and sliver responses have the same shape: a status byte and the data.\<close>

definition status_body :: "'m \<Rightarrow> (bytes \<Rightarrow> 'm) \<Rightarrow> bytes \<Rightarrow> io_error + 'm" where
  "status_body none have_it buf =
     (if buf ! 0 = 0 then Inr none
      else if buf ! 0 = 1 then Inr (have_it (drop 1 buf))
      else Inl (Invalid_Data (''unknown status: '' @ dec (unat (buf ! 0)))))"

lemma status_frame:
  assumes "length d + 1 \<le> MAX_MESSAGE_SIZE"
  shows "\<exists>w body. write_u32_le (1 + word_of_nat (length d)) @ [1] @ d = write_u32_le w @ body \<and>
    unat w = length body \<and> response_len_ok (length body) \<and>
    status_body none have_it body = Inr (have_it d)"
proof -
  have "unat (1 + word_of_nat (length d) :: u32) = 1 + length d"
    using unat_u32_plus [of 1 "length d"] assms max_small by simp
  with assms show ?thesis
    by (intro exI [of _ "1 + word_of_nat (length d)"] exI [of _ "[1] @ d"])
      (simp add: response_len_ok_def status_body_def)
qed

lemma none_frame:
  "\<exists>w body. write_u32_le 1 @ [0] = write_u32_le w @ body \<and> unat w = length body \<and>
    response_len_ok (length body) \<and> status_body none have_it body = Inr none"
  using one_status_frame by (intro exI [of _ 1] exI [of _ "[0]"]) (simp add: status_body_def)

lemma read_range_response_frame:
  "read_range_response s =
     try_bind (read_frame response_len_ok (\<lambda>len. ''invalid response length: '' @ dec len) s)
       (\<lambda>(buf, s'). try_bind (status_body range_not_found range_have buf) (\<lambda>m. Inr (m, s')))"
  by (cases "read_frame response_len_ok (\<lambda>len. ''invalid response length: '' @ dec len) s")
    (auto simp: read_range_response_def status_body_def)

lemma read_sliver_response_frame:
  "read_sliver_response s =
     try_bind (read_frame response_len_ok (\<lambda>len. ''invalid response length: '' @ dec len) s)
       (\<lambda>(buf, s'). try_bind (status_body sliver_not_found sliver_have buf) (\<lambda>m. Inr (m, s')))"
  by (cases "read_frame response_len_ok (\<lambda>len. ''invalid response length: '' @ dec len) s")
    (auto simp: read_sliver_response_def status_body_def)

interpretation range_resp: framed_codec range_response_ok write_range_response read_range_response
proof (rule frame_codec [OF _ read_range_response_frame])
  fix m assume ok: "range_response_ok m"
  show "\<exists>w body. write_range_response m = write_u32_le w @ body \<and> unat w = length body \<and>
      response_len_ok (length body) \<and> status_body range_not_found range_have body = Inr m"
  proof (cases "rrs_data m")
    case None
    then have "m = range_not_found" by (simp add: range_not_found_def)
    with None none_frame show ?thesis by (simp add: write_range_response_def)
  next
    case (Some d)
    then have "m = range_have d" by (simp add: range_have_def)
    with Some ok status_frame [of d] show ?thesis
      by (simp add: write_range_response_def range_response_ok_def)
  qed
qed

interpretation sliver_resp: framed_codec sliver_response_ok write_sliver_response read_sliver_response
proof (rule frame_codec [OF _ read_sliver_response_frame])
  fix m assume ok: "sliver_response_ok m"
  show "\<exists>w body. write_sliver_response m = write_u32_le w @ body \<and> unat w = length body \<and>
      response_len_ok (length body) \<and> status_body sliver_not_found sliver_have body = Inr m"
  proof (cases "srs_data m")
    case None
    then have "m = sliver_not_found" by (simp add: sliver_not_found_def)
    with None none_frame show ?thesis by (simp add: write_sliver_response_def)
  next
    case (Some d)
    then have "m = sliver_have d" by (simp add: sliver_have_def)
    with Some ok status_frame [of d] show ?thesis
      by (simp add: write_sliver_response_def sliver_response_ok_def)
  qed
qed

interpretation addr_req: framed_codec "\<lambda>_. addr_lib_ok L" "write_addr_request L" "read_addr_request L"
  for L :: "('p, 'a) addr_lib"
proof (rule frame_codec)
  fix m :: "'p addr_request" assume "addr_lib_ok L"
  then have pid: "pid_from_bytes L (pid_to_bytes L (arq_peer_id m)) = Inr (arq_peer_id m)"
      "1 \<le> length (pid_to_bytes L (arq_peer_id m))" "length (pid_to_bytes L (arq_peer_id m)) \<le> 256"
    by (auto simp: addr_lib_ok_def)
  let ?b = "pid_to_bytes L (arq_peer_id m)"
  have "unat (word_of_nat (length ?b) :: u32) = length ?b" using pid(3) by (intro unat_u32_small) simp
  with pid show "\<exists>w body. write_addr_request L m = write_u32_le w @ body \<and> unat w = length body \<and>
      (1 \<le> length body \<and> length body \<le> 256) \<and>
      try_bind (map_err (\<lambda>e. Invalid_Data (''invalid PeerId bytes: '' @ e)) (pid_from_bytes L body))
        (\<lambda>pid. Inr \<lparr>arq_peer_id = pid\<rparr>) = Inr m"
    by (intro exI [of _ "word_of_nat (length ?b)"] exI [of _ ?b])
      (simp add: write_addr_request_def Let_def)
next
  fix s
  show "read_addr_request L s =
     try_bind (read_frame (\<lambda>len. 1 \<le> len \<and> len \<le> 256)
                 (\<lambda>len. ''invalid addr request length: '' @ dec len) s) (\<lambda>(buf, s').
       try_bind (try_bind (map_err (\<lambda>e. Invalid_Data (''invalid PeerId bytes: '' @ e)) (pid_from_bytes L buf))
         (\<lambda>pid. Inr \<lparr>arq_peer_id = pid\<rparr>)) (\<lambda>m. Inr (m, s')))"
    unfolding read_addr_request_def by (auto split: try_bind_split)
qed

lemma write_addr_len:
  assumes "length (ma_to_vec L a) \<le> 65535"
  shows "write_addr L a = u16_to_le (word_of_nat (length (ma_to_vec L a))) @ ma_to_vec L a"
    and "unat (word_of_nat (length (ma_to_vec L a)) :: u16) = length (ma_to_vec L a)"
proof -
  show "unat (word_of_nat (length (ma_to_vec L a)) :: u16) = length (ma_to_vec L a)"
    using assms by (intro unat_u16_small) simp
  then show "write_addr L a = u16_to_le (word_of_nat (length (ma_to_vec L a))) @ ma_to_vec L a"
    using assms by (simp add: write_addr_def Let_def)
qed

lemma read_addrs_write:
  assumes "addr_lib_ok L" and "\<And>a. a \<in> set as \<Longrightarrow> length (ma_to_vec L a) \<le> 65535"
  shows "read_addrs L (pre @ concat (map (write_addr L) as) @ suf) (length as) (length pre) acc =
    Inr (acc @ as)"
  using assms(2)
proof (induction as arbitrary: pre acc)
  case Nil
  then show ?case by simp
next
  case (Cons a as)
  let ?v = "ma_to_vec L a" and ?l = "u16_to_le (word_of_nat (length (ma_to_vec L a)))"
  have a: "length ?v \<le> 65535" using Cons.prems by simp
  note w = write_addr_len [OF a]
  have parse: "ma_try_from L ?v = Inr a" using assms(1) by (simp add: addr_lib_ok_def)
  have IH: "read_addrs L ((pre @ ?l @ ?v) @ concat (map (write_addr L) as) @ suf) (length as)
      (length (pre @ ?l @ ?v)) (acc @ [a]) = Inr ((acc @ [a]) @ as)"
    using Cons.prems by (intro Cons.IH) simp
  then show ?case
    by (simp add: w parse Let_def add.assoc)
qed

text \<open>
  An address answer carries at most 65535 addresses: when libp2p's encodings parse, none of
  them is longer than 65535 bytes and the message is within the limit, the receiver gets exactly
  the first 65535 of the addresses sent, in order, and the rest of the stream.
\<close>

theorem addr_response_delivery:
  assumes "addr_lib_ok L" and "\<And>a. a \<in> set as \<Longrightarrow> length (ma_to_vec L a) \<le> 65535"
    and "addr_payload L as \<le> MAX_MESSAGE_SIZE"
  shows "read_addr_response L (write_addr_response L (addr_found as) @ rest) =
    Inr (addr_found (take 65535 as), rest)"
proof (cases "as = []")
  case True
  have "read_frame response_len_ok m (write_u32_le 1 @ [0] @ rest) = Inr ([0], rest)" for m
    using one_status_frame by (rule read_frame_ok)
  then show ?thesis
    using True by (simp add: write_addr_response_def read_addr_response_def addr_found_def addr_not_found_def)
next
  case False
  let ?n = "min (length as) 65535"
  let ?c = "word_of_nat ?n :: u16"
  let ?tail = "concat (map (write_addr L) as)"
  let ?body = "[1] @ u16_to_le ?c @ ?tail"
  have c: "unat ?c = ?n" by (intro unat_u16_small) simp
  have len: "length ?body = addr_payload L as" by (simp add: addr_payload_def)
  have "unat (word_of_nat (length ?body) :: u32) = length ?body"
    unfolding len using assms(3) max_small by (intro unat_u32_small) simp
  moreover have "response_len_ok (length ?body)"
    unfolding len response_len_ok_def using assms(3) by (simp add: addr_payload_def)
  ultimately have frame: "read_frame response_len_ok m
      (write_u32_le (word_of_nat (length ?body)) @ ?body @ rest) = Inr (?body, rest)" for m
    by (rule read_frame_ok)
  have split: "?tail = concat (map (write_addr L) (take 65535 as)) @
      concat (map (write_addr L) (drop 65535 as))"
    by (metis append_take_drop_id concat_append map_append)
  have "read_addrs L (([1] @ u16_to_le ?c) @ concat (map (write_addr L) (take 65535 as)) @
      concat (map (write_addr L) (drop 65535 as))) (length (take 65535 as))
      (length ([1] @ u16_to_le ?c)) [] = Inr ([] @ take 65535 as)"
    by (rule read_addrs_write [OF assms(1)]) (meson assms(2) in_set_takeD)
  then have addrs: "read_addrs L ?body ?n 3 [] = Inr (take 65535 as)"
    unfolding split by (simp add: min.commute)
  show ?thesis
    using False frame addrs c
    by (simp add: write_addr_response_def read_addr_response_def addr_found_def Let_def del: append.simps)
      (simp add: addr_found_def)
qed

section \<open>Further properties of the codecs\<close>

lemma read_exact_Inr: "read_exact n s = Inr (b, r) \<longleftrightarrow> s = b @ r \<and> length b = n"
  by (auto simp: read_exact_def)

lemma read_frame_Inr:
  assumes "read_frame valid msg s = Inr (buf, s')"
  shows "\<exists>w. s = write_u32_le w @ buf @ s' \<and> unat w = length buf \<and> valid (length buf)"
proof -
  from assms obtain hd s1 where hd: "read_exact 4 s = Inr (hd, s1)"
    "valid (unat (u32_from_le hd))" "read_exact (unat (u32_from_le hd)) s1 = Inr (buf, s')"
    by (auto simp: read_frame_def read_u32_le_def try_bind_eq_Inr Let_def split: if_splits)
  then have "hd = write_u32_le (u32_from_le hd)"
    by (simp add: read_exact_Inr write_u32_le_def u32_from_le_inverse)
  with hd show ?thesis
    by (intro exI [of _ "u32_from_le hd"]) (simp add: read_exact_Inr)
qed

lemma list_split4:
  "length b = i + j + k + l \<Longrightarrow>
    take i b @ take j (drop i b) @ take k (drop (i + j) b) @ take l (drop (i + j + k) b) = b"
  by (simp add: take_drop) (metis append_take_drop_id append.assoc take_all_iff add.assoc
      take_add drop_drop order_refl add.commute take_drop)

text \<open>
  C7: a request written by one peer is read back by the other, field by field, and nothing that
  follows it in the stream is consumed: for the blob, range, sliver and address protocols.
\<close>

theorem request_roundtrip:
  assumes "blob_request_ok b" and "range_request_ok r" and "sliver_request_ok q" and "addr_lib_ok L"
  shows "read_blob_request (write_blob_request b @ rest) = Inr (b, rest) \<and>
    read_range_request (write_range_request r @ rest) = Inr (r, rest) \<and>
    read_sliver_request (write_sliver_request q @ rest) = Inr (q, rest) \<and>
    read_addr_request L (write_addr_request L a @ rest) = Inr (a, rest)"
  using blob_req.parse_emit [OF assms(1)] range_req.parse_emit [OF assms(2)]
    sliver_req.parse_emit [OF assms(3)] addr_req.parse_emit [OF assms(4)]
  by blast

text \<open>
  C9: whatever bytes a peer sends, an accepted range or sliver request is one a writer would
  have sent, byte for byte; an accepted blob request starts with 69 bytes that carry its fields
  and has a body of 65 bytes to 64 MiB, of which it ignores all but the first 65.
\<close>

theorem accepted_request_canonical:
  "(read_range_request s = Inr (r, rest) \<longrightarrow> range_request_ok r \<and> s = write_range_request r @ rest) \<and>
   (read_sliver_request s = Inr (q, rest) \<longrightarrow> sliver_request_ok q \<and> s = write_sliver_request q @ rest) \<and>
   (read_blob_request s = Inr (b, rest) \<longrightarrow> blob_request_ok b \<and>
      (\<exists>w padding. s = write_u32_le w @ drop 4 (write_blob_request b) @ padding @ rest \<and>
        unat w = 65 + length padding \<and> unat w \<le> MAX_MESSAGE_SIZE))"
proof (intro conjI impI)
  assume "read_range_request s = Inr (r, rest)"
  then obtain buf msg where fr: "read_frame (\<lambda>len. len = 80) msg s = Inr (buf, rest)"
    and r: "r = \<lparr>rrq_blob_id = take 32 buf, rrq_offset = u64_from_le (take 8 (drop 32 buf)),
      rrq_length = u64_from_le (take 8 (drop 40 buf)), rrq_payment = take 32 (drop 48 buf)\<rparr>"
    by (auto simp: read_range_request_def try_bind_eq_Inr)
  from read_frame_Inr [OF fr] obtain w where
    w: "s = write_u32_le w @ buf @ rest" "unat w = length buf" "length buf = 80"
    by blast
  have w80: "w = 80" using w(2,3) by (simp add: word_unat_eq_iff)
  show "range_request_ok r" using w(3) by (simp add: r range_request_ok_def)
  have "take 32 buf @ take 8 (drop 32 buf) @ take 8 (drop 40 buf) @ take 32 (drop 48 buf) = buf"
    using list_split4 [of buf 32 8 8 32] w(3) by simp
  then show "s = write_range_request r @ rest"
    using w(1,3) w80 by (simp add: r write_range_request_def u64_from_le_inverse append_assoc [symmetric] del: append_assoc)
next
  assume "read_sliver_request s = Inr (q, rest)"
  then obtain buf msg where fr: "read_frame (\<lambda>len. len = 35) msg s = Inr (buf, rest)"
    and q: "q = \<lparr>srq_blob_id = take 32 buf, srq_index = u16_from_le (take 2 (drop 32 buf)),
      srq_axis = buf ! 34\<rparr>"
    by (auto simp: read_sliver_request_def try_bind_eq_Inr)
  from read_frame_Inr [OF fr] obtain w where
    w: "s = write_u32_le w @ buf @ rest" "unat w = length buf" "length buf = 35"
    by blast
  have w35: "w = 35" using w(2,3) by (simp add: word_unat_eq_iff)
  show "sliver_request_ok q" using w(3) by (simp add: q sliver_request_ok_def)
  have "drop 34 buf = [buf ! 34]" using w(3) Cons_nth_drop_Suc [of 34 buf] by simp
  then have "take 32 buf @ take 2 (drop 32 buf) @ [buf ! 34] = buf"
    using list_split4 [of buf 32 2 1 0] w(3) by simp
  then show "s = write_sliver_request q @ rest"
    using w(1,3) w35 by (simp add: q write_sliver_request_def u16_from_le_inverse append_assoc [symmetric] del: append_assoc)
next
  assume "read_blob_request s = Inr (b, rest)"
  then obtain buf msg where
    fr: "read_frame (\<lambda>len. 65 \<le> len \<and> len \<le> MAX_MESSAGE_SIZE) msg s = Inr (buf, rest)"
    and b: "b = \<lparr>brq_blob_id = take 32 buf, brq_version = buf ! 32, brq_payment = take 32 (drop 33 buf)\<rparr>"
    by (auto simp: read_blob_request_def try_bind_eq_Inr)
  from read_frame_Inr [OF fr] obtain w where
    w: "s = write_u32_le w @ buf @ rest" "unat w = length buf" "65 \<le> length buf"
      "length buf \<le> MAX_MESSAGE_SIZE"
    by blast
  show "blob_request_ok b" using w(3) by (simp add: b blob_request_ok_def)
  have "drop 32 buf = buf ! 32 # drop 33 buf" using w(3) Cons_nth_drop_Suc [of 32 buf] by simp
  then have "take 32 buf @ [buf ! 32] @ take 32 (drop 33 buf) @ drop 65 buf = buf"
    using list_split4 [of buf 32 1 32 "length buf - 65"] w(3) by simp
  moreover have "drop 4 (write_blob_request b) = take 32 buf @ [buf ! 32] @ take 32 (drop 33 buf)"
    by (simp add: write_blob_request_def write_u32_le_def b)
  ultimately show "\<exists>w padding. s = write_u32_le w @ drop 4 (write_blob_request b) @ padding @ rest \<and>
      unat w = 65 + length padding \<and> unat w \<le> MAX_MESSAGE_SIZE"
    using w by (intro exI [of _ w] exI [of _ "drop 65 buf"]) (metis (no_types, lifting) add_diff_inverse_nat
        append.assoc length_drop not_less)
qed

lemma response_header:
  assumes "n < 2 ^ 32" and "k \<le> 5" and "1 \<le> k"
  shows "response_len_ok (unat (word_of_nat k + word_of_nat n :: u32)) \<longleftrightarrow>
    n + k \<le> MAX_MESSAGE_SIZE \<or> (2 ^ 32 < n + k)"
proof -
  have sum: "unat (word_of_nat k + word_of_nat n :: u32) = (k + n) mod 2 ^ 32"
    using unat_of_nat [of "k + n", where 'a = 32] by simp
  show ?thesis
  proof (cases "k + n < 2 ^ 32")
    case True
    then show ?thesis using assms sum by (auto simp: response_len_ok_def add.commute)
  next
    case False
    then have "(k + n) mod 2 ^ 32 = k + n - 2 ^ 32"
      using assms by (simp add: le_mod_geq)
    then show ?thesis
      using False assms sum by (auto simp: response_len_ok_def MAX_MESSAGE_SIZE_def)
  qed
qed

lemma blob_too_large:
  assumes "length d < 2 ^ 32" and "MAX_MESSAGE_SIZE < length d + 5"
  shows "\<exists>e. read_blob_response (write_blob_response (blob_have d) @ rest) = Inl (Invalid_Data e)"
proof -
  let ?w = "5 + word_of_nat (length d) :: u32"
  let ?tail = "[1] @ u32_to_le (word_of_nat (length d)) @ d @ rest"
  have emit: "write_blob_response (blob_have d) @ rest = write_u32_le ?w @ ?tail"
    by (simp add: write_blob_response_def blob_have_def Let_def)
  show ?thesis
  proof (cases "response_len_ok (unat ?w)")
    case False
    then show ?thesis
      unfolding emit read_blob_response_frame by (simp add: read_frame_bad)
  next
    case True
    then have big: "2 ^ 32 < length d + 5"
      using response_header [of "length d" 5] assms by simp
    have sum: "unat ?w = (5 + length d) mod 2 ^ 32"
      using unat_of_nat [of "5 + length d", where 'a = 32] by simp
    then have w: "unat ?w = length d + 5 - 2 ^ 32" using big assms(1) by (simp add: le_mod_geq)
    then have short: "1 \<le> unat ?w" "unat ?w < 5" using big assms(1) by simp_all
    have "unat ?w = length (take (unat ?w) ?tail)" using short by simp
    moreover have "response_len_ok (length (take (unat ?w) ?tail))" using True calculation by simp
    ultimately have "read_frame response_len_ok m (write_u32_le ?w @ take (unat ?w) ?tail @
        drop (unat ?w) ?tail) = Inr (take (unat ?w) ?tail, drop (unat ?w) ?tail)" for m
      by (rule read_frame_ok)
    then have "read_frame response_len_ok m (write_u32_le ?w @ ?tail) =
        Inr (take (unat ?w) ?tail, drop (unat ?w) ?tail)" for m
      unfolding append_take_drop_id .
    moreover have "take (unat ?w) ?tail ! 0 = 1" "length (take (unat ?w) ?tail) < 5"
      using short by simp_all
    then have "blob_response_body (take (unat ?w) ?tail) =
        Inl (Invalid_Data ''have response too short'')"
      unfolding blob_response_body_def by (simp only: if_False if_True zero_neq_one simp_thms) simp
    ultimately show ?thesis
      unfolding emit read_blob_response_frame by (simp only: try_bind_Inr prod.case try_bind_Inl) blast
  qed
qed

lemma status_too_large:
  assumes "length d < 2 ^ 32" and "MAX_MESSAGE_SIZE < length d + 1"
  shows "read_frame response_len_ok m (write_u32_le (1 + word_of_nat (length d)) @ t) =
    Inl (Invalid_Data (m (unat (1 + word_of_nat (length d) :: u32))))"
  using response_header [of "length d" 1] assms by (intro read_frame_bad) simp

text \<open>
  C8: what fits: for every blob of less than 4 GiB a holder answers with, the requester gets
  that blob when the frame, five bytes longer than the blob (one byte for a range or sliver),
  is within 64 MiB, and a protocol error otherwise, even when the length wraps around; the writers do not check.
\<close>

theorem response_delivered_iff_fits:
  assumes "length d < 2 ^ 32"
  shows "(if length d + 5 \<le> MAX_MESSAGE_SIZE
      then read_blob_response (write_blob_response (blob_have d) @ rest) = Inr (blob_have d, rest)
      else \<exists>e. read_blob_response (write_blob_response (blob_have d) @ rest) = Inl (Invalid_Data e)) \<and>
    (if length d + 1 \<le> MAX_MESSAGE_SIZE
      then read_range_response (write_range_response (range_have d) @ rest) = Inr (range_have d, rest) \<and>
        read_sliver_response (write_sliver_response (sliver_have d) @ rest) = Inr (sliver_have d, rest)
      else (\<exists>e. read_range_response (write_range_response (range_have d) @ rest) = Inl (Invalid_Data e)) \<and>
        (\<exists>e. read_sliver_response (write_sliver_response (sliver_have d) @ rest) = Inl (Invalid_Data e)))"
proof (rule conjI)
  show "if length d + 5 \<le> MAX_MESSAGE_SIZE
      then read_blob_response (write_blob_response (blob_have d) @ rest) = Inr (blob_have d, rest)
      else \<exists>e. read_blob_response (write_blob_response (blob_have d) @ rest) = Inl (Invalid_Data e)"
    using blob_resp.parse_emit [of "blob_have d"] blob_too_large [OF assms]
    by (simp add: blob_response_ok_def blob_have_def)
  have ok: "range_response_ok (range_have d) \<longleftrightarrow> length d + 1 \<le> MAX_MESSAGE_SIZE"
      "sliver_response_ok (sliver_have d) \<longleftrightarrow> length d + 1 \<le> MAX_MESSAGE_SIZE"
    by (simp_all add: range_response_ok_def range_have_def sliver_response_ok_def sliver_have_def)
  have "\<exists>e. read_range_response (write_range_response (range_have d) @ rest) = Inl (Invalid_Data e)"
    if "\<not> length d + 1 \<le> MAX_MESSAGE_SIZE"
    using status_too_large [OF assms] that
    by (simp add: read_range_response_frame write_range_response_def range_have_def Let_def)
  moreover have "\<exists>e. read_sliver_response (write_sliver_response (sliver_have d) @ rest) = Inl (Invalid_Data e)"
    if "\<not> length d + 1 \<le> MAX_MESSAGE_SIZE"
    using status_too_large [OF assms] that
    by (simp add: read_sliver_response_frame write_sliver_response_def sliver_have_def Let_def)
  ultimately show "if length d + 1 \<le> MAX_MESSAGE_SIZE
      then read_range_response (write_range_response (range_have d) @ rest) = Inr (range_have d, rest) \<and>
        read_sliver_response (write_sliver_response (sliver_have d) @ rest) = Inr (sliver_have d, rest)
      else (\<exists>e. read_range_response (write_range_response (range_have d) @ rest) = Inl (Invalid_Data e)) \<and>
        (\<exists>e. read_sliver_response (write_sliver_response (sliver_have d) @ rest) = Inl (Invalid_Data e))"
    using range_resp.parse_emit [of "range_have d"] sliver_resp.parse_emit [of "sliver_have d"] ok
    by simp
qed

text \<open>
  C10: a stream of responses is read back in order, and one that is cut, wherever that is, gives
  the complete messages before the cut and then the end-of-file error: never a message that was
  not sent.
\<close>

theorem response_stream_cut:
  assumes "\<And>m. m \<in> set (ms @ [m']) \<Longrightarrow> blob_response_ok m" and "k < length (write_blob_response m')"
  shows "read_all read_blob_response (length ms)
      (concat (map write_blob_response ms) @ take k (write_blob_response m')) =
      Inr (ms, take k (write_blob_response m')) \<and>
    read_all read_blob_response (Suc (length ms))
      (concat (map write_blob_response ms) @ take k (write_blob_response m')) = Inl Unexpected_Eof"
  using assms by (rule blob_resp.read_all_cut)

section \<open>Concrete messages\<close>

definition byte_lib :: "(u8, u8) addr_lib" where
  "byte_lib =
     \<lparr>pid_to_bytes = (\<lambda>p. [p]),
      pid_from_bytes = (\<lambda>bs. case bs of [p] \<Rightarrow> Inr p | _ \<Rightarrow> Inl ''not one byte''),
      ma_to_vec = (\<lambda>a. [4, a]),
      ma_try_from = (\<lambda>bs. case bs of [c, a] \<Rightarrow> if c = 4 then Inr a else Inl ''unknown protocol''
         | _ \<Rightarrow> Inl ''truncated'')\<rparr>"

lemma byte_lib_ok: "addr_lib_ok byte_lib"
  by (simp add: addr_lib_ok_def byte_lib_def)

theorem addr_response_delivery_witness:
  "read_addr_response byte_lib (write_addr_response byte_lib (addr_found [7, 9]) @ [1, 2]) =
    Inr (addr_found [7, 9], [1, 2])"
  using addr_response_delivery [OF byte_lib_ok, of "[7, 9]" "[1, 2]"]
  by (simp add: byte_lib_def addr_payload_def write_addr_def MAX_MESSAGE_SIZE_def Let_def)

definition demo_blob_request :: blob_request where
  "demo_blob_request = \<lparr>brq_blob_id = replicate 32 5, brq_version = 1, brq_payment = replicate 32 0\<rparr>"

definition demo_range_request :: range_request where
  "demo_range_request = \<lparr>rrq_blob_id = replicate 32 5, rrq_offset = 65536, rrq_length = 300,
     rrq_payment = replicate 32 1\<rparr>"

definition demo_sliver_request :: sliver_request where
  "demo_sliver_request = \<lparr>srq_blob_id = replicate 32 5, srq_index = 513, srq_axis = AXIS_SECONDARY\<rparr>"

lemma demo_requests_ok:
  "blob_request_ok demo_blob_request" "range_request_ok demo_range_request"
  "sliver_request_ok demo_sliver_request"
  by (simp_all add: blob_request_ok_def demo_blob_request_def range_request_ok_def
      demo_range_request_def sliver_request_ok_def demo_sliver_request_def)

theorem request_roundtrip_witness:
  "read_range_request (write_range_request demo_range_request @ [9]) = Inr (demo_range_request, [9]) \<and>
   rrq_offset demo_range_request = 65536"
  using request_roundtrip [OF demo_requests_ok byte_lib_ok, of "[9]"]
  by (simp add: demo_range_request_def)

theorem accepted_request_canonical_witness:
  "read_range_request (write_range_request demo_range_request) = Inr (demo_range_request, []) \<and>
   range_request_ok demo_range_request"
  using accepted_request_canonical [of "write_range_request demo_range_request" demo_range_request "[]"]
    range_req.parse_emit [OF demo_requests_ok(2), of "[]"]
  by simp

theorem response_delivered_iff_fits_witness:
  "read_blob_response (write_blob_response (blob_have [1, 2, 3]) @ [8]) = Inr (blob_have [1, 2, 3], [8])"
  using response_delivered_iff_fits [of "[1, 2, 3]" "[8]"] by (simp add: MAX_MESSAGE_SIZE_def)

theorem response_stream_cut_witness:
  "read_all read_blob_response 2
     (write_blob_response (blob_have [1, 2]) @ take 6 (write_blob_response (blob_have [3]))) =
   Inl Unexpected_Eof"
proof -
  have ok: "m \<in> set ([blob_have [1, 2]] @ [blob_have [3]]) \<Longrightarrow> blob_response_ok m" for m
    by (auto simp: blob_response_ok_def blob_have_def MAX_MESSAGE_SIZE_def)
  have "6 < length (write_blob_response (blob_have [3]))"
    by (simp add: blob_have_def write_blob_response_def write_u32_le_def Let_def)
  from response_stream_cut [where ms = "[blob_have [1, 2]]" and m' = "blob_have [3]", OF ok this] show ?thesis
    by (simp add: numeral_2_eq_2 del: read_all.simps)
qed

end
