(* ===== verification/Handler.thy ===== *)
theory Handler
  imports Blob_Store Codec
begin

text \<open>
  \<^verbatim>\<open>zing-cdn-core/src/p2p/handler.rs\<close>: what a node answers to the blob, range and sliver
  requests of its peers. The static request counter is passed in and returned; \<open>show_id\<close> is
  walrus-core's \<^verbatim>\<open>BlobId::to_string\<close>. The slice of the range handler panics when its bounds
  are out of order, so that handler returns a \<open>run\<close>.
\<close>

definition is_spot_check :: "u64 \<Rightarrow> bool \<times> u64" where
  "is_spot_check counter = (counter mod 10 = 0, counter + 1)"

definition no_payment :: bytes where "no_payment = replicate 32 0"

definition handle_inbound_request ::
    "(bytes \<Rightarrow> string) \<Rightarrow> 'd blob_store \<Rightarrow> u64 \<Rightarrow> blob_request \<Rightarrow> blob_response \<times> u64" where
  "handle_inbound_request show_id st counter request =
     (let blob_id_str = show_id (brq_blob_id request);
          (refuse, counter) =
            (if brq_payment request = no_payment then is_spot_check counter else (False, counter))
      in if refuse then (blob_not_found, counter)
         else case bs_get st blob_id_str of
             Inr (Some data) \<Rightarrow> (blob_have data, counter)
           | Inr None \<Rightarrow> (blob_not_found, counter)
           | Inl e \<Rightarrow> (blob_not_found, counter))"

fun map_run :: "('a \<Rightarrow> 'b) \<Rightarrow> 'a run \<Rightarrow> 'b run" where
  "map_run f Panic = Panic"
| "map_run f (Ret a) = Ret (f a)"

definition handle_inbound_range_request ::
    "(bytes \<Rightarrow> string) \<Rightarrow> 'd blob_store \<Rightarrow> u64 \<Rightarrow> range_request \<Rightarrow> range_response run \<times> u64" where
  "handle_inbound_range_request show_id st counter request =
     (let blob_id_str = show_id (rrq_blob_id request);
          (refuse, counter) =
            (if rrq_payment request = no_payment then is_spot_check counter else (False, counter))
      in if refuse then (Ret range_not_found, counter)
         else case bs_get st blob_id_str of
             Inr None \<Rightarrow> (Ret range_not_found, counter)
           | Inl e \<Rightarrow> (Ret range_not_found, counter)
           | Inr (Some data) \<Rightarrow>
               let start = rrq_offset request;
                   end_pos = min (unat (start + rrq_length request)) (length data)
               in if unat start \<ge> length data then (Ret range_not_found, counter)
                  else (map_run range_have (slice (unat start) end_pos data), counter))"

definition handle_inbound_sliver_request ::
    "(bytes \<Rightarrow> string) \<Rightarrow> 'd blob_store \<Rightarrow> sliver_request \<Rightarrow> sliver_response" where
  "handle_inbound_sliver_request show_id st request =
     (let blob_id_str = show_id (srq_blob_id request);
          cached = (case bs_get st blob_id_str of Inr o' \<Rightarrow> o' \<noteq> None | Inl _ \<Rightarrow> False)
      in sliver_not_found)"

section \<open>Refusals\<close>

text \<open>The requests a node answers one after the other.\<close>

fun serve_all :: "(bytes \<Rightarrow> string) \<Rightarrow> 'd blob_store \<Rightarrow> u64 \<Rightarrow> blob_request list \<Rightarrow> blob_response list" where
  "serve_all show_id st counter [] = []"
| "serve_all show_id st counter (r # rs) =
     (case handle_inbound_request show_id st counter r of
        (resp, counter') \<Rightarrow> resp # serve_all show_id st counter' rs)"

definition unpaid :: "blob_request \<Rightarrow> bool" where
  "unpaid r \<longleftrightarrow> brq_payment r = no_payment"

lemma handle_counter:
  "snd (handle_inbound_request show_id st c r) = (if unpaid r then c + 1 else c)"
  by (simp add: handle_inbound_request_def is_spot_check_def unpaid_def Let_def
      split: sum.split option.split)

lemma handle_cached:
  assumes "bs_get st (show_id (brq_blob_id r)) = Inr (Some d)"
  shows "fst (handle_inbound_request show_id st c r) =
    (if unpaid r \<and> c mod 10 = 0 then blob_not_found else blob_have d)"
  using assms by (simp add: handle_inbound_request_def is_spot_check_def unpaid_def Let_def)

lemma serve_all_nth:
  "i < length rs \<Longrightarrow> serve_all show_id st c rs ! i =
    fst (handle_inbound_request show_id st (c + word_of_nat (length (filter unpaid (take i rs)))) (rs ! i))"
proof (induction rs arbitrary: c i)
  case Nil
  then show ?case by simp
next
  case (Cons r rs)
  then show ?case
    using handle_counter [of show_id st c r]
    by (cases i) (auto simp: split_beta algebra_simps)
qed

lemma unat_mod10: "(c :: u64) mod 10 = 0 \<longleftrightarrow> 10 dvd unat c"
  by (simp add: word_unat_eq_iff unat_mod dvd_eq_mod_eq_0)

text \<open>
  C6: the refusal schedule: of the unpaid requests, exactly those whose number (counting from
  the node's counter) is a multiple of ten are refused although the blob is cached; every other
  unpaid request and every request with any payment digest but the zero one, whether or not
  such a payment exists, gets the blob, and paid requests do not move the counter.
\<close>

theorem spot_check_schedule:
  assumes "unat c + length rs \<le> 2 ^ 64" and "i < length rs"
    and "bs_get st (show_id (brq_blob_id (rs ! i))) = Inr (Some d)"
  shows "serve_all show_id st c rs ! i =
    (if unpaid (rs ! i) \<and> 10 dvd (unat c + length (filter unpaid (take i rs)))
     then blob_not_found else blob_have d)"
proof -
  let ?n = "length (filter unpaid (take i rs))"
  have "?n \<le> length (take i rs)" by (rule length_filter_le)
  then have "?n \<le> i" by simp
  then have "unat c + ?n < 2 ^ 64" using assms(1,2) by simp
  then have "unat (c + word_of_nat ?n) = unat c + ?n"
    using unat_bound [of c] by (simp add: unat_word_ariths unat_of_nat mod_add_right_eq)
  then show ?thesis
    unfolding serve_all_nth [OF assms(2)] handle_cached [where show_id = show_id and r = "rs ! i", OF assms(3)] unat_mod10 by simp
qed

section \<open>Ranges\<close>

definition range_refused :: "u64 \<Rightarrow> range_request \<Rightarrow> bool" where
  "range_refused c r \<longleftrightarrow> rrq_payment r = no_payment \<and> 10 dvd unat c"

lemma range_cached:
  assumes "bs_get st (show_id (rrq_blob_id r)) = Inr (Some d)"
  shows "fst (handle_inbound_range_request show_id st c r) =
    (if range_refused c r \<or> length d \<le> unat (rrq_offset r) then Ret range_not_found
     else map_run range_have (slice (unat (rrq_offset r))
       (min (unat (rrq_offset r + rrq_length r)) (length d)) d))"
  using assms
  by (auto simp: handle_inbound_range_request_def is_spot_check_def range_refused_def Let_def
      unat_mod10)

lemma range_uncached:
  assumes "\<And>d. bs_get st (show_id (rrq_blob_id r)) \<noteq> Inr (Some d)"
  shows "fst (handle_inbound_range_request show_id st c r) = Ret range_not_found"
  using assms
  by (auto simp: handle_inbound_range_request_def Let_def split: prod.split sum.split option.split)

lemma slice_clipped:
  "a < length d \<Longrightarrow> slice a (min (a + n) (length d)) d = Ret (take n (drop a d))"
  by (auto simp: slice_def min_def)

lemma range_in_bounds:
  assumes "bs_get st (show_id (rrq_blob_id r)) = Inr (Some d)" and "\<not> range_refused c r"
    and "unat (rrq_offset r) + unat (rrq_length r) < 2 ^ 64"
  shows "fst (handle_inbound_range_request show_id st c r) =
    Ret (if unat (rrq_offset r) < length d
         then range_have (take (unat (rrq_length r)) (drop (unat (rrq_offset r)) d))
         else range_not_found)"
proof -
  have "unat (rrq_offset r + rrq_length r) = unat (rrq_offset r) + unat (rrq_length r)"
    using assms(3) by (simp add: unat_word_ariths)
  then show ?thesis
    unfolding range_cached [where show_id = show_id and r = r, OF assms(1)] using assms(2) by (simp add: slice_clipped)
qed

text \<open>
  C5: a range request that is not refused and whose end does not overflow is answered with
  exactly the bytes of the cached blob from the offset, up to the length asked for or the end
  of the blob, and with not-found when the offset is at or past the end.
\<close>

theorem range_answer_is_subrange:
  assumes "bs_get st (show_id (rrq_blob_id r)) = Inr (Some d)" and "\<not> range_refused c r"
    and "unat (rrq_offset r) + unat (rrq_length r) < 2 ^ 64"
  shows "fst (handle_inbound_range_request show_id st c r) =
    Ret (if unat (rrq_offset r) < length d
         then range_have (take (unat (rrq_length r)) (drop (unat (rrq_offset r)) d))
         else range_not_found)"
  using assms by (rule range_in_bounds)

text \<open>
  C1: the range handler panics exactly when the request is not refused, the blob is cached, the
  offset is inside it and offset plus length overflows 64 bits: one message of a remote peer is
  enough.
\<close>

theorem range_handler_panics_iff:
  "fst (handle_inbound_range_request show_id st c r) = Panic \<longleftrightarrow>
    \<not> range_refused c r \<and> 2 ^ 64 \<le> unat (rrq_offset r) + unat (rrq_length r) \<and>
    (\<exists>d. bs_get st (show_id (rrq_blob_id r)) = Inr (Some d) \<and> unat (rrq_offset r) < length d)"
proof (cases "\<exists>d. bs_get st (show_id (rrq_blob_id r)) = Inr (Some d)")
  case False
  then show ?thesis using range_uncached [of st show_id r c] by auto
next
  case True
  then obtain d where d: "bs_get st (show_id (rrq_blob_id r)) = Inr (Some d)" ..
  show ?thesis
  proof (cases "unat (rrq_offset r) + unat (rrq_length r) < 2 ^ 64")
    case True
    have "fst (handle_inbound_range_request show_id st c r) \<noteq> Panic"
    proof (cases "range_refused c r")
      case True
      then show ?thesis using range_cached [where show_id = show_id and r = r, OF d] by simp
    next
      case False
      then show ?thesis using range_in_bounds [where show_id = show_id and r = r, OF d False True] by simp
    qed
    with True show ?thesis by simp
  next
    case False
    then have "unat (rrq_offset r + rrq_length r) = unat (rrq_offset r) + unat (rrq_length r) - 2 ^ 64"
      using unat_bound [of "rrq_offset r"] unat_bound [of "rrq_length r"]
      by (simp add: unat_word_ariths le_mod_geq)
    then have "unat (rrq_offset r + rrq_length r) < unat (rrq_offset r)"
      using False unat_bound [of "rrq_length r"] by simp
    then show ?thesis
      using False d by (auto simp: range_cached [where show_id = show_id and r = r, OF d] slice_def)
  qed
qed

section \<open>A blob over the wire\<close>

text \<open>
  C4: from cache to peer: a blob that was put in the cache reaches a paying peer byte for byte
  through the four steps of the protocol: the request is written and read, answered from the
  store, and the answer written and read, when the frame fits and no store operation fails.
\<close>

theorem cached_blob_reaches_peer:
  assumes "store_ok st" and "bs_put st (show_id (brq_blob_id r)) d = Inr st'"
    and "bs_get st' (show_id (brq_blob_id r)) = Inr v"
    and "blob_request_ok r" and "\<not> unpaid r" and "length d + 5 \<le> MAX_MESSAGE_SIZE"
  shows "\<exists>r' reply. read_blob_request (write_blob_request r) = Inr (r', []) \<and>
    handle_inbound_request show_id st' c r' = (reply, c) \<and>
    read_blob_response (write_blob_response reply) = Inr (blob_have d, [])"
proof -
  have v: "bs_get st' (show_id (brq_blob_id r)) = Inr (Some d)"
    using blobs.put_then_get [OF assms(1,2,3)] assms(3) by simp
  have "fst (handle_inbound_request show_id st' c r) = blob_have d"
    using handle_cached [where show_id = show_id and r = r, OF v] assms(5) by simp
  moreover have "snd (handle_inbound_request show_id st' c r) = c"
    using handle_counter [of show_id st' c r] assms(5) by simp
  ultimately have "handle_inbound_request show_id st' c r = (blob_have d, c)"
    by (metis prod.collapse)
  moreover have "blob_response_ok (blob_have d)"
    using assms(6) by (simp add: blob_response_ok_def blob_have_def)
  ultimately show ?thesis
    using blob_req.parse_emit [OF assms(4), of "[]"] blob_resp.parse_emit [of "blob_have d" "[]"]
    by auto
qed

section \<open>Concrete requests\<close>

definition serve_demo :: "mem_db blob_store" where
  "serve_demo = mem_store\<lparr>bs_db := (\<lambda>_. [])(BLOBS_CF := [(as_bytes ''k'', [1, 2, 3, 4])])\<rparr>"

lemma serve_demo_get: "bs_get serve_demo ''k'' = Inr (Some [1, 2, 3, 4])"
  by (simp add: serve_demo_def bs_get_def cf_access_defs mem_store_def mem_rocks_def)

definition ask :: "u64 \<Rightarrow> u64 \<Rightarrow> u8 \<Rightarrow> range_request" where
  "ask off len pay =
     \<lparr>rrq_blob_id = replicate 32 5, rrq_offset = off, rrq_length = len,
      rrq_payment = replicate 32 pay\<rparr>"

theorem spot_check_schedule_witness:
  "serve_all (\<lambda>_. ''k'') serve_demo 10 [demo_blob_request, demo_blob_request] ! 0 = blob_not_found"
  using spot_check_schedule [of 10 "[demo_blob_request, demo_blob_request]" 0 serve_demo
      "\<lambda>_. ''k''" "[1, 2, 3, 4]"]
  by (simp add: serve_demo_get unpaid_def no_payment_def demo_blob_request_def del: serve_all.simps)

theorem range_answer_is_subrange_witness:
  "fst (handle_inbound_range_request (\<lambda>_. ''k'') serve_demo 3 (ask 1 2 0)) = Ret (range_have [2, 3])"
  using range_answer_is_subrange [of serve_demo "\<lambda>_. ''k''" "ask 1 2 0" "[1, 2, 3, 4]" 3]
  by (simp add: serve_demo_get ask_def range_refused_def)

theorem range_handler_panics_iff_witness:
  "fst (handle_inbound_range_request (\<lambda>_. ''k'') serve_demo 3 (ask 1 0xFFFFFFFFFFFFFFFF 9)) = Panic"
  using range_handler_panics_iff [of "\<lambda>_. ''k''" serve_demo 3 "ask 1 0xFFFFFFFFFFFFFFFF 9"]
  by (simp add: serve_demo_get ask_def range_refused_def)

theorem cached_blob_reaches_peer_witness:
  "\<exists>r' reply. read_blob_request (write_blob_request (demo_blob_request\<lparr>brq_payment := replicate 32 7\<rparr>)) =
      Inr (r', []) \<and>
    handle_inbound_request (\<lambda>_. ''k'')
      (mem_store\<lparr>bs_db := (\<lambda>_. [])(BLOBS_CF := [(as_bytes ''k'', [1, 2])])\<rparr>) 4 r' = (reply, 4) \<and>
    read_blob_response (write_blob_response reply) = Inr (blob_have [1, 2], [])"
proof -
  let ?st = "mem_store\<lparr>bs_db := (\<lambda>_. [])(BLOBS_CF := [(as_bytes ''k'', [1, 2])])\<rparr>"
  let ?r = "demo_blob_request\<lparr>brq_payment := replicate 32 7\<rparr>"
  have put: "bs_put mem_store ((\<lambda>_. ''k'') (brq_blob_id ?r)) [1, 2] = Inr ?st"
    by (simp add: bs_put_def cf_access_defs mem_store_def mem_rocks_def)
  have got: "bs_get ?st ((\<lambda>_. ''k'') (brq_blob_id ?r)) = Inr (Some [1, 2])"
    by (simp add: bs_get_def cf_access_defs mem_store_def mem_rocks_def)
  have ok: "blob_request_ok ?r"
    by (simp add: blob_request_ok_def demo_blob_request_def)
  have "brq_payment ?r ! 0 \<noteq> no_payment ! 0" by (simp add: no_payment_def)
  then have paid: "\<not> unpaid ?r" unfolding unpaid_def by metis
  show ?thesis
    by (rule cached_blob_reaches_peer [OF mem_store_ok(2) put got ok paid])
      (simp add: MAX_MESSAGE_SIZE_def)
qed

end
