(* ===== verification/Swarm.thy ===== *)
theory Swarm
  imports Handler "HOL-Library.Multiset"
begin

text \<open>
  \<^verbatim>\<open>zing-cdn-core/src/p2p/node.rs\<close>, the data of the p2p node's event loop: its commands, the
  swarm events it handles, and its state. libp2p's swarm is the record \<open>p2p_env\<close> of the calls the loop makes, over the swarm's own state \<open>'w\<close>; peers are
  \<open>'p\<close> and addresses \<open>'a\<close>. Query and request ids, response channels and the one-shot reply
  senders the commands carry are numbers. The loop's local variables are the fields of \<open>node\<close>,
  which also keeps two traces that the code does not read: the replies sent, with their senders,
  and the calls made to the swarm. Log output is left out.
\<close>

section \<open>Commands, events and state\<close>

datatype ('p, 'a) p2p_command =
    AnnounceBlob bytes
  | FindProviders bytes nat
  | FetchBlob 'p bytes bytes nat
  | FetchRange 'p bytes u64 u64 bytes nat
  | FetchSliver 'p bytes u16 u8 nat
  | DialKadPeer 'p "'a list option" nat
  | AddBootstrapPeer 'p 'a
  | Bootstrap
  | GetConnectedPeers nat
  | Dial 'p 'a
  | Disconnect 'p
  | QueryPeerAddress 'p nat
  | GetPeerSuiAddress 'p nat
  | GetPeerVault 'p nat

datatype ('p, 'a) reply =
    RPeers "'p list"
  | RData "bytes zresult"
  | RBool bool
  | RAddrs "'a list"
  | RId "bytes option"

datatype 'p kad_result =
    FoundProviders "'p list"
  | ProvidersFinished
  | ProvidersErr string
  | StartProvidingOk bytes
  | StartProvidingErr string
  | BootstrapOk
  | BootstrapErr string
  | GetRecordFound bytes
  | GetRecordFinished
  | GetRecordErr string
  | PutRecordOk
  | PutRecordErr string
  | KadResultOther

datatype ('p, 'a) kad_event =
    RoutingUpdated 'p "'a list"
  | QueryProgressed nat "'p kad_result"
  | KadInboundRequest
  | KadOther

datatype ('p, 'req, 'resp) rr_event =
    RRRequest 'req nat
  | RRResponse nat 'resp
  | RROutboundFailure nat 'p string
  | RRInboundFailure string
  | RROther

datatype ('p, 'a) behaviour_event =
    KadEv "('p, 'a) kad_event"
  | DataEv "('p, blob_request, blob_response) rr_event"
  | RangeEv "('p, range_request, range_response) rr_event"
  | SliverEv "('p, sliver_request, sliver_response) rr_event"
  | AddrEv "('p, 'p addr_request, 'a addr_response) rr_event"
  | IdentifyReceived 'p "'a list"
  | IdentifyOther
  | PingEv

datatype 'a connected_point = Dialer 'a | Listener 'a

datatype ('p, 'a) swarm_event =
    Behaviour "('p, 'a) behaviour_event"
  | NewListenAddr 'a
  | ConnectionEstablished 'p "'a connected_point"
  | ConnectionClosed 'p
  | Dialing "'p option"
  | OutgoingConnectionError "'p option" string
  | IncomingConnection
  | SwarmOther

datatype id_space = KadIds | DataIds | RangeIds | SliverIds | AddrIds

text \<open>The calls the loop makes. \<open>sw_issued\<close> is a ghost: the ids handed out so far.\<close>

record ('w, 'p, 'a) p2p_env =
  sw_listen_on :: "'w \<Rightarrow> 'a \<Rightarrow> 'w \<times> (string + unit)"
  sw_set_server :: "'w \<Rightarrow> 'w"
  sw_add_external :: "'w \<Rightarrow> 'a \<Rightarrow> 'w"
  sw_start_providing :: "'w \<Rightarrow> bytes \<Rightarrow> 'w \<times> (string + unit)"
  sw_get_providers :: "'w \<Rightarrow> bytes \<Rightarrow> 'w \<times> nat"
  sw_get_record :: "'w \<Rightarrow> bytes \<Rightarrow> 'w \<times> nat"
  sw_put_record :: "'w \<Rightarrow> bytes \<Rightarrow> bytes \<Rightarrow> 'w \<times> (string + unit)"
  sw_add_address :: "'w \<Rightarrow> 'p \<Rightarrow> 'a \<Rightarrow> 'w"
  sw_bootstrap :: "'w \<Rightarrow> 'w \<times> (string + unit)"
  sw_dial :: "'w \<Rightarrow> 'a \<Rightarrow> 'w \<times> (string + unit)"
  sw_disconnect :: "'w \<Rightarrow> 'p \<Rightarrow> 'w \<times> (unit + unit)"
  sw_connected :: "'w \<Rightarrow> 'p list"
  sw_send_data :: "'w \<Rightarrow> 'p \<Rightarrow> blob_request \<Rightarrow> 'w \<times> nat"
  sw_send_range :: "'w \<Rightarrow> 'p \<Rightarrow> range_request \<Rightarrow> 'w \<times> nat"
  sw_send_sliver :: "'w \<Rightarrow> 'p \<Rightarrow> sliver_request \<Rightarrow> 'w \<times> nat"
  sw_send_addr :: "'w \<Rightarrow> 'p \<Rightarrow> 'p addr_request \<Rightarrow> 'w \<times> nat"
  sw_respond_data :: "'w \<Rightarrow> nat \<Rightarrow> blob_response \<Rightarrow> 'w \<times> (unit + unit)"
  sw_respond_range :: "'w \<Rightarrow> nat \<Rightarrow> range_response \<Rightarrow> 'w \<times> (unit + unit)"
  sw_respond_sliver :: "'w \<Rightarrow> nat \<Rightarrow> sliver_response \<Rightarrow> 'w \<times> (unit + unit)"
  sw_respond_addr :: "'w \<Rightarrow> nat \<Rightarrow> 'a addr_response \<Rightarrow> 'w \<times> (unit + unit)"
  sw_local_peer_id :: "'w \<Rightarrow> 'p"
  sw_issued :: "'w \<Rightarrow> id_space \<Rightarrow> nat set"
  ma_push_p2p :: "'a \<Rightarrow> 'p \<Rightarrow> 'a"
  ma_has_p2p :: "'a \<Rightarrow> bool"
  pid_bytes :: "'p \<Rightarrow> bytes"
  blob_id_show :: "bytes \<Rightarrow> string"
  blob_id_parse :: "string \<Rightarrow> bytes option"
  sui_addr_to_publish :: "bytes option"
  vault_id_to_publish :: "bytes option"

text \<open>The trace of calls.\<close>

datatype ('p, 'a) call =
    CStartProviding bytes
  | CGetProviders bytes
  | CGetRecord bytes
  | CPutRecord bytes bytes
  | CAddAddress 'p 'a
  | CBootstrap
  | CDial 'a
  | CDisconnect 'p
  | CSendData 'p blob_request
  | CSendRange 'p range_request
  | CSendSliver 'p sliver_request
  | CSendAddr 'p "'p addr_request"
  | CRespondData nat blob_response
  | CRespondRange nat range_response
  | CRespondSliver nat sliver_response
  | CRespondAddr nat "'a addr_response"

record ('w, 'p, 'a, 'd) node =
  nd_swarm :: 'w
  nd_store :: "'d blob_store"
  nd_counter :: u64
  pending_finds :: "nat \<rightharpoonup> nat"
  pending_fetches :: "nat \<rightharpoonup> nat"
  pending_range_fetches :: "nat \<rightharpoonup> nat"
  pending_sliver_fetches :: "nat \<rightharpoonup> nat"
  pending_addr_queries :: "nat \<rightharpoonup> nat"
  peer_addresses :: "'p \<rightharpoonup> 'a list"
  bootstrap_peers :: "'p set"
  bootstrap_done :: bool
  sui_addr_published :: bool
  vault_published :: bool
  pending_announces :: "bytes list"
  announce_retried :: "bytes set"
  pending_sui_addr_queries :: "nat \<rightharpoonup> nat"
  pending_vault_queries :: "nat \<rightharpoonup> nat"
  nd_replies :: "(nat \<times> ('p, 'a) reply) list"
  nd_calls :: "('p, 'a) call list"

end
