(* ===== verification/Node.thy ===== *)
theory Node
  imports Swarm
begin

text \<open>
  \<^verbatim>\<open>zing-cdn-core/src/p2p/node.rs\<close>: the operations of the event loop, one function per
  function of the code, over the state and the swarm of the theory Swarm. Code that may panic
  (an inbound range request) returns a \<open>run\<close>.
\<close>

section \<open>Calls and replies\<close>

text \<open>A call changes the swarm and is traced; its result, when it has one, is returned.\<close>

definition did :: "('p, 'a) call \<Rightarrow> 'w \<Rightarrow> ('w, 'p, 'a, 'd) node \<Rightarrow> ('w, 'p, 'a, 'd) node" where
  "did c w n = n\<lparr>nd_swarm := w, nd_calls := nd_calls n @ [c]\<rparr>"

definition nd_send :: "nat \<Rightarrow> ('p, 'a) reply \<Rightarrow> ('w, 'p, 'a, 'd) node \<Rightarrow> ('w, 'p, 'a, 'd) node" where
  "nd_send h r n = n\<lparr>nd_replies := nd_replies n @ [(h, r)]\<rparr>"

definition start_providing :: "('w, 'p, 'a) p2p_env \<Rightarrow> bytes \<Rightarrow> ('w, 'p, 'a, 'd) node \<Rightarrow> ('w, 'p, 'a, 'd) node" where
  "start_providing E key n = did (CStartProviding key) (fst (sw_start_providing E (nd_swarm n) key)) n"

definition add_address :: "('w, 'p, 'a) p2p_env \<Rightarrow> 'p \<Rightarrow> 'a \<Rightarrow> ('w, 'p, 'a, 'd) node \<Rightarrow> ('w, 'p, 'a, 'd) node" where
  "add_address E p addr n = did (CAddAddress p addr) (sw_add_address E (nd_swarm n) p addr) n"

definition put_record :: "('w, 'p, 'a) p2p_env \<Rightarrow> bytes \<Rightarrow> bytes \<Rightarrow> ('w, 'p, 'a, 'd) node \<Rightarrow> ('w, 'p, 'a, 'd) node" where
  "put_record E key val n = did (CPutRecord key val) (fst (sw_put_record E (nd_swarm n) key val)) n"

definition dial :: "('w, 'p, 'a) p2p_env \<Rightarrow> 'a \<Rightarrow> ('w, 'p, 'a, 'd) node \<Rightarrow> ('w, 'p, 'a, 'd) node \<times> bool" where
  "dial E addr n =
     (case sw_dial E (nd_swarm n) addr of (w, r) \<Rightarrow> (did (CDial addr) w n, is_ok r))"

definition sui_record_key :: "('w, 'p, 'a) p2p_env \<Rightarrow> 'p \<Rightarrow> bytes" where
  "sui_record_key E p = as_bytes ''zing-sui-addr'' @ [0] @ pid_bytes E p"

definition vault_record_key :: "('w, 'p, 'a) p2p_env \<Rightarrow> 'p \<Rightarrow> bytes" where
  "vault_record_key E p = as_bytes ''zing-vault'' @ [0] @ pid_bytes E p"

definition publish_sui_addr_record ::
    "('w, 'p, 'a) p2p_env \<Rightarrow> bytes \<Rightarrow> ('w, 'p, 'a, 'd) node \<Rightarrow> ('w, 'p, 'a, 'd) node" where
  "publish_sui_addr_record E sui_address n =
     (let peer_id = sw_local_peer_id E (nd_swarm n)
      in put_record E (sui_record_key E peer_id) sui_address n)"

definition publish_vault_record ::
    "('w, 'p, 'a) p2p_env \<Rightarrow> bytes \<Rightarrow> ('w, 'p, 'a, 'd) node \<Rightarrow> ('w, 'p, 'a, 'd) node" where
  "publish_vault_record E vault_id n =
     (let peer_id = sw_local_peer_id E (nd_swarm n)
      in put_record E (vault_record_key E peer_id) vault_id n)"

fun get_record_value :: "'p kad_result \<Rightarrow> bytes option" where
  "get_record_value (GetRecordFound val) = (if length val = 32 then Some val else None)"
| "get_record_value _ = None"

section \<open>Commands\<close>

text \<open>The loop over the addresses to dial; whether one dial was accepted.\<close>

fun dial_all :: "('w, 'p, 'a) p2p_env \<Rightarrow> 'p \<Rightarrow> 'a list \<Rightarrow> bool \<Rightarrow> ('w, 'p, 'a, 'd) node \<Rightarrow>
    ('w, 'p, 'a, 'd) node \<times> bool" where
  "dial_all E peer_id [] connected n = (n, connected)"
| "dial_all E peer_id (addr # addrs) connected n =
     (let dial_addr = (if ma_has_p2p E addr then addr else ma_push_p2p E addr peer_id);
          (n, ok) = dial E dial_addr n
      in dial_all E peer_id addrs (connected \<or> ok) n)"

fun handle_command :: "('w, 'p, 'a) p2p_env \<Rightarrow> ('p, 'a) p2p_command \<Rightarrow> ('w, 'p, 'a, 'd) node \<Rightarrow>
    ('w, 'p, 'a, 'd) node" where
  "handle_command E (AnnounceBlob blob_id) n =
     (let n = start_providing E blob_id n;
          connected_count = length (sw_connected E (nd_swarm n))
      in if connected_count = 0 then n\<lparr>pending_announces := pending_announces n @ [blob_id]\<rparr> else n)"
| "handle_command E (FindProviders blob_id reply) n =
     (let (w, query_id) = sw_get_providers E (nd_swarm n) blob_id;
          n = did (CGetProviders blob_id) w n
      in n\<lparr>pending_finds := (pending_finds n)(query_id \<mapsto> reply)\<rparr>)"
| "handle_command E (FetchBlob peer_id blob_id payment_tx_digest reply) n =
     (let request = \<lparr>brq_blob_id = blob_id, brq_version = 0, brq_payment = payment_tx_digest\<rparr>;
          (w, request_id) = sw_send_data E (nd_swarm n) peer_id request;
          n = did (CSendData peer_id request) w n
      in n\<lparr>pending_fetches := (pending_fetches n)(request_id \<mapsto> reply)\<rparr>)"
| "handle_command E (FetchRange peer_id blob_id offset len payment_tx_digest reply) n =
     (let request = \<lparr>rrq_blob_id = blob_id, rrq_offset = offset, rrq_length = len,
            rrq_payment = payment_tx_digest\<rparr>;
          (w, request_id) = sw_send_range E (nd_swarm n) peer_id request;
          n = did (CSendRange peer_id request) w n
      in n\<lparr>pending_range_fetches := (pending_range_fetches n)(request_id \<mapsto> reply)\<rparr>)"
| "handle_command E (FetchSliver peer_id blob_id sliver_pair_index axis reply) n =
     (let request = \<lparr>srq_blob_id = blob_id, srq_index = sliver_pair_index, srq_axis = axis\<rparr>;
          (w, request_id) = sw_send_sliver E (nd_swarm n) peer_id request;
          n = did (CSendSliver peer_id request) w n
      in n\<lparr>pending_sliver_fetches := (pending_sliver_fetches n)(request_id \<mapsto> reply)\<rparr>)"
| "handle_command E (DialKadPeer peer_id addrs reply) n =
     (let known = (case peer_addresses n peer_id of Some as \<Rightarrow> as | None \<Rightarrow> []);
          addresses = (case addrs of
              Some explicit \<Rightarrow> if explicit \<noteq> [] then explicit else known
            | None \<Rightarrow> known);
          (n, success) = (if addresses \<noteq> [] then dial_all E peer_id addresses False n else (n, False))
      in nd_send reply (RBool success) n)"
| "handle_command E (QueryPeerAddress target reply) n =
     (case sw_connected E (nd_swarm n) of
        peer_id # _ \<Rightarrow>
          (let request = \<lparr>arq_peer_id = target\<rparr>;
               (w, request_id) = sw_send_addr E (nd_swarm n) peer_id request;
               n = did (CSendAddr peer_id request) w n
           in n\<lparr>pending_addr_queries := (pending_addr_queries n)(request_id \<mapsto> reply)\<rparr>)
      | [] \<Rightarrow> nd_send reply (RAddrs []) n)"
| "handle_command E (AddBootstrapPeer peer_id addr) n = add_address E peer_id addr n"
| "handle_command E Bootstrap n = did CBootstrap (fst (sw_bootstrap E (nd_swarm n))) n"
| "handle_command E (GetConnectedPeers reply) n =
     nd_send reply (RPeers (sw_connected E (nd_swarm n))) n"
| "handle_command E (Dial peer_id addr) n = fst (dial E (ma_push_p2p E addr peer_id) n)"
| "handle_command E (Disconnect peer_id) n =
     did (CDisconnect peer_id) (fst (sw_disconnect E (nd_swarm n) peer_id)) n"
| "handle_command E (GetPeerSuiAddress peer_id reply) n =
     (let key = sui_record_key E peer_id;
          (w, query_id) = sw_get_record E (nd_swarm n) key;
          n = did (CGetRecord key) w n
      in n\<lparr>pending_sui_addr_queries := (pending_sui_addr_queries n)(query_id \<mapsto> reply)\<rparr>)"
| "handle_command E (GetPeerVault peer_id reply) n =
     (let key = vault_record_key E peer_id;
          (w, query_id) = sw_get_record E (nd_swarm n) key;
          n = did (CGetRecord key) w n
      in n\<lparr>pending_vault_queries := (pending_vault_queries n)(query_id \<mapsto> reply)\<rparr>)"

section \<open>Completing requests\<close>

text \<open>
  \<^verbatim>\<open>if let Some(sender) = pending.remove(&id) { let _ = sender.send(..); }\<close>, one per map.
\<close>

definition resolve_find :: "nat \<Rightarrow> 'p list \<Rightarrow> ('w, 'p, 'a, 'd) node \<Rightarrow> ('w, 'p, 'a, 'd) node" where
  "resolve_find i r n = (case pending_finds n i of
     Some h \<Rightarrow> nd_send h (RPeers r) (n\<lparr>pending_finds := (pending_finds n)(i := None)\<rparr>) | None \<Rightarrow> n)"

definition resolve_fetch :: "nat \<Rightarrow> bytes zresult \<Rightarrow> ('w, 'p, 'a, 'd) node \<Rightarrow> ('w, 'p, 'a, 'd) node" where
  "resolve_fetch i r n = (case pending_fetches n i of
     Some h \<Rightarrow> nd_send h (RData r) (n\<lparr>pending_fetches := (pending_fetches n)(i := None)\<rparr>) | None \<Rightarrow> n)"

definition resolve_range :: "nat \<Rightarrow> bytes zresult \<Rightarrow> ('w, 'p, 'a, 'd) node \<Rightarrow> ('w, 'p, 'a, 'd) node" where
  "resolve_range i r n = (case pending_range_fetches n i of
     Some h \<Rightarrow> nd_send h (RData r) (n\<lparr>pending_range_fetches := (pending_range_fetches n)(i := None)\<rparr>)
   | None \<Rightarrow> n)"

definition resolve_sliver :: "nat \<Rightarrow> bytes zresult \<Rightarrow> ('w, 'p, 'a, 'd) node \<Rightarrow> ('w, 'p, 'a, 'd) node" where
  "resolve_sliver i r n = (case pending_sliver_fetches n i of
     Some h \<Rightarrow> nd_send h (RData r) (n\<lparr>pending_sliver_fetches := (pending_sliver_fetches n)(i := None)\<rparr>)
   | None \<Rightarrow> n)"

definition resolve_addr :: "nat \<Rightarrow> 'a list \<Rightarrow> ('w, 'p, 'a, 'd) node \<Rightarrow> ('w, 'p, 'a, 'd) node" where
  "resolve_addr i r n = (case pending_addr_queries n i of
     Some h \<Rightarrow> nd_send h (RAddrs r) (n\<lparr>pending_addr_queries := (pending_addr_queries n)(i := None)\<rparr>)
   | None \<Rightarrow> n)"

definition resolve_sui :: "nat \<Rightarrow> bytes option \<Rightarrow> ('w, 'p, 'a, 'd) node \<Rightarrow> ('w, 'p, 'a, 'd) node" where
  "resolve_sui i r n = (case pending_sui_addr_queries n i of
     Some h \<Rightarrow> nd_send h (RId r)
       (n\<lparr>pending_sui_addr_queries := (pending_sui_addr_queries n)(i := None)\<rparr>)
   | None \<Rightarrow> n)"

definition resolve_vault :: "nat \<Rightarrow> bytes option \<Rightarrow> ('w, 'p, 'a, 'd) node \<Rightarrow> ('w, 'p, 'a, 'd) node" where
  "resolve_vault i r n = (case pending_vault_queries n i of
     Some h \<Rightarrow> nd_send h (RId r) (n\<lparr>pending_vault_queries := (pending_vault_queries n)(i := None)\<rparr>)
   | None \<Rightarrow> n)"

lemmas resolve_defs = resolve_find_def resolve_fetch_def resolve_range_def resolve_sliver_def
  resolve_addr_def resolve_sui_def resolve_vault_def

definition data_or_not_found :: "bytes option \<Rightarrow> bytes zresult" where
  "data_or_not_found d = (case d of
     Some data \<Rightarrow> Inr data | None \<Rightarrow> Inl (BlobNotFound ''peer responded not found''))"

section \<open>Events of the behaviour\<close>

fun handle_query_result :: "('w, 'p, 'a) p2p_env \<Rightarrow> nat \<Rightarrow> 'p kad_result \<Rightarrow> ('w, 'p, 'a, 'd) node \<Rightarrow>
    ('w, 'p, 'a, 'd) node" where
  "handle_query_result E i (FoundProviders providers) n = resolve_find i providers n"
| "handle_query_result E i ProvidersFinished n = resolve_find i [] n"
| "handle_query_result E i (ProvidersErr e) n = resolve_find i [] n"
| "handle_query_result E i (StartProvidingOk key) n =
     (if length key = 32 \<and> key \<notin> announce_retried n
      then start_providing E key (n\<lparr>announce_retried := insert key (announce_retried n)\<rparr>)
      else n)"
| "handle_query_result E i (StartProvidingErr e) n = n"
| "handle_query_result E i BootstrapOk n = n"
| "handle_query_result E i (BootstrapErr e) n = n"
| "handle_query_result E i (GetRecordFound val) n =
     (let result = get_record_value (GetRecordFound val :: 'p kad_result)
      in resolve_vault i result (resolve_sui i result n))"
| "handle_query_result E i GetRecordFinished n =
     (let result = get_record_value (GetRecordFinished :: 'p kad_result)
      in resolve_vault i result (resolve_sui i result n))"
| "handle_query_result E i (GetRecordErr e) n = resolve_vault i None (resolve_sui i None n)"
| "handle_query_result E i PutRecordOk n = n"
| "handle_query_result E i (PutRecordErr e) n = n"
| "handle_query_result E i KadResultOther n = n"

fun handle_kad :: "('w, 'p, 'a) p2p_env \<Rightarrow> ('p, 'a) kad_event \<Rightarrow> ('w, 'p, 'a, 'd) node \<Rightarrow>
    ('w, 'p, 'a, 'd) node" where
  "handle_kad E (RoutingUpdated peer addrs) n =
     (if addrs \<noteq> [] then n\<lparr>peer_addresses := (peer_addresses n)(peer \<mapsto> addrs)\<rparr> else n)"
| "handle_kad E (QueryProgressed i result) n = handle_query_result E i result n"
| "handle_kad E KadInboundRequest n = n"
| "handle_kad E KadOther n = n"

fun handle_data :: "('w, 'p, 'a) p2p_env \<Rightarrow> ('p, blob_request, blob_response) rr_event \<Rightarrow>
    ('w, 'p, 'a, 'd) node \<Rightarrow> ('w, 'p, 'a, 'd) node" where
  "handle_data E (RRRequest request channel) n =
     (let (response, counter) =
            handle_inbound_request (blob_id_show E) (nd_store n) (nd_counter n) request;
          n = n\<lparr>nd_counter := counter\<rparr>
      in did (CRespondData channel response) (fst (sw_respond_data E (nd_swarm n) channel response)) n)"
| "handle_data E (RRResponse request_id response) n =
     resolve_fetch request_id (data_or_not_found (brs_data response)) n"
| "handle_data E (RROutboundFailure request_id peer error) n =
     resolve_fetch request_id (Inl (P2PNetwork error)) n"
| "handle_data E (RRInboundFailure error) n = n"
| "handle_data E RROther n = n"

fun handle_range :: "('w, 'p, 'a) p2p_env \<Rightarrow> ('p, range_request, range_response) rr_event \<Rightarrow>
    ('w, 'p, 'a, 'd) node \<Rightarrow> ('w, 'p, 'a, 'd) node run" where
  "handle_range E (RRRequest request channel) n =
     (case handle_inbound_range_request (blob_id_show E) (nd_store n) (nd_counter n) request of
        (Panic, counter) \<Rightarrow> Panic
      | (Ret response, counter) \<Rightarrow>
          (let n = n\<lparr>nd_counter := counter\<rparr>
           in Ret (did (CRespondRange channel response)
                (fst (sw_respond_range E (nd_swarm n) channel response)) n)))"
| "handle_range E (RRResponse request_id response) n =
     Ret (resolve_range request_id (data_or_not_found (rrs_data response)) n)"
| "handle_range E (RROutboundFailure request_id peer error) n =
     Ret (resolve_range request_id (Inl (P2PNetwork error)) n)"
| "handle_range E (RRInboundFailure error) n = Ret n"
| "handle_range E RROther n = Ret n"

fun handle_sliver :: "('w, 'p, 'a) p2p_env \<Rightarrow> ('p, sliver_request, sliver_response) rr_event \<Rightarrow>
    ('w, 'p, 'a, 'd) node \<Rightarrow> ('w, 'p, 'a, 'd) node" where
  "handle_sliver E (RRRequest request channel) n =
     (let response = handle_inbound_sliver_request (blob_id_show E) (nd_store n) request
      in did (CRespondSliver channel response) (fst (sw_respond_sliver E (nd_swarm n) channel response)) n)"
| "handle_sliver E (RRResponse request_id response) n =
     resolve_sliver request_id (data_or_not_found (srs_data response)) n"
| "handle_sliver E (RROutboundFailure request_id peer error) n =
     resolve_sliver request_id (Inl (P2PNetwork error)) n"
| "handle_sliver E (RRInboundFailure error) n = n"
| "handle_sliver E RROther n = n"

fun handle_addr :: "('w, 'p, 'a) p2p_env \<Rightarrow> ('p, 'p addr_request, 'a addr_response) rr_event \<Rightarrow>
    ('w, 'p, 'a, 'd) node \<Rightarrow> ('w, 'p, 'a, 'd) node" where
  "handle_addr E (RRRequest request channel) n =
     (let addrs = (case peer_addresses n (arq_peer_id request) of Some as \<Rightarrow> as | None \<Rightarrow> []);
          response = addr_found addrs
      in did (CRespondAddr channel response) (fst (sw_respond_addr E (nd_swarm n) channel response)) n)"
| "handle_addr E (RRResponse request_id response) n = resolve_addr request_id (ars_addresses response) n"
| "handle_addr E (RROutboundFailure request_id peer error) n = resolve_addr request_id [] n"
| "handle_addr E (RRInboundFailure error) n = n"
| "handle_addr E RROther n = n"

fun handle_behaviour_event :: "('w, 'p, 'a) p2p_env \<Rightarrow> ('p, 'a) behaviour_event \<Rightarrow>
    ('w, 'p, 'a, 'd) node \<Rightarrow> ('w, 'p, 'a, 'd) node run" where
  "handle_behaviour_event E (KadEv e) n = Ret (handle_kad E e n)"
| "handle_behaviour_event E (DataEv e) n = Ret (handle_data E e n)"
| "handle_behaviour_event E (RangeEv e) n = handle_range E e n"
| "handle_behaviour_event E (SliverEv e) n = Ret (handle_sliver E e n)"
| "handle_behaviour_event E (AddrEv e) n = Ret (handle_addr E e n)"
| "handle_behaviour_event E (IdentifyReceived peer_id listen_addrs) n =
     Ret (if listen_addrs \<noteq> [] then
            (let n = fold (add_address E peer_id) listen_addrs n
             in n\<lparr>peer_addresses := (peer_addresses n)(peer_id \<mapsto> listen_addrs)\<rparr>)
          else n)"
| "handle_behaviour_event E IdentifyOther n = Ret n"
| "handle_behaviour_event E PingEv n = Ret n"

section \<open>Events of the swarm\<close>

fun endpoint_addr :: "'a connected_point \<Rightarrow> 'a" where
  "endpoint_addr (Dialer a) = a"
| "endpoint_addr (Listener a) = a"

definition publish_once :: "('w, 'p, 'a) p2p_env \<Rightarrow> ('w, 'p, 'a, 'd) node \<Rightarrow> ('w, 'p, 'a, 'd) node" where
  "publish_once E n =
     (let n = (if \<not> sui_addr_published n then
            (case sui_addr_to_publish E of
               Some sui_addr \<Rightarrow> (publish_sui_addr_record E sui_addr n)\<lparr>sui_addr_published := True\<rparr>
             | None \<Rightarrow> n) else n)
      in (if \<not> vault_published n then
            (case vault_id_to_publish E of
               Some vault_id \<Rightarrow> (publish_vault_record E vault_id n)\<lparr>vault_published := True\<rparr>
             | None \<Rightarrow> n) else n))"

text \<open>The cached blobs are announced again; ids that do not parse are skipped.\<close>

definition announced_keys :: "('w, 'p, 'a) p2p_env \<Rightarrow> string list \<Rightarrow> bytes list" where
  "announced_keys E bids = List.map_filter (blob_id_parse E) bids"

definition reannounce :: "('w, 'p, 'a) p2p_env \<Rightarrow> ('w, 'p, 'a, 'd) node \<Rightarrow> ('w, 'p, 'a, 'd) node" where
  "reannounce E n =
     (case bs_list_blob_ids (nd_store n) of
        Inr bids \<Rightarrow> fold (start_providing E) (announced_keys E bids) n
      | Inl _ \<Rightarrow> n)"

definition on_bootstrap_peer :: "('w, 'p, 'a) p2p_env \<Rightarrow> ('w, 'p, 'a, 'd) node \<Rightarrow> ('w, 'p, 'a, 'd) node" where
  "on_bootstrap_peer E n =
     (if \<not> bootstrap_done n then
        (case sw_bootstrap E (nd_swarm n) of (w, r) \<Rightarrow>
           let n = did CBootstrap w n
           in if is_ok r then n\<lparr>bootstrap_done := True\<rparr> else n)
      else reannounce E n)"

definition flush_announces :: "('w, 'p, 'a) p2p_env \<Rightarrow> ('w, 'p, 'a, 'd) node \<Rightarrow> ('w, 'p, 'a, 'd) node" where
  "flush_announces E n =
     (if pending_announces n \<noteq> [] then
        (let announces = pending_announces n
         in fold (start_providing E) announces (n\<lparr>pending_announces := []\<rparr>))
      else n)"

definition connection_established :: "('w, 'p, 'a) p2p_env \<Rightarrow> 'p \<Rightarrow> 'a connected_point \<Rightarrow>
    ('w, 'p, 'a, 'd) node \<Rightarrow> ('w, 'p, 'a, 'd) node" where
  "connection_established E peer_id endpoint n =
     (let n = add_address E peer_id (endpoint_addr endpoint) n;
          n = publish_once E n;
          n = (if peer_id \<in> bootstrap_peers n then on_bootstrap_peer E n else n)
      in flush_announces E n)"

fun handle_swarm_event :: "('w, 'p, 'a) p2p_env \<Rightarrow> ('p, 'a) swarm_event \<Rightarrow> ('w, 'p, 'a, 'd) node \<Rightarrow>
    ('w, 'p, 'a, 'd) node run" where
  "handle_swarm_event E (Behaviour e) n = handle_behaviour_event E e n"
| "handle_swarm_event E (ConnectionEstablished peer_id endpoint) n =
     Ret (connection_established E peer_id endpoint n)"
| "handle_swarm_event E (NewListenAddr addr) n = Ret n"
| "handle_swarm_event E (ConnectionClosed p) n = Ret n"
| "handle_swarm_event E (Dialing p) n = Ret n"
| "handle_swarm_event E (OutgoingConnectionError p e) n = Ret n"
| "handle_swarm_event E IncomingConnection n = Ret n"
| "handle_swarm_event E SwarmOther n = Ret n"

section \<open>The loop\<close>

definition republish :: "('w, 'p, 'a) p2p_env \<Rightarrow> ('w, 'p, 'a, 'd) node \<Rightarrow> ('w, 'p, 'a, 'd) node" where
  "republish E n =
     (let n = (case sui_addr_to_publish E of
            Some sui_addr \<Rightarrow> publish_sui_addr_record E sui_addr n | None \<Rightarrow> n)
      in (case vault_id_to_publish E of
            Some vault_id \<Rightarrow> publish_vault_record E vault_id n | None \<Rightarrow> n))"

text \<open>The start of \<^verbatim>\<open>run\<close>, up to the loop, on a swarm the builder made.\<close>

definition node_start :: "('w, 'p, 'a) p2p_env \<Rightarrow> 'w \<Rightarrow> 'd blob_store \<Rightarrow> u64 \<Rightarrow> 'a \<Rightarrow> ('p \<times> 'a) list \<Rightarrow>
    'a list \<Rightarrow> ('w, 'p, 'a, 'd) node zresult" where
  "node_start E w store counter listen_addr bootstrap_addrs external_addrs =
     (case sw_listen_on E w listen_addr of
        (w, Inl e) \<Rightarrow> Inl (P2PNetwork e)
      | (w, Inr _) \<Rightarrow>
          let w = fold (\<lambda>addr w. sw_add_external E w addr) external_addrs (sw_set_server E w);
              n = \<lparr>nd_swarm = w, nd_store = store, nd_counter = counter,
                   pending_finds = (\<lambda>_. None), pending_fetches = (\<lambda>_. None),
                   pending_range_fetches = (\<lambda>_. None), pending_sliver_fetches = (\<lambda>_. None),
                   pending_addr_queries = (\<lambda>_. None), peer_addresses = (\<lambda>_. None),
                   bootstrap_peers = set (map fst bootstrap_addrs), bootstrap_done = False,
                   sui_addr_published = False, vault_published = False,
                   pending_announces = [], announce_retried = {},
                   pending_sui_addr_queries = (\<lambda>_. None), pending_vault_queries = (\<lambda>_. None),
                   nd_replies = [], nd_calls = []\<rparr>;
              n = fold (\<lambda>(p, addr). add_address E p addr) bootstrap_addrs n;
              n = fold (\<lambda>(p, addr) n. fst (dial E (ma_push_p2p E addr p) n)) bootstrap_addrs n
          in Inr n)"

text \<open>The sender a command carries.\<close>

fun reply_of :: "('p, 'a) p2p_command \<Rightarrow> nat list" where
  "reply_of (FindProviders _ h) = [h]"
| "reply_of (FetchBlob _ _ _ h) = [h]"
| "reply_of (FetchRange _ _ _ _ _ h) = [h]"
| "reply_of (FetchSliver _ _ _ _ h) = [h]"
| "reply_of (DialKadPeer _ _ h) = [h]"
| "reply_of (GetConnectedPeers h) = [h]"
| "reply_of (QueryPeerAddress _ h) = [h]"
| "reply_of (GetPeerSuiAddress _ h) = [h]"
| "reply_of (GetPeerVault _ h) = [h]"
| "reply_of (AnnounceBlob _) = []"
| "reply_of (AddBootstrapPeer _ _) = []"
| "reply_of Bootstrap = []"
| "reply_of (Dial _ _) = []"
| "reply_of (Disconnect _) = []"

text \<open>
  One turn of \<^verbatim>\<open>select!\<close>: a command, a swarm event or the timer; between two turns the swarm
  and the store, which the rest of the program shares, may have changed. \<open>hs\<close> are the senders
  handed in so far, \<open>t\<close> the ticks: a sender is handed in once, since commands own theirs.
\<close>

inductive node_step :: "('w, 'p, 'a) p2p_env \<Rightarrow> ('w, 'p, 'a, 'd) node \<times> nat list \<times> nat \<Rightarrow>
    ('w, 'p, 'a, 'd) node \<times> nat list \<times> nat \<Rightarrow> bool" for E where
  command: "set (reply_of cmd) \<inter> set hs = {} \<Longrightarrow>
    node_step E (n, hs, t) (handle_command E cmd n, hs @ reply_of cmd, t)"
| event: "handle_swarm_event E ev n = Ret n' \<Longrightarrow> node_step E (n, hs, t) (n', hs, t)"
| tick: "node_step E (n, hs, t) (republish E n, hs, Suc t)"
| outside: "(\<And>s. sw_issued E (nd_swarm n) s \<subseteq> sw_issued E w s) \<Longrightarrow>
    sw_local_peer_id E w = sw_local_peer_id E (nd_swarm n) \<Longrightarrow>
    node_step E (n, hs, t) (n\<lparr>nd_swarm := w, nd_store := st\<rparr>, hs, t)"

inductive node_reach :: "('w, 'p, 'a) p2p_env \<Rightarrow> ('w, 'p, 'a, 'd) node \<times> nat list \<times> nat \<Rightarrow> bool" for E where
  start: "node_start E w store counter listen_addr bootstrap_addrs external_addrs = Inr n \<Longrightarrow>
    node_reach E (n, [], 0)"
| step: "node_reach E s \<Longrightarrow> node_step E s s' \<Longrightarrow> node_reach E s'"

end
