(* ===== verification/Node_Safety.thy ===== *)
theory Node_Safety
  imports Node
begin

text \<open>
  What the event loop of the theory Node guarantees, whatever the order of commands, swarm
  events and timer ticks. \<open>swarm_ok\<close> is what it relies on from libp2p: query and request ids are
  fresh, and the local peer id does not change. The invariants are proved operation by
  operation and then over \<open>node_reach\<close> by rule induction.
\<close>

section \<open>What is relied on from the swarm\<close>

definition sw_keeps :: "('w, 'p, 'a) p2p_env \<Rightarrow> 'w \<Rightarrow> 'w \<Rightarrow> bool" where
  "sw_keeps E w w' \<longleftrightarrow> (\<forall>s. sw_issued E w s \<subseteq> sw_issued E w' s) \<and>
     sw_local_peer_id E w' = sw_local_peer_id E w"

definition sw_issues :: "('w, 'p, 'a) p2p_env \<Rightarrow> id_space \<Rightarrow> 'w \<Rightarrow> 'w \<times> nat \<Rightarrow> bool" where
  "sw_issues E s w r \<longleftrightarrow> sw_keeps E w (fst r) \<and> snd r \<notin> sw_issued E w s \<and>
     snd r \<in> sw_issued E (fst r) s"

definition swarm_ok :: "('w, 'p, 'a) p2p_env \<Rightarrow> bool" where
  "swarm_ok E \<longleftrightarrow>
     (\<forall>w k. sw_keeps E w (fst (sw_start_providing E w k))) \<and>
     (\<forall>w k v. sw_keeps E w (fst (sw_put_record E w k v))) \<and>
     (\<forall>w p a. sw_keeps E w (sw_add_address E w p a)) \<and>
     (\<forall>w. sw_keeps E w (fst (sw_bootstrap E w))) \<and>
     (\<forall>w a. sw_keeps E w (fst (sw_dial E w a))) \<and>
     (\<forall>w p. sw_keeps E w (fst (sw_disconnect E w p))) \<and>
     (\<forall>w c r. sw_keeps E w (fst (sw_respond_data E w c r))) \<and>
     (\<forall>w c r. sw_keeps E w (fst (sw_respond_range E w c r))) \<and>
     (\<forall>w c r. sw_keeps E w (fst (sw_respond_sliver E w c r))) \<and>
     (\<forall>w c r. sw_keeps E w (fst (sw_respond_addr E w c r))) \<and>
     (\<forall>w k. sw_issues E KadIds w (sw_get_providers E w k)) \<and>
     (\<forall>w k. sw_issues E KadIds w (sw_get_record E w k)) \<and>
     (\<forall>w p r. sw_issues E DataIds w (sw_send_data E w p r)) \<and>
     (\<forall>w p r. sw_issues E RangeIds w (sw_send_range E w p r)) \<and>
     (\<forall>w p r. sw_issues E SliverIds w (sw_send_sliver E w p r)) \<and>
     (\<forall>w p r. sw_issues E AddrIds w (sw_send_addr E w p r))"

lemma sw_keeps_refl [simp]: "sw_keeps E w w"
  by (simp add: sw_keeps_def)

lemma sw_keeps_trans: "sw_keeps E w w' \<Longrightarrow> sw_keeps E w' w'' \<Longrightarrow> sw_keeps E w w''"
  by (auto simp: sw_keeps_def)

section \<open>Senders\<close>

text \<open>The senders a map holds, with multiplicity.\<close>

definition held :: "(nat \<rightharpoonup> nat) \<Rightarrow> nat multiset" where
  "held m = image_mset (\<lambda>i. the (m i)) (mset_set (dom m))"

lemma held_empty [simp]: "held (\<lambda>_. None) = {#}"
  by (simp add: held_def)

lemma held_insert:
  assumes "finite (dom m)" and "i \<notin> dom m"
  shows "held (m(i \<mapsto> h)) = add_mset h (held m)"
proof -
  have "image_mset (\<lambda>j. the ((m(i \<mapsto> h)) j)) (mset_set (dom m)) = held m"
    unfolding held_def using assms by (intro image_mset_cong) auto
  then show ?thesis using assms by (simp add: held_def)
qed

lemma held_remove:
  assumes "finite (dom m)" and "m i = Some h"
  shows "held m = add_mset h (held (m(i := None)))"
proof -
  have "m = (m(i := None))(i \<mapsto> h)" using assms(2) by (simp add: fun_upd_idem)
  then have "held m = held ((m(i := None))(i \<mapsto> h))" by simp
  also have "\<dots> = add_mset h (held (m(i := None)))" using assms(1) by (intro held_insert) auto
  finally show ?thesis .
qed

lemma held_member: "finite (dom m) \<Longrightarrow> m i = Some h \<Longrightarrow> h \<in># held m"
  using held_remove [of m i h] by simp

text \<open>The senders that wait for an answer, and the ids they wait under.\<close>

definition waiting :: "('w, 'p, 'a, 'd) node \<Rightarrow> nat multiset" where
  "waiting n = held (pending_finds n) + held (pending_fetches n) + held (pending_range_fetches n) +
     held (pending_sliver_fetches n) + held (pending_addr_queries n) +
     held (pending_sui_addr_queries n) + held (pending_vault_queries n)"

definition answered :: "('w, 'p, 'a, 'd) node \<Rightarrow> nat multiset" where
  "answered n = mset (map fst (nd_replies n))"

definition ids_in :: "('w, 'p, 'a) p2p_env \<Rightarrow> 'w \<Rightarrow> id_space \<Rightarrow> (nat \<rightharpoonup> nat) \<Rightarrow> bool" where
  "ids_in E w s m \<longleftrightarrow> finite (dom m) \<and> dom m \<subseteq> sw_issued E w s"

definition ids_ok :: "('w, 'p, 'a) p2p_env \<Rightarrow> ('w, 'p, 'a, 'd) node \<Rightarrow> bool" where
  "ids_ok E n \<longleftrightarrow> (let w = nd_swarm n in
     ids_in E w KadIds (pending_finds n) \<and> ids_in E w DataIds (pending_fetches n) \<and>
     ids_in E w RangeIds (pending_range_fetches n) \<and> ids_in E w SliverIds (pending_sliver_fetches n) \<and>
     ids_in E w AddrIds (pending_addr_queries n) \<and> ids_in E w KadIds (pending_sui_addr_queries n) \<and>
     ids_in E w KadIds (pending_vault_queries n))"

lemma ids_in_keeps: "ids_in E w s m \<Longrightarrow> sw_keeps E w w' \<Longrightarrow> ids_in E w' s m"
  by (auto simp: ids_in_def sw_keeps_def)

lemma ids_in_remove: "ids_in E w s m \<Longrightarrow> ids_in E w s (m(i := None))"
  by (auto simp: ids_in_def)

lemma ids_in_empty [simp]: "ids_in E w s (\<lambda>_. None)"
  by (simp add: ids_in_def)

text \<open>A new id is under no sender yet.\<close>

lemma ids_in_issue:
  assumes "ids_in E w s m" and "sw_issues E s w (w', i)"
  shows "ids_in E w' s (m(i \<mapsto> h))" and "held (m(i \<mapsto> h)) = add_mset h (held m)"
proof -
  have "i \<notin> dom m" using assms by (auto simp: ids_in_def sw_issues_def)
  then show "held (m(i \<mapsto> h)) = add_mset h (held m)"
    using assms(1) by (simp add: ids_in_def held_insert)
  show "ids_in E w' s (m(i \<mapsto> h))"
    using assms by (auto simp: ids_in_def sw_issues_def sw_keeps_def)
qed

section \<open>Operations that touch no sender\<close>

text \<open>\<open>quiet\<close>: the senders are where they were, the swarm only went on.\<close>

definition quiet :: "('w, 'p, 'a) p2p_env \<Rightarrow> ('w, 'p, 'a, 'd) node \<Rightarrow> ('w, 'p, 'a, 'd) node \<Rightarrow> bool" where
  "quiet E n n' \<longleftrightarrow> sw_keeps E (nd_swarm n) (nd_swarm n') \<and>
     pending_finds n' = pending_finds n \<and> pending_fetches n' = pending_fetches n \<and>
     pending_range_fetches n' = pending_range_fetches n \<and>
     pending_sliver_fetches n' = pending_sliver_fetches n \<and>
     pending_addr_queries n' = pending_addr_queries n \<and>
     pending_sui_addr_queries n' = pending_sui_addr_queries n \<and>
     pending_vault_queries n' = pending_vault_queries n \<and> nd_replies n' = nd_replies n"

lemma quiet_refl [simp]: "quiet E n n"
  by (simp add: quiet_def)

lemma quiet_trans: "quiet E n n' \<Longrightarrow> quiet E n' n'' \<Longrightarrow> quiet E n n''"
  by (auto simp: quiet_def intro: sw_keeps_trans)

lemma quiet_fold:
  assumes "\<And>x n. quiet E n (f x n)"
  shows "quiet E n (fold f xs n)"
proof (induction xs arbitrary: n)
  case (Cons x xs)
  have "quiet E n (f x n)" by (rule assms)
  moreover have "quiet E (f x n) (fold f xs (f x n))" by (rule Cons.IH)
  ultimately show ?case by (simp add: quiet_trans)
qed simp

lemma quiet_senders:
  assumes "quiet E n n'"
  shows "waiting n' = waiting n" and "answered n' = answered n" and "ids_ok E n \<Longrightarrow> ids_ok E n'"
  using assms by (auto simp: quiet_def waiting_def answered_def ids_ok_def Let_def intro: ids_in_keeps)

lemma quiet_did [simp]: "sw_keeps E (nd_swarm n) w \<Longrightarrow> quiet E n (did c w n)"
  by (simp add: quiet_def did_def)

lemma quiet_upd [simp]:
  "quiet E n (n'\<lparr>pending_announces := a\<rparr>) = quiet E n n'"
  "quiet E n (n'\<lparr>peer_addresses := pa\<rparr>) = quiet E n n'"
  "quiet E n (n'\<lparr>announce_retried := r\<rparr>) = quiet E n n'"
  "quiet E n (n'\<lparr>sui_addr_published := b\<rparr>) = quiet E n n'"
  "quiet E n (n'\<lparr>vault_published := b\<rparr>) = quiet E n n'"
  "quiet E n (n'\<lparr>bootstrap_done := b\<rparr>) = quiet E n n'"
  "quiet E n (n'\<lparr>nd_counter := c\<rparr>) = quiet E n n'"
  by (simp_all add: quiet_def)

lemma quiet_from_upd [simp]:
  "quiet E (n\<lparr>pending_announces := a\<rparr>) n' = quiet E n n'"
  "quiet E (n\<lparr>announce_retried := r\<rparr>) n' = quiet E n n'"
  "quiet E (n\<lparr>nd_counter := c\<rparr>) n' = quiet E n n'"
  "quiet E (n\<lparr>sui_addr_published := b\<rparr>) n' = quiet E n n'"
  by (simp_all add: quiet_def)

lemma quiet_calls [simp]:
  assumes "swarm_ok E"
  shows "quiet E n (start_providing E k n)" and "quiet E n (add_address E p a n)"
    and "quiet E n (put_record E k v n)" and "quiet E n (fst (dial E a n))"
    and "quiet E n (publish_sui_addr_record E v n)" and "quiet E n (publish_vault_record E v n)"
  using assms
  by (simp_all add: start_providing_def add_address_def put_record_def dial_def
      publish_sui_addr_record_def publish_vault_record_def Let_def swarm_ok_def split_beta)

lemma quiet_dial_all: "swarm_ok E \<Longrightarrow> quiet E n (fst (dial_all E p as c n))"
proof (induction as arbitrary: c n)
  case (Cons a as)
  then show ?case
    by (simp add: split_beta Let_def) (metis quiet_calls(4) quiet_trans)
qed simp

lemma quiet_publish_both:
  assumes "swarm_ok E"
  shows "quiet E n (publish_vault_record E v (publish_sui_addr_record E a n))"
  using quiet_calls(5) [OF assms] quiet_calls(6) [OF assms] by (rule quiet_trans)

lemma quiet_publish_once:
  assumes "swarm_ok E"
  shows "quiet E n (publish_once E n)"
proof -
  have "quiet E n (publish_vault_record E v ((publish_sui_addr_record E a n)\<lparr>sui_addr_published := True\<rparr>))"
    (is "quiet E n (publish_vault_record E v ?m)") for v a
  proof (rule quiet_trans)
    show "quiet E n ?m" unfolding quiet_upd(4) using assms by (rule quiet_calls(5))
    show "quiet E ?m (publish_vault_record E v ?m)" using assms by (rule quiet_calls(6))
  qed
  then show ?thesis
    using assms by (auto simp: publish_once_def Let_def split: option.split)
qed

lemma quiet_republish: "swarm_ok E \<Longrightarrow> quiet E n (republish E n)"
  by (auto simp: republish_def Let_def quiet_publish_both split: option.split)

lemma quiet_providing: "swarm_ok E \<Longrightarrow> quiet E n (fold (start_providing E) ks n)"
  by (rule quiet_fold) simp

lemma quiet_bootstrap: "swarm_ok E \<Longrightarrow> quiet E n (on_bootstrap_peer E n)"
  by (auto simp: on_bootstrap_peer_def reannounce_def quiet_providing Let_def swarm_ok_def split_beta
      split: sum.split)

lemma quiet_flush: "swarm_ok E \<Longrightarrow> quiet E n (flush_announces E n)"
  using quiet_providing [of E "n\<lparr>pending_announces := []\<rparr>" "pending_announces n"]
  by (simp add: flush_announces_def Let_def)

lemma quiet_connection:
  assumes "swarm_ok E"
  shows "quiet E n (connection_established E p ep n)"
proof -
  let ?n1 = "add_address E p (endpoint_addr ep) n"
  let ?n2 = "publish_once E ?n1"
  let ?n3 = "if p \<in> bootstrap_peers ?n2 then on_bootstrap_peer E ?n2 else ?n2"
  have "quiet E n ?n1" using assms by simp
  moreover have "quiet E ?n1 ?n2" using assms by (rule quiet_publish_once)
  moreover have "quiet E ?n2 ?n3" using assms by (simp add: quiet_bootstrap)
  moreover have "quiet E ?n3 (flush_announces E ?n3)" using assms by (rule quiet_flush)
  ultimately show ?thesis
    unfolding connection_established_def Let_def by (blast intro: quiet_trans)
qed

section \<open>Operations that move senders\<close>

text \<open>
  \<open>moves hs\<close>: the senders \<open>hs\<close> come in; every sender is still waiting or answered, as often as
  before.
\<close>

definition moves :: "('w, 'p, 'a) p2p_env \<Rightarrow> nat list \<Rightarrow> ('w, 'p, 'a, 'd) node \<Rightarrow> ('w, 'p, 'a, 'd) node \<Rightarrow> bool" where
  "moves E hs n n' \<longleftrightarrow> (ids_ok E n \<longrightarrow>
     ids_ok E n' \<and> waiting n' + answered n' = waiting n + answered n + mset hs)"

lemma quiet_moves: "quiet E n n' \<Longrightarrow> moves E [] n n'"
  using quiet_senders by (fastforce simp: moves_def)

lemma moves_trans:
  assumes "moves E hs n n'" and "moves E hs' n' n''"
  shows "moves E (hs @ hs') n n''"
  using assms by (simp add: moves_def)

lemma moves_send [simp]: "moves E [h] n (nd_send h r n)"
  by (simp add: moves_def nd_send_def answered_def waiting_def ids_ok_def Let_def)

lemma moves_quiet_then: "quiet E n n' \<Longrightarrow> moves E hs n' n'' \<Longrightarrow> moves E hs n n''"
  using moves_trans [OF quiet_moves, of E n n' hs n''] by simp

lemmas sender_defs = moves_def waiting_def answered_def ids_ok_def nd_send_def did_def Let_def

lemma ids_in_held:
  "ids_in E w s m \<Longrightarrow> m i = Some h \<Longrightarrow> held m = add_mset h (held (m(i := None)))"
  by (simp add: ids_in_def held_remove)

lemma moves_resolve [simp]:
  "moves E [] n (resolve_find i ps n)" "moves E [] n (resolve_fetch i r n)"
  "moves E [] n (resolve_range i r n)" "moves E [] n (resolve_sliver i r n)"
  "moves E [] n (resolve_addr i as n)" "moves E [] n (resolve_sui i v n)"
  "moves E [] n (resolve_vault i v n)"
proof -
  note * = sender_defs ids_in_remove
  show "moves E [] n (resolve_find i ps n)"
    by (auto simp: resolve_find_def * dest: ids_in_held split: option.split)
  show "moves E [] n (resolve_fetch i r n)"
    by (auto simp: resolve_fetch_def * dest: ids_in_held split: option.split)
  show "moves E [] n (resolve_range i r n)"
    by (auto simp: resolve_range_def * dest: ids_in_held split: option.split)
  show "moves E [] n (resolve_sliver i r n)"
    by (auto simp: resolve_sliver_def * dest: ids_in_held split: option.split)
  show "moves E [] n (resolve_addr i as n)"
    by (auto simp: resolve_addr_def * dest: ids_in_held split: option.split)
  show "moves E [] n (resolve_sui i v n)"
    by (auto simp: resolve_sui_def * dest: ids_in_held split: option.split)
  show "moves E [] n (resolve_vault i v n)"
    by (auto simp: resolve_vault_def * dest: ids_in_held split: option.split)
qed

lemma moves_query:
  assumes "swarm_ok E" and "sw_issues E KadIds (nd_swarm n) (w, i)"
  shows "moves E [h] n ((did c w n)\<lparr>pending_finds := (pending_finds n)(i \<mapsto> h)\<rparr>)"
    and "moves E [h] n ((did c w n)\<lparr>pending_sui_addr_queries := (pending_sui_addr_queries n)(i \<mapsto> h)\<rparr>)"
    and "moves E [h] n ((did c w n)\<lparr>pending_vault_queries := (pending_vault_queries n)(i \<mapsto> h)\<rparr>)"
proof -
  have keeps: "sw_keeps E (nd_swarm n) w" using assms(2) by (simp add: sw_issues_def)
  note ids = ids_in_keeps [OF _ keeps] ids_in_issue [OF _ assms(2), where h = h]
  show "moves E [h] n ((did c w n)\<lparr>pending_finds := (pending_finds n)(i \<mapsto> h)\<rparr>)"
    "moves E [h] n ((did c w n)\<lparr>pending_sui_addr_queries := (pending_sui_addr_queries n)(i \<mapsto> h)\<rparr>)"
    "moves E [h] n ((did c w n)\<lparr>pending_vault_queries := (pending_vault_queries n)(i \<mapsto> h)\<rparr>)"
    by (simp_all add: sender_defs ids)
qed

lemma moves_request:
  assumes "swarm_ok E"
  shows "sw_issues E DataIds (nd_swarm n) (w, i) \<Longrightarrow>
      moves E [h] n ((did c w n)\<lparr>pending_fetches := (pending_fetches n)(i \<mapsto> h)\<rparr>)"
    and "sw_issues E RangeIds (nd_swarm n) (w, i) \<Longrightarrow>
      moves E [h] n ((did c w n)\<lparr>pending_range_fetches := (pending_range_fetches n)(i \<mapsto> h)\<rparr>)"
    and "sw_issues E SliverIds (nd_swarm n) (w, i) \<Longrightarrow>
      moves E [h] n ((did c w n)\<lparr>pending_sliver_fetches := (pending_sliver_fetches n)(i \<mapsto> h)\<rparr>)"
    and "sw_issues E AddrIds (nd_swarm n) (w, i) \<Longrightarrow>
      moves E [h] n ((did c w n)\<lparr>pending_addr_queries := (pending_addr_queries n)(i \<mapsto> h)\<rparr>)"
proof -
  have keeps: "sw_issues E s (nd_swarm n) (w, i) \<Longrightarrow> sw_keeps E (nd_swarm n) w" for s
    by (simp add: sw_issues_def)
  show "moves E [h] n ((did c w n)\<lparr>pending_fetches := (pending_fetches n)(i \<mapsto> h)\<rparr>)"
    if "sw_issues E DataIds (nd_swarm n) (w, i)"
    by (simp add: sender_defs ids_in_keeps [OF _ keeps [OF that]] ids_in_issue [OF _ that, where h = h])
  show "moves E [h] n ((did c w n)\<lparr>pending_range_fetches := (pending_range_fetches n)(i \<mapsto> h)\<rparr>)"
    if "sw_issues E RangeIds (nd_swarm n) (w, i)"
    by (simp add: sender_defs ids_in_keeps [OF _ keeps [OF that]] ids_in_issue [OF _ that, where h = h])
  show "moves E [h] n ((did c w n)\<lparr>pending_sliver_fetches := (pending_sliver_fetches n)(i \<mapsto> h)\<rparr>)"
    if "sw_issues E SliverIds (nd_swarm n) (w, i)"
    by (simp add: sender_defs ids_in_keeps [OF _ keeps [OF that]] ids_in_issue [OF _ that, where h = h])
  show "moves E [h] n ((did c w n)\<lparr>pending_addr_queries := (pending_addr_queries n)(i \<mapsto> h)\<rparr>)"
    if "sw_issues E AddrIds (nd_swarm n) (w, i)"
    by (simp add: sender_defs ids_in_keeps [OF _ keeps [OF that]] ids_in_issue [OF _ that, where h = h])
qed

lemma did_pending [simp]:
  "pending_finds (did c w n) = pending_finds n" "pending_fetches (did c w n) = pending_fetches n"
  "pending_range_fetches (did c w n) = pending_range_fetches n"
  "pending_sliver_fetches (did c w n) = pending_sliver_fetches n"
  "pending_addr_queries (did c w n) = pending_addr_queries n"
  "pending_sui_addr_queries (did c w n) = pending_sui_addr_queries n"
  "pending_vault_queries (did c w n) = pending_vault_queries n"
  by (simp_all add: did_def)

lemma swarm_issues:
  assumes "swarm_ok E"
  shows "sw_get_providers E w k = r \<Longrightarrow> sw_issues E KadIds w r"
    and "sw_get_record E w k = r \<Longrightarrow> sw_issues E KadIds w r"
    and "sw_send_data E w p q1 = r \<Longrightarrow> sw_issues E DataIds w r"
    and "sw_send_range E w p q2 = r \<Longrightarrow> sw_issues E RangeIds w r"
    and "sw_send_sliver E w p q3 = r \<Longrightarrow> sw_issues E SliverIds w r"
    and "sw_send_addr E w p q4 = r \<Longrightarrow> sw_issues E AddrIds w r"
  using assms unfolding swarm_ok_def by blast+

lemma moves_command:
  assumes "swarm_ok E"
  shows "moves E (reply_of cmd) n (handle_command E cmd n)"
proof (cases cmd)
  case (AnnounceBlob b)
  with assms show ?thesis by (auto simp: Let_def intro: quiet_moves)
next
  case (FindProviders b h)
  then show ?thesis
    using swarm_issues(1) [OF assms refl, of "nd_swarm n" b]
    by (cases "sw_get_providers E (nd_swarm n) b") (auto simp: Let_def intro: moves_query [OF assms])
next
  case (FetchBlob p b d h)
  then show ?thesis
    using swarm_issues(3) [OF assms refl, of "nd_swarm n" p "\<lparr>brq_blob_id = b, brq_version = 0, brq_payment = d\<rparr>"]
    by (cases "sw_send_data E (nd_swarm n) p \<lparr>brq_blob_id = b, brq_version = 0, brq_payment = d\<rparr>") (auto simp: Let_def intro: moves_request [OF assms])
next
  case (FetchRange p b off l d h)
  then show ?thesis
    using swarm_issues(4) [OF assms refl, of "nd_swarm n" p "\<lparr>rrq_blob_id = b, rrq_offset = off, rrq_length = l, rrq_payment = d\<rparr>"]
    by (cases "sw_send_range E (nd_swarm n) p \<lparr>rrq_blob_id = b, rrq_offset = off, rrq_length = l, rrq_payment = d\<rparr>") (auto simp: Let_def intro: moves_request [OF assms])
next
  case (FetchSliver p b k x h)
  then show ?thesis
    using swarm_issues(5) [OF assms refl, of "nd_swarm n" p "\<lparr>srq_blob_id = b, srq_index = k, srq_axis = x\<rparr>"]
    by (cases "sw_send_sliver E (nd_swarm n) p \<lparr>srq_blob_id = b, srq_index = k, srq_axis = x\<rparr>") (auto simp: Let_def intro: moves_request [OF assms])
next
  case (DialKadPeer p as h)
  have "moves E [h] n (nd_send h r (fst (dial_all E p as' False n)))" for r as'
    using quiet_dial_all [OF assms, of n p as' False] by (rule moves_quiet_then) simp
  then show ?thesis
    by (simp add: DialKadPeer Let_def split_beta)
next
  case (QueryPeerAddress p h)
  show ?thesis
  proof (cases "sw_connected E (nd_swarm n)")
    case Nil
    then show ?thesis by (simp add: QueryPeerAddress)
  next
    case (Cons q qs)
    then show ?thesis
      using swarm_issues(6) [OF assms refl, of "nd_swarm n" q "\<lparr>arq_peer_id = p\<rparr>"]
      by (cases "sw_send_addr E (nd_swarm n) q \<lparr>arq_peer_id = p\<rparr>")
        (auto simp: QueryPeerAddress Let_def intro: moves_request [OF assms])
  qed
next
  case (GetPeerSuiAddress p h)
  then show ?thesis
    using swarm_issues(2) [OF assms refl, of "nd_swarm n" "sui_record_key E p"]
    by (cases "sw_get_record E (nd_swarm n) (sui_record_key E p)") (auto simp: Let_def intro: moves_query [OF assms])
next
  case (GetPeerVault p h)
  then show ?thesis
    using swarm_issues(2) [OF assms refl, of "nd_swarm n" "vault_record_key E p"]
    by (cases "sw_get_record E (nd_swarm n) (vault_record_key E p)") (auto simp: Let_def intro: moves_query [OF assms])
qed (use assms in \<open>auto simp: swarm_ok_def intro!: quiet_moves quiet_calls\<close>)

lemma moves_query_result:
  assumes "swarm_ok E"
  shows "moves E [] n (handle_query_result E i r n)"
proof -
  have both: "moves E [] n (resolve_vault i v (resolve_sui i v n))" for v
    using moves_trans [OF moves_resolve(6) moves_resolve(7)] by simp
  have "moves E [] n (start_providing E k (n\<lparr>announce_retried := R\<rparr>))" for k R
    using quiet_calls(1) [OF assms, of "n\<lparr>announce_retried := R\<rparr>" k] by (intro quiet_moves) simp
  with both show ?thesis
    by (cases r) (simp_all add: Let_def quiet_moves)
qed

lemma swarm_responds [simp]:
  assumes "swarm_ok E"
  shows "sw_keeps E w (fst (sw_respond_data E w c r1))" "sw_keeps E w (fst (sw_respond_range E w c r2))"
    "sw_keeps E w (fst (sw_respond_sliver E w c r3))" "sw_keeps E w (fst (sw_respond_addr E w c r4))"
  using assms by (simp_all add: swarm_ok_def)

lemma moves_refl [simp]: "moves E [] n n"
  by (simp add: moves_def)

lemma moves_did [simp]:
  "sw_keeps E (nd_swarm n) w \<Longrightarrow> moves E [] n (did c w n)"
  "sw_keeps E (nd_swarm n) w \<Longrightarrow> moves E [] n (did c w (n\<lparr>nd_counter := k\<rparr>))"
  using quiet_moves [OF quiet_did, of E n w c]
    quiet_moves [of E n "did c w (n\<lparr>nd_counter := k\<rparr>)"] quiet_did [of E "n\<lparr>nd_counter := k\<rparr>" w c]
  by simp_all

lemma moves_identify:
  assumes "swarm_ok E"
  shows "moves E [] n ((fold (add_address E p) as n)\<lparr>peer_addresses := pa\<rparr>)"
proof -
  have "quiet E n (fold (add_address E p) as n)"
    by (rule quiet_fold) (simp add: assms)
  then show ?thesis by (intro quiet_moves) simp
qed

lemma moves_behaviour:
  assumes "swarm_ok E" and "handle_behaviour_event E ev n = Ret n'"
  shows "moves E [] n n'"
proof (cases ev)
  case (KadEv e)
  then show ?thesis
    using assms moves_query_result [OF assms(1)] by (cases e) (auto intro: quiet_moves)
next
  case (DataEv e)
  then show ?thesis
    using assms by (cases e) (auto simp: Let_def split_beta)
next
  case (RangeEv e)
  then show ?thesis
    using assms by (cases e) (auto simp: Let_def split: prod.splits run.splits)
next
  case (SliverEv e)
  then show ?thesis
    using assms by (cases e) (auto simp: Let_def)
next
  case (AddrEv e)
  then show ?thesis
    using assms by (cases e) (auto simp: Let_def)
next
  case (IdentifyReceived p as)
  then show ?thesis using assms by (auto simp: Let_def moves_identify split: if_splits)
qed (use assms(2) in auto)

lemma moves_event:
  assumes "swarm_ok E" and "handle_swarm_event E ev n = Ret n'"
  shows "moves E [] n n'"
  using assms
  by (cases ev) (auto intro: moves_behaviour quiet_moves quiet_connection)

lemma start_senders:
  assumes "swarm_ok E"
    and "node_start E w store counter la ba ea = Inr n"
  shows "ids_ok E n \<and> waiting n = {#} \<and> nd_replies n = []"
proof -
  obtain w' n0 where n: "n = fold (\<lambda>(p, addr) n. fst (dial E (ma_push_p2p E addr p) n)) ba
      (fold (\<lambda>(p, addr). add_address E p addr) ba n0)"
    and n0: "pending_finds n0 = (\<lambda>_. None)" "pending_fetches n0 = (\<lambda>_. None)"
      "pending_range_fetches n0 = (\<lambda>_. None)" "pending_sliver_fetches n0 = (\<lambda>_. None)"
      "pending_addr_queries n0 = (\<lambda>_. None)" "pending_sui_addr_queries n0 = (\<lambda>_. None)"
      "pending_vault_queries n0 = (\<lambda>_. None)" "nd_replies n0 = []"
    using assms(2) by (auto simp: node_start_def Let_def split: prod.splits sum.splits)
  have "quiet E n0 (fold (\<lambda>(p, addr). add_address E p addr) ba n0)" (is "quiet E n0 ?n1")
    using assms(1) by (intro quiet_fold) auto
  moreover have "quiet E ?n1 n"
    unfolding n using assms(1) by (intro quiet_fold) auto
  ultimately have q: "quiet E n0 n" by (rule quiet_trans)
  have "ids_ok E n0" by (simp add: ids_ok_def n0 Let_def)
  then have "ids_ok E n" by (rule quiet_senders(3) [OF q])
  moreover have "waiting n = {#}" using quiet_senders(1) [OF q] by (simp add: waiting_def n0)
  moreover have "nd_replies n = []" using q n0(8) by (simp add: quiet_def)
  ultimately show ?thesis by blast
qed

lemma reach_senders:
  assumes "swarm_ok E" and "node_reach E s"
  shows "case s of (n, hs, t) \<Rightarrow>
    ids_ok E n \<and> waiting n + answered n = mset hs \<and> distinct hs"
  using assms(2)
proof (induction rule: node_reach.induct)
  case (start w store counter la ba ea n)
  from start_senders [OF assms(1) start] show ?case by (simp add: answered_def)
next
  case (step s s')
  from step.hyps(2) show ?case
  proof (cases rule: node_step.cases)
    case (command cmd hs n t)
    have "distinct (reply_of cmd)" by (cases cmd) simp_all
    with command step.IH moves_command [OF assms(1), of cmd n] show ?thesis
      by (auto simp: moves_def)
  next
    case (event ev n n' hs t)
    with step.IH moves_event [OF assms(1) event(3)] show ?thesis by (auto simp: moves_def)
  next
    case (tick n hs t)
    with step.IH quiet_moves [OF quiet_republish [OF assms(1), of n]] show ?thesis
      by (auto simp: moves_def)
  next
    case (outside n w hs t st)
    then have "quiet E n (n\<lparr>nd_swarm := w, nd_store := st\<rparr>)" by (simp add: quiet_def sw_keeps_def)
    from quiet_moves [OF this] outside step.IH show ?thesis by (auto simp: moves_def)
  qed
qed

text \<open>
  C13: no request is lost and none is answered twice: in every reachable state of the loop, the
  reply senders handed in with commands are exactly those waiting in one of the seven tables
  plus those answered, each of them once.
\<close>

theorem senders_waiting_or_answered:
  assumes "swarm_ok E" and "node_reach E (n, hs, t)"
  shows "mset hs = waiting n + mset (map fst (nd_replies n)) \<and> distinct (map fst (nd_replies n)) \<and>
    (\<forall>h. h \<in># waiting n \<longrightarrow> count (waiting n) h = 1 \<and> h \<notin> fst ` set (nd_replies n))"
proof -
  have inv: "waiting n + mset (map fst (nd_replies n)) = mset hs" "distinct hs"
    using reach_senders [OF assms] by (auto simp: answered_def)
  have once: "count (waiting n) h + count (mset (map fst (nd_replies n))) h \<le> 1" for h
    using inv by (metis count_union distinct_count_atmost_1 le_numeral_extra(4) zero_le_one)
  have "count (mset (map fst (nd_replies n))) h = (if h \<in> set (map fst (nd_replies n)) then 1 else 0)" for h
  proof (cases "h \<in> set (map fst (nd_replies n))")
    case True
    then have "h \<in># mset (map fst (nd_replies n))" by simp
    then have "0 < count (mset (map fst (nd_replies n))) h" by (simp only: count_greater_zero_iff)
    then have "count (mset (map fst (nd_replies n))) h = 1" using once [of h] by linarith
    with True show ?thesis by (simp only: if_True)
  next
    case False
    then have "h \<notin># mset (map fst (nd_replies n))" by simp
    then have "count (mset (map fst (nd_replies n))) h = 0" by (simp only: count_eq_zero_iff not_False_eq_True)
    with False show ?thesis by (simp only: if_False)
  qed
  then have "distinct (map fst (nd_replies n))" by (simp only: distinct_count_atmost_1) blast
  moreover have "count (waiting n) h = 1 \<and> h \<notin> fst ` set (nd_replies n)" if "h \<in># waiting n" for h
  proof -
    have pos: "0 < count (waiting n) h" using that by (simp add: count_greater_zero_iff)
    then have "count (mset (map fst (nd_replies n))) h = 0" using once [of h] by linarith
    then have "h \<notin># mset (map fst (nd_replies n))" by (simp only: count_eq_zero_iff not_False_eq_True)
    then have "h \<notin> fst ` set (nd_replies n)" by simp
    with pos once [of h] show ?thesis by linarith
  qed
  ultimately show ?thesis using inv(1) by simp
qed

end
