(* ===== verification/Node_Publish.thy ===== *)
theory Node_Publish
  imports Node_Safety
begin

text \<open>
  What the event loop publishes and remembers: how often it puts its Sui address and its vault
  into the DHT, that announcements wait for a connection and are then sent, that an announcement
  is repeated once, and which addresses it hands out. The facts rest on the trace of calls.
\<close>

section \<open>Puts\<close>

fun is_put :: "('p, 'a) call \<Rightarrow> bool" where
  "is_put (CPutRecord k v) = True"
| "is_put _ = False"

definition put_calls :: "('w, 'p, 'a, 'd) node \<Rightarrow> ('p, 'a) call list" where
  "put_calls n = filter is_put (nd_calls n)"

text \<open>\<open>still\<close>: no record was put and the published flags are unchanged.\<close>

definition still :: "('w, 'p, 'a) p2p_env \<Rightarrow> ('w, 'p, 'a, 'd) node \<Rightarrow> ('w, 'p, 'a, 'd) node \<Rightarrow> bool" where
  "still E n n' \<longleftrightarrow> put_calls n' = put_calls n \<and> sui_addr_published n' = sui_addr_published n \<and>
     vault_published n' = vault_published n \<and>
     sw_local_peer_id E (nd_swarm n') = sw_local_peer_id E (nd_swarm n)"

lemma still_refl [simp]: "still E n n"
  by (simp add: still_def)

lemma still_trans: "still E n n' \<Longrightarrow> still E n' n'' \<Longrightarrow> still E n n''"
  by (simp add: still_def)

lemma still_fold:
  assumes "\<And>x n. still E n (f x n)"
  shows "still E n (fold f xs n)"
proof (induction xs arbitrary: n)
  case (Cons x xs)
  from still_trans [OF assms Cons.IH] show ?case by simp
qed simp

lemma still_did [simp]:
  "sw_keeps E (nd_swarm n) w \<Longrightarrow> \<not> is_put c \<Longrightarrow> still E n (did c w n)"
  by (simp add: still_def did_def put_calls_def sw_keeps_def)

lemma still_send [simp]: "still E n (nd_send h r n') = still E n n'"
  by (simp add: still_def nd_send_def put_calls_def)

lemma still_upd [simp]:
  "still E n (n'\<lparr>pending_announces := a\<rparr>) = still E n n'"
  "still E n (n'\<lparr>peer_addresses := pa\<rparr>) = still E n n'"
  "still E n (n'\<lparr>announce_retried := r\<rparr>) = still E n n'"
  "still E n (n'\<lparr>bootstrap_done := b\<rparr>) = still E n n'"
  "still E n (n'\<lparr>nd_counter := c\<rparr>) = still E n n'"
  "still E n (n'\<lparr>pending_finds := m\<rparr>) = still E n n'"
  "still E n (n'\<lparr>pending_fetches := m\<rparr>) = still E n n'"
  "still E n (n'\<lparr>pending_range_fetches := m\<rparr>) = still E n n'"
  "still E n (n'\<lparr>pending_sliver_fetches := m\<rparr>) = still E n n'"
  "still E n (n'\<lparr>pending_addr_queries := m\<rparr>) = still E n n'"
  "still E n (n'\<lparr>pending_sui_addr_queries := m\<rparr>) = still E n n'"
  "still E n (n'\<lparr>pending_vault_queries := m\<rparr>) = still E n n'"
  by (simp_all add: still_def put_calls_def)

lemma still_from_upd [simp]:
  "still E (n\<lparr>pending_announces := a\<rparr>) n' = still E n n'"
  "still E (n\<lparr>announce_retried := r\<rparr>) n' = still E n n'"
  "still E (n\<lparr>nd_counter := c\<rparr>) n' = still E n n'"
  by (simp_all add: still_def put_calls_def)

lemma swarm_keeps [simp]:
  assumes "swarm_ok E"
  shows "sw_keeps E w (fst (sw_start_providing E w k))" "sw_keeps E w (sw_add_address E w p a)"
    "sw_keeps E w (fst (sw_bootstrap E w))" "sw_keeps E w (fst (sw_dial E w a))"
    "sw_keeps E w (fst (sw_disconnect E w p))" "sw_keeps E w (fst (sw_put_record E w k v))"
  using assms by (simp_all only: swarm_ok_def)

lemma issues_keeps: "sw_issues E s w r \<Longrightarrow> sw_keeps E w (fst r)"
  by (simp add: sw_issues_def)

lemma swarm_keeps_issuing [simp]:
  assumes "swarm_ok E"
  shows "sw_keeps E w (fst (sw_get_providers E w k))" "sw_keeps E w (fst (sw_get_record E w k))"
    "sw_keeps E w (fst (sw_send_data E w p q1))" "sw_keeps E w (fst (sw_send_range E w p q2))"
    "sw_keeps E w (fst (sw_send_sliver E w p q3))" "sw_keeps E w (fst (sw_send_addr E w p q4))"
  by (rule issues_keeps, rule swarm_issues [OF assms refl])+

lemma still_calls [simp]:
  assumes "swarm_ok E"
  shows "still E n (start_providing E k n)" "still E n (add_address E p a n)" "still E n (fst (dial E a n))"
  using assms by (simp_all add: start_providing_def add_address_def dial_def split_beta)

lemma still_dial_all: "swarm_ok E \<Longrightarrow> still E n (fst (dial_all E p as c n))"
proof (induction as arbitrary: c n)
  case (Cons a as)
  have "still E n (fst (dial_all E p as c' (fst (dial E b n))))" for c' b
    by (rule still_trans [OF still_calls(3) [OF Cons.prems] Cons.IH [OF Cons.prems]])
  then show ?case by (simp add: split_beta Let_def)
qed simp

lemma still_resolve [simp]:
  "still E n (resolve_find i ps n)" "still E n (resolve_fetch i r n)"
  "still E n (resolve_range i r n)" "still E n (resolve_sliver i r n)"
  "still E n (resolve_addr i as n)" "still E n (resolve_sui i v n)" "still E n (resolve_vault i v n)"
  by (simp_all add: resolve_defs split: option.split)

lemma still_command:
  assumes "swarm_ok E"
  shows "still E n (handle_command E cmd n)"
proof (cases cmd)
  case (DialKadPeer p as h)
  have "still E n (fst (dial_all E p as' c n))" for as' c
    using assms by (rule still_dial_all)
  then show ?thesis by (simp add: DialKadPeer Let_def split_beta)
qed (use assms in \<open>auto simp: Let_def split_beta split: list.split\<close>)

lemma still_query_result: "swarm_ok E \<Longrightarrow> still E n (handle_query_result E i r n)"
  using still_trans [OF still_resolve(6) still_resolve(7)]
    still_calls(1) [of E "n\<lparr>announce_retried := R\<rparr>" for R]
  by (cases r) (auto simp: Let_def)

lemma still_behaviour:
  assumes "swarm_ok E" and "handle_behaviour_event E ev n = Ret n'"
  shows "still E n n'"
proof (cases ev)
  case (KadEv e)
  then show ?thesis
    using assms still_query_result [OF assms(1)] by (cases e) auto
next
  case (DataEv e)
  have "still E n (did c w (n\<lparr>nd_counter := k\<rparr>))" if "sw_keeps E (nd_swarm n) w" "\<not> is_put c" for c w k
    using still_did [of E "n\<lparr>nd_counter := k\<rparr>" w c] that by simp
  with DataEv show ?thesis using assms by (cases e) (auto simp: Let_def split_beta)
next
  case (RangeEv e)
  have "still E n (did c w (n\<lparr>nd_counter := k\<rparr>))" if "sw_keeps E (nd_swarm n) w" "\<not> is_put c" for c w k
    using still_did [of E "n\<lparr>nd_counter := k\<rparr>" w c] that by simp
  with RangeEv show ?thesis
    using assms by (cases e) (auto simp: Let_def split: prod.splits run.splits)
next
  case (SliverEv e)
  then show ?thesis using assms by (cases e) (auto simp: Let_def)
next
  case (AddrEv e)
  then show ?thesis using assms by (cases e) (auto simp: Let_def)
next
  case (IdentifyReceived p as)
  have "still E n (fold (add_address E p) as n)"
    by (rule still_fold) (simp add: assms(1))
  with IdentifyReceived assms(2) show ?thesis by (auto simp: Let_def split: if_splits)
qed (use assms(2) in auto)

lemma still_providing: "swarm_ok E \<Longrightarrow> still E n (fold (start_providing E) ks n)"
  by (rule still_fold) simp

lemma still_bootstrap: "swarm_ok E \<Longrightarrow> still E n (on_bootstrap_peer E n)"
  by (auto simp: on_bootstrap_peer_def reannounce_def still_providing Let_def split_beta
      split: sum.split)

lemma still_flush: "swarm_ok E \<Longrightarrow> still E n (flush_announces E n)"
  using still_providing [of E "n\<lparr>pending_announces := []\<rparr>" "pending_announces n"]
  by (simp add: flush_announces_def Let_def)

text \<open>The records to publish, and how many puts of each there were.\<close>

definition sui_puts :: "('w, 'p, 'a) p2p_env \<Rightarrow> ('w, 'p, 'a, 'd) node \<Rightarrow> bytes \<Rightarrow> nat" where
  "sui_puts E n v =
     count_list (put_calls n) (CPutRecord (sui_record_key E (sw_local_peer_id E (nd_swarm n))) v)"

definition vault_puts :: "('w, 'p, 'a) p2p_env \<Rightarrow> ('w, 'p, 'a, 'd) node \<Rightarrow> bytes \<Rightarrow> nat" where
  "vault_puts E n v =
     count_list (put_calls n) (CPutRecord (vault_record_key E (sw_local_peer_id E (nd_swarm n))) v)"

lemma record_keys_differ [simp]:
  "sui_record_key E p \<noteq> vault_record_key E q" "vault_record_key E q \<noteq> sui_record_key E p"
proof -
  have "sui_record_key E p ! 5 \<noteq> vault_record_key E q ! 5"
    by (simp add: sui_record_key_def vault_record_key_def as_bytes_def nth_append)
  then show "sui_record_key E p \<noteq> vault_record_key E q" "vault_record_key E q \<noteq> sui_record_key E p"
    by metis+
qed

text \<open>Nothing but the node's own two records is put.\<close>

definition own_puts :: "('w, 'p, 'a) p2p_env \<Rightarrow> ('w, 'p, 'a, 'd) node \<Rightarrow> bool" where
  "own_puts E n \<longleftrightarrow> (\<forall>k v. CPutRecord k v \<in> set (nd_calls n) \<longrightarrow>
     k = sui_record_key E (sw_local_peer_id E (nd_swarm n)) \<and> sui_addr_to_publish E = Some v \<or>
     k = vault_record_key E (sw_local_peer_id E (nd_swarm n)) \<and> vault_id_to_publish E = Some v)"

definition published_inv :: "('w, 'p, 'a) p2p_env \<Rightarrow> nat \<Rightarrow> ('w, 'p, 'a, 'd) node \<Rightarrow> bool" where
  "published_inv E t n \<longleftrightarrow>
     (\<forall>v. sui_puts E n v = (if sui_addr_to_publish E = Some v
        then t + (if sui_addr_published n then 1 else 0) else 0)) \<and>
     (\<forall>v. vault_puts E n v = (if vault_id_to_publish E = Some v
        then t + (if vault_published n then 1 else 0) else 0)) \<and>
     own_puts E n"

lemma put_calls_set: "CPutRecord k v \<in> set (nd_calls n) \<longleftrightarrow> CPutRecord k v \<in> set (put_calls n)"
  by (simp add: put_calls_def)

lemma published_still: "still E n n' \<Longrightarrow> published_inv E t n \<Longrightarrow> published_inv E t n'"
  by (simp add: published_inv_def own_puts_def still_def sui_puts_def vault_puts_def put_calls_set)

lemma local_kept: "sw_keeps E w w' \<Longrightarrow> sw_local_peer_id E w' = sw_local_peer_id E w"
  by (simp add: sw_keeps_def)

lemma publish_effect:
  assumes "swarm_ok E"
  shows "sui_puts E (publish_sui_addr_record E a n) v = sui_puts E n v + (if v = a then 1 else 0)"
    and "vault_puts E (publish_sui_addr_record E a n) v = vault_puts E n v"
    and "vault_puts E (publish_vault_record E b n) v = vault_puts E n v + (if v = b then 1 else 0)"
    and "sui_puts E (publish_vault_record E b n) v = sui_puts E n v"
    and "CPutRecord k v \<in> set (nd_calls (publish_sui_addr_record E a n)) \<longleftrightarrow>
      CPutRecord k v \<in> set (nd_calls n) \<or> k = sui_record_key E (sw_local_peer_id E (nd_swarm n)) \<and> v = a"
    and "CPutRecord k v \<in> set (nd_calls (publish_vault_record E b n)) \<longleftrightarrow>
      CPutRecord k v \<in> set (nd_calls n) \<or> k = vault_record_key E (sw_local_peer_id E (nd_swarm n)) \<and> v = b"
  using local_kept [OF swarm_keeps(6) [OF assms]]
  by (auto simp: publish_sui_addr_record_def publish_vault_record_def put_record_def did_def Let_def
      sui_puts_def vault_puts_def put_calls_def)

lemma local_publish:
  assumes "swarm_ok E"
  shows "sw_local_peer_id E (nd_swarm (publish_sui_addr_record E a n)) = sw_local_peer_id E (nd_swarm n)"
    and "sw_local_peer_id E (nd_swarm (publish_vault_record E b n)) = sw_local_peer_id E (nd_swarm n)"
  using local_kept [OF swarm_keeps(6) [OF assms]]
  by (simp_all add: publish_sui_addr_record_def publish_vault_record_def put_record_def did_def Let_def)

lemma own_puts_publish:
  assumes "swarm_ok E"
  shows "own_puts E n \<Longrightarrow> sui_addr_to_publish E = Some a \<Longrightarrow> own_puts E (publish_sui_addr_record E a n)"
    and "own_puts E n \<Longrightarrow> vault_id_to_publish E = Some b \<Longrightarrow> own_puts E (publish_vault_record E b n)"
  unfolding own_puts_def local_publish [OF assms] publish_effect [OF assms] by blast+

lemma own_puts_flags [simp]:
  "own_puts E (n\<lparr>sui_addr_published := b\<rparr>) = own_puts E n" "own_puts E (n\<lparr>vault_published := b\<rparr>) = own_puts E n"
  by (simp_all add: own_puts_def)

lemma flags_publish [simp]:
  "sui_addr_published (publish_sui_addr_record E a n) = sui_addr_published n"
  "vault_published (publish_sui_addr_record E a n) = vault_published n"
  "sui_addr_published (publish_vault_record E b n) = sui_addr_published n"
  "vault_published (publish_vault_record E b n) = vault_published n"
  by (simp_all add: publish_sui_addr_record_def publish_vault_record_def put_record_def did_def Let_def)

lemma puts_upd [simp]:
  "sui_puts E (n\<lparr>sui_addr_published := b\<rparr>) v = sui_puts E n v"
  "vault_puts E (n\<lparr>sui_addr_published := b\<rparr>) v = vault_puts E n v"
  "sui_puts E (n\<lparr>vault_published := b\<rparr>) v = sui_puts E n v"
  "vault_puts E (n\<lparr>vault_published := b\<rparr>) v = vault_puts E n v"
  by (simp_all add: sui_puts_def vault_puts_def put_calls_def)

lemma published_once:
  assumes "swarm_ok E" and "published_inv E t n"
  shows "published_inv E t (publish_once E n)"
  using assms(2)
  by (auto simp: published_inv_def publish_once_def Let_def publish_effect [OF assms(1)] own_puts_publish [OF assms(1)]
      split: option.splits)

lemma published_republish:
  assumes "swarm_ok E" and "published_inv E t n"
  shows "published_inv E (Suc t) (republish E n)"
  using assms(2)
  by (auto simp: published_inv_def republish_def Let_def publish_effect [OF assms(1)] own_puts_publish [OF assms(1)]
      split: option.splits)

lemma published_connection:
  assumes "swarm_ok E" and "published_inv E t n"
  shows "published_inv E t (connection_established E p ep n)"
proof -
  let ?n1 = "add_address E p (endpoint_addr ep) n"
  let ?n2 = "publish_once E ?n1"
  let ?n3 = "if p \<in> bootstrap_peers ?n2 then on_bootstrap_peer E ?n2 else ?n2"
  have "published_inv E t ?n1"
    by (rule published_still [OF still_calls(2) [OF assms(1)] assms(2)])
  then have n2: "published_inv E t ?n2" by (rule published_once [OF assms(1)])
  have "published_inv E t ?n3"
    using n2 published_still [OF still_bootstrap [OF assms(1)] n2] by simp
  then have "published_inv E t (flush_announces E ?n3)"
    by (rule published_still [OF still_flush [OF assms(1)]])
  then show ?thesis by (simp add: connection_established_def Let_def)
qed

lemma fold_same: "(\<And>x m. g (f x m) = g m) \<Longrightarrow> g (fold f xs m) = g m"
  by (induction xs arbitrary: m) simp_all

lemma start_still:
  assumes "swarm_ok E" and "node_start E w store counter la ba ea = Inr n"
  shows "put_calls n = [] \<and> \<not> sui_addr_published n \<and> \<not> vault_published n \<and>
    peer_addresses n = (\<lambda>_. None) \<and> announce_retried n = {} \<and> pending_announces n = []"
proof -
  obtain n0 where n: "n = fold (\<lambda>(p, addr) n. fst (dial E (ma_push_p2p E addr p) n)) ba
      (fold (\<lambda>(p, addr). add_address E p addr) ba n0)"
    and n0: "nd_calls n0 = []" "\<not> sui_addr_published n0" "\<not> vault_published n0"
      "peer_addresses n0 = (\<lambda>_. None)" "announce_retried n0 = {}" "pending_announces n0 = []"
    using assms(2) by (auto simp: node_start_def Let_def split: prod.splits sum.splits)
  have "still E n0 (fold (\<lambda>(p, addr). add_address E p addr) ba n0)" (is "still E n0 ?n1")
    using assms(1) by (intro still_fold) auto
  moreover have "still E ?n1 n"
    unfolding n using assms(1) by (intro still_fold) auto
  ultimately have "still E n0 n" by (rule still_trans)
  moreover have "(peer_addresses n, announce_retried n, pending_announces n) =
      (peer_addresses n0, announce_retried n0, pending_announces n0)"
    unfolding n
    by (subst fold_same [where g = "\<lambda>n. (peer_addresses n, announce_retried n, pending_announces n)"],
        simp add: split_beta dial_def did_def,
        subst fold_same [where g = "\<lambda>n. (peer_addresses n, announce_retried n, pending_announces n)"],
        simp add: split_beta add_address_def did_def) simp
  ultimately show ?thesis using n0 by (simp add: still_def put_calls_def)
qed

section \<open>Histories\<close>

text \<open>
  The steps of the loop with what caused them: a command, an event of the swarm, the hourly timer,
  or a change outside the loop.
\<close>

datatype ('p, 'a) cause = By_Command "('p, 'a) p2p_command" | By_Event "('p, 'a) swarm_event" | By_Timer | By_Others

inductive node_caused :: "('w, 'p, 'a) p2p_env \<Rightarrow> ('p, 'a) cause \<Rightarrow> ('w, 'p, 'a, 'd) node \<times> nat list \<times> nat \<Rightarrow>
    ('w, 'p, 'a, 'd) node \<times> nat list \<times> nat \<Rightarrow> bool" for E where
  command: "set (reply_of cmd) \<inter> set hs = {} \<Longrightarrow>
    node_caused E (By_Command cmd) (n, hs, t) (handle_command E cmd n, hs @ reply_of cmd, t)"
| event: "handle_swarm_event E ev n = Ret n' \<Longrightarrow> node_caused E (By_Event ev) (n, hs, t) (n', hs, t)"
| timer: "node_caused E By_Timer (n, hs, t) (republish E n, hs, Suc t)"
| others: "(\<And>s. sw_issued E (nd_swarm n) s \<subseteq> sw_issued E w s) \<Longrightarrow>
    sw_local_peer_id E w = sw_local_peer_id E (nd_swarm n) \<Longrightarrow>
    node_caused E By_Others (n, hs, t) (n\<lparr>nd_swarm := w, nd_store := st\<rparr>, hs, t)"

inductive node_history :: "('w, 'p, 'a) p2p_env \<Rightarrow> ('p, 'a) cause list \<Rightarrow>
    ('w, 'p, 'a, 'd) node \<times> nat list \<times> nat \<Rightarrow> bool" for E where
  start: "node_start E w store counter listen_addr bootstrap_addrs external_addrs = Inr n \<Longrightarrow>
    node_history E [] (n, [], 0)"
| step: "node_history E cs s \<Longrightarrow> node_caused E c s s' \<Longrightarrow> node_history E (cs @ [c]) s'"

lemma step_caused: "node_step E s s' \<longleftrightarrow> (\<exists>c. node_caused E c s s')"
proof
  show "node_step E s s' \<Longrightarrow> \<exists>c. node_caused E c s s'"
    by (erule node_step.cases) (blast intro: node_caused.intros)+
  have "node_caused E c s s' \<Longrightarrow> node_step E s s'" for c
    by (erule node_caused.cases) (blast intro: node_step.intros)+
  then show "\<exists>c. node_caused E c s s' \<Longrightarrow> node_step E s s'" by blast
qed

text \<open>Every reachable state has a history, and every history leads to a reachable state.\<close>

lemma reach_history: "node_reach E s \<longleftrightarrow> (\<exists>cs. node_history E cs s)"
proof
  show "node_reach E s \<Longrightarrow> \<exists>cs. node_history E cs s"
    by (induction rule: node_reach.induct) (blast intro: node_history.intros dest: step_caused [THEN iffD1])+
  have "node_history E cs s \<Longrightarrow> node_reach E s" for cs
    by (induction rule: node_history.induct) (blast intro: node_reach.intros step_caused [THEN iffD2])+
  then show "\<exists>cs. node_history E cs s \<Longrightarrow> node_reach E s" by blast
qed

definition timer_ticks :: "('p, 'a) cause list \<Rightarrow> nat" where
  "timer_ticks cs = length (filter (\<lambda>c. c = By_Timer) cs)"

definition was_connected :: "('p, 'a) cause list \<Rightarrow> bool" where
  "was_connected cs \<longleftrightarrow> (\<exists>p ep. By_Event (ConnectionEstablished p ep) \<in> set cs)"

lemma history_simps [simp]:
  "timer_ticks [] = 0" "timer_ticks (cs @ [c]) = timer_ticks cs + (if c = By_Timer then 1 else 0)"
  "\<not> was_connected []" "was_connected (cs @ [c]) \<longleftrightarrow> was_connected cs \<or> (\<exists>p ep. c = By_Event (ConnectionEstablished p ep))"
  by (auto simp: timer_ticks_def was_connected_def)

text \<open>The flags say that there was a connection and that there is something to publish.\<close>

definition flags_inv :: "('w, 'p, 'a) p2p_env \<Rightarrow> bool \<Rightarrow> ('w, 'p, 'a, 'd) node \<Rightarrow> bool" where
  "flags_inv E c n \<longleftrightarrow> (sui_addr_published n \<longleftrightarrow> c \<and> sui_addr_to_publish E \<noteq> None) \<and>
     (vault_published n \<longleftrightarrow> c \<and> vault_id_to_publish E \<noteq> None)"

lemma flags_still: "still E n n' \<Longrightarrow> flags_inv E c n \<Longrightarrow> flags_inv E c n'"
  by (simp add: flags_inv_def still_def)

lemma flags_once: "flags_inv E c n \<Longrightarrow> flags_inv E True (publish_once E n)"
  by (auto simp: flags_inv_def publish_once_def Let_def split: option.splits)

lemma flags_republish: "flags_inv E c n \<Longrightarrow> flags_inv E c (republish E n)"
  by (simp add: flags_inv_def republish_def Let_def split: option.split)

lemma flags_connection:
  assumes "swarm_ok E" and "flags_inv E c n"
  shows "flags_inv E True (connection_established E p ep n)"
proof -
  let ?n1 = "add_address E p (endpoint_addr ep) n"
  let ?n2 = "publish_once E ?n1"
  let ?n3 = "if p \<in> bootstrap_peers ?n2 then on_bootstrap_peer E ?n2 else ?n2"
  have "flags_inv E c ?n1"
    by (rule flags_still [OF still_calls(2) [OF assms(1)] assms(2)])
  then have n2: "flags_inv E True ?n2" by (rule flags_once)
  have "flags_inv E True ?n3"
    using n2 flags_still [OF still_bootstrap [OF assms(1)] n2] by simp
  then have "flags_inv E True (flush_announces E ?n3)"
    by (rule flags_still [OF still_flush [OF assms(1)]])
  then show ?thesis by (simp add: connection_established_def Let_def)
qed

lemma history_published:
  assumes "swarm_ok E" and "node_history E cs s"
  shows "case s of (n, hs, t) \<Rightarrow>
    published_inv E (timer_ticks cs) n \<and> flags_inv E (was_connected cs) n \<and> t = timer_ticks cs"
  using assms(2)
proof (induction rule: node_history.induct)
  case (start w store counter la ba ea n)
  from start_still [OF assms(1) start] show ?case
    by (simp add: published_inv_def own_puts_def flags_inv_def sui_puts_def vault_puts_def put_calls_set)
next
  case (step cs s c s')
  have other: "published_inv E (timer_ticks cs) n' \<and> flags_inv E (was_connected cs) n'"
    if "still E n n'" "published_inv E (timer_ticks cs) n \<and> flags_inv E (was_connected cs) n" for n n'
    using that published_still flags_still by blast
  from step.hyps(2) show ?case
  proof (cases rule: node_caused.cases)
    case (command cmd hs n t)
    with step.IH other [OF still_command [OF assms(1), of n cmd]] show ?thesis by simp
  next
    case (event ev n n' hs t)
    show ?thesis
    proof (cases ev)
      case (Behaviour e)
      with event step.IH other [OF still_behaviour [OF assms(1), of e n n']] show ?thesis by simp
    next
      case (ConnectionEstablished p ep)
      with event step.IH published_connection [OF assms(1)] flags_connection [OF assms(1)] show ?thesis by auto
    qed (use event step.IH in auto)
  next
    case (timer n hs t)
    with step.IH show ?thesis by (auto intro: published_republish [OF assms(1)] flags_republish)
  next
    case (others n w hs t st)
    then have "still E n (n\<lparr>nd_swarm := w, nd_store := st\<rparr>)" by (simp add: still_def put_calls_def)
    from other [OF this] others step.IH show ?thesis by simp
  qed
qed

text \<open>
  C14: what is published: after every history of the loop the node has put its Sui address under its
  own key exactly once for each tick of the hourly timer, and once more if a connection was ever
  established, no matter how many; the same for its vault; and it has never put anything else into the DHT.
\<close>

theorem records_published_once:
  assumes "swarm_ok E" and "node_history E cs (n, hs, t)"
  shows "(\<forall>v. sui_puts E n v = (if sui_addr_to_publish E = Some v
        then timer_ticks cs + (if was_connected cs then 1 else 0) else 0)) \<and>
    (\<forall>v. vault_puts E n v = (if vault_id_to_publish E = Some v
        then timer_ticks cs + (if was_connected cs then 1 else 0) else 0)) \<and>
    (\<forall>k v. CPutRecord k v \<in> set (nd_calls n) \<longrightarrow>
       k = sui_record_key E (sw_local_peer_id E (nd_swarm n)) \<and> sui_addr_to_publish E = Some v \<or>
       k = vault_record_key E (sw_local_peer_id E (nd_swarm n)) \<and> vault_id_to_publish E = Some v)"
  using history_published [OF assms] by (auto simp: published_inv_def own_puts_def flags_inv_def)

end
