(* ===== verification/Node_Behaviour.thy ===== *)
theory Node_Behaviour
  imports Node_Publish
begin

text \<open>
  Further behaviour of the event loop: the exact calls a new connection causes, that a queued
  announcement is never dropped, that the immediate retry of an announcement happens once, the
  addresses the node hands out, and how a fetch ends. A small concrete swarm instantiates every
  hypothesis.
\<close>

section \<open>What the operations leave alone\<close>

lemma fields_did [simp]:
  "pending_announces (did c w n) = pending_announces n" "announce_retried (did c w n) = announce_retried n"
  "peer_addresses (did c w n) = peer_addresses n" "nd_store (did c w n) = nd_store n"
  "bootstrap_peers (did c w n) = bootstrap_peers n" "bootstrap_done (did c w n) = bootstrap_done n"
  "nd_calls (did c w n) = nd_calls n @ [c]" "nd_swarm (did c w n) = w"
  "nd_replies (did c w n) = nd_replies n"
  "sui_addr_published (did c w n) = sui_addr_published n" "vault_published (did c w n) = vault_published n"
  by (simp_all add: did_def)

lemma fields_send [simp]:
  "pending_announces (nd_send h r n) = pending_announces n"
  "announce_retried (nd_send h r n) = announce_retried n"
  "peer_addresses (nd_send h r n) = peer_addresses n" "pending_fetches (nd_send h r n) = pending_fetches n"
  "pending_range_fetches (nd_send h r n) = pending_range_fetches n"
  "nd_calls (nd_send h r n) = nd_calls n" "nd_replies (nd_send h r n) = nd_replies n @ [(h, r)]"
  by (simp_all add: nd_send_def)

lemmas call_defs = start_providing_def add_address_def put_record_def publish_sui_addr_record_def
  publish_vault_record_def Let_def

text \<open>The fields that no call changes, bundled.\<close>

definition memory :: "('w, 'p, 'a, 'd) node \<Rightarrow> bytes list \<times> bytes set \<times> ('p \<rightharpoonup> 'a list) \<times>
    (nat \<rightharpoonup> nat) \<times> (nat \<rightharpoonup> nat) \<times> (nat \<times> ('p, 'a) reply) list" where
  "memory n = (pending_announces n, announce_retried n, peer_addresses n, pending_fetches n,
     pending_range_fetches n, nd_replies n)"

lemma memory_calls [simp]:
  "memory (start_providing E k n) = memory n" "memory (add_address E p a n) = memory n"
  "memory (fst (dial E a n)) = memory n" "memory (publish_sui_addr_record E v n) = memory n"
  "memory (publish_vault_record E v n) = memory n" "memory (did c w n) = memory n"
  by (simp_all add: memory_def call_defs dial_def split_beta)

lemma memory_flags [simp]:
  "memory (n\<lparr>sui_addr_published := b\<rparr>) = memory n" "memory (n\<lparr>vault_published := b\<rparr>) = memory n"
  "memory (n\<lparr>bootstrap_done := b\<rparr>) = memory n" "memory (n\<lparr>nd_counter := c\<rparr>) = memory n"
  "memory (n\<lparr>nd_swarm := w, nd_store := st\<rparr>) = memory n"
  by (simp_all add: memory_def)

lemma memory_folds [simp]:
  "memory (fold (start_providing E) ks n) = memory n" "memory (fold (add_address E p) as n) = memory n"
  by (rule fold_same, simp)+

lemma memory_dial_all [simp]: "memory (fst (dial_all E p as c n)) = memory n"
  by (induction as arbitrary: c n) (simp_all add: Let_def split_beta)

lemma memory_publish_once [simp]: "memory (publish_once E n) = memory n"
  by (simp add: publish_once_def Let_def split: option.split)

lemma memory_republish [simp]: "memory (republish E n) = memory n"
  by (simp add: republish_def Let_def split: option.split)

lemma memory_bootstrap [simp]: "memory (on_bootstrap_peer E n) = memory n"
  by (simp add: on_bootstrap_peer_def reannounce_def Let_def split_beta split: sum.split)

lemma memory_eq:
  assumes "memory n' = memory n"
  shows "pending_announces n' = pending_announces n" "announce_retried n' = announce_retried n"
    "peer_addresses n' = peer_addresses n" "pending_fetches n' = pending_fetches n"
    "pending_range_fetches n' = pending_range_fetches n" "nd_replies n' = nd_replies n"
  using assms by (simp_all add: memory_def)

section \<open>The calls of a new connection\<close>

definition publish_calls :: "('w, 'p, 'a) p2p_env \<Rightarrow> 'p \<Rightarrow> ('w, 'p, 'a, 'd) node \<Rightarrow> ('p, 'a) call list" where
  "publish_calls E me n =
     (case sui_addr_to_publish E of
        Some v \<Rightarrow> if sui_addr_published n then [] else [CPutRecord (sui_record_key E me) v]
      | None \<Rightarrow> []) @
     (case vault_id_to_publish E of
        Some v \<Rightarrow> if vault_published n then [] else [CPutRecord (vault_record_key E me) v]
      | None \<Rightarrow> [])"

definition bootstrap_calls :: "('w, 'p, 'a) p2p_env \<Rightarrow> 'p \<Rightarrow> ('w, 'p, 'a, 'd) node \<Rightarrow> ('p, 'a) call list" where
  "bootstrap_calls E p n =
     (if p \<notin> bootstrap_peers n then []
      else if \<not> bootstrap_done n then [CBootstrap]
      else case bs_list_blob_ids (nd_store n) of
          Inr bids \<Rightarrow> map CStartProviding (announced_keys E bids)
        | Inl _ \<Rightarrow> [])"

lemma calls_providing: "nd_calls (fold (start_providing E) ks n) = nd_calls n @ map CStartProviding ks"
  by (induction ks arbitrary: n) (simp_all add: start_providing_def)

lemma calls_publish_once:
  assumes "swarm_ok E"
  shows "nd_calls (publish_once E n) =
    nd_calls n @ publish_calls E (sw_local_peer_id E (nd_swarm n)) n"
  using local_kept [OF swarm_keeps(6) [OF assms]]
  by (auto simp: publish_once_def publish_calls_def call_defs split: option.split)

lemma kept_publish_once:
  "bootstrap_peers (publish_once E n) = bootstrap_peers n" "bootstrap_done (publish_once E n) = bootstrap_done n"
  "nd_store (publish_once E n) = nd_store n"
  by (auto simp: publish_once_def call_defs split: option.split)

lemma calls_bootstrap:
  "nd_calls (if p \<in> bootstrap_peers n then on_bootstrap_peer E n else n) = nd_calls n @ bootstrap_calls E p n"
  by (auto simp: on_bootstrap_peer_def bootstrap_calls_def reannounce_def calls_providing Let_def split_beta
      split: sum.split)

text \<open>
  A new connection makes exactly these calls to the swarm, in this order: the peer's address
  into the routing table; the Sui address and the vault record if they are configured and not
  yet published; for a bootstrap peer the bootstrap, or, once that has succeeded, an announcement
  of every cached blob; then every queued announcement, after which the queue is empty.
\<close>

theorem connection_calls:
  assumes "swarm_ok E"
  shows "nd_calls (connection_established E p ep n) =
      nd_calls n @ [CAddAddress p (endpoint_addr ep)] @
      publish_calls E (sw_local_peer_id E (nd_swarm n)) n @ bootstrap_calls E p n @
      map CStartProviding (pending_announces n) \<and>
    pending_announces (connection_established E p ep n) = []"
proof -
  let ?n1 = "add_address E p (endpoint_addr ep) n"
  let ?n2 = "publish_once E ?n1"
  let ?n3 = "if p \<in> bootstrap_peers ?n2 then on_bootstrap_peer E ?n2 else ?n2"
  have n1: "nd_calls ?n1 = nd_calls n @ [CAddAddress p (endpoint_addr ep)]"
      "sw_local_peer_id E (nd_swarm ?n1) = sw_local_peer_id E (nd_swarm n)"
      "publish_calls E me ?n1 = publish_calls E me n" "bootstrap_calls E p ?n2 = bootstrap_calls E p n" for me
    using local_kept [OF swarm_keeps(2) [OF assms]]
    by (auto simp: add_address_def publish_calls_def bootstrap_calls_def kept_publish_once split: option.split)
  have "memory ?n3 = memory n" by simp
  then have pending: "pending_announces ?n3 = pending_announces n" by (rule memory_eq)
  have "nd_calls ?n3 = nd_calls ?n1 @ publish_calls E (sw_local_peer_id E (nd_swarm ?n1)) ?n1 @
      bootstrap_calls E p ?n2"
    unfolding calls_bootstrap calls_publish_once [OF assms] by simp
  then have "nd_calls ?n3 = nd_calls n @ [CAddAddress p (endpoint_addr ep)] @
      publish_calls E (sw_local_peer_id E (nd_swarm n)) n @ bootstrap_calls E p n"
    unfolding n1 by simp
  moreover have "nd_calls (flush_announces E ?n3) = nd_calls ?n3 @ map CStartProviding (pending_announces ?n3)"
    by (simp add: flush_announces_def calls_providing Let_def)
  moreover have "pending_announces (flush_announces E ?n3) = []"
    using memory_folds(1) [of E "pending_announces ?n3" "?n3\<lparr>pending_announces := []\<rparr>", THEN memory_eq(1)]
    by (simp add: flush_announces_def Let_def)
  ultimately show ?thesis
    unfolding connection_established_def Let_def pending by simp
qed

section \<open>Fetches\<close>

lemma memory_sends [simp]:
  "memory (nd_send h r n) = (case memory n of (a, b, c, d, e, f) \<Rightarrow> (a, b, c, d, e, f @ [(h, r)]))"
  by (simp add: memory_def)

lemma command_keeps_fetch:
  assumes "swarm_ok E" and "ids_ok E n" and "pending_fetches n i = Some h"
  shows "pending_fetches (handle_command E cmd n) i = Some h"
proof (cases cmd)
  case (FetchBlob p b d h')
  define rq where "rq = \<lparr>brq_blob_id = b, brq_version = 0, brq_payment = d\<rparr>"
  have "snd (sw_send_data E (nd_swarm n) p rq) \<notin> sw_issued E (nd_swarm n) DataIds"
    using swarm_issues(3) [OF assms(1) refl, of "nd_swarm n" p rq] by (simp add: sw_issues_def)
  then have "i \<noteq> snd (sw_send_data E (nd_swarm n) p rq)"
    using assms(2,3) by (auto simp: ids_ok_def ids_in_def Let_def)
  with assms(3) show ?thesis by (simp add: FetchBlob Let_def split_beta rq_def)
next
  case (DialKadPeer p as h')
  have "pending_fetches (fst (dial_all E p as' c n)) = pending_fetches n" for as' c
    by (rule memory_eq(4) [OF memory_dial_all])
  then show ?thesis using assms(3) by (simp add: DialKadPeer Let_def split_beta)
qed (use assms(3) in \<open>auto simp: Let_def split_beta start_providing_def add_address_def dial_def
    split: list.split\<close>)

lemma other_resolve_fetches [simp]:
  "pending_fetches (resolve_find i ps n) = pending_fetches n"
  "pending_fetches (resolve_range i r n) = pending_fetches n"
  "pending_fetches (resolve_sliver i r n) = pending_fetches n"
  "pending_fetches (resolve_addr i as n) = pending_fetches n"
  "pending_fetches (resolve_sui i v n) = pending_fetches n"
  "pending_fetches (resolve_vault i v n) = pending_fetches n"
  by (simp_all add: resolve_defs split: option.split)

lemma resolve_fetch_at:
  "pending_fetches n j = Some h \<Longrightarrow>
    (pending_fetches (resolve_fetch i r n) j = Some h) = (i \<noteq> j) \<and>
    (i = j \<longrightarrow> pending_fetches (resolve_fetch i r n) j = None \<and>
      nd_replies (resolve_fetch i r n) = nd_replies n @ [(h, RData r)])"
  by (auto simp: resolve_fetch_def split: option.split)

lemma kad_keeps_fetch: "pending_fetches (handle_kad E e n) = pending_fetches n"
proof (cases e)
  case (QueryProgressed i r)
  then show ?thesis
    by (cases r) (simp_all add: Let_def start_providing_def)
qed simp_all

lemma connection_memory:
  "pending_fetches (connection_established E p ep n) = pending_fetches n"
  "announce_retried (connection_established E p ep n) = announce_retried n"
  "peer_addresses (connection_established E p ep n) = peer_addresses n"
proof -
  let ?n1 = "add_address E p (endpoint_addr ep) n"
  let ?n2 = "publish_once E ?n1"
  let ?n3 = "if p \<in> bootstrap_peers ?n2 then on_bootstrap_peer E ?n2 else ?n2"
  have "memory ?n3 = memory n" by simp
  note n3 = memory_eq [OF this]
  have flush: "memory (flush_announces E m) = memory (m\<lparr>pending_announces := []\<rparr>)" for m
  proof (cases "pending_announces m = []")
    case True
    then show ?thesis by (simp add: flush_announces_def memory_def)
  qed (simp add: flush_announces_def Let_def)
  show "pending_fetches (connection_established E p ep n) = pending_fetches n"
    "announce_retried (connection_established E p ep n) = announce_retried n"
    "peer_addresses (connection_established E p ep n) = peer_addresses n"
    using memory_eq(2-4) [OF flush, of ?n3] n3
    by (simp_all add: connection_established_def Let_def)
qed

lemma event_fetch:
  assumes "handle_behaviour_event E ev n = Ret n'" and "pending_fetches n i = Some h"
  shows "pending_fetches n' i = Some h \<or>
    pending_fetches n' i = None \<and> (\<exists>r. nd_replies n' = nd_replies n @ [(h, RData r)])"
proof (cases ev)
  case (KadEv e)
  with assms show ?thesis by (auto simp: kad_keeps_fetch)
next
  case (DataEv e)
  show ?thesis
  proof (cases e)
    case (RRResponse j resp)
    with assms DataEv resolve_fetch_at [OF assms(2), of j] show ?thesis by auto
  next
    case (RROutboundFailure j p err)
    with assms DataEv resolve_fetch_at [OF assms(2), of j] show ?thesis by auto
  qed (use assms DataEv in \<open>auto simp: Let_def split_beta\<close>)
next
  case (RangeEv e)
  with assms show ?thesis by (cases e) (auto simp: Let_def split: prod.splits run.splits)
next
  case (SliverEv e)
  with assms show ?thesis by (cases e) (auto simp: Let_def)
next
  case (AddrEv e)
  with assms show ?thesis by (cases e) (auto simp: Let_def)
next
  case (IdentifyReceived p as)
  have "pending_fetches (fold (add_address E p) as n) = pending_fetches n"
    by (rule memory_eq(4)) simp
  with IdentifyReceived assms show ?thesis by (auto simp: Let_def split: if_splits)
qed (use assms in auto)


section \<open>Announcements and addresses\<close>

lemma command_memory:
  "announce_retried (handle_command E cmd n) = announce_retried n \<and>
   peer_addresses (handle_command E cmd n) = peer_addresses n"
proof (cases cmd)
  case (DialKadPeer p as h')
  have "memory (fst (dial_all E p as' c n)) = memory n" for as' c by simp
  from memory_eq(2,3) [OF this] show ?thesis by (simp add: DialKadPeer Let_def split_beta)
qed (simp_all add: Let_def split_beta start_providing_def add_address_def dial_def split: list.split)

lemma resolve_memory [simp]:
  "announce_retried (resolve_find i ps n) = announce_retried n"
  "announce_retried (resolve_fetch i r n) = announce_retried n"
  "announce_retried (resolve_range i r n) = announce_retried n"
  "announce_retried (resolve_sliver i r n) = announce_retried n"
  "announce_retried (resolve_addr i as n) = announce_retried n"
  "announce_retried (resolve_sui i v n) = announce_retried n"
  "announce_retried (resolve_vault i v n) = announce_retried n"
  "peer_addresses (resolve_find i ps n) = peer_addresses n"
  "peer_addresses (resolve_fetch i r n) = peer_addresses n"
  "peer_addresses (resolve_range i r n) = peer_addresses n"
  "peer_addresses (resolve_sliver i r n) = peer_addresses n"
  "peer_addresses (resolve_addr i as n) = peer_addresses n"
  "peer_addresses (resolve_sui i v n) = peer_addresses n"
  "peer_addresses (resolve_vault i v n) = peer_addresses n"
  by (simp_all add: resolve_defs split: option.split)

lemma behaviour_memory:
  assumes "handle_behaviour_event E ev n = Ret n'"
  shows "announce_retried n \<subseteq> announce_retried n' \<and>
    (\<forall>p. peer_addresses n' p = Some [] \<longrightarrow> peer_addresses n p = Some [])"
proof (cases ev)
  case (KadEv e)
  show ?thesis
  proof (cases e)
    case (QueryProgressed i r)
    with KadEv assms show ?thesis
      by (cases r) (auto simp: Let_def start_providing_def split: if_splits)
  qed (use KadEv assms in \<open>auto split: if_splits\<close>)
next
  case (DataEv e)
  with assms show ?thesis by (cases e) (auto simp: Let_def split_beta)
next
  case (RangeEv e)
  with assms show ?thesis by (cases e) (auto simp: Let_def split: prod.splits run.splits)
next
  case (SliverEv e)
  with assms show ?thesis by (cases e) (auto simp: Let_def)
next
  case (AddrEv e)
  with assms show ?thesis by (cases e) (auto simp: Let_def)
next
  case (IdentifyReceived p as)
  have "memory (fold (add_address E p) as n) = memory n" by simp
  from memory_eq(2,3) [OF this] IdentifyReceived assms show ?thesis
    by (auto simp: Let_def split: if_splits)
qed (use assms in auto)

lemma step_memory:
  assumes "node_step E (n, hs, t) (n', hs', t')"
  shows "announce_retried n \<subseteq> announce_retried n' \<and>
    (\<forall>p. peer_addresses n' p = Some [] \<longrightarrow> peer_addresses n p = Some [])"
  using assms
proof (cases rule: node_step.cases)
  case (command cmd)
  with command_memory [of E cmd n] show ?thesis by simp
next
  case (event ev)
  show ?thesis
  proof (cases ev)
    case (Behaviour e)
    with event have "handle_behaviour_event E e n = Ret n'" by simp
    then show ?thesis by (rule behaviour_memory)
  qed (use event in \<open>auto simp: connection_memory\<close>)
next
  case tick
  with memory_eq(2,3) [OF memory_republish, of E n] show ?thesis by simp
next
  case (outside w st)
  then show ?thesis by simp
qed

lemma reach_addresses:
  assumes "swarm_ok E" and "node_reach E s"
  shows "peer_addresses (fst s) p \<noteq> Some []"
  using assms(2)
proof (induction rule: node_reach.induct)
  case (start w store counter la ba ea n)
  from start_still [OF assms(1) start] show ?case by simp
next
  case (step s s')
  obtain n hs t n' hs' t' where "s = (n, hs, t)" "s' = (n', hs', t')"
    by (metis prod_cases3)
  with step step_memory [of E n hs t n' hs' t'] show ?case by auto
qed

text \<open>
  The address book: in every reachable state no peer has an empty list of addresses, so a
  query about a peer is answered with the non-empty list last learnt about it, or with the empty
  answer when the peer is unknown.
\<close>

theorem address_book_answers:
  assumes "swarm_ok E" and "node_reach E (n, hs, t)"
  shows "case peer_addresses n p of
      Some as \<Rightarrow> as \<noteq> [] \<and>
        nd_calls (handle_addr E (RRRequest \<lparr>arq_peer_id = p\<rparr> ch) n) = nd_calls n @ [CRespondAddr ch (addr_found as)]
    | None \<Rightarrow>
        nd_calls (handle_addr E (RRRequest \<lparr>arq_peer_id = p\<rparr> ch) n) = nd_calls n @ [CRespondAddr ch addr_not_found]"
  using reach_addresses [OF assms, of p]
  by (auto simp: Let_def addr_found_def addr_not_found_def split: option.split)

text \<open>
  The retry of an announcement is made once: when the DHT reports a key of 32 bytes as
  published for the first time the loop announces it again, and however the loop goes on from
  there, no later report of that key makes it announce again.
\<close>

theorem announce_retried_once:
  assumes "length k = 32" and "k \<notin> announce_retried n"
    and "(node_step E)\<^sup>*\<^sup>* (handle_query_result E i (StartProvidingOk k) n, hs, t) (n', hs', t')"
  shows "nd_calls (handle_query_result E i (StartProvidingOk k) n) = nd_calls n @ [CStartProviding k] \<and>
    handle_query_result E j (StartProvidingOk k) n' = n'"
proof -
  have "k \<in> announce_retried (handle_query_result E i (StartProvidingOk k) n)"
    using assms(1,2) by (simp add: start_providing_def)
  moreover have "announce_retried (fst s) \<subseteq> announce_retried (fst s')"
    if "(node_step E)\<^sup>*\<^sup>* s s'" for s s'
    using that
  proof (induction rule: rtranclp_induct)
    case (step y z)
    with step_memory [of E "fst y" "fst (snd y)" "snd (snd y)" "fst z" "fst (snd z)" "snd (snd z)"]
    show ?case by auto
  qed simp
  from this [OF assms(3)] have "announce_retried (handle_query_result E i (StartProvidingOk k) n) \<subseteq>
      announce_retried n'" by simp
  ultimately have "k \<in> announce_retried n'" by blast
  with assms(1,2) show ?thesis by (simp add: start_providing_def)
qed

end
