(* ===== verification/Node_Demo.thy ===== *)
theory Node_Demo
  imports Node_Behaviour
begin

text \<open>
  A concrete swarm, whose state counts the ids it has handed out, and a short run of the loop
  over it: the start, a fetch and its answer. The conditional properties of the node are applied
  to it.
\<close>

definition demo_swarm :: "(nat, nat, nat) p2p_env" where
  "demo_swarm =
     \<lparr>sw_listen_on = (\<lambda>w a. (w, Inr ())), sw_set_server = (\<lambda>w. w), sw_add_external = (\<lambda>w a. w),
      sw_start_providing = (\<lambda>w k. (Suc w, Inr ())), sw_get_providers = (\<lambda>w k. (Suc w, w)),
      sw_get_record = (\<lambda>w k. (Suc w, w)), sw_put_record = (\<lambda>w k v. (Suc w, Inr ())),
      sw_add_address = (\<lambda>w p a. w), sw_bootstrap = (\<lambda>w. (Suc w, Inr ())),
      sw_dial = (\<lambda>w a. (w, Inr ())), sw_disconnect = (\<lambda>w p. (w, Inr ())),
      sw_connected = (\<lambda>w. [7]), sw_send_data = (\<lambda>w p r. (Suc w, w)),
      sw_send_range = (\<lambda>w p r. (Suc w, w)), sw_send_sliver = (\<lambda>w p r. (Suc w, w)),
      sw_send_addr = (\<lambda>w p r. (Suc w, w)), sw_respond_data = (\<lambda>w c r. (w, Inr ())),
      sw_respond_range = (\<lambda>w c r. (w, Inr ())), sw_respond_sliver = (\<lambda>w c r. (w, Inr ())),
      sw_respond_addr = (\<lambda>w c r. (w, Inr ())), sw_local_peer_id = (\<lambda>w. 1),
      sw_issued = (\<lambda>w s. {i. i < w}), ma_push_p2p = (\<lambda>a p. a + p), ma_has_p2p = (\<lambda>a. False),
      pid_bytes = (\<lambda>p. [word_of_nat p]), blob_id_show = (\<lambda>b. ''k''), blob_id_parse = (\<lambda>s. None),
      sui_addr_to_publish = Some (replicate 32 9), vault_id_to_publish = None\<rparr>"

lemma demo_swarm_ok: "swarm_ok demo_swarm"
  by (simp add: swarm_ok_def sw_keeps_def sw_issues_def demo_swarm_def) auto

definition demo_start :: "(nat, nat, nat, mem_db) node" where
  "demo_start =
     \<lparr>nd_swarm = 0, nd_store = mem_store, nd_counter = 3,
      pending_finds = (\<lambda>_. None), pending_fetches = (\<lambda>_. None), pending_range_fetches = (\<lambda>_. None),
      pending_sliver_fetches = (\<lambda>_. None), pending_addr_queries = (\<lambda>_. None),
      peer_addresses = (\<lambda>_. None), bootstrap_peers = {7}, bootstrap_done = False,
      sui_addr_published = False, vault_published = False, pending_announces = [],
      announce_retried = {}, pending_sui_addr_queries = (\<lambda>_. None),
      pending_vault_queries = (\<lambda>_. None), nd_replies = [],
      nd_calls = [CAddAddress 7 70, CDial 77]\<rparr>"

lemma demo_node_start: "node_start demo_swarm 0 mem_store 3 1 [(7, 70)] [] = Inr demo_start"
  by (simp add: node_start_def demo_swarm_def demo_start_def add_address_def dial_def did_def)

lemma demo_start_reach: "node_reach demo_swarm (demo_start, [], 0)"
  by (rule node_reach.start [OF demo_node_start])

definition demo_fetching :: "(nat, nat, nat, mem_db) node" where
  "demo_fetching = handle_command demo_swarm (FetchBlob 7 (replicate 32 5) (replicate 32 0) 100) demo_start"

lemma demo_fetching_reach: "node_reach demo_swarm (demo_fetching, [100], 0)"
proof (rule node_reach.step [OF demo_start_reach])
  let ?c = "FetchBlob 7 (replicate 32 5) (replicate 32 0) 100 :: (nat, nat) p2p_command"
  have "set (reply_of ?c) \<inter> set [] = {}" by simp
  from node_step.command [OF this, of demo_swarm demo_start 0]
  show "node_step demo_swarm (demo_start, [], 0) (demo_fetching, [100], 0)"
    by (simp add: demo_fetching_def)
qed

lemma demo_fetching_pending: "pending_fetches demo_fetching 0 = Some 100"
  by (simp add: demo_fetching_def demo_start_def demo_swarm_def Let_def)

definition demo_fetched :: "(nat, nat, nat, mem_db) node" where
  "demo_fetched = handle_data demo_swarm (RRResponse 0 (blob_have [1, 2])) demo_fetching"

lemma demo_fetched_step: "node_step demo_swarm (demo_fetching, [100], 0) (demo_fetched, [100], 0)"
  by (rule node_step.event [where ev = "Behaviour (DataEv (RRResponse 0 (blob_have [1, 2])))"])
    (simp add: demo_fetched_def)

theorem senders_waiting_or_answered_witness:
  "node_reach demo_swarm (demo_fetching, [100], 0) \<and>
   mset [100] = waiting demo_fetching + mset (map fst (nd_replies demo_fetching))"
  using senders_waiting_or_answered [OF demo_swarm_ok demo_fetching_reach] demo_fetching_reach by blast

text \<open>Two connections and a tick: the address is put for the first connection and for the tick.\<close>

definition demo_causes :: "(nat, nat) cause list" where
  "demo_causes = [By_Event (ConnectionEstablished 7 (Dialer 70)), By_Event (ConnectionEstablished 8 (Dialer 80)), By_Timer]"

theorem records_published_once_witness:
  "\<exists>n :: (nat, nat, nat, mem_db) node. node_history demo_swarm demo_causes (n, [], 1) \<and> sui_puts demo_swarm n (replicate 32 9) = 2 \<and>
     length (put_calls n) = 2"
proof -
  let ?connect = "\<lambda>p ep. connection_established demo_swarm p ep"
  let ?n = "republish demo_swarm (?connect 8 (Dialer 80) (?connect 7 (Dialer 70) demo_start))"
  have event: "node_history demo_swarm (cs @ [By_Event (ConnectionEstablished p ep)]) (?connect p ep n, hs, t)"
    if "node_history demo_swarm cs (n, hs, t)" for cs p ep n hs t
    by (rule node_history.step [OF that node_caused.event]) simp
  have hist: "node_history demo_swarm demo_causes (?n, [], 1)"
    using node_history.step [OF event [OF event [OF node_history.start [OF demo_node_start]]] node_caused.timer]
    by (simp add: demo_causes_def)
  have "timer_ticks demo_causes = 1" "was_connected demo_causes"
    by (auto simp: demo_causes_def timer_ticks_def was_connected_def)
  moreover have "sui_addr_to_publish demo_swarm = Some (replicate 32 9)" by (simp add: demo_swarm_def)
  ultimately have "sui_puts demo_swarm ?n (replicate 32 9) = 2"
    using records_published_once [OF demo_swarm_ok hist] by simp
  moreover have "length (put_calls ?n) = 2"
    by (simp add: put_calls_def republish_def connection_established_def publish_once_def flush_announces_def
        on_bootstrap_peer_def publish_sui_addr_record_def put_record_def add_address_def did_def Let_def
        demo_start_def demo_swarm_def)
  ultimately show ?thesis using hist by blast
qed

theorem connection_calls_witness:
  "nd_calls (connection_established demo_swarm 7 (Dialer 70) demo_start) =
    [CAddAddress 7 70, CDial 77, CAddAddress 7 70,
     CPutRecord (sui_record_key demo_swarm 1) (replicate 32 9), CBootstrap]"
  using connection_calls [OF demo_swarm_ok, of 7 "Dialer 70" demo_start]
  by (simp add: publish_calls_def bootstrap_calls_def)
    (simp add: demo_start_def demo_swarm_def)


theorem address_book_answers_witness:
  "nd_calls (handle_addr demo_swarm (RRRequest \<lparr>arq_peer_id = 8\<rparr> 3) demo_fetching) =
    nd_calls demo_fetching @ [CRespondAddr 3 addr_not_found]"
proof -
  have "peer_addresses demo_fetching 8 = None"
    by (simp add: demo_fetching_def demo_start_def Let_def split_beta)
  then show ?thesis
    using address_book_answers [OF demo_swarm_ok demo_fetching_reach, of 8 3] by simp
qed

theorem announce_retried_once_witness:
  "\<exists>n :: (nat, nat, nat, mem_db) node. nd_calls n = nd_calls demo_start @ [CStartProviding (replicate 32 4)] \<and>
     handle_query_result demo_swarm 6 (StartProvidingOk (replicate 32 4)) n = n"
proof -
  let ?n = "handle_query_result demo_swarm 5 (StartProvidingOk (replicate 32 4)) demo_start"
  have "replicate 32 4 \<notin> announce_retried demo_start" by (simp add: demo_start_def)
  from announce_retried_once [where E = demo_swarm and i = 5 and j = 6 and hs = "[]" and t = 0,
      OF _ this rtranclp.rtrancl_refl]
  show ?thesis by (intro exI [of _ ?n]) simp
qed

end
