(* ===== verification/Effects.thy ===== *)
theory Effects
  imports Zing_Types
begin

text \<open>
  Async code over an outside world: an action takes the state it shares with the world and
  returns its outcome, which may be a panic, with the state after it. \<open>act_try\<close> is the \<^verbatim>\<open>?\<close>
  operator between actions.
\<close>

type_synonym ('s, 'a) act = "'s \<Rightarrow> 'a run \<times> 's"

definition act_ret :: "'a \<Rightarrow> ('s, 'a) act" where
  "act_ret a s = (Ret a, s)"

definition act_bind :: "('s, 'a) act \<Rightarrow> ('a \<Rightarrow> ('s, 'b) act) \<Rightarrow> ('s, 'b) act" where
  "act_bind m f s = (case m s of (Ret a, s') \<Rightarrow> f a s' | (Panic, s') \<Rightarrow> (Panic, s'))"

definition act_try :: "('s, 'e + 'a) act \<Rightarrow> ('a \<Rightarrow> ('s, 'e + 'b) act) \<Rightarrow> ('s, 'e + 'b) act" where
  "act_try m f = act_bind m (\<lambda>r. case r of Inl e \<Rightarrow> act_ret (Inl e) | Inr a \<Rightarrow> f a)"

text \<open>A pure result, and a panic.\<close>

definition act_run :: "'a run \<Rightarrow> ('s, 'a) act" where
  "act_run r s = (r, s)"

definition act_map_err :: "('e \<Rightarrow> 'f) \<Rightarrow> ('s, 'e + 'a) act \<Rightarrow> ('s, 'f + 'a) act" where
  "act_map_err f m = act_bind m (\<lambda>r. act_ret (map_err f r))"

lemma act_ret_simp [simp]: "act_ret a s = (Ret a, s)"
  by (simp add: act_ret_def)

lemma act_run_simp [simp]: "act_run r s = (r, s)"
  by (simp add: act_run_def)

lemma act_bind_cases:
  "m s = (Ret a, s') \<Longrightarrow> act_bind m f s = f a s'" "m s = (Panic, s') \<Longrightarrow> act_bind m f s = (Panic, s')"
  by (simp_all add: act_bind_def)

lemma act_try_cases:
  "m s = (Ret (Inr a), s') \<Longrightarrow> act_try m f s = f a s'"
  "m s = (Ret (Inl e), s') \<Longrightarrow> act_try m f s = (Ret (Inl e), s')"
  "m s = (Panic, s') \<Longrightarrow> act_try m f s = (Panic, s')"
  by (simp_all add: act_try_def act_bind_def)

lemma act_bind_ret [simp]: "act_bind (act_ret a) f = f a"
  by (simp add: act_bind_def fun_eq_iff)

lemma act_try_ret [simp]:
  "act_try (act_ret (Inr a)) f = f a" "act_try (act_ret (Inl e)) f = act_ret (Inl e)"
  by (simp_all add: act_try_def fun_eq_iff)

text \<open>Inversion: how a sequence can end.\<close>

lemma act_bindE:
  assumes "act_bind m f s = (r, s'')"
  obtains (panic) "m s = (Panic, s'')" "r = Panic"
  | (go) a s' where "m s = (Ret a, s')" "f a s' = (r, s'')"
  using assms by (auto simp: act_bind_def split: prod.splits run.splits)

lemma act_tryE:
  assumes "act_try m f s = (r, s'')"
  obtains (panic) "m s = (Panic, s'')" "r = Panic"
  | (err) e where "m s = (Ret (Inl e), s'')" "r = Ret (Inl e)"
  | (go) a s' where "m s = (Ret (Inr a), s')" "f a s' = (r, s'')"
  using assms
  by (auto simp: act_try_def elim!: act_bindE split: sum.splits)

text \<open>A property that a piece of the state keeps through an action.\<close>

definition act_keeps :: "('s \<Rightarrow> 'k) \<Rightarrow> ('s, 'a) act \<Rightarrow> bool" where
  "act_keeps g m \<longleftrightarrow> (\<forall>s r s'. m s = (r, s') \<longrightarrow> g s' = g s)"

lemma act_keepsD: "act_keeps g m \<Longrightarrow> m s = (r, s') \<Longrightarrow> g s' = g s"
  unfolding act_keeps_def by blast

lemma act_keeps_ret [intro, simp]: "act_keeps g (act_ret a)" "act_keeps g (act_run r)"
  by (simp_all add: act_keeps_def)

lemma act_keeps_bind [intro]:
  "act_keeps g m \<Longrightarrow> (\<And>a. act_keeps g (f a)) \<Longrightarrow> act_keeps g (act_bind m f)"
  unfolding act_keeps_def by (metis act_bindE)

lemma act_keeps_try [intro]:
  "act_keeps g m \<Longrightarrow> (\<And>a. act_keeps g (f a)) \<Longrightarrow> act_keeps g (act_try m f)"
  unfolding act_try_def by (intro act_keeps_bind) (auto split: sum.split)

lemma act_keeps_if:
  "act_keeps g m \<Longrightarrow> act_keeps g m' \<Longrightarrow> act_keeps g (if c then m else m')"
  by simp

lemma act_keeps_option:
  "act_keeps g m \<Longrightarrow> (\<And>a. act_keeps g (f a)) \<Longrightarrow> act_keeps g (case x of None \<Rightarrow> m | Some a \<Rightarrow> f a)"
  by (cases x) simp_all

lemma act_keeps_let: "act_keeps g (f x) \<Longrightarrow> act_keeps g (let a = x in f a)"
  by simp

lemmas act_keeps_rules = act_keeps_ret act_keeps_bind act_keeps_try act_keeps_if act_keeps_option
  act_keeps_let

text \<open>What every outcome satisfies, and that there is no panic.\<close>

definition act_gives :: "('s, 'a) act \<Rightarrow> ('a \<Rightarrow> bool) \<Rightarrow> bool" where
  "act_gives m P \<longleftrightarrow> (\<forall>s a s'. m s = (Ret a, s') \<longrightarrow> P a)"

definition act_safe :: "('s, 'a) act \<Rightarrow> bool" where
  "act_safe m \<longleftrightarrow> (\<forall>s. fst (m s) \<noteq> Panic)"

lemma act_givesD: "act_gives m P \<Longrightarrow> m s = (Ret a, s') \<Longrightarrow> P a"
  unfolding act_gives_def by blast

lemma act_gives_ret: "P a \<Longrightarrow> act_gives (act_ret a) P"
  by (simp add: act_gives_def)

lemma act_gives_bind: "(\<And>a. act_gives (f a) P) \<Longrightarrow> act_gives (act_bind m f) P"
  unfolding act_gives_def by (metis act_bindE run.distinct(1))

lemma act_gives_seq:
  "act_gives m Q \<Longrightarrow> (\<And>a. Q a \<Longrightarrow> act_gives (f a) P) \<Longrightarrow> act_gives (act_bind m f) P"
  unfolding act_gives_def by (metis act_bindE run.distinct(1))

lemma act_gives_mono: "act_gives m Q \<Longrightarrow> (\<And>a. Q a \<Longrightarrow> P a) \<Longrightarrow> act_gives m P"
  unfolding act_gives_def by blast

lemma act_gives_option:
  "act_gives m P \<Longrightarrow> (\<And>a. act_gives (f a) P) \<Longrightarrow> act_gives (case x of None \<Rightarrow> m | Some a \<Rightarrow> f a) P"
  by (cases x) simp_all

lemma act_safe_eq: "act_safe m \<Longrightarrow> \<exists>a s'. m s = (Ret a, s')"
  unfolding act_safe_def by (metis prod.collapse run.exhaust)

lemma act_safe_ret [simp]: "act_safe (act_ret a)"
  by (simp add: act_safe_def)

lemma act_safe_bind: "act_safe m \<Longrightarrow> (\<And>a. act_safe (f a)) \<Longrightarrow> act_safe (act_bind m f)"
  unfolding act_safe_def by (metis act_bindE fst_conv prod.collapse)

lemma act_safe_option:
  "act_safe m \<Longrightarrow> (\<And>a. act_safe (f a)) \<Longrightarrow> act_safe (case x of None \<Rightarrow> m | Some a \<Rightarrow> f a)"
  by (cases x) simp_all

text \<open>A reflexive and transitive relation between the states before and after.\<close>

definition act_rel :: "('s \<Rightarrow> 's \<Rightarrow> bool) \<Rightarrow> ('s, 'a) act \<Rightarrow> bool" where
  "act_rel Q m \<longleftrightarrow> reflp Q \<and> transp Q \<and> (\<forall>s r s'. m s = (r, s') \<longrightarrow> Q s s')"

lemma act_relI: "reflp Q \<Longrightarrow> transp Q \<Longrightarrow> (\<And>s r s'. m s = (r, s') \<Longrightarrow> Q s s') \<Longrightarrow> act_rel Q m"
  by (simp add: act_rel_def)

lemma act_relD: "act_rel Q m \<Longrightarrow> m s = (r, s') \<Longrightarrow> Q s s'"
  by (simp add: act_rel_def)

lemma act_rel_bind:
  assumes "act_rel Q m" and "\<And>a. act_rel Q (f a)"
  shows "act_rel Q (act_bind m f)"
proof (rule act_relI)
  show "reflp Q" and "transp Q" using assms(1) by (simp_all add: act_rel_def)
  show "Q s s'" if "act_bind m f s = (r, s')" for s r s'
    using that
  proof (cases rule: act_bindE)
    case panic
    with assms(1) show ?thesis by (blast intro: act_relD)
  next
    case (go a s1)
    then show ?thesis using act_relD [OF assms(1) go(1)] act_relD [OF assms(2) go(2)] \<open>transp Q\<close>
      by (blast dest: transpD)
  qed
qed

lemma act_rel_try: "act_rel Q m \<Longrightarrow> (\<And>a. act_rel Q (f a)) \<Longrightarrow> act_rel Q (act_try m f)"
  unfolding act_try_def
  by (rule act_rel_bind, assumption) (auto simp: act_rel_def reflpD split: sum.splits)

lemma act_rel_keeps: "reflp Q \<Longrightarrow> transp Q \<Longrightarrow> act_keeps g m \<Longrightarrow> (\<And>s s'. g s' = g s \<Longrightarrow> Q s s') \<Longrightarrow> act_rel Q m"
  by (simp add: act_rel_def act_keeps_def)

text \<open>\<^verbatim>\<open>join_all\<close> over a list of futures: every one is driven to its end.\<close>

fun act_map_all :: "('a \<Rightarrow> ('s, 'b) act) \<Rightarrow> 'a list \<Rightarrow> ('s, 'b list) act" where
  "act_map_all f [] = act_ret []"
| "act_map_all f (x # xs) =
     act_bind (f x) (\<lambda>b. act_bind (act_map_all f xs) (\<lambda>bs. act_ret (b # bs)))"

lemma act_safe_map_all: "(\<And>x. act_safe (f x)) \<Longrightarrow> act_safe (act_map_all f xs)"
  by (induction xs) (auto intro!: act_safe_bind)

lemma act_keeps_map_all: "(\<And>x. act_keeps g (f x)) \<Longrightarrow> act_keeps g (act_map_all f xs)"
  by (induction xs) (auto intro!: act_keeps_bind)

lemma act_gives_map_all:
  "(\<And>x. act_gives (f x) (P x)) \<Longrightarrow> act_gives (act_map_all f xs) (list_all2 P xs)"
proof (induction xs)
  case (Cons x xs)
  show ?case
    unfolding act_map_all.simps
    by (rule act_gives_seq [OF Cons.prems], rule act_gives_seq [OF Cons.IH [OF Cons.prems]])
      (auto intro: act_gives_ret)
qed (auto intro: act_gives_ret)

end
