(* ===== verification/Settlement.thy ===== *)
theory Settlement
  imports Zing_Types
begin

text \<open>
  \<^verbatim>\<open>zing-cdn-core/src/sui/settlement.rs\<close>: the configuration of the on-chain contract and the
  builders of its programmable transactions. A builder is modelled by what it records: inputs in
  the order they are added, the Move call with the positions of its arguments, the sender and
  the gas budget. Addresses and type tags are the Sui SDK's (\<open>'a\<close>, \<open>'t\<close>); their parsers are
  the record \<open>sui_sdk\<close>. An \<^verbatim>\<open>expect\<close> on a parse that fails is a panic.

  \<open>move_signature\<close> is read off the contract's sources
  (\<^verbatim>\<open>contracts/zing_cdn/sources\<close>), without the trailing \<^verbatim>\<open>TxContext\<close>, which the chain supplies.
\<close>

record ('a, 't) sui_sdk =
  parse_address :: "string \<Rightarrow> string + 'a"
  parse_struct_tag :: "string \<Rightarrow> string + 't"
  hex_decode_32 :: "string \<Rightarrow> string + bytes"

record 'a settlement_config =
  package_id :: 'a
  settlement_object_id :: 'a
  registry_object_id :: 'a
  registry_peers_table_id :: 'a
  peer_vaults_table_id :: bytes
  peer_vault_registry_id :: "'a option"
  vault_object_id :: "'a option"
  wal_coin_type :: string
  wal_package_id :: 'a
  registry_initial_shared_version :: u64
  settlement_initial_shared_version :: u64
  vault_initial_shared_version :: u64
  peer_vaults_initial_shared_version :: u64
  peer_vault_registry_initial_shared_version :: u64
  share_certificate_type :: string

section \<open>Panicking parses\<close>

definition expect :: "string + 'a \<Rightarrow> 'a run" where
  "expect r = (case r of Inl e \<Rightarrow> Panic | Inr a \<Rightarrow> Ret a)"

fun bind_run :: "'a run \<Rightarrow> ('a \<Rightarrow> 'b run) \<Rightarrow> 'b run" where
  "bind_run Panic f = Panic"
| "bind_run (Ret a) f = f a"

lemma expect_Inr [simp]: "expect (Inr a) = Ret a"
  by (simp add: expect_def)

definition strip_0x :: "string \<Rightarrow> string" where
  "strip_0x s = (case s of c0 # c1 # rest \<Rightarrow> if [c0, c1] = ''0x'' then rest else s | _ \<Rightarrow> s)"

definition mainnet :: "('a, 't) sui_sdk \<Rightarrow> 'a \<Rightarrow> 'a settlement_config run" where
  "mainnet K vault_obj =
     bind_run (expect (hex_decode_32 K (strip_0x
       ''0x465bf3e99dff79a56705b111396ee5b9bd35f2a1aac70d118f466a7c581e0e07''))) (\<lambda>table_id.
     bind_run (expect (parse_address K
       ''0xb4307939d0cf205880746372d8a467af67f886122fde3ed69fd912885848e8f8'')) (\<lambda>package.
     bind_run (expect (parse_address K
       ''0xc58e9b7417fdc83743b46a3f9009b10868f05bb1f2283f08c7021ac3e7f6c308'')) (\<lambda>settlement.
     bind_run (expect (parse_address K
       ''0x97b5153b9e9897ad1630cdd06e5caa81ebbf8865e96003f38e50c5f1d6752527'')) (\<lambda>registry.
     bind_run (expect (parse_address K
       ''0xbcd17d4df8489569fdca7bc9a795c16a73560efbde2355d91ef9195bf676ea00'')) (\<lambda>peers_table.
     bind_run (expect (parse_address K
       ''0x9b96aa341bc3749283f9320ae783f2e6aff86b6393a45aeeedc53946f089d615'')) (\<lambda>vault_registry.
     bind_run (expect (parse_address K
       ''0x356a26eb9e012a68958082340d4c4116e7f55615cf27affcff209cf0ae544f59'')) (\<lambda>wal.
       Ret \<lparr>package_id = package, settlement_object_id = settlement, registry_object_id = registry,
            registry_peers_table_id = peers_table, peer_vaults_table_id = table_id,
            peer_vault_registry_id = Some vault_registry, vault_object_id = Some vault_obj,
            wal_coin_type =
              ''0x356a26eb9e012a68958082340d4c4116e7f55615cf27affcff209cf0ae544f59::wal::WAL'',
            wal_package_id = wal,
            registry_initial_shared_version = 921074118,
            settlement_initial_shared_version = 921074118,
            vault_initial_shared_version = 921074119,
            peer_vaults_initial_shared_version = 923306507,
            peer_vault_registry_initial_shared_version = 923306507,
            share_certificate_type =
              ''0x9dd1a5dc551e322dd1b0394514ece30eb1e5f54d5de5b1f6fe135ebe24032b9c::peer_vault::ShareCertificate''\<rparr>)))))))"

definition wal_struct_tag :: "('a, 't) sui_sdk \<Rightarrow> 'a settlement_config \<Rightarrow> 't run" where
  "wal_struct_tag K cfg = expect (parse_struct_tag K (wal_coin_type cfg))"

section \<open>Programmable transactions\<close>

datatype ('a, 't) ptb_input =
    Shared 'a u64 bool
  | Owned 'a u64 bytes
  | PureAddress 'a
  | PureBytes bytes
  | CoinWithBalance 't u64

record 'a move_call =
  mc_package :: 'a
  mc_module :: string
  mc_function :: string
  mc_args :: "nat list"

record ('a, 't) ptb =
  ptb_inputs :: "('a, 't) ptb_input list"
  ptb_calls :: "'a move_call list"
  ptb_sender :: "'a option"
  ptb_gas_budget :: "u64 option"

definition ptb_new :: "('a, 't) ptb" where
  "ptb_new = \<lparr>ptb_inputs = [], ptb_calls = [], ptb_sender = None, ptb_gas_budget = None\<rparr>"

text \<open>\<^verbatim>\<open>tx.object\<close>, \<^verbatim>\<open>tx.pure\<close> and \<^verbatim>\<open>tx.intent\<close>: the argument is the position of the input.\<close>

definition ptb_arg :: "('a, 't) ptb_input \<Rightarrow> ('a, 't) ptb \<Rightarrow> nat \<times> ('a, 't) ptb" where
  "ptb_arg i tx = (length (ptb_inputs tx), tx\<lparr>ptb_inputs := ptb_inputs tx @ [i]\<rparr>)"

definition ptb_call :: "'a \<Rightarrow> string \<Rightarrow> string \<Rightarrow> nat list \<Rightarrow> ('a, 't) ptb \<Rightarrow> ('a, 't) ptb" where
  "ptb_call package m f args tx =
     tx\<lparr>ptb_calls := ptb_calls tx @
       [\<lparr>mc_package = package, mc_module = m, mc_function = f, mc_args = args\<rparr>]\<rparr>"

definition ptb_finish :: "'a \<Rightarrow> u64 \<Rightarrow> ('a, 't) ptb \<Rightarrow> ('a, 't) ptb" where
  "ptb_finish sender gas tx = tx\<lparr>ptb_sender := Some sender, ptb_gas_budget := Some gas\<rparr>"

definition build_pay_transaction ::
    "('a, 't) sui_sdk \<Rightarrow> 'a settlement_config \<Rightarrow> 'a \<Rightarrow> 'a \<Rightarrow> bytes \<Rightarrow> u64 \<Rightarrow> 'a \<Rightarrow> ('a, 't) ptb run" where
  "build_pay_transaction K cfg sender recipient blob_hash amount vault_obj_id =
     bind_run (wal_struct_tag K cfg) (\<lambda>tag.
       let (payment_arg, tx) = ptb_arg (CoinWithBalance tag amount) ptb_new;
           (settlement_input, tx) = ptb_arg
             (Shared (settlement_object_id cfg) (settlement_initial_shared_version cfg) False) tx;
           (vault_input, tx) = ptb_arg (Shared vault_obj_id (vault_initial_shared_version cfg) True) tx;
           (payee_input, tx) = ptb_arg (PureAddress recipient) tx;
           (blob_hash_input, tx) = ptb_arg (PureBytes blob_hash) tx;
           tx = ptb_call (package_id cfg) ''settlement'' ''pay''
             [settlement_input, vault_input, payee_input, blob_hash_input, payment_arg] tx
       in Ret (ptb_finish sender 5000000 tx))"

definition build_register_transaction ::
    "('a, 't) sui_sdk \<Rightarrow> 'a settlement_config \<Rightarrow> 'a \<Rightarrow> bytes \<Rightarrow> u64 \<Rightarrow> ('a, 't) ptb run" where
  "build_register_transaction K cfg sender peer_id_bytes amount =
     bind_run (wal_struct_tag K cfg) (\<lambda>tag.
       let (bond_arg, tx) = ptb_arg (CoinWithBalance tag amount) ptb_new;
           (registry_input, tx) = ptb_arg
             (Shared (registry_object_id cfg) (registry_initial_shared_version cfg) True) tx;
           (peer_id_input, tx) = ptb_arg (PureBytes peer_id_bytes) tx;
           tx = ptb_call (package_id cfg) ''staking'' ''register''
             [registry_input, peer_id_input, bond_arg] tx
       in Ret (ptb_finish sender 10000000 tx))"

definition build_update_peer_id_transaction ::
    "'a settlement_config \<Rightarrow> 'a \<Rightarrow> 'a \<Rightarrow> u64 \<Rightarrow> bytes \<Rightarrow> ('a, 't) ptb" where
  "build_update_peer_id_transaction cfg sender peer_object_id peer_initial_shared_version new_peer_id =
     (let (registry_input, tx) = ptb_arg
            (Shared (registry_object_id cfg) (registry_initial_shared_version cfg) False) ptb_new;
          (peer_input, tx) = ptb_arg (Shared peer_object_id peer_initial_shared_version True) tx;
          (peer_id_input, tx) = ptb_arg (PureBytes new_peer_id) tx;
          tx = ptb_call (package_id cfg) ''staking'' ''update_peer_id''
            [registry_input, peer_input, peer_id_input] tx
      in ptb_finish sender 5000000 tx)"

definition build_claim_earnings_transaction ::
    "'a settlement_config \<Rightarrow> 'a \<Rightarrow> 'a \<Rightarrow> u64 \<Rightarrow> ('a, 't) ptb" where
  "build_claim_earnings_transaction cfg sender vault_obj_id vault_version =
     (let (vault_input, tx) = ptb_arg (Shared vault_obj_id vault_version True) ptb_new;
          tx = ptb_call (package_id cfg) ''peer_vault'' ''claim_earnings'' [vault_input] tx
      in ptb_finish sender 5000000 tx)"

definition build_undelegate_transaction ::
    "'a settlement_config \<Rightarrow> 'a \<Rightarrow> 'a \<Rightarrow> u64 \<Rightarrow> 'a \<Rightarrow> u64 \<Rightarrow> bytes \<Rightarrow> ('a, 't) ptb" where
  "build_undelegate_transaction cfg sender vault_obj_id vault_version cert_obj_id cert_version cert_digest =
     (let (vault_input, tx) = ptb_arg (Shared vault_obj_id vault_version True) ptb_new;
          (cert_input, tx) = ptb_arg (Owned cert_obj_id cert_version cert_digest) tx;
          tx = ptb_call (package_id cfg) ''peer_vault'' ''undelegate'' [vault_input, cert_input] tx
      in ptb_finish sender 5000000 tx)"

definition build_delegate_transaction ::
    "('a, 't) sui_sdk \<Rightarrow> 'a settlement_config \<Rightarrow> 'a \<Rightarrow> 'a \<Rightarrow> u64 \<Rightarrow> u64 \<Rightarrow> ('a, 't) ptb run" where
  "build_delegate_transaction K cfg sender vault_obj_id vault_version amount =
     bind_run (wal_struct_tag K cfg) (\<lambda>tag.
       let (coin_arg, tx) = ptb_arg (CoinWithBalance tag amount) ptb_new;
           (vault_input, tx) = ptb_arg (Shared vault_obj_id vault_version True) tx;
           tx = ptb_call (package_id cfg) ''peer_vault'' ''delegate'' [vault_input, coin_arg] tx
       in Ret (ptb_finish sender 5000000 tx))"

definition build_create_vault_transaction :: "'a settlement_config \<Rightarrow> 'a \<Rightarrow> ('a, 't) ptb option" where
  "build_create_vault_transaction cfg sender =
     (case peer_vault_registry_id cfg of
        None \<Rightarrow> None
      | Some registry_id \<Rightarrow>
          let (registry_input, tx) = ptb_arg
                (Shared registry_id (peer_vault_registry_initial_shared_version cfg) True) ptb_new;
              tx = ptb_call (package_id cfg) ''peer_vault'' ''new_vault'' [registry_input] tx
          in Some (ptb_finish sender 5000000 tx))"

section \<open>The contract's interface\<close>

text \<open>What a parameter of a Move function takes.\<close>

datatype move_param = ImmRef | MutRef | ByValue | AddressParam | BytesParam | CoinParam

definition move_signature :: "string \<Rightarrow> string \<Rightarrow> move_param list option" where
  "move_signature m f = map_of
     [((''settlement'', ''pay''), [ImmRef, MutRef, AddressParam, BytesParam, CoinParam]),
      ((''staking'', ''register''), [MutRef, BytesParam, CoinParam]),
      ((''staking'', ''update_peer_id''), [ImmRef, MutRef, BytesParam]),
      ((''peer_vault'', ''new_vault''), [MutRef]),
      ((''peer_vault'', ''delegate''), [MutRef, CoinParam]),
      ((''peer_vault'', ''undelegate''), [MutRef, ByValue]),
      ((''peer_vault'', ''claim_earnings''), [MutRef])] (m, f)"

fun fits :: "move_param \<Rightarrow> ('a, 't) ptb_input \<Rightarrow> bool" where
  "fits ImmRef (Shared _ _ mutable) = (\<not> mutable)"
| "fits MutRef (Shared _ _ mutable) = mutable"
| "fits ByValue (Owned _ _ _) = True"
| "fits AddressParam (PureAddress _) = True"
| "fits BytesParam (PureBytes _) = True"
| "fits CoinParam (CoinWithBalance _ _) = True"
| "fits _ _ = False"

text \<open>
  A transaction the contract accepts the shape of: one call of a function of the interface, with
  an input of the right kind for every parameter and every input used once, signed and with gas.
\<close>

definition ptb_ok :: "'a settlement_config \<Rightarrow> 'a \<Rightarrow> ('a, 't) ptb \<Rightarrow> bool" where
  "ptb_ok cfg sender tx \<longleftrightarrow>
     (case ptb_calls tx of
        [c] \<Rightarrow> mc_package c = package_id cfg \<and> distinct (mc_args c) \<and>
          set (mc_args c) = {..<length (ptb_inputs tx)} \<and>
          (case move_signature (mc_module c) (mc_function c) of
             Some ps \<Rightarrow> list_all2 fits ps (map (\<lambda>i. ptb_inputs tx ! i) (mc_args c))
           | None \<Rightarrow> False)
      | _ \<Rightarrow> False) \<and>
     ptb_sender tx = Some sender \<and> (\<exists>g. ptb_gas_budget tx = Some g \<and> 0 < g)"

lemmas ptb_defs = ptb_arg_def ptb_call_def ptb_finish_def ptb_new_def ptb_ok_def
  move_signature_def lessThan_Suc

text \<open>The inputs in the order of the function's parameters.\<close>

definition call_inputs :: "('a, 't) ptb \<Rightarrow> ('a, 't) ptb_input list" where
  "call_inputs tx = (case ptb_calls tx of c # _ \<Rightarrow> map (\<lambda>i. ptb_inputs tx ! i) (mc_args c) | [] \<Rightarrow> [])"

text \<open>
  C16: every transaction the wallet can build is one the contract's interface accepts: when the
  configured coin type parses, each of the seven builders makes a single call of an existing
  function of the package, passes for each parameter an input of its kind, mutable exactly
  where the function borrows mutably, uses every input once, and sets sender and gas.
\<close>

theorem transactions_match_contract:
  assumes "parse_struct_tag K (wal_coin_type cfg) = Inr tag"
    and "peer_vault_registry_id cfg = Some reg"
  shows "(\<exists>tx. build_pay_transaction K cfg s r h amt v = Ret tx \<and> ptb_ok cfg s tx \<and>
      call_inputs tx = [Shared (settlement_object_id cfg) (settlement_initial_shared_version cfg) False,
        Shared v (vault_initial_shared_version cfg) True, PureAddress r, PureBytes h,
        CoinWithBalance tag amt]) \<and>
    (\<exists>tx. build_register_transaction K cfg s pid amt = Ret tx \<and> ptb_ok cfg s tx) \<and>
    (\<exists>tx. build_delegate_transaction K cfg s v ver amt = Ret tx \<and> ptb_ok cfg s tx) \<and>
    ptb_ok cfg s (build_update_peer_id_transaction cfg s p ver pid :: ('a, 't) ptb) \<and>
    ptb_ok cfg s (build_claim_earnings_transaction cfg s v ver :: ('a, 't) ptb) \<and>
    ptb_ok cfg s (build_undelegate_transaction cfg s v ver cert cver d :: ('a, 't) ptb) \<and>
    (\<exists>tx :: ('a, 't) ptb. build_create_vault_transaction cfg s = Some tx \<and> ptb_ok cfg s tx)"
proof -
  have tag: "wal_struct_tag K cfg = Ret tag" by (simp add: wal_struct_tag_def assms(1))
  have "\<exists>tx. build_pay_transaction K cfg s r h amt v = Ret tx \<and> ptb_ok cfg s tx \<and>
      call_inputs tx = [Shared (settlement_object_id cfg) (settlement_initial_shared_version cfg) False,
        Shared v (vault_initial_shared_version cfg) True, PureAddress r, PureBytes h,
        CoinWithBalance tag amt]"
    by (auto simp: build_pay_transaction_def tag ptb_defs Let_def call_inputs_def)
  moreover have "\<exists>tx. build_register_transaction K cfg s pid amt = Ret tx \<and> ptb_ok cfg s tx"
    by (auto simp: build_register_transaction_def tag ptb_defs Let_def)
  moreover have "\<exists>tx. build_delegate_transaction K cfg s v ver amt = Ret tx \<and> ptb_ok cfg s tx"
    by (auto simp: build_delegate_transaction_def tag ptb_defs Let_def)
  moreover have "ptb_ok cfg s (build_update_peer_id_transaction cfg s p ver pid :: ('a, 't) ptb)"
    by (auto simp: build_update_peer_id_transaction_def ptb_defs Let_def)
  moreover have "ptb_ok cfg s (build_claim_earnings_transaction cfg s v ver :: ('a, 't) ptb)"
    by (auto simp: build_claim_earnings_transaction_def ptb_defs Let_def)
  moreover have "ptb_ok cfg s (build_undelegate_transaction cfg s v ver cert cver d :: ('a, 't) ptb)"
    by (auto simp: build_undelegate_transaction_def ptb_defs Let_def)
  moreover have "\<exists>tx :: ('a, 't) ptb. build_create_vault_transaction cfg s = Some tx \<and> ptb_ok cfg s tx"
    by (auto simp: build_create_vault_transaction_def assms(2) ptb_defs Let_def)
  ultimately show ?thesis by blast
qed

section \<open>A concrete configuration\<close>

definition demo_sdk :: "(nat, string) sui_sdk" where
  "demo_sdk =
     \<lparr>parse_address = (\<lambda>s. if length s = 66 then Inr (length s) else Inl ''bad address''),
      parse_struct_tag = (\<lambda>s. if s = [] then Inl ''empty'' else Inr s),
      hex_decode_32 = (\<lambda>s. if length s = 64 then Inr (replicate 32 70) else Inl ''bad length'')\<rparr>"

definition demo_config :: "nat settlement_config" where
  "demo_config = (case mainnet demo_sdk 5 of Ret cfg \<Rightarrow> cfg)"

lemma demo_config_mainnet: "mainnet demo_sdk 5 = Ret demo_config"
  by (simp add: demo_config_def mainnet_def demo_sdk_def strip_0x_def)

lemma demo_config_parses:
  "parse_struct_tag demo_sdk (wal_coin_type demo_config) = Inr (wal_coin_type demo_config)"
  by (simp add: demo_config_def mainnet_def demo_sdk_def strip_0x_def)

lemma demo_config_registry: "peer_vault_registry_id demo_config = Some 66"
  by (simp add: demo_config_def mainnet_def demo_sdk_def strip_0x_def)

theorem transactions_match_contract_witness:
  "\<exists>tx. build_pay_transaction demo_sdk demo_config 1 2 (replicate 32 0) 9 77 = Ret tx \<and>
     ptb_ok demo_config 1 tx \<and> call_inputs tx ! 1 = Shared 77 (vault_initial_shared_version demo_config) True"
  using transactions_match_contract [OF demo_config_parses demo_config_registry,
      of 1 2 "replicate 32 0" 9 77 "[]" 0 0 0 0 "[]"]
  by auto

end
