(* ===== verification/Wallet.thy ===== *)
theory Wallet
  imports Effects Settlement "HOL-Library.AList"
begin

text \<open>
  \<^verbatim>\<open>zing-cdn-core/src/sui/wallet.rs\<close>. The RPC client, the key library and the encodings are
  the record \<open>sui_env\<close>, over the chain's state \<open>'w\<close>; addresses are \<open>'a\<close>, keys \<open>'k\<close>, built
  transactions \<open>'x\<close>. The state of an action is the chain, the wallet's payment counter and a
  trace of the transactions handed to the chain, which the code does not read. A
  \<^verbatim>\<open>HashMap\<close> is an association list in iteration order. Log output is left out.
\<close>

section \<open>JSON and what the RPC returns\<close>

datatype pvalue =
    NoKind
  | NullValue
  | NumberValue int
  | StringValue string
  | BoolValue bool
  | StructValue "(string \<times> pvalue) list"
  | ListValue "pvalue list"

record dyn_field =
  df_name :: "bytes option option"
  df_child_id :: "string option"
  df_value :: "bytes option option"

record rpc_object =
  ob_json :: "pvalue option"
  ob_version :: "u64 option"
  ob_digest :: "string option"
  ob_owner_version :: "u64 option option"

record ('w, 'a, 't, 'k, 'x) sui_env =
  se_sdk :: "('a, 't) sui_sdk"
  rpc_new :: "string \<Rightarrow> string + unit"
  rpc_build :: "('a, 't) ptb \<Rightarrow> 'w \<Rightarrow> (string + 'x) \<times> 'w"
  rpc_execute :: "'x \<Rightarrow> bytes \<Rightarrow> 'w \<Rightarrow> (string + string option option) \<times> 'w"
  rpc_list_fields :: "string \<Rightarrow> 'w \<Rightarrow> (string + dyn_field) list \<times> 'w"
  rpc_get_object :: "string \<Rightarrow> 'w \<Rightarrow> (string + rpc_object option) \<times> 'w"
  rpc_batch_get :: "string list \<Rightarrow> 'w \<Rightarrow> (string + rpc_object option list) \<times> 'w"
  rpc_list_owned :: "string \<Rightarrow> string \<Rightarrow> 'w \<Rightarrow> (string + (string \<times> u64) list) \<times> 'w"
  rpc_balance :: "string \<Rightarrow> string \<Rightarrow> 'w \<Rightarrow> (string + u64 option option) \<times> 'w"
  key_sign :: "'k \<Rightarrow> 'x \<Rightarrow> string + bytes"
  key_of_seed :: "bytes \<Rightarrow> 'k"
  key_address :: "'k \<Rightarrow> 'a"
  addr_bytes :: "'a \<Rightarrow> bytes"
  addr_show :: "'a \<Rightarrow> string"
  addr_show_alt :: "'a \<Rightarrow> string"
  parse_digest :: "string \<Rightarrow> string + bytes"
  hex_encode :: "bytes \<Rightarrow> string"
  bs58_decode :: "string \<Rightarrow> string + bytes"
  b64_decode :: "string \<Rightarrow> string + bytes"
  sha256 :: "bytes \<Rightarrow> bytes"
  lowercase :: "string \<Rightarrow> string"
  pid_display :: "bytes \<Rightarrow> string option"

section \<open>The wallet\<close>

record peer_vault_info =
  pv_reserves :: u64
  pv_total_shares :: u64
  pv_commission_bps :: u64
  pv_peer_earnings :: u64
  pv_vault_object_id :: string

record peer_info =
  pi_sui_address :: string
  pi_peer_id_b58 :: string
  pi_bond :: u64
  pi_is_active :: bool
  pi_peer_object_id :: string
  pi_vault :: "peer_vault_info option"

record share_certificate_info =
  sc_cert_object_id :: string
  sc_cert_version :: u64
  sc_vault_id :: string
  sc_vault_address :: string
  sc_shares :: u64
  sc_estimated_value :: u64

record registered_peer_info =
  rp_peer_id_bytes :: bytes
  rp_peer_object_id :: string
  rp_initial_shared_version :: u64

record ('a, 'k) zing_wallet =
  wl_address :: 'a
  wl_keypair :: 'k
  wl_seed :: bytes
  wl_settlement :: "'a settlement_config option"
  wl_rpc_url :: string

record ('w, 'a, 't) wallet_state =
  ws_world :: 'w
  ws_counter :: u64
  ws_submitted :: "('a, 't) ptb list"

type_synonym ('w, 'a, 't, 'r) wact = "(('w, 'a, 't) wallet_state, 'r) act"

section \<open>Calls\<close>

definition rpc :: "string \<Rightarrow> ('w \<Rightarrow> (string + 'r) \<times> 'w) \<Rightarrow> ('w, 'a, 't, 'r zresult) wact" where
  "rpc msg op s = (case op (ws_world s) of
     (r, w) \<Rightarrow> (Ret (map_err (\<lambda>e. SuiClientErr (msg @ e)) r), s\<lparr>ws_world := w\<rparr>))"

definition list_fields :: "('w, 'a, 't, 'k, 'x) sui_env \<Rightarrow> string \<Rightarrow> ('w, 'a, 't, (string + dyn_field) list) wact" where
  "list_fields E parent s = (case rpc_list_fields E parent (ws_world s) of
     (r, w) \<Rightarrow> (Ret r, s\<lparr>ws_world := w\<rparr>))"

definition new_client :: "('w, 'a, 't, 'k, 'x) sui_env \<Rightarrow> ('a, 'k) zing_wallet \<Rightarrow> ('w, 'a, 't, unit zresult) wact" where
  "new_client E W = act_ret (map_err (\<lambda>e. SuiClientErr (''rpc: '' @ e)) (rpc_new E (wl_rpc_url W)))"

definition traced :: "('a, 't) ptb \<Rightarrow> ('w, 'a, 't, unit) wact" where
  "traced tx s = (Ret (), s\<lparr>ws_submitted := ws_submitted s @ [tx]\<rparr>)"

text \<open>
  Build, sign and execute, the same in every operation but for the error texts.
\<close>

definition submit :: "('w, 'a, 't, 'k, 'x) sui_env \<Rightarrow> ('a, 'k) zing_wallet \<Rightarrow> string \<Rightarrow> string \<Rightarrow>
    ('a, 't) ptb \<Rightarrow> ('w, 'a, 't, string option option zresult) wact" where
  "submit E W build_msg tx_msg tx =
     act_try (rpc build_msg (rpc_build E tx)) (\<lambda>transaction.
     act_try (act_ret (map_err (\<lambda>e. SuiClientErr (''sign: '' @ e)) (key_sign E (wl_keypair W) transaction)))
       (\<lambda>signature.
     act_bind (traced tx) (\<lambda>_. rpc tx_msg (rpc_execute E transaction signature))))"

text \<open>The rest of the operations that submit a transaction and ignore its digest.\<close>

definition submit_unit :: "('w, 'a, 't, 'k, 'x) sui_env \<Rightarrow> ('a, 'k) zing_wallet \<Rightarrow> string \<Rightarrow> string \<Rightarrow>
    ('a, 't) ptb \<Rightarrow> ('w, 'a, 't, unit zresult) wact" where
  "submit_unit E W build_msg tx_msg tx =
     act_try (submit E W build_msg tx_msg tx) (\<lambda>_. act_ret (Inr ()))"

section \<open>Parsing objects\<close>

definition string_field :: "(string \<times> pvalue) list \<Rightarrow> string \<Rightarrow> string option" where
  "string_field flds name = (case map_of flds name of Some (StringValue v) \<Rightarrow> Some v | _ \<Rightarrow> None)"

definition bool_field :: "(string \<times> pvalue) list \<Rightarrow> string \<Rightarrow> bool option" where
  "bool_field flds name = (case map_of flds name of Some (BoolValue v) \<Rightarrow> Some v | _ \<Rightarrow> None)"

definition ok_opt :: "'e + 'a \<Rightarrow> 'a option" where
  "ok_opt r = (case r of Inl _ \<Rightarrow> None | Inr a \<Rightarrow> Some a)"

definition u64_field :: "(string \<times> pvalue) list \<Rightarrow> string \<Rightarrow> u64 option" where
  "u64_field flds name = Option.bind (string_field flds name) (\<lambda>v. ok_opt (parse_u64 v))"

fun parse_peer_id_from_json :: "('w, 'a, 't, 'k, 'x) sui_env \<Rightarrow> pvalue \<Rightarrow> bytes zresult" where
  "parse_peer_id_from_json E (StructValue flds) =
     try_bind (ok_or (SuiClientErr ''missing peer_id field'') (string_field flds ''peer_id''))
       (\<lambda>peer_id_b64. map_err (\<lambda>e. SuiClientErr (''decode peer_id: '' @ e)) (b64_decode E peer_id_b64))"
| "parse_peer_id_from_json E _ = Inl (SuiClientErr ''peer object json not a struct'')"

fun parse_vault_json :: "pvalue \<Rightarrow> string \<Rightarrow> peer_vault_info option" where
  "parse_vault_json (StructValue flds) vault_oid =
     Option.bind (u64_field flds ''reserves'') (\<lambda>reserves.
     Option.bind (u64_field flds ''total_shares'') (\<lambda>total_shares.
     Option.bind (u64_field flds ''commission_bps'') (\<lambda>commission_bps.
     Option.bind (u64_field flds ''peer_earnings'') (\<lambda>peer_earnings.
       Some \<lparr>pv_reserves = reserves, pv_total_shares = total_shares,
             pv_commission_bps = commission_bps, pv_peer_earnings = peer_earnings,
             pv_vault_object_id = vault_oid\<rparr>))))"
| "parse_vault_json _ _ = None"

fun parse_peer_json :: "('w, 'a, 't, 'k, 'x) sui_env \<Rightarrow> pvalue \<Rightarrow> string \<Rightarrow> peer_info option" where
  "parse_peer_json E (StructValue flds) obj_id =
     Option.bind (string_field flds ''peer_id'') (\<lambda>peer_id_b64.
     Option.bind (ok_opt (b64_decode E peer_id_b64)) (\<lambda>peer_id_bytes.
     Option.bind (pid_display E peer_id_bytes) (\<lambda>peer_id_b58.
     Option.bind (string_field flds ''sui_address'') (\<lambda>sui_address.
     Option.bind (u64_field flds ''bond'') (\<lambda>bond.
     Option.bind (bool_field flds ''is_active'') (\<lambda>is_active.
       Some \<lparr>pi_sui_address = sui_address, pi_peer_id_b58 = peer_id_b58, pi_bond = bond,
             pi_is_active = is_active, pi_peer_object_id = obj_id, pi_vault = None\<rparr>))))))"
| "parse_peer_json E _ _ = None"

text \<open>The object a table entry names: its child, or the bytes of its value.\<close>

definition field_object_id :: "('w, 'a, 't, 'k, 'x) sui_env \<Rightarrow> dyn_field \<Rightarrow> string option" where
  "field_object_id E df =
     (case df_child_id df of
        Some child_id \<Rightarrow> Some child_id
      | None \<Rightarrow> (case df_value df of Some (Some bs) \<Rightarrow> Some (''0x'' @ hex_encode E bs) | _ \<Rightarrow> None))"

text \<open>The first entry of a table under a key that names an object; failed items are skipped.\<close>

fun find_entry :: "('w, 'a, 't, 'k, 'x) sui_env \<Rightarrow> bytes \<Rightarrow> (string + dyn_field) list \<Rightarrow> string option" where
  "find_entry E key [] = None"
| "find_entry E key (Inl e # rest) = find_entry E key rest"
| "find_entry E key (Inr df # rest) =
     (if df_name df = Some (Some key) then
        (case field_object_id E df of Some oid \<Rightarrow> Some oid | None \<Rightarrow> find_entry E key rest)
      else find_entry E key rest)"

section \<open>Vaults and peers\<close>

fun vault_entries :: "('w, 'a, 't, 'k, 'x) sui_env \<Rightarrow> (string + dyn_field) list \<Rightarrow> (string \<times> string) list" where
  "vault_entries E [] = []"
| "vault_entries E (Inl e # rest) = vault_entries E rest"
| "vault_entries E (Inr df # rest) =
     (case field_object_id E df of
        None \<Rightarrow> vault_entries E rest
      | Some vault_id \<Rightarrow>
          (case df_name df of
             Some (Some bs) \<Rightarrow>
               if length bs < 32 then vault_entries E rest
               else (''0x'' @ hex_encode E (take 32 bs), vault_id) # vault_entries E rest
           | _ \<Rightarrow> vault_entries E rest))"

text \<open>\<^verbatim>\<open>collect\<close> into a map: a later entry replaces an earlier one with its key.\<close>

definition collect_map :: "('k \<times> 'v) list \<Rightarrow> ('k \<times> 'v) list" where
  "collect_map kvs = fold (\<lambda>(k, v). AList.update k v) kvs []"

definition vault_of_result :: "(string \<times> string) \<times> rpc_object option \<Rightarrow> (string \<times> peer_vault_info) option" where
  "vault_of_result p = (case p of ((addr, vault_id), result) \<Rightarrow>
     Option.bind result (\<lambda>obj. Option.bind (ob_json obj) (\<lambda>json.
       Option.bind (parse_vault_json json vault_id) (\<lambda>info. Some (addr, info)))))"

definition list_peer_vaults :: "('w, 'a, 't, 'k, 'x) sui_env \<Rightarrow> ('a, 'k) zing_wallet \<Rightarrow>
    ('w, 'a, 't, (string \<times> peer_vault_info) list zresult) wact" where
  "list_peer_vaults E W =
     (case wl_settlement W of
        None \<Rightarrow> act_ret (Inr [])
      | Some settlement \<Rightarrow>
          act_try (new_client E W) (\<lambda>_.
          act_bind (list_fields E (''0x'' @ hex_encode E (peer_vaults_table_id settlement))) (\<lambda>stream.
            let addr_to_vault_id = vault_entries E stream
            in if addr_to_vault_id = [] then act_ret (Inr [])
               else act_try (rpc ''batch_get_vaults: '' (rpc_batch_get E (map snd addr_to_vault_id)))
                 (\<lambda>results. act_ret (Inr (collect_map
                    (List.map_filter vault_of_result (zip addr_to_vault_id results))))))))"

fun trim_0x :: "string \<Rightarrow> string" where
  "trim_0x (c0 # c1 # s) = (if [c0, c1] = ''0x'' then trim_0x s else c0 # c1 # s)"
| "trim_0x s = s"

definition normalized :: "('w, 'a, 't, 'k, 'x) sui_env \<Rightarrow> string \<Rightarrow> string" where
  "normalized E s = lowercase E (trim_0x s)"

definition find_vault :: "('w, 'a, 't, 'k, 'x) sui_env \<Rightarrow> string \<Rightarrow> (string \<times> peer_vault_info) list \<Rightarrow>
    peer_vault_info option" where
  "find_vault E addr vaults =
     map_option snd (List.find (\<lambda>(k, v). normalized E k = normalized E addr) vaults)"

definition get_my_vault_info :: "('w, 'a, 't, 'k, 'x) sui_env \<Rightarrow> ('a, 'k) zing_wallet \<Rightarrow>
    ('w, 'a, 't, peer_vault_info option zresult) wact" where
  "get_my_vault_info E W =
     act_try (list_peer_vaults E W) (\<lambda>vaults.
       act_ret (Inr (find_vault E (addr_show_alt E (wl_address W)) vaults)))"

definition parse_addr_or :: "('w, 'a, 't, 'k, 'x) sui_env \<Rightarrow> string \<Rightarrow> string \<Rightarrow> 'a zresult" where
  "parse_addr_or E msg s = map_err (\<lambda>e. SuiClientErr (msg @ e)) (parse_address (se_sdk E) s)"

definition get_vault_for_recipient :: "('w, 'a, 't, 'k, 'x) sui_env \<Rightarrow> ('a, 'k) zing_wallet \<Rightarrow> 'a \<Rightarrow>
    ('w, 'a, 't, 'a zresult) wact" where
  "get_vault_for_recipient E W recipient =
     act_try (list_peer_vaults E W) (\<lambda>vaults.
       act_ret (case map_of vaults (''0x'' @ hex_encode E (addr_bytes E recipient)) of
          Some vault_info \<Rightarrow> parse_addr_or E ''parse vault id: '' (pv_vault_object_id vault_info)
        | None \<Rightarrow>
            try_bind (ok_or (SuiClientErr ''settlement not configured'') (wl_settlement W)) (\<lambda>settlement.
              ok_or (SuiClientErr ''no vault_object_id in config'') (vault_object_id settlement))))"

definition peer_of_result :: "('w, 'a, 't, 'k, 'x) sui_env \<Rightarrow> string \<times> rpc_object option \<Rightarrow> peer_info option" where
  "peer_of_result E p = (case p of (obj_id, result) \<Rightarrow>
     Option.bind result (\<lambda>obj. Option.bind (ob_json obj) (\<lambda>json. parse_peer_json E json obj_id)))"

fun entry_object_ids :: "('w, 'a, 't, 'k, 'x) sui_env \<Rightarrow> (string + dyn_field) list \<Rightarrow> string list" where
  "entry_object_ids E [] = []"
| "entry_object_ids E (Inl e # rest) = entry_object_ids E rest"
| "entry_object_ids E (Inr df # rest) =
     (case field_object_id E df of Some oid \<Rightarrow> oid # entry_object_ids E rest
      | None \<Rightarrow> entry_object_ids E rest)"

definition list_all_peers :: "('w, 'a, 't, 'k, 'x) sui_env \<Rightarrow> ('a, 'k) zing_wallet \<Rightarrow>
    ('w, 'a, 't, peer_info list zresult) wact" where
  "list_all_peers E W =
     (case wl_settlement W of
        None \<Rightarrow> act_ret (Inr [])
      | Some settlement \<Rightarrow>
          act_try (new_client E W) (\<lambda>_.
          act_bind (list_fields E (''0x'' @ hex_encode E (addr_bytes E (registry_peers_table_id settlement))))
            (\<lambda>stream.
            let peer_object_ids = entry_object_ids E stream
            in if peer_object_ids = [] then act_ret (Inr [])
               else act_try (rpc ''batch_get_objects: '' (rpc_batch_get E peer_object_ids)) (\<lambda>results.
                 let peers = List.map_filter (peer_of_result E) (zip peer_object_ids results)
                 in act_bind (list_peer_vaults E W) (\<lambda>r.
                   let vaults = (case r of Inr vs \<Rightarrow> vs | Inl _ \<Rightarrow> [])
                   in act_ret (Inr (map (\<lambda>peer. peer\<lparr>pi_vault := find_vault E (pi_sui_address peer) vaults\<rparr>)
                        peers)))))))"

definition get_wal_balance :: "('w, 'a, 't, 'k, 'x) sui_env \<Rightarrow> ('a, 'k) zing_wallet \<Rightarrow> ('w, 'a, 't, u64 zresult) wact" where
  "get_wal_balance E W =
     act_try (new_client E W) (\<lambda>_.
     act_try (rpc ''get_balance: '' (rpc_balance E (addr_show_alt E (wl_address W))
       ''0x356a26eb9e012a68958082340d4c4116e7f55615cf27affcff209cf0ae544f59::wal::WAL'')) (\<lambda>response.
     act_try (act_ret (ok_or (SuiClientErr ''no balance in response'') response)) (\<lambda>balance.
     act_ret (Inr (case balance of Some b \<Rightarrow> b | None \<Rightarrow> 0)))))"

section \<open>Payments\<close>

definition bump :: "('w, 'a, 't, u64) wact" where
  "bump s = (Ret (ws_counter s + 1), s\<lparr>ws_counter := ws_counter s + 1\<rparr>)"

definition synthetic_preimage :: "('w, 'a, 't, 'k, 'x) sui_env \<Rightarrow> 'a \<Rightarrow> bytes \<Rightarrow> u64 \<Rightarrow> u64 \<Rightarrow> bytes" where
  "synthetic_preimage E recipient blob_hash amount c =
     as_bytes ''zing-payment-v1'' @ as_bytes (addr_show E recipient) @ blob_hash @ u64_to_le amount @
       u64_to_le c"

definition synthetic_pay :: "('w, 'a, 't, 'k, 'x) sui_env \<Rightarrow> 'a \<Rightarrow> bytes \<Rightarrow> u64 \<Rightarrow> ('w, 'a, 't, bytes zresult) wact" where
  "synthetic_pay E recipient blob_hash amount =
     act_bind bump (\<lambda>c. act_ret (Inr (sha256 E (synthetic_preimage E recipient blob_hash amount c))))"

definition copy_32 :: "bytes \<Rightarrow> bytes run" where
  "copy_32 src = (if length src = 32 then Ret src else Panic)"

definition try_onchain_pay :: "('w, 'a, 't, 'k, 'x) sui_env \<Rightarrow> ('a, 'k) zing_wallet \<Rightarrow> 'a settlement_config \<Rightarrow>
    'a \<Rightarrow> bytes \<Rightarrow> u64 \<Rightarrow> ('w, 'a, 't, bytes zresult) wact" where
  "try_onchain_pay E W settlement recipient blob_hash amount =
     act_try (new_client E W) (\<lambda>_.
     act_try (get_vault_for_recipient E W recipient) (\<lambda>vault_obj_id.
     act_bind (act_run (build_pay_transaction (se_sdk E) settlement (wl_address W) recipient blob_hash
       amount vault_obj_id)) (\<lambda>tx.
     act_try (submit E W ''build: '' ''tx: '' tx) (\<lambda>transaction.
     act_try (act_ret (ok_or (SuiClientErr ''no digest'') (Option.bind transaction (\<lambda>d. d)))) (\<lambda>digest_b58.
     act_try (act_ret (map_err (\<lambda>e. SuiClientErr (''digest decode: '' @ e)) (bs58_decode E digest_b58)))
       (\<lambda>digest_raw.
     act_bind (act_run (copy_32 digest_raw)) (\<lambda>digest.
     act_bind bump (\<lambda>c. act_ret (Inr digest)))))))))"

definition pay_wal :: "('w, 'a, 't, 'k, 'x) sui_env \<Rightarrow> ('a, 'k) zing_wallet \<Rightarrow> 'a \<Rightarrow> bytes \<Rightarrow> u64 \<Rightarrow>
    ('w, 'a, 't, bytes zresult) wact" where
  "pay_wal E W recipient blob_hash amount =
     (case wl_settlement W of
        None \<Rightarrow> synthetic_pay E recipient blob_hash amount
      | Some settlement \<Rightarrow>
          act_bind (try_onchain_pay E W settlement recipient blob_hash amount) (\<lambda>r.
            case r of
              Inr d \<Rightarrow> act_ret (Inr d)
            | Inl e \<Rightarrow> synthetic_pay E recipient blob_hash amount))"

section \<open>Registration\<close>

definition check_peer_active :: "('w, 'a, 't, 'k, 'x) sui_env \<Rightarrow> string \<Rightarrow> ('w, 'a, 't, bool zresult) wact" where
  "check_peer_active E vault_id =
     act_try (rpc ''get vault: '' (rpc_get_object E vault_id)) (\<lambda>response.
     act_try (act_ret (ok_or (SuiClientErr ''vault object not found'') response)) (\<lambda>object.
     act_ret (Inr (case ob_json object of
        Some (StructValue flds) \<Rightarrow>
          (case bool_field flds ''is_active'' of Some b \<Rightarrow> b | None \<Rightarrow> False)
      | _ \<Rightarrow> False))))"

definition peers_table :: "('w, 'a, 't, 'k, 'x) sui_env \<Rightarrow> 'a settlement_config \<Rightarrow> string" where
  "peers_table E settlement = ''0x'' @ hex_encode E (addr_bytes E (registry_peers_table_id settlement))"

definition is_peer_registered :: "('w, 'a, 't, 'k, 'x) sui_env \<Rightarrow> ('a, 'k) zing_wallet \<Rightarrow>
    ('w, 'a, 't, bool zresult) wact" where
  "is_peer_registered E W =
     (case wl_settlement W of
        None \<Rightarrow> act_ret (Inr False)
      | Some settlement \<Rightarrow>
          act_try (new_client E W) (\<lambda>_.
          act_bind (list_fields E (peers_table E settlement)) (\<lambda>stream.
            case find_entry E (addr_bytes E (wl_address W)) stream of
              Some vault_id_hex \<Rightarrow> check_peer_active E vault_id_hex
            | None \<Rightarrow> act_ret (Inr False))))"

definition register_peer :: "('w, 'a, 't, 'k, 'x) sui_env \<Rightarrow> ('a, 'k) zing_wallet \<Rightarrow> bytes \<Rightarrow>
    ('w, 'a, 't, unit zresult) wact" where
  "register_peer E W peer_id_bytes =
     (case wl_settlement W of
        None \<Rightarrow> act_ret (Inr ())
      | Some settlement \<Rightarrow>
          act_try (new_client E W) (\<lambda>_.
          act_bind (act_run (build_register_transaction (se_sdk E) settlement (wl_address W) peer_id_bytes
            1000000000)) (\<lambda>tx.
          submit_unit E W ''register: '' ''register tx: '' tx)))"

definition get_registered_peer_info :: "('w, 'a, 't, 'k, 'x) sui_env \<Rightarrow> ('a, 'k) zing_wallet \<Rightarrow>
    ('w, 'a, 't, registered_peer_info option zresult) wact" where
  "get_registered_peer_info E W =
     (case wl_settlement W of
        None \<Rightarrow> act_ret (Inr None)
      | Some settlement \<Rightarrow>
          act_try (new_client E W) (\<lambda>_.
          act_bind (list_fields E (peers_table E settlement)) (\<lambda>stream.
            case find_entry E (addr_bytes E (wl_address W)) stream of
              None \<Rightarrow> act_ret (Inr None)
            | Some peer_object_id \<Rightarrow>
                act_try (rpc ''get peer object: '' (rpc_get_object E peer_object_id)) (\<lambda>response.
                act_try (act_ret (ok_or (SuiClientErr ''peer object not found'') response)) (\<lambda>object.
                act_try (act_ret (ok_or (SuiClientErr ''peer object has no json'') (ob_json object))) (\<lambda>json.
                act_try (act_ret (parse_peer_id_from_json E json)) (\<lambda>peer_id_bytes.
                act_try (act_ret (ok_or (SuiClientErr ''peer object has no initial_shared_version'')
                  (Option.bind (ob_owner_version object) (\<lambda>v. v)))) (\<lambda>initial_shared_version.
                act_ret (Inr (Some \<lparr>rp_peer_id_bytes = peer_id_bytes, rp_peer_object_id = peer_object_id,
                  rp_initial_shared_version = initial_shared_version\<rparr>))))))))))"

definition update_peer_id :: "('w, 'a, 't, 'k, 'x) sui_env \<Rightarrow> ('a, 'k) zing_wallet \<Rightarrow> bytes \<Rightarrow>
    ('w, 'a, 't, unit zresult) wact" where
  "update_peer_id E W new_peer_id_bytes =
     (case wl_settlement W of
        None \<Rightarrow> act_ret (Inr ())
      | Some settlement \<Rightarrow>
          act_try (get_registered_peer_info E W) (\<lambda>found.
          act_try (act_ret (ok_or (SuiClientErr ''not registered'') found)) (\<lambda>info.
            if rp_peer_id_bytes info = new_peer_id_bytes then act_ret (Inr ())
            else
              act_try (new_client E W) (\<lambda>_.
              act_try (act_ret (parse_addr_or E ''parse peer object id: '' (rp_peer_object_id info)))
                (\<lambda>peer_obj_addr.
              submit_unit E W ''build update: '' ''update peer id tx: ''
                (build_update_peer_id_transaction settlement (wl_address W) peer_obj_addr
                  (rp_initial_shared_version info) new_peer_id_bytes))))))"

definition ensure_peer_registered :: "('w, 'a, 't, 'k, 'x) sui_env \<Rightarrow> ('a, 'k) zing_wallet \<Rightarrow> bytes \<Rightarrow>
    ('w, 'a, 't, unit zresult) wact" where
  "ensure_peer_registered E W peer_id_bytes =
     act_bind (is_peer_registered E W) (\<lambda>r.
       if r = Inr True then update_peer_id E W peer_id_bytes else register_peer E W peer_id_bytes)"

section \<open>Vault operations\<close>

definition not_configured :: zing_error where
  "not_configured = SuiClientErr ''settlement not configured''"

definition create_vault :: "('w, 'a, 't, 'k, 'x) sui_env \<Rightarrow> ('a, 'k) zing_wallet \<Rightarrow> ('w, 'a, 't, unit zresult) wact" where
  "create_vault E W =
     (case wl_settlement W of
        None \<Rightarrow> act_ret (Inl not_configured)
      | Some settlement \<Rightarrow>
          act_try (act_ret (ok_or (SuiClientErr ''peer_vault_registry_id not set in config'')
            (build_create_vault_transaction settlement (wl_address W)))) (\<lambda>tx.
          act_try (new_client E W) (\<lambda>_.
          submit_unit E W ''build create_vault: '' ''create_vault tx: '' tx)))"

definition claim_earnings :: "('w, 'a, 't, 'k, 'x) sui_env \<Rightarrow> ('a, 'k) zing_wallet \<Rightarrow> ('w, 'a, 't, unit zresult) wact" where
  "claim_earnings E W =
     (case wl_settlement W of
        None \<Rightarrow> act_ret (Inl not_configured)
      | Some settlement \<Rightarrow>
          act_try (get_my_vault_info E W) (\<lambda>found.
          act_try (act_ret (ok_or (SuiClientErr ''no vault created'') found)) (\<lambda>vault_info.
          act_try (act_ret (parse_addr_or E ''parse vault id: '' (pv_vault_object_id vault_info))) (\<lambda>vault_obj_id.
          act_try (new_client E W) (\<lambda>_.
          submit_unit E W ''build claim_earnings: '' ''claim_earnings tx: ''
            (build_claim_earnings_transaction settlement (wl_address W) vault_obj_id
              (vault_initial_shared_version settlement)))))))"

definition delegate :: "('w, 'a, 't, 'k, 'x) sui_env \<Rightarrow> ('a, 'k) zing_wallet \<Rightarrow> string \<Rightarrow> u64 \<Rightarrow>
    ('w, 'a, 't, unit zresult) wact" where
  "delegate E W vault_object amount_frost =
     (case wl_settlement W of
        None \<Rightarrow> act_ret (Inl not_configured)
      | Some settlement \<Rightarrow>
          act_try (act_ret (parse_addr_or E ''parse vault id: '' vault_object)) (\<lambda>vault_obj_id.
          act_bind (act_run (build_delegate_transaction (se_sdk E) settlement (wl_address W) vault_obj_id
            (vault_initial_shared_version settlement) amount_frost)) (\<lambda>tx.
          act_try (new_client E W) (\<lambda>_.
          submit_unit E W ''build delegate: '' ''delegate tx: '' tx))))"

text \<open>A JSON without a kind is an error, one that is not a struct reaches \<^verbatim>\<open>unreachable!\<close>.\<close>

fun cert_vault_id :: "pvalue \<Rightarrow> string zresult run" where
  "cert_vault_id NoKind = Ret (Inl (SuiClientErr ''cert json not a struct''))"
| "cert_vault_id (StructValue flds) =
     Ret (ok_or (SuiClientErr ''missing vault_id in cert'') (string_field flds ''vault_id''))"
| "cert_vault_id _ = Panic"

definition undelegate :: "('w, 'a, 't, 'k, 'x) sui_env \<Rightarrow> ('a, 'k) zing_wallet \<Rightarrow> string \<Rightarrow>
    ('w, 'a, 't, unit zresult) wact" where
  "undelegate E W cert_object_id =
     (case wl_settlement W of
        None \<Rightarrow> act_ret (Inl not_configured)
      | Some settlement \<Rightarrow>
          act_try (new_client E W) (\<lambda>_.
          act_try (rpc ''get cert: '' (rpc_get_object E cert_object_id)) (\<lambda>response.
          act_try (act_ret (ok_or (SuiClientErr ''cert object not found'') response)) (\<lambda>obj.
          act_try (act_ret (ok_or (SuiClientErr ''cert has no version'') (ob_version obj))) (\<lambda>cert_version.
          act_try (act_ret (ok_or (SuiClientErr ''cert has no digest'') (ob_digest obj))) (\<lambda>digest.
          act_try (act_ret (map_err (\<lambda>e. SuiClientErr (''parse cert digest: '' @ e)) (parse_digest E digest)))
            (\<lambda>cert_digest.
          act_try (act_ret (ok_or (SuiClientErr ''cert has no json'') (ob_json obj))) (\<lambda>json.
          act_try (act_run (cert_vault_id json)) (\<lambda>vault_id.
          act_try (act_ret (parse_addr_or E ''parse vault id: '' vault_id)) (\<lambda>vault_obj_id.
          act_try (act_ret (parse_addr_or E ''parse cert id: '' cert_object_id)) (\<lambda>cert_obj_id.
          submit_unit E W ''build undelegate: '' ''undelegate tx: ''
            (build_undelegate_transaction settlement (wl_address W) vault_obj_id
              (vault_initial_shared_version settlement) cert_obj_id cert_version cert_digest))))))))))))"

section \<open>Share certificates\<close>

definition cert_of_result :: "(string \<times> u64) \<times> rpc_object option \<Rightarrow> (string \<times> u64 \<times> string \<times> u64) option" where
  "cert_of_result p = (case p of ((object_id, version), result) \<Rightarrow>
     Option.bind result (\<lambda>obj. Option.bind (ob_json obj) (\<lambda>json.
       case json of
         StructValue flds \<Rightarrow>
           Option.bind (string_field flds ''vault_id'') (\<lambda>vault_id.
           Option.bind (u64_field flds ''shares'') (\<lambda>shares. Some (object_id, version, vault_id, shares)))
       | _ \<Rightarrow> None)))"

text \<open>The product saturates in 128 bits, which it cannot reach, and the quotient is truncated.\<close>

definition estimated_value :: "u64 \<Rightarrow> peer_vault_info \<Rightarrow> u64" where
  "estimated_value shares info =
     (if pv_total_shares info > 0 then
        (let product = min (unat shares * unat (pv_reserves info)) (2 ^ 128 - 1)
         in word_of_nat (product div max (unat (pv_total_shares info)) 1))
      else 0)"

definition cert_info :: "(string \<times> (string \<times> peer_vault_info)) list \<Rightarrow> string \<times> u64 \<times> string \<times> u64 \<Rightarrow>
    share_certificate_info" where
  "cert_info vault_id_to_info c = (case c of (cert_object_id, cert_version, vault_id, shares) \<Rightarrow>
     let vault_data = map_of vault_id_to_info vault_id
     in \<lparr>sc_cert_object_id = cert_object_id, sc_cert_version = cert_version, sc_vault_id = vault_id,
         sc_vault_address = (case vault_data of Some (addr, _) \<Rightarrow> addr | None \<Rightarrow> []),
         sc_shares = shares,
         sc_estimated_value = (case vault_data of Some (_, info) \<Rightarrow> estimated_value shares info | None \<Rightarrow> 0)\<rparr>)"

definition list_my_share_certificates :: "('w, 'a, 't, 'k, 'x) sui_env \<Rightarrow> ('a, 'k) zing_wallet \<Rightarrow>
    ('w, 'a, 't, share_certificate_info list zresult) wact" where
  "list_my_share_certificates E W =
     (case wl_settlement W of
        None \<Rightarrow> act_ret (Inr [])
      | Some settlement \<Rightarrow>
          act_try (new_client E W) (\<lambda>_.
          act_try (rpc ''list owned: '' (rpc_list_owned E (addr_show_alt E (wl_address W))
            (share_certificate_type settlement))) (\<lambda>cert_ids.
            if cert_ids = [] then act_ret (Inr [])
            else act_try (rpc ''batch_get_certs: '' (rpc_batch_get E (map fst cert_ids))) (\<lambda>results.
              let certs = List.map_filter cert_of_result (zip cert_ids results)
              in act_bind (list_peer_vaults E W) (\<lambda>r.
                let vaults = (case r of Inr vs \<Rightarrow> vs | Inl _ \<Rightarrow> []);
                    vault_id_to_info = collect_map
                      (map (\<lambda>(addr, info). (pv_vault_object_id info, (addr, info))) vaults)
                in act_ret (Inr (map (cert_info vault_id_to_info) certs)))))))"

section \<open>Keys\<close>

fun decode_keys :: "('w, 'a, 't, 'k, 'x) sui_env \<Rightarrow> ('a \<Rightarrow> bool) \<Rightarrow> string \<Rightarrow> string list \<Rightarrow> ('k \<times> 'a \<times> bytes) zresult" where
  "decode_keys E accept none_msg [] = Inl (SuiClientErr none_msg)"
| "decode_keys E accept none_msg (k # keys) =
     try_bind (map_err (\<lambda>e. SuiClientErr (''key decode: '' @ e)) (b64_decode E k)) (\<lambda>raw.
       if length raw = 33 \<and> hd raw = 0 then
         (let seed = drop 1 raw; kp = key_of_seed E seed; addr = key_address E kp
          in if accept addr then Inr (kp, addr, seed) else decode_keys E accept none_msg keys)
       else decode_keys E accept none_msg keys)"

definition decode_and_derive :: "('w, 'a, 't, 'k, 'x) sui_env \<Rightarrow> string list \<Rightarrow> ('k \<times> 'a \<times> bytes) zresult" where
  "decode_and_derive E keys = decode_keys E (\<lambda>_. True) ''no Ed25519 key found'' keys"

definition decode_first_matching :: "('w, 'a, 't, 'k, 'x) sui_env \<Rightarrow> string list \<Rightarrow> 'a \<Rightarrow> ('k \<times> 'a \<times> bytes) zresult" where
  "decode_first_matching E keys target =
     decode_keys E (\<lambda>addr. addr = target) ''no Ed25519 key matching active_address'' keys"

end
