(* ===== verification/Wallet_Safety.thy ===== *)
theory Wallet_Safety
  imports Wallet
begin

text \<open>
  What the wallet of the theory Wallet guarantees: a payment always yields a proof, which is the
  digest the chain answered or a synthetic hash; synthetic proofs hash different messages;
  registration submits exactly what the registry's state calls for; the selected key is the one
  asked for; and the estimate of a certificate is its share of the vault.
\<close>

section \<open>What an action does to the counter and the trace\<close>

definition ledger :: "('w, 'a, 't) wallet_state \<Rightarrow> u64 \<times> ('a, 't) ptb list" where
  "ledger s = (ws_counter s, ws_submitted s)"

lemma keeps_rpc: "act_keeps ledger (rpc msg op)"
  by (auto simp: act_keeps_def rpc_def ledger_def split: prod.splits)

lemma keeps_list_fields: "act_keeps ledger (list_fields E p)"
  by (auto simp: act_keeps_def list_fields_def ledger_def split: prod.splits)

lemma keeps_new_client: "act_keeps ledger (new_client E W)"
  by (simp add: new_client_def)

lemmas keeps_calls = keeps_rpc keeps_list_fields keeps_new_client act_keeps_rules

lemma keeps_vaults: "act_keeps ledger (list_peer_vaults E W)"
  unfolding list_peer_vaults_def by (intro keeps_calls)

lemma keeps_vault_for: "act_keeps ledger (get_vault_for_recipient E W r)"
  unfolding get_vault_for_recipient_def by (intro keeps_calls keeps_vaults)

lemma keeps_check_active: "act_keeps ledger (check_peer_active E v)"
  unfolding check_peer_active_def by (intro keeps_calls)

lemma keeps_is_registered: "act_keeps ledger (is_peer_registered E W)"
  unfolding is_peer_registered_def by (intro keeps_calls keeps_check_active)

lemma keeps_registered_info: "act_keeps ledger (get_registered_peer_info E W)"
  unfolding get_registered_peer_info_def by (intro keeps_calls)

lemma ledger_eq: "ledger s' = ledger s \<longleftrightarrow> ws_counter s' = ws_counter s \<and> ws_submitted s' = ws_submitted s"
  by (auto simp: ledger_def)

section \<open>Payments\<close>

lemma synthetic_effect:
  "synthetic_pay E r h amt s =
    (Ret (Inr (sha256 E (synthetic_preimage E r h amt (ws_counter s + 1)))),
     s\<lparr>ws_counter := ws_counter s + 1\<rparr>)"
  by (simp add: synthetic_pay_def act_bind_def bump_def)

text \<open>
  A payment that is handed to the chain: the vault was found, the transaction \<open>tx\<close> built and signed
  in the world \<open>w\<close>. Then the chain's digest of it, if the answer has one.
\<close>

definition pay_handed :: "('w, 'a, 't, 'k, 'x) sui_env \<Rightarrow> ('a, 'k) zing_wallet \<Rightarrow> 'a settlement_config \<Rightarrow> 'a \<Rightarrow> bytes \<Rightarrow>
    u64 \<Rightarrow> ('w, 'a, 't) wallet_state \<Rightarrow> ('a, 't) ptb \<Rightarrow> 'x \<Rightarrow> bytes \<Rightarrow> 'w \<Rightarrow> bool" where
  "pay_handed E W cfg rc h amt s tx x sig w \<longleftrightarrow> is_ok (rpc_new E (wl_rpc_url W)) \<and>
     (\<exists>v s1. get_vault_for_recipient E W rc s = (Ret (Inr v), s1) \<and>
       build_pay_transaction (se_sdk E) cfg (wl_address W) rc h amt v = Ret tx \<and>
       rpc_build E tx (ws_world s1) = (Inr x, w) \<and> key_sign E (wl_keypair W) x = Inr sig)"

definition chain_digest :: "('w, 'a, 't, 'k, 'x) sui_env \<Rightarrow> 'x \<Rightarrow> bytes \<Rightarrow> 'w \<Rightarrow> bytes \<Rightarrow> bool" where
  "chain_digest E x sig w d \<longleftrightarrow>
     (\<exists>d58. fst (rpc_execute E x sig w) = Inr (Some (Some d58)) \<and> bs58_decode E d58 = Inr d)"

lemma handed_unique:
  "pay_handed E W cfg rc h amt s tx x sig w \<Longrightarrow> pay_handed E W cfg rc h amt s tx' x' sig' w' \<Longrightarrow>
    tx' = tx \<and> x' = x \<and> sig' = sig \<and> w' = w"
  by (auto simp: pay_handed_def)

lemma digest_unique: "chain_digest E x sig w d \<Longrightarrow> chain_digest E x sig w d' \<Longrightarrow> d' = d"
  by (auto simp: chain_digest_def)

text \<open>What follows the building of the transaction.\<close>

lemma after_submit:
  assumes "act_try (submit E W m1 m2 tx) (\<lambda>transaction.
      act_try (act_ret (ok_or (SuiClientErr ''no digest'') (Option.bind transaction (\<lambda>d. d)))) (\<lambda>digest_b58.
      act_try (act_ret (map_err (\<lambda>e. SuiClientErr (''digest decode: '' @ e)) (bs58_decode E digest_b58)))
        (\<lambda>digest_raw. act_bind (act_run (copy_32 digest_raw)) (\<lambda>digest. act_bind bump (\<lambda>c. act_ret (Inr digest))))))
      s = (Ret res, s')"
  shows "(case res of
      Inr d \<Rightarrow> \<exists>x sig w. rpc_build E tx (ws_world s) = (Inr x, w) \<and> key_sign E (wl_keypair W) x = Inr sig \<and>
        chain_digest E x sig w d \<and> length d = 32 \<and> ws_submitted s' = ws_submitted s @ [tx] \<and>
        ws_counter s' = ws_counter s + 1
    | Inl e \<Rightarrow> ws_counter s' = ws_counter s \<and>
        (\<forall>x sig w. rpc_build E tx (ws_world s) = (Inr x, w) \<and> key_sign E (wl_keypair W) x = Inr sig \<longrightarrow>
          (\<forall>d. \<not> chain_digest E x sig w d) \<and> ws_submitted s' = ws_submitted s @ [tx]) \<and>
        ((\<forall>x sig w. \<not> (rpc_build E tx (ws_world s) = (Inr x, w) \<and> key_sign E (wl_keypair W) x = Inr sig)) \<longrightarrow>
          ws_submitted s' = ws_submitted s))"
proof (cases "rpc_build E tx (ws_world s)")
  case (Pair r w)
  show ?thesis
  proof (cases r)
    case (Inl e)
    with assms Pair show ?thesis by (auto simp: submit_def rpc_def act_try_def act_bind_def)
  next
    case build: (Inr x)
    show ?thesis
    proof (cases "key_sign E (wl_keypair W) x")
      case (Inl e)
      with assms Pair build show ?thesis by (auto simp: submit_def rpc_def act_try_def act_bind_def)
    next
      case sig: (Inr sig)
      obtain a w' where exec: "rpc_execute E x sig w = (a, w')" by fastforce
      show ?thesis
        using assms Pair build sig exec
        by (auto simp: submit_def rpc_def traced_def act_try_def act_bind_def copy_32_def bump_def chain_digest_def
            ok_or_def map_err_def split: sum.splits option.splits if_splits bind_splits)
    qed
  qed
qed

lemma onchain_effect:
  assumes "try_onchain_pay E W cfg rc h amt s = (Ret res, s')"
  shows "(case res of
      Inr d \<Rightarrow> \<exists>tx x sig w. pay_handed E W cfg rc h amt s tx x sig w \<and> chain_digest E x sig w d \<and> length d = 32 \<and>
        ws_submitted s' = ws_submitted s @ [tx] \<and> ws_counter s' = ws_counter s + 1
    | Inl e \<Rightarrow> ws_counter s' = ws_counter s \<and>
        (\<forall>tx x sig w. pay_handed E W cfg rc h amt s tx x sig w \<longrightarrow>
          (\<forall>d. \<not> chain_digest E x sig w d) \<and> ws_submitted s' = ws_submitted s @ [tx]) \<and>
        ((\<forall>tx x sig w. \<not> pay_handed E W cfg rc h amt s tx x sig w) \<longrightarrow> ws_submitted s' = ws_submitted s))"
proof (cases "rpc_new E (wl_rpc_url W)")
  case (Inl e)
  with assms show ?thesis
    by (auto simp: try_onchain_pay_def act_try_def act_bind_def new_client_def pay_handed_def)
next
  case new: (Inr u)
  obtain g s1 where vault: "get_vault_for_recipient E W rc s = (g, s1)" by fastforce
  note s1 = act_keepsD [OF keeps_vault_for vault, unfolded ledger_eq]
  show ?thesis
  proof (cases "\<exists>v. g = Ret (Inr v)")
    case False
    with assms new vault s1 show ?thesis
      by (auto simp: try_onchain_pay_def act_try_def act_bind_def new_client_def pay_handed_def
          split: run.splits sum.splits)
  next
    case True
    then obtain v where v: "g = Ret (Inr v)" by blast
    show ?thesis
    proof (cases "build_pay_transaction (se_sdk E) cfg (wl_address W) rc h amt v")
      case Panic
      with assms new vault v show ?thesis
        by (simp add: try_onchain_pay_def act_try_def act_bind_def new_client_def)
    next
      case (Ret tx)
      have handed: "pay_handed E W cfg rc h amt s tx' x sig w \<longleftrightarrow> tx' = tx \<and>
          rpc_build E tx (ws_world s1) = (Inr x, w) \<and> key_sign E (wl_keypair W) x = Inr sig" for tx' x sig w
        using new vault v Ret by (auto simp: pay_handed_def)
      have "act_try (submit E W ''build: '' ''tx: '' tx) (\<lambda>transaction.
          act_try (act_ret (ok_or (SuiClientErr ''no digest'') (Option.bind transaction (\<lambda>d. d)))) (\<lambda>digest_b58.
          act_try (act_ret (map_err (\<lambda>e. SuiClientErr (''digest decode: '' @ e)) (bs58_decode E digest_b58)))
            (\<lambda>digest_raw. act_bind (act_run (copy_32 digest_raw)) (\<lambda>digest. act_bind bump (\<lambda>c. act_ret (Inr digest))))))
          s1 = (Ret res, s')"
        using assms new vault v Ret by (simp add: try_onchain_pay_def act_try_def act_bind_def new_client_def)
      from after_submit [OF this] s1 handed show ?thesis by (cases res) auto
    qed
  qed
qed

text \<open>
  C17: a payment always yields a proof, and which. When the call returns at all it returns 32 bytes and
  never an error, and it uses one number of the payment counter. A transaction is handed to the
  chain exactly if there is a settlement, a vault for the recipient and a signature, and then it is the one
  that pays this amount for this blob to this recipient. If the chain answers it with a digest the
  proof is that digest; otherwise, and without a settlement, it is the hash of the synthetic message
  with this number of the counter.
\<close>

theorem payment_always_proved:
  assumes "pay_wal E W rc h amt s = (Ret res, s')" and "\<And>m. length (sha256 E m) = 32"
  shows "\<exists>d. res = Inr d \<and> length d = 32 \<and> ws_counter s' = ws_counter s + 1 \<and>
    (case wl_settlement W of
       None \<Rightarrow> d = sha256 E (synthetic_preimage E rc h amt (ws_counter s + 1)) \<and> ws_submitted s' = ws_submitted s
     | Some cfg \<Rightarrow>
         (\<forall>tx x sig w. pay_handed E W cfg rc h amt s tx x sig w \<longrightarrow> ws_submitted s' = ws_submitted s @ [tx] \<and>
           (\<forall>d'. chain_digest E x sig w d' \<longrightarrow> d = d') \<and>
           ((\<forall>d'. \<not> chain_digest E x sig w d') \<longrightarrow>
             d = sha256 E (synthetic_preimage E rc h amt (ws_counter s + 1)))) \<and>
         ((\<forall>tx x sig w. \<not> pay_handed E W cfg rc h amt s tx x sig w) \<longrightarrow> ws_submitted s' = ws_submitted s \<and>
           d = sha256 E (synthetic_preimage E rc h amt (ws_counter s + 1))))"
proof (cases "wl_settlement W")
  case None
  with assms show ?thesis by (auto simp: pay_wal_def synthetic_effect)
next
  case (Some cfg)
  with assms(1) have "act_bind (try_onchain_pay E W cfg rc h amt) (\<lambda>r. case r of
      Inr d \<Rightarrow> act_ret (Inr d) | Inl e \<Rightarrow> synthetic_pay E rc h amt) s = (Ret res, s')"
    by (simp add: pay_wal_def)
  then show ?thesis
  proof (cases rule: act_bindE)
    case (go r s1)
    show ?thesis
    proof (cases r)
      case (Inl e)
      from onchain_effect [OF go(1)] Inl
      have same: "ws_counter s1 = ws_counter s"
        and paid: "\<And>tx x sig w. pay_handed E W cfg rc h amt s tx x sig w \<Longrightarrow>
          (\<forall>d. \<not> chain_digest E x sig w d) \<and> ws_submitted s1 = ws_submitted s @ [tx]"
        and unpaid: "(\<forall>tx x sig w. \<not> pay_handed E W cfg rc h amt s tx x sig w) \<Longrightarrow> ws_submitted s1 = ws_submitted s"
        by simp_all
      from go(2) Inl same have ends: "res = Inr (sha256 E (synthetic_preimage E rc h amt (ws_counter s + 1)))"
        "ws_submitted s' = ws_submitted s1" "ws_counter s' = ws_counter s + 1"
        by (auto simp: synthetic_effect)
      let ?d = "sha256 E (synthetic_preimage E rc h amt (ws_counter s + 1))"
      have "\<forall>tx x sig w. pay_handed E W cfg rc h amt s tx x sig w \<longrightarrow> ws_submitted s1 = ws_submitted s @ [tx] \<and>
          (\<forall>d'. chain_digest E x sig w d' \<longrightarrow> ?d = d') \<and> ((\<forall>d'. \<not> chain_digest E x sig w d') \<longrightarrow> ?d = ?d)"
        by (intro allI impI) (drule paid, simp)
      with ends unpaid assms(2) [of "synthetic_preimage E rc h amt (ws_counter s + 1)"] Some show ?thesis by simp
    next
      case (Inr d)
      with onchain_effect [OF go(1)] obtain tx x sig w where paid: "pay_handed E W cfg rc h amt s tx x sig w"
        "chain_digest E x sig w d" "length d = 32" "ws_submitted s1 = ws_submitted s @ [tx]" "ws_counter s1 = ws_counter s + 1"
        by auto
      have "ws_submitted s1 = ws_submitted s @ [tx'] \<and> (\<forall>d'. chain_digest E x' sig' w' d' \<longrightarrow> d = d') \<and>
          chain_digest E x' sig' w' d" if "pay_handed E W cfg rc h amt s tx' x' sig' w'" for tx' x' sig' w'
      proof -
        from handed_unique [OF paid(1) that] have "tx' = tx" "x' = x" "sig' = sig" "w' = w" by simp_all
        with paid(2,4) show ?thesis by (blast dest: digest_unique)
      qed
      moreover from go(2) Inr have "res = Inr d" "s' = s1" by simp_all
      ultimately show ?thesis
        unfolding Some option.case using paid(1,3,5) by (intro exI [of _ d]) blast
    qed
  qed simp
qed

text \<open>
  Synthetic proofs never hash the same message twice: with recipients shown at equal length
  and blob hashes of equal length, equal messages have the same recipient, blob, amount and
  counter, and the counter moves with every payment.
\<close>

theorem synthetic_messages_differ:
  assumes "synthetic_preimage E r h amt c = synthetic_preimage E r' h' amt' c'"
    and "length (addr_show E r) = length (addr_show E r')" and "length h = length h'"
  shows "addr_show E r = addr_show E r' \<and> h = h' \<and> amt = amt' \<and> c = c'"
proof -
  have "as_bytes (addr_show E r) = as_bytes (addr_show E r') \<and> h = h' \<and>
      u64_to_le amt = u64_to_le amt' \<and> u64_to_le c = u64_to_le c'"
    using assms by (simp add: synthetic_preimage_def)
  then show ?thesis by (metis as_bytes_eq u64_le_inverse)
qed

section \<open>Registration\<close>

text \<open>The transaction, if it is handed to the chain: the client was made, and it was built and signed.\<close>

definition handed_txs :: "('w, 'a, 't, 'k, 'x) sui_env \<Rightarrow> ('a, 'k) zing_wallet \<Rightarrow> ('a, 't) ptb \<Rightarrow>
    ('w, 'a, 't) wallet_state \<Rightarrow> ('a, 't) ptb list" where
  "handed_txs E W tx s = (if is_ok (rpc_new E (wl_rpc_url W)) \<and>
     (\<exists>x w. rpc_build E tx (ws_world s) = (Inr x, w) \<and> is_ok (key_sign E (wl_keypair W) x)) then [tx] else [])"

lemma submit_unit_handed:
  assumes "act_try (new_client E W) (\<lambda>_. submit_unit E W b m tx) s = (r, s')"
  shows "ws_submitted s' = ws_submitted s @ handed_txs E W tx s"
proof (cases "rpc_new E (wl_rpc_url W)")
  case (Inl e)
  with assms show ?thesis by (auto simp: new_client_def act_try_def act_bind_def handed_txs_def)
next
  case client: (Inr u)
  obtain c w where build: "rpc_build E tx (ws_world s) = (c, w)" by fastforce
  show ?thesis
  proof (cases c)
    case (Inl e)
    with assms client build show ?thesis
      by (auto simp: new_client_def submit_unit_def submit_def rpc_def act_try_def act_bind_def handed_txs_def)
  next
    case x: (Inr x)
    obtain a w' where exec: "rpc_execute E x sig w = (a sig, w' sig)" for sig
      using that [of "\<lambda>sig. fst (rpc_execute E x sig w)" "\<lambda>sig. snd (rpc_execute E x sig w)"] by simp
    show ?thesis
      using assms client build x exec
      by (cases "key_sign E (wl_keypair W) x") (auto simp: new_client_def submit_unit_def submit_def rpc_def traced_def
          act_try_def act_bind_def handed_txs_def map_err_def split: sum.splits)
  qed
qed

text \<open>
  What the registry says: the entry of the wallet in the peers table and the object it names,
  whether that object is active, and the peer id and version it holds.
\<close>

definition peer_entry :: "('w, 'a, 't, 'k, 'x) sui_env \<Rightarrow> ('a, 'k) zing_wallet \<Rightarrow> 'a settlement_config \<Rightarrow>
    ('w, 'a, 't) wallet_state \<Rightarrow> string \<Rightarrow> rpc_object \<Rightarrow> bool" where
  "peer_entry E W cfg s oid obj \<longleftrightarrow> is_ok (rpc_new E (wl_rpc_url W)) \<and> (\<exists>stream w1 w2.
     rpc_list_fields E (peers_table E cfg) (ws_world s) = (stream, w1) \<and>
     find_entry E (addr_bytes E (wl_address W)) stream = Some oid \<and>
     rpc_get_object E oid w1 = (Inr (Some obj), w2))"

definition chain_active :: "('w, 'a, 't, 'k, 'x) sui_env \<Rightarrow> ('a, 'k) zing_wallet \<Rightarrow> 'a settlement_config \<Rightarrow>
    ('w, 'a, 't) wallet_state \<Rightarrow> bool" where
  "chain_active E W cfg s \<longleftrightarrow> (\<exists>oid obj flds. peer_entry E W cfg s oid obj \<and>
     ob_json obj = Some (StructValue flds) \<and> bool_field flds ''is_active'' = Some True)"

definition chain_info :: "('w, 'a, 't, 'k, 'x) sui_env \<Rightarrow> ('a, 'k) zing_wallet \<Rightarrow> 'a settlement_config \<Rightarrow>
    ('w, 'a, 't) wallet_state \<Rightarrow> registered_peer_info \<Rightarrow> bool" where
  "chain_info E W cfg s info \<longleftrightarrow> (\<exists>obj json. peer_entry E W cfg s (rp_peer_object_id info) obj \<and>
     ob_json obj = Some json \<and> parse_peer_id_from_json E json = Inr (rp_peer_id_bytes info) \<and>
     ob_owner_version obj = Some (Some (rp_initial_shared_version info)))"

lemma peer_entry_eval:
  assumes "rpc_new E (wl_rpc_url W) = Inr u"
    and "rpc_list_fields E (peers_table E cfg) (ws_world s) = (stream, w1)"
  shows "peer_entry E W cfg s oid obj \<longleftrightarrow> find_entry E (addr_bytes E (wl_address W)) stream = Some oid \<and>
    fst (rpc_get_object E oid w1) = Inr (Some obj)"
  using assms by (cases "rpc_get_object E oid w1") (simp add: peer_entry_def)

lemma registered_iff_active:
  assumes "wl_settlement W = Some cfg"
  shows "\<exists>reg s1. is_peer_registered E W s = (Ret reg, s1) \<and> (reg = Inr True \<longleftrightarrow> chain_active E W cfg s)"
proof (cases "rpc_new E (wl_rpc_url W)")
  case (Inl e)
  with assms show ?thesis
    by (simp add: is_peer_registered_def new_client_def act_try_def act_bind_def chain_active_def peer_entry_def)
next
  case client: (Inr u)
  obtain stream w1 where fields: "rpc_list_fields E (peers_table E cfg) (ws_world s) = (stream, w1)"
    by fastforce
  note entry = peer_entry_eval [OF client fields]
  show ?thesis
  proof (cases "find_entry E (addr_bytes E (wl_address W)) stream")
    case None
    with assms client fields entry show ?thesis
      by (simp add: is_peer_registered_def new_client_def list_fields_def act_try_def act_bind_def chain_active_def)
  next
    case oid: (Some oid)
    obtain c w2 where obj: "rpc_get_object E oid w1 = (c, w2)" by fastforce
    have "is_peer_registered E W s = check_peer_active E oid (s\<lparr>ws_world := w1\<rparr>)"
      using assms client fields oid
      by (simp add: is_peer_registered_def new_client_def list_fields_def act_try_def act_bind_def)
    moreover have "\<exists>reg s1. check_peer_active E oid (s\<lparr>ws_world := w1\<rparr>) = (Ret reg, s1) \<and>
        (reg = Inr True \<longleftrightarrow> (\<exists>obj flds. c = Inr (Some obj) \<and> ob_json obj = Some (StructValue flds) \<and>
          bool_field flds ''is_active'' = Some True))"
      using obj by (auto simp: check_peer_active_def rpc_def act_try_def act_bind_def ok_or_def map_err_def
          split: sum.splits option.splits pvalue.splits)
    ultimately show ?thesis using entry oid obj by (auto simp: chain_active_def)
  qed
qed

lemma info_iff_chain:
  assumes "wl_settlement W = Some cfg"
  shows "\<exists>found s1. get_registered_peer_info E W s = (Ret found, s1) \<and>
    (\<forall>info. found = Inr (Some info) \<longleftrightarrow> chain_info E W cfg s info)"
proof (cases "rpc_new E (wl_rpc_url W)")
  case (Inl e)
  with assms show ?thesis
    by (simp add: get_registered_peer_info_def new_client_def act_try_def act_bind_def chain_info_def peer_entry_def)
next
  case client: (Inr u)
  obtain stream w1 where fields: "rpc_list_fields E (peers_table E cfg) (ws_world s) = (stream, w1)"
    by fastforce
  note entry = peer_entry_eval [OF client fields]
  show ?thesis
  proof (cases "find_entry E (addr_bytes E (wl_address W)) stream")
    case None
    with assms client fields entry show ?thesis
      by (simp add: get_registered_peer_info_def new_client_def list_fields_def act_try_def act_bind_def chain_info_def)
  next
    case oid: (Some oid)
    obtain c w2 where obj: "rpc_get_object E oid w1 = (c, w2)" by fastforce
    have info: "chain_info E W cfg s info \<longleftrightarrow> rp_peer_object_id info = oid \<and> (\<exists>obj json. c = Inr (Some obj) \<and>
        ob_json obj = Some json \<and> parse_peer_id_from_json E json = Inr (rp_peer_id_bytes info) \<and>
        ob_owner_version obj = Some (Some (rp_initial_shared_version info)))" for info
      using entry oid obj by (auto simp: chain_info_def)
    show ?thesis
      unfolding info using assms client fields oid obj
      by (auto simp: get_registered_peer_info_def new_client_def list_fields_def rpc_def act_try_def act_bind_def
          ok_or_def map_err_def split: sum.splits option.splits bind_splits)
  qed
qed

lemma update_effect:
  assumes "update_peer_id E W pid s = (r, s')" and W: "wl_settlement W = Some cfg"
  shows "\<exists>txs. ws_submitted s' = ws_submitted s @ txs \<and>
    ((\<forall>info. \<not> chain_info E W cfg s info) \<longrightarrow> txs = []) \<and>
    (\<forall>info. chain_info E W cfg s info \<longrightarrow>
      (if rp_peer_id_bytes info = pid then txs = [] \<and> r = Ret (Inr ())
       else txs = (case parse_addr_or E ''parse peer object id: '' (rp_peer_object_id info) of
         Inr p \<Rightarrow> handed_txs E W (build_update_peer_id_transaction cfg (wl_address W) p
           (rp_initial_shared_version info) pid) (snd (get_registered_peer_info E W s))
       | Inl _ \<Rightarrow> [])))"
proof -
  obtain found s1 where look: "get_registered_peer_info E W s = (Ret found, s1)"
    and chain: "\<And>info. chain_info E W cfg s info \<longleftrightarrow> found = Inr (Some info)"
    using info_iff_chain [OF W] by metis
  have s1: "ws_submitted s1 = ws_submitted s"
    using act_keepsD [OF keeps_registered_info look] by (simp add: ledger_eq)
  show ?thesis
  proof (cases "\<exists>info. found = Inr (Some info)")
    case False
    with assms look have "s' = s1"
      by (auto simp: update_peer_id_def act_try_def act_bind_def ok_or_def split: sum.splits option.splits)
    with False s1 show ?thesis by (simp add: chain)
  next
    case True
    then obtain info where info: "found = Inr (Some info)" by blast
    show ?thesis
    proof (cases "rp_peer_id_bytes info = pid")
      case True
      with assms look info have "s' = s1" "r = Ret (Inr ())"
        by (simp_all add: update_peer_id_def act_try_def act_bind_def)
      with True s1 info show ?thesis by (simp add: chain)
    next
      case False
      let ?tx = "\<lambda>p. build_update_peer_id_transaction cfg (wl_address W) p (rp_initial_shared_version info) pid"
      let ?send = "\<lambda>p. submit_unit E W ''build update: '' ''update peer id tx: '' (?tx p)"
      have run: "act_try (new_client E W) (\<lambda>_. act_try (act_ret (parse_addr_or E ''parse peer object id: ''
          (rp_peer_object_id info))) ?send) s1 = (r, s')"
        using assms look info False by (simp add: update_peer_id_def act_try_def act_bind_def)
      have "ws_submitted s' = ws_submitted s1 @ (case parse_addr_or E ''parse peer object id: ''
          (rp_peer_object_id info) of Inr p \<Rightarrow> handed_txs E W (?tx p) s1 | Inl _ \<Rightarrow> [])"
      proof (cases "parse_addr_or E ''parse peer object id: '' (rp_peer_object_id info)")
        case (Inl e)
        with run show ?thesis
          by (auto simp: act_try_def act_bind_def new_client_def map_err_def split: sum.splits)
      next
        case (Inr p)
        then have "act_try (new_client E W) (\<lambda>_. ?send p) s1 = (r, s')"
          using run by (simp add: act_try_def act_bind_def)
        from submit_unit_handed [OF this] Inr show ?thesis by simp
      qed
      moreover have "snd (get_registered_peer_info E W s) = s1" using look by simp
      ultimately show ?thesis using False s1 info by (simp only: chain) simp
    qed
  qed
qed

lemma register_effect:
  assumes "register_peer E W pid s = (r, s')" and "wl_settlement W = Some cfg"
  shows "ws_submitted s' = ws_submitted s @
    (case build_register_transaction (se_sdk E) cfg (wl_address W) pid 1000000000 of
       Ret tx \<Rightarrow> handed_txs E W tx s | Panic \<Rightarrow> [])"
proof (cases "build_register_transaction (se_sdk E) cfg (wl_address W) pid 1000000000")
  case Panic
  with assms show ?thesis
    by (auto simp: register_peer_def act_try_def act_bind_def new_client_def map_err_def split: sum.splits)
next
  case (Ret tx)
  with assms have "act_try (new_client E W) (\<lambda>_. submit_unit E W ''register: '' ''register tx: '' tx) s = (r, s')"
    by (cases "rpc_new E (wl_rpc_url W)") (simp_all add: register_peer_def new_client_def act_try_def act_bind_def)
  from submit_unit_handed [OF this] Ret show ?thesis by simp
qed

text \<open>
  C18: exactly what ensuring the registration submits. Without a settlement nothing. When the
  registry holds an active object for the wallet: nothing, if the peer id read from that object
  on chain is the node's own or cannot be read, and otherwise exactly the update of that object,
  at the version read with it, to the new id. In every other case, a failed lookup or an
  inactive object included, exactly the registration with a bond of one WAL. A transaction that
  cannot be built, or signed, is not submitted.
\<close>

theorem ensure_registered_transactions:
  assumes "ensure_peer_registered E W pid s = (r, s')"
  shows "\<exists>txs. ws_submitted s' = ws_submitted s @ txs \<and>
    (case wl_settlement W of
       None \<Rightarrow> txs = [] \<and> r = Ret (Inr ())
     | Some cfg \<Rightarrow>
         let s1 = snd (is_peer_registered E W s); s2 = snd (get_registered_peer_info E W s1) in
         if chain_active E W cfg s then
           ((\<forall>info. \<not> chain_info E W cfg s1 info) \<longrightarrow> txs = []) \<and>
           (\<forall>info. chain_info E W cfg s1 info \<longrightarrow>
             (if rp_peer_id_bytes info = pid then txs = [] \<and> r = Ret (Inr ())
              else txs = (case parse_addr_or E ''parse peer object id: '' (rp_peer_object_id info) of
                Inr p \<Rightarrow> handed_txs E W (build_update_peer_id_transaction cfg (wl_address W) p
                  (rp_initial_shared_version info) pid) s2
              | Inl _ \<Rightarrow> [])))
         else txs = (case build_register_transaction (se_sdk E) cfg (wl_address W) pid 1000000000 of
                Ret tx \<Rightarrow> handed_txs E W tx s1
              | Panic \<Rightarrow> []))"
proof (cases "wl_settlement W")
  case None
  with assms show ?thesis
    by (simp add: ensure_peer_registered_def act_bind_def is_peer_registered_def register_peer_def)
next
  case (Some cfg)
  obtain reg s1 where look: "is_peer_registered E W s = (Ret reg, s1)"
    and active: "reg = Inr True \<longleftrightarrow> chain_active E W cfg s"
    using registered_iff_active [OF Some] by metis
  have s1: "ws_submitted s1 = ws_submitted s"
    using act_keepsD [OF keeps_is_registered look] by (simp add: ledger_eq)
  have run: "(if reg = Inr True then update_peer_id E W pid else register_peer E W pid) s1 = (r, s')"
    using assms look by (simp add: ensure_peer_registered_def act_bind_def)
  show ?thesis
  proof (cases "reg = Inr True")
    case True
    with run have "update_peer_id E W pid s1 = (r, s')" by simp
    from update_effect [OF this Some] True s1 Some active look show ?thesis by (simp add: Let_def)
  next
    case False
    with run have "register_peer E W pid s1 = (r, s')" by simp
    from register_effect [OF this Some] False s1 Some active look show ?thesis by (simp add: Let_def)
  qed
qed

section \<open>Keys and certificates\<close>

definition key_hit :: "('w, 'a, 't, 'k, 'x) sui_env \<Rightarrow> ('a \<Rightarrow> bool) \<Rightarrow> string \<Rightarrow> bool" where
  "key_hit E accept k \<longleftrightarrow> (case b64_decode E k of
     Inr raw \<Rightarrow> length raw = 33 \<and> hd raw = 0 \<and> accept (key_address E (key_of_seed E (drop 1 raw)))
   | Inl _ \<Rightarrow> False)"

lemma decode_keys_hit:
  assumes "decode_keys E accept msg keys = Inr (kp, addr, seed)"
  shows "\<exists>pre k post. keys = pre @ k # post \<and> (\<forall>p \<in> set pre. is_ok (b64_decode E p) \<and> \<not> key_hit E accept p) \<and>
    key_hit E accept k \<and> b64_decode E k = Inr (0 # seed) \<and> length seed = 32 \<and>
    kp = key_of_seed E seed \<and> addr = key_address E kp"
  using assms
proof (induction keys)
  case Nil
  then show ?case by simp
next
  case (Cons k keys)
  then obtain raw where raw: "b64_decode E k = Inr raw" by (auto simp: try_bind_eq_Inr)
  show ?case
  proof (cases "key_hit E accept k")
    case True
    with raw have "length raw = 33" "hd raw = 0" by (simp_all add: key_hit_def)
    then have "raw = 0 # drop 1 raw" by (cases raw) simp_all
    with Cons.prems raw True show ?thesis
      by (intro exI [of _ "[]"] exI [of _ k] exI [of _ keys]) (auto simp: key_hit_def Let_def)
  next
    case False
    with Cons.prems raw have "decode_keys E accept msg keys = Inr (kp, addr, seed)"
      by (auto simp: key_hit_def Let_def split: if_splits)
    from Cons.IH [OF this] obtain pre k' post where "keys = pre @ k' # post"
      "\<forall>p \<in> set pre. is_ok (b64_decode E p) \<and> \<not> key_hit E accept p" "key_hit E accept k'"
      "b64_decode E k' = Inr (0 # seed)" "length seed = 32" "kp = key_of_seed E seed" "addr = key_address E kp"
      by blast
    with False raw show ?thesis
      by (intro exI [of _ "k # pre"] exI [of _ k'] exI [of _ post]) simp
  qed
qed

text \<open>
  The wallet signs with the key it was asked for: a key selected from the keystore for an
  active address derives exactly that address, comes from a 32-byte Ed25519 seed stored with
  flag zero, and is the first such key; keys before it decode and do not match.
\<close>

theorem selected_key_matches:
  assumes "decode_first_matching E keys target = Inr (kp, addr, seed)"
  shows "addr = target \<and> key_address E kp = target \<and> kp = key_of_seed E seed \<and> length seed = 32 \<and>
    (\<exists>pre k post. keys = pre @ k # post \<and> b64_decode E k = Inr (0 # seed) \<and>
      (\<forall>p \<in> set pre. \<exists>raw. b64_decode E p = Inr raw \<and>
        \<not> (length raw = 33 \<and> hd raw = 0 \<and> key_address E (key_of_seed E (drop 1 raw)) = target)))"
proof -
  obtain pre k post where keys: "keys = pre @ k # post"
    and pre: "\<And>p. p \<in> set pre \<Longrightarrow> is_ok (b64_decode E p) \<and> \<not> key_hit E (\<lambda>addr. addr = target) p"
    and hit: "key_hit E (\<lambda>addr. addr = target) k" "b64_decode E k = Inr (0 # seed)" "length seed = 32"
      "kp = key_of_seed E seed" "addr = key_address E kp"
    using decode_keys_hit [OF assms [unfolded decode_first_matching_def]] by blast
  have "\<exists>raw. b64_decode E p = Inr raw \<and>
        \<not> (length raw = 33 \<and> hd raw = 0 \<and> key_address E (key_of_seed E (drop 1 raw)) = target)"
    if "p \<in> set pre" for p
    using pre [OF that] by (cases "b64_decode E p") (auto simp: key_hit_def)
  moreover have "addr = target" using hit by (simp add: key_hit_def)
  ultimately show ?thesis using keys hit by auto
qed

text \<open>
  The estimate of a certificate is its exact share of the vault, rounded down: with no more
  shares than the vault has in total it neither truncates nor exceeds the reserves; an empty
  vault gives zero.
\<close>

theorem estimate_is_share:
  assumes "shares \<le> pv_total_shares info"
  shows "unat (estimated_value shares info) =
      unat shares * unat (pv_reserves info) div unat (pv_total_shares info) \<and>
    estimated_value shares info \<le> pv_reserves info"
proof (cases "pv_total_shares info > 0")
  case False
  then have "pv_total_shares info = 0" by (simp add: word_gt_0)
  then show ?thesis by (simp add: estimated_value_def)
next
  case True
  let ?s = "unat shares" and ?r = "unat (pv_reserves info)" and ?t = "unat (pv_total_shares info)"
  have t: "0 < ?t" using True by (simp add: word_less_nat_alt)
  have le: "?s \<le> ?t" using assms by (simp add: word_le_nat_alt)
  have "?s * ?r div ?t \<le> ?t * ?r div ?t" using le by (intro div_le_mono) simp
  then have q: "?s * ?r div ?t \<le> ?r" using t by simp
  have "?s * ?r < 2 ^ 64 * 2 ^ 64"
    using unat_bound [of shares] unat_bound [of "pv_reserves info"] by (intro mult_strict_mono) simp_all
  then have "min (?s * ?r) (2 ^ 128 - 1) = ?s * ?r" by simp
  moreover have "max ?t 1 = ?t" using t by simp
  ultimately have "estimated_value shares info = word_of_nat (?s * ?r div ?t)"
    using True by (simp add: estimated_value_def Let_def)
  moreover have "unat (word_of_nat (?s * ?r div ?t) :: u64) = ?s * ?r div ?t"
    using q unat_bound [of "pv_reserves info"] by (simp add: unat_of_nat)
  ultimately show ?thesis using q by (simp add: word_le_nat_alt)
qed

section \<open>A concrete chain\<close>

definition demo_sui :: "(nat, nat, string, bytes, nat) sui_env" where
  "demo_sui =
     \<lparr>se_sdk = demo_sdk, rpc_new = (\<lambda>_. Inr ()), rpc_build = (\<lambda>tx w. (Inr 12, w)),
      rpc_execute = (\<lambda>x sig w. (Inr (Some (Some ''d'')), w)), rpc_list_fields = (\<lambda>_ w. ([], w)),
      rpc_get_object = (\<lambda>_ w. (Inr None, w)), rpc_batch_get = (\<lambda>_ w. (Inr [], w)),
      rpc_list_owned = (\<lambda>_ _ w. (Inr [], w)), rpc_balance = (\<lambda>_ _ w. (Inr None, w)),
      key_sign = (\<lambda>k x. Inr []), key_of_seed = (\<lambda>s. s), key_address = length,
      addr_bytes = (\<lambda>a. replicate 32 0), addr_show = (\<lambda>a. ''0x0''), addr_show_alt = (\<lambda>a. ''0x0''),
      parse_digest = (\<lambda>s. Inr []), hex_encode = (\<lambda>bs. ''00''), bs58_decode = (\<lambda>s. Inr (replicate 32 9)),
      b64_decode = (\<lambda>s. Inr (0 # replicate 32 5)), sha256 = (\<lambda>m. replicate 32 7),
      lowercase = (\<lambda>s. s), pid_display = (\<lambda>b. None)\<rparr>"

definition demo_wallet :: "(nat, bytes) zing_wallet" where
  "demo_wallet = \<lparr>wl_address = 11, wl_keypair = replicate 32 5, wl_seed = replicate 32 5,
     wl_settlement = Some demo_config, wl_rpc_url = ''url''\<rparr>"

definition demo_chain :: "(nat, nat, string) wallet_state" where
  "demo_chain = \<lparr>ws_world = 0, ws_counter = 4, ws_submitted = []\<rparr>"

lemma demo_config_vault: "vault_object_id demo_config = Some 5"
  by (simp add: demo_config_def mainnet_def demo_sdk_def strip_0x_def)

lemma demo_tag: "wal_struct_tag demo_sdk demo_config = Ret (wal_coin_type demo_config)"
  by (simp add: wal_struct_tag_def demo_config_parses)

lemmas wallet_eval = demo_wallet_def demo_chain_def act_try_def act_bind_def new_client_def
  list_fields_def rpc_def submit_def submit_unit_def traced_def Let_def

text \<open>A chain that takes the transaction and does not answer, and one whose registry knows the wallet.\<close>

definition silent_sui :: "(nat, nat, string, bytes, nat) sui_env" where
  "silent_sui = demo_sui\<lparr>rpc_execute := (\<lambda>x sig w. (Inl ''timeout'', w))\<rparr>"

definition listed_sui :: "(nat, nat, string, bytes, nat) sui_env" where
  "listed_sui = demo_sui\<lparr>rpc_list_fields := (\<lambda>_ w.
       ([Inr \<lparr>df_name = Some (Some (replicate 32 0)), df_child_id = Some (replicate 66 CHR ''a''), df_value = None\<rparr>], w)),
     rpc_get_object := (\<lambda>_ w. (Inr (Some \<lparr>ob_json = Some (StructValue [(''peer_id'', StringValue ''AA''),
       (''is_active'', BoolValue True)]), ob_version = None, ob_digest = None, ob_owner_version = Some (Some 3)\<rparr>), w))\<rparr>"

lemmas pay_eval = pay_wal_def try_onchain_pay_def get_vault_for_recipient_def list_peer_vaults_def
  wallet_eval demo_config_vault copy_32_def bump_def synthetic_effect demo_sui_def silent_sui_def

lemma demo_pay_tx: "\<exists>tx. build_pay_transaction demo_sdk demo_config 11 2 (replicate 32 1) 9 5 = Ret tx"
  by (simp add: build_pay_transaction_def demo_tag Let_def split_beta)

theorem payment_always_proved_witness:
  "\<exists>tx s1 s2. pay_handed demo_sui demo_wallet demo_config 2 (replicate 32 1) 9 demo_chain tx 12 [] 0 \<and>
     pay_wal demo_sui demo_wallet 2 (replicate 32 1) 9 demo_chain = (Ret (Inr (replicate 32 9)), s1) \<and>
     ws_submitted s1 = [tx] \<and> ws_counter s1 = 5 \<and>
     pay_wal silent_sui demo_wallet 2 (replicate 32 1) 9 demo_chain =
       (Ret (Inr (sha256 silent_sui (synthetic_preimage silent_sui 2 (replicate 32 1) 9 5))), s2) \<and>
     ws_submitted s2 = [tx] \<and> ws_counter s2 = 5"
proof -
  obtain tx where tx: "build_pay_transaction demo_sdk demo_config 11 2 (replicate 32 1) 9 5 = Ret tx"
    using demo_pay_tx by blast
  have handed: "pay_handed demo_sui demo_wallet demo_config 2 (replicate 32 1) 9 demo_chain tx 12 [] 0"
    "pay_handed silent_sui demo_wallet demo_config 2 (replicate 32 1) 9 demo_chain tx 12 [] 0"
    by (simp_all add: pay_handed_def pay_eval tx)
  have digest: "chain_digest demo_sui 12 [] 0 (replicate 32 9)" "\<not> chain_digest silent_sui 12 [] 0 d" for d
    by (simp_all add: chain_digest_def demo_sui_def silent_sui_def)
  have settles: "wl_settlement demo_wallet = Some demo_config" "ws_counter demo_chain = 4"
    "ws_submitted demo_chain = []"
    by (simp_all add: demo_wallet_def demo_chain_def)
  obtain res1 s1 where run1: "pay_wal demo_sui demo_wallet 2 (replicate 32 1) 9 demo_chain = (Ret res1, s1)"
    by (simp add: pay_eval tx)
  obtain res2 s2 where run2: "pay_wal silent_sui demo_wallet 2 (replicate 32 1) 9 demo_chain = (Ret res2, s2)"
    by (simp add: pay_eval tx)
  have "res1 = Inr (replicate 32 9) \<and> ws_submitted s1 = [tx] \<and> ws_counter s1 = 5"
    using payment_always_proved [OF run1] handed(1) digest(1) settles by (fastforce simp: demo_sui_def)
  moreover have "res2 = Inr (sha256 silent_sui (synthetic_preimage silent_sui 2 (replicate 32 1) 9 5)) \<and>
      ws_submitted s2 = [tx] \<and> ws_counter s2 = 5"
    using payment_always_proved [OF run2] handed(2) digest(2) settles
    by (fastforce simp: silent_sui_def demo_sui_def)
  ultimately show ?thesis using handed(1) run1 run2 by blast
qed

theorem synthetic_messages_differ_witness:
  "synthetic_preimage demo_sui 1 [1] 9 4 \<noteq> synthetic_preimage demo_sui 1 [1] 9 5"
  using synthetic_messages_differ [of demo_sui 1 "[1]" 9 4 1 "[1]" 9 5] by auto

lemmas register_eval = ensure_peer_registered_def is_peer_registered_def check_peer_active_def register_peer_def
  update_peer_id_def get_registered_peer_info_def wallet_eval parse_addr_or_def bool_field_def string_field_def
  field_object_id_def ok_or_def demo_sui_def listed_sui_def

lemma listed_chain:
  "chain_active listed_sui demo_wallet demo_config demo_chain"
  "chain_info listed_sui demo_wallet demo_config demo_chain
     \<lparr>rp_peer_id_bytes = 0 # replicate 32 5, rp_peer_object_id = replicate 66 CHR ''a'', rp_initial_shared_version = 3\<rparr>"
  "snd (is_peer_registered listed_sui demo_wallet demo_chain) = demo_chain"
  "snd (get_registered_peer_info listed_sui demo_wallet demo_chain) = demo_chain"
  by (simp_all add: chain_active_def chain_info_def peer_entry_def register_eval)

lemma listed_parse: "parse_addr_or listed_sui m (replicate 66 CHR ''a'') = Inr 66"
  by (simp add: register_eval demo_sdk_def)

lemma demo_settles: "wl_settlement demo_wallet = Some demo_config"
  by (simp add: demo_wallet_def)

theorem ensure_registered_transactions_witness:
  "(\<exists>s' tx. ensure_peer_registered demo_sui demo_wallet [1, 2] demo_chain = (Ret (Inr ()), s') \<and>
     build_register_transaction demo_sdk demo_config 11 [1, 2] 1000000000 = Ret tx \<and> ws_submitted s' = [tx]) \<and>
   (\<exists>s'. ensure_peer_registered listed_sui demo_wallet [1, 2] demo_chain = (Ret (Inr ()), s') \<and>
     ws_submitted s' = [build_update_peer_id_transaction demo_config 11 66 3 [1, 2]]) \<and>
   (\<exists>s'. ensure_peer_registered listed_sui demo_wallet (0 # replicate 32 5) demo_chain = (Ret (Inr ()), s') \<and>
     ws_submitted s' = [])"
proof (intro conjI)
  obtain tx where tx: "build_register_transaction demo_sdk demo_config 11 [1, 2] 1000000000 = Ret tx"
    by (simp add: build_register_transaction_def demo_tag Let_def split_beta)
  obtain s' where run: "ensure_peer_registered demo_sui demo_wallet [1, 2] demo_chain = (Ret (Inr ()), s')"
    by (simp add: register_eval tx)
  have "\<not> chain_active demo_sui demo_wallet demo_config demo_chain"
    "snd (is_peer_registered demo_sui demo_wallet demo_chain) = demo_chain"
    by (simp_all add: chain_active_def peer_entry_def register_eval)
  with ensure_registered_transactions [OF run] tx have "ws_submitted s' = [tx]"
    by (simp add: handed_txs_def demo_sui_def demo_wallet_def demo_chain_def)
  with run tx show "\<exists>s' tx. ensure_peer_registered demo_sui demo_wallet [1, 2] demo_chain = (Ret (Inr ()), s') \<and>
      build_register_transaction demo_sdk demo_config 11 [1, 2] 1000000000 = Ret tx \<and> ws_submitted s' = [tx]"
    by blast
next
  obtain s' where run: "ensure_peer_registered listed_sui demo_wallet [1, 2] demo_chain = (Ret (Inr ()), s')"
    by (simp add: register_eval demo_sdk_def)
  have "ws_submitted s' = handed_txs listed_sui demo_wallet
      (build_update_peer_id_transaction demo_config 11 66 3 [1, 2]) demo_chain"
    using ensure_registered_transactions [OF run, unfolded demo_settles option.case Let_def listed_chain(3,4)]
      listed_chain(1,2) listed_parse by (fastforce simp: demo_wallet_def demo_chain_def)
  then have "ws_submitted s' = [build_update_peer_id_transaction demo_config 11 66 3 [1, 2]]"
    by (simp add: handed_txs_def register_eval)
  with run show "\<exists>s'. ensure_peer_registered listed_sui demo_wallet [1, 2] demo_chain = (Ret (Inr ()), s') \<and>
      ws_submitted s' = [build_update_peer_id_transaction demo_config 11 66 3 [1, 2]]" by blast
next
  obtain s' where run: "ensure_peer_registered listed_sui demo_wallet (0 # replicate 32 5) demo_chain = (Ret (Inr ()), s')"
    by (simp add: register_eval)
  have "ws_submitted s' = []"
    using ensure_registered_transactions [OF run, unfolded demo_settles option.case Let_def listed_chain(3,4)]
      listed_chain(1,2) by (fastforce simp: demo_chain_def)
  with run show "\<exists>s'. ensure_peer_registered listed_sui demo_wallet (0 # replicate 32 5) demo_chain =
      (Ret (Inr ()), s') \<and> ws_submitted s' = []" by blast
qed

theorem selected_key_matches_witness:
  "\<exists>kp addr seed. decode_first_matching demo_sui [''AA==''] 32 = Inr (kp, addr, seed) \<and>
     key_address demo_sui kp = 32"
proof -
  have "decode_first_matching demo_sui [''AA==''] 32 = Inr (replicate 32 5, 32, replicate 32 5)"
    by (simp add: decode_first_matching_def demo_sui_def Let_def)
  from selected_key_matches [OF this] this show ?thesis by blast
qed

theorem estimate_is_share_witness:
  "unat (estimated_value 5 \<lparr>pv_reserves = 100, pv_total_shares = 20, pv_commission_bps = 1000,
     pv_peer_earnings = 0, pv_vault_object_id = ''0x1''\<rparr>) = 25"
  using estimate_is_share [of 5 "\<lparr>pv_reserves = 100, pv_total_shares = 20, pv_commission_bps = 1000,
     pv_peer_earnings = 0, pv_vault_object_id = ''0x1''\<rparr>"]
  by simp

end
