(* ===== verification/Walrus.thy ===== *)
theory Walrus
  imports Effects
begin

text \<open>
  \<^verbatim>\<open>zing-cdn-core/src/walrus/verify.rs\<close> and \<^verbatim>\<open>client.rs\<close>. The Walrus SDK is the record
  \<open>walrus_sdk\<close> of the calls the code makes: the blob-id computation of each encoding and, over
  the outside world \<open>'w\<close>, the reads from the storage nodes. The wrappers only translate errors.
\<close>

datatype encoding_type = RS2 | OtherEncoding

record blob_metadata =
  md_blob_id :: bytes
  md_encoding_type :: encoding_type
  md_unencoded_length :: u64

datatype blob_status =
    Permanent "u32 option" u32
  | Deletable "u32 option"
  | InvalidBlob
  | Nonexistent

record 'w walrus_sdk =
  wx_compute_blob_id :: "encoding_type \<Rightarrow> bytes \<Rightarrow> string + bytes"
  wx_show_id :: "bytes \<Rightarrow> string"
  wx_read_blob :: "bytes \<Rightarrow> 'w \<Rightarrow> (string + bytes) \<times> 'w"
  wx_blob_status :: "bytes \<Rightarrow> 'w \<Rightarrow> (string + blob_status) \<times> 'w"
  wx_initial_certified_epoch :: "blob_status \<Rightarrow> u32 option"
  wx_retrieve_metadata :: "u32 \<Rightarrow> bytes \<Rightarrow> 'w \<Rightarrow> (string + blob_metadata) \<times> 'w"

section \<open>Verification\<close>

text \<open>The comparison both verifiers end with.\<close>

definition check_blob_id :: "'w walrus_sdk \<Rightarrow> encoding_type \<Rightarrow> bytes \<Rightarrow> bytes \<Rightarrow> unit zresult" where
  "check_blob_id X enc expected_blob_id blob_data =
     try_bind (map_err (\<lambda>e. WalrusClient (''compute_blob_id failed: '' @ e))
         (wx_compute_blob_id X enc blob_data)) (\<lambda>computed_blob_id.
       if computed_blob_id \<noteq> expected_blob_id
       then Inl (VerificationFailed (wx_show_id X computed_blob_id) (wx_show_id X expected_blob_id))
       else Inr ())"

definition verify_blob_by_id :: "'w walrus_sdk \<Rightarrow> bytes \<Rightarrow> bytes \<Rightarrow> unit zresult" where
  "verify_blob_by_id X expected_blob_id blob_data = check_blob_id X RS2 expected_blob_id blob_data"

definition quick_size_check :: "blob_metadata \<Rightarrow> bytes \<Rightarrow> bool" where
  "quick_size_check metadata blob_data \<longleftrightarrow> length blob_data = unat (md_unencoded_length metadata)"

definition verify_blob_against_metadata :: "'w walrus_sdk \<Rightarrow> blob_metadata \<Rightarrow> bytes \<Rightarrow> unit zresult" where
  "verify_blob_against_metadata X metadata blob_data =
     (if \<not> quick_size_check metadata blob_data
      then Inl (VerificationFailed (''size='' @ dec (length blob_data))
        (''size='' @ dec (unat (md_unencoded_length metadata))))
      else check_blob_id X (md_encoding_type metadata) (md_blob_id metadata) blob_data)"

lemma verify_by_id_iff:
  "verify_blob_by_id X bid d = Inr () \<longleftrightarrow> wx_compute_blob_id X RS2 d = Inr bid"
  by (auto simp: verify_blob_by_id_def check_blob_id_def try_bind_eq_Inr)

lemma verify_by_id_cases:
  obtains (ok) "verify_blob_by_id X bid d = Inr ()" "wx_compute_blob_id X RS2 d = Inr bid"
  | (bad) e where "verify_blob_by_id X bid d = Inl e" "wx_compute_blob_id X RS2 d \<noteq> Inr bid"
  using verify_by_id_iff [of X bid d] by (cases "verify_blob_by_id X bid d") auto

section \<open>The client\<close>

definition walrus :: "('w \<Rightarrow> (string + 'a) \<times> 'w) \<Rightarrow> ('w, 'a zresult) act" where
  "walrus op w = (case op w of (r, w') \<Rightarrow> (Ret (map_err WalrusClient r), w'))"

definition read_blob :: "'w walrus_sdk \<Rightarrow> bytes \<Rightarrow> ('w, bytes zresult) act" where
  "read_blob X blob_id = walrus (wx_read_blob X blob_id)"

definition fetch_metadata :: "'w walrus_sdk \<Rightarrow> bytes \<Rightarrow> ('w, blob_metadata zresult) act" where
  "fetch_metadata X blob_id =
     act_try (walrus (wx_blob_status X blob_id)) (\<lambda>status.
     act_try (act_ret (ok_or (WalrusClient ''blob has no certified epoch'')
       (wx_initial_certified_epoch X status))) (\<lambda>certified_epoch.
     walrus (wx_retrieve_metadata X certified_epoch blob_id)))"

definition check_blob_status :: "'w walrus_sdk \<Rightarrow> bytes \<Rightarrow> ('w, blob_status zresult) act" where
  "check_blob_status X blob_id = walrus (wx_blob_status X blob_id)"

end
