(* ===== verification/Resolver.thy ===== *)
theory Resolver
  imports Eviction Reputation Swarm Wallet Walrus
begin

text \<open>
  \<^verbatim>\<open>zing-cdn-core/src/mesh/resolver.rs\<close>: how a blob is found. A resolver holds the shared
  store, the reputation table, the two address caches and the wallet; its state \<open>res_state\<close>
  carries them through one \<^verbatim>\<open>resolve\<close>, together with the outside world, which the wallet's
  state holds. Commands go to the node's loop over a channel: a send can fail because the loop
  is gone, and the reply of a one-shot can stay away because its sender was dropped or the time
  ran out. The handle of a reply is the number of commands sent before it, and \<open>rs_sent\<close> is the
  trace of the commands, which the code does not read. Futures that \<^verbatim>\<open>join_all\<close> drives are run
  in their order, and no other task is modelled between the awaits of one call. The instants the
  reputation table reads come from \<open>me_clocks\<close>. Log output is left out.
\<close>

definition READ_FEE_WAL_NANOS :: u64 where "READ_FEE_WAL_NANOS = 1000000"
definition FEE_PER_BYTE_NANOS :: u64 where "FEE_PER_BYTE_NANOS = 1"

record resolve_result =
  rr_data :: bytes
  rr_resolution :: blob_resolution
  rr_cached :: bool
  rr_payment_error :: "string option"

text \<open>What the code calls outside, and what a resolver is built with.\<close>

record ('w, 'p, 'm, 'a, 't, 'k, 'x) mesh_env =
  me_sui :: "('w, 'a, 't, 'k, 'x) sui_env"
  me_walrus :: "'w walrus_sdk"
  ch_send :: "('p, 'm) p2p_command \<Rightarrow> 'w \<Rightarrow> bool \<times> 'w"
  ch_recv :: "nat \<Rightarrow> nat option \<Rightarrow> 'w \<Rightarrow> ('p, 'm) reply option \<times> 'w"
  me_sleep :: "nat \<Rightarrow> 'w \<Rightarrow> 'w"
  me_clocks :: "'w \<Rightarrow> clocks"
  pid_show :: "'p \<Rightarrow> string"
  addr_from_bytes :: "bytes \<Rightarrow> string + 'a"

record ('p, 'a, 'k) resolver =
  rv_budget :: u64
  rv_p2p_channel :: bool
  rv_local_peer_id :: "'p option"
  rv_wallet :: "('a, 'k) zing_wallet option"

record ('w, 'p, 'm, 'a, 't, 'd) res_state =
  rs_wallet :: "('w, 'a, 't) wallet_state"
  rs_store :: "'d blob_store"
  rs_reputation :: rep_table
  rs_sui_addr_cache :: "'p \<rightharpoonup> bytes option"
  rs_vault_addr_cache :: "'p \<rightharpoonup> bytes option"
  rs_sent :: "('p, 'm) p2p_command list"

type_synonym ('w, 'p, 'm, 'a, 't, 'd, 'r) ract = "(('w, 'p, 'm, 'a, 't, 'd) res_state, 'r) act"

text \<open>An operation of the outside world, and one of the wallet.\<close>

definition on_wallet :: "('w, 'a, 't, 'r) wact \<Rightarrow> ('w, 'p, 'm, 'a, 't, 'd, 'r) ract" where
  "on_wallet m s = (case m (rs_wallet s) of (r, ws) \<Rightarrow> (r, s\<lparr>rs_wallet := ws\<rparr>))"

definition on_world :: "('w \<Rightarrow> 'r \<times> 'w) \<Rightarrow> ('w, 'p, 'm, 'a, 't, 'd, 'r) ract" where
  "on_world op s = (case op (ws_world (rs_wallet s)) of
     (r, w) \<Rightarrow> (Ret r, s\<lparr>rs_wallet := (rs_wallet s)\<lparr>ws_world := w\<rparr>\<rparr>))"

section \<open>Talking to the node\<close>

text \<open>
  \<open>send_cmd\<close> makes the one-shot channel and sends the command; it yields the handle to wait
  on, or nothing when the loop is gone. \<open>recv\<close> waits for at most the given seconds, if any.
\<close>

definition send_cmd :: "('w, 'p, 'm, 'a, 't, 'k, 'x) mesh_env \<Rightarrow> (nat \<Rightarrow> ('p, 'm) p2p_command) \<Rightarrow>
    ('w, 'p, 'm, 'a, 't, 'd, nat option) ract" where
  "send_cmd E mk s =
     (let h = length (rs_sent s); cmd = mk h
      in act_bind (on_world (ch_send E cmd)) (\<lambda>ok. act_ret (if ok then Some h else None))
           (s\<lparr>rs_sent := rs_sent s @ [cmd]\<rparr>))"

definition recv :: "('w, 'p, 'm, 'a, 't, 'k, 'x) mesh_env \<Rightarrow> nat \<Rightarrow> nat option \<Rightarrow>
    ('w, 'p, 'm, 'a, 't, 'd, ('p, 'm) reply option) ract" where
  "recv E h timeout = on_world (ch_recv E h timeout)"

definition sleep :: "('w, 'p, 'm, 'a, 't, 'k, 'x) mesh_env \<Rightarrow> nat \<Rightarrow> ('w, 'p, 'm, 'a, 't, 'd, unit) ract" where
  "sleep E ms = on_world (\<lambda>w. ((), me_sleep E ms w))"

text \<open>What the reply of a one-shot of each type is taken for.\<close>

fun peers_reply :: "('p, 'm) reply option \<Rightarrow> 'p list" where
  "peers_reply (Some (RPeers ps)) = ps"
| "peers_reply _ = []"

fun data_reply :: "('p, 'm) reply option \<Rightarrow> bytes option" where
  "data_reply (Some (RData (Inr d))) = Some d"
| "data_reply _ = None"

fun bool_reply :: "('p, 'm) reply option \<Rightarrow> bool" where
  "bool_reply (Some (RBool b)) = b"
| "bool_reply _ = False"

fun addrs_reply :: "('p, 'm) reply option \<Rightarrow> 'm list" where
  "addrs_reply (Some (RAddrs as)) = as"
| "addrs_reply _ = []"

fun id_reply :: "('p, 'm) reply option \<Rightarrow> bytes option" where
  "id_reply (Some (RId i)) = i"
| "id_reply _ = None"

text \<open>Send and wait; nothing when the send fails.\<close>

definition ask_node :: "('w, 'p, 'm, 'a, 't, 'k, 'x) mesh_env \<Rightarrow> (nat \<Rightarrow> ('p, 'm) p2p_command) \<Rightarrow> nat option \<Rightarrow>
    ('w, 'p, 'm, 'a, 't, 'd, ('p, 'm) reply option option) ract" where
  "ask_node E mk timeout =
     act_bind (send_cmd E mk) (\<lambda>h. case h of
       None \<Rightarrow> act_ret None
     | Some h \<Rightarrow> act_bind (recv E h timeout) (\<lambda>r. act_ret (Some r)))"

definition connected_peers :: "('w, 'p, 'm, 'a, 't, 'k, 'x) mesh_env \<Rightarrow>
    ('w, 'p, 'm, 'a, 't, 'd, 'p list option) ract" where
  "connected_peers E = act_bind (ask_node E GetConnectedPeers None) (\<lambda>r. act_ret (map_option peers_reply r))"

definition fetch_blob :: "('w, 'p, 'm, 'a, 't, 'k, 'x) mesh_env \<Rightarrow> 'p \<Rightarrow> bytes \<Rightarrow> bytes \<Rightarrow>
    ('w, 'p, 'm, 'a, 't, 'd, bytes option) ract" where
  "fetch_blob E peer blob_id proof =
     act_bind (ask_node E (FetchBlob peer blob_id proof) (Some 30)) (\<lambda>r. act_ret (Option.bind r data_reply))"

definition fetch_range :: "('w, 'p, 'm, 'a, 't, 'k, 'x) mesh_env \<Rightarrow> 'p \<Rightarrow> bytes \<Rightarrow> u64 \<Rightarrow> u64 \<Rightarrow> bytes \<Rightarrow>
    ('w, 'p, 'm, 'a, 't, 'd, bytes option) ract" where
  "fetch_range E peer blob_id offset len proof =
     act_bind (ask_node E (FetchRange peer blob_id offset len proof) (Some 30))
       (\<lambda>r. act_ret (Option.bind r data_reply))"

definition run_find_providers :: "('w, 'p, 'm, 'a, 't, 'k, 'x) mesh_env \<Rightarrow> bytes \<Rightarrow>
    ('w, 'p, 'm, 'a, 't, 'd, 'p list) ract" where
  "run_find_providers E blob_id =
     act_bind (ask_node E (FindProviders blob_id) (Some 2)) (\<lambda>r. act_ret (case r of
       None \<Rightarrow> [] | Some r \<Rightarrow> peers_reply r))"

section \<open>Payments\<close>

definition pay :: "('w, 'p, 'm, 'a, 't, 'k, 'x) mesh_env \<Rightarrow> ('a, 'k) zing_wallet \<Rightarrow> 'a \<Rightarrow> bytes \<Rightarrow> u64 \<Rightarrow>
    ('w, 'p, 'm, 'a, 't, 'd, bytes \<times> string option) ract" where
  "pay E W recipient blob_hash amount_nanos =
     act_bind (on_wallet (pay_wal (me_sui E) W recipient blob_hash amount_nanos)) (\<lambda>r. act_ret (case r of
       Inr d \<Rightarrow> (d, None)
     | Inl e \<Rightarrow> (replicate 32 0, Some (''Payment failed: '' @ zing_display e))))"

definition sui_cached :: "'p \<Rightarrow> ('w, 'p, 'm, 'a, 't, 'd, bytes option option) ract" where
  "sui_cached peer_id s = (Ret (rs_sui_addr_cache s peer_id), s)"

definition sui_insert :: "'p \<Rightarrow> bytes option \<Rightarrow> ('w, 'p, 'm, 'a, 't, 'd, unit) ract" where
  "sui_insert peer_id r s =
     (Ret (), s\<lparr>rs_sui_addr_cache := (rs_sui_addr_cache s)(peer_id \<mapsto> r)\<rparr>)"

text \<open>
  The vault is asked for unless it is known. A spawned task waits for the answer; \<open>vault_task\<close>
  is that task. Nothing reads the values of the vault cache, and a peer with an entry in the
  other cache is not asked for again, so when the task runs makes no difference.
\<close>

definition query_vault :: "('w, 'p, 'm, 'a, 't, 'k, 'x) mesh_env \<Rightarrow> 'p \<Rightarrow> ('w, 'p, 'm, 'a, 't, 'd, nat option) ract" where
  "query_vault E peer_id s =
     (if rs_vault_addr_cache s peer_id = None then send_cmd E (GetPeerVault peer_id) s
      else (Ret None, s))"

definition vault_task :: "('w, 'p, 'm, 'a, 't, 'k, 'x) mesh_env \<Rightarrow> 'p \<Rightarrow> nat \<Rightarrow> ('w, 'p, 'm, 'a, 't, 'd, unit) ract" where
  "vault_task E peer_id h =
     act_bind (recv E h (Some 5)) (\<lambda>r s. case r of
       Some (RId vault_result) \<Rightarrow>
         (Ret (), s\<lparr>rs_vault_addr_cache := (rs_vault_addr_cache s)(peer_id \<mapsto> vault_result)\<rparr>)
     | _ \<Rightarrow> (Ret (), s))"

definition resolve_payment :: "('w, 'p, 'm, 'a, 't, 'k, 'x) mesh_env \<Rightarrow> ('p, 'a, 'k) resolver \<Rightarrow> 'p \<Rightarrow> bytes \<Rightarrow> u64 \<Rightarrow>
    ('w, 'p, 'm, 'a, 't, 'd, bytes \<times> string option) ract" where
  "resolve_payment E R peer_id blob_hash amount_nanos =
     (case rv_wallet R of
        None \<Rightarrow> act_ret (replicate 32 0, None)
      | Some wallet \<Rightarrow> act_bind (sui_cached peer_id) (\<lambda>cached. case cached of
          Some (Some addr) \<Rightarrow> (case addr_from_bytes E addr of
              Inl e \<Rightarrow> act_ret (replicate 32 0, Some (''Invalid Sui address: '' @ e))
            | Inr recipient \<Rightarrow> pay E wallet recipient blob_hash amount_nanos)
        | Some None \<Rightarrow> act_ret (replicate 32 0, None)
        | None \<Rightarrow>
            act_bind (ask_node E (GetPeerSuiAddress peer_id) (Some 5)) (\<lambda>answer. case answer of
              None \<Rightarrow> act_bind (sui_insert peer_id None)
                (\<lambda>_. act_ret (replicate 32 0, Some ''Failed to get peer Sui address''))
            | Some r \<Rightarrow>
                let result = id_reply r
                in act_bind (sui_insert peer_id result) (\<lambda>_.
                   act_bind (query_vault E peer_id) (\<lambda>_. case result of
                     None \<Rightarrow> act_ret (replicate 32 0, Some ''Peer has no Sui address'')
                   | Some addr \<Rightarrow> (case addr_from_bytes E addr of
                         Inl e \<Rightarrow> act_ret (replicate 32 0, Some (''Invalid Sui address from DHT: '' @ e))
                       | Inr recipient \<Rightarrow> pay E wallet recipient blob_hash amount_nanos))))))"

section \<open>The end of a fetch\<close>

definition blame :: "('w, 'p, 'm, 'a, 't, 'k, 'x) mesh_env \<Rightarrow> 'p \<Rightarrow> ('w, 'p, 'm, 'a, 't, 'd, unit) ract" where
  "blame E peer s = (Ret (), s\<lparr>rs_reputation :=
     record_corruption (me_clocks E (ws_world (rs_wallet s))) (rs_reputation s) (pid_show E peer)\<rparr>)"

definition credit :: "('w, 'p, 'm, 'a, 't, 'k, 'x) mesh_env \<Rightarrow> 'p \<Rightarrow> ('w, 'p, 'm, 'a, 't, 'd, unit) ract" where
  "credit E peer s = (Ret (), s\<lparr>rs_reputation :=
     record_success (me_clocks E (ws_world (rs_wallet s))) (rs_reputation s) (pid_show E peer)\<rparr>)"

definition store_blob :: "string \<Rightarrow> bytes \<Rightarrow> ('w, 'p, 'm, 'a, 't, 'd, unit zresult) ract" where
  "store_blob blob_id_hex data s = (case bs_put (rs_store s) blob_id_hex data of
     Inl e \<Rightarrow> (Ret (Inl e), s)
   | Inr st \<Rightarrow> (Ret (Inr ()), s\<lparr>rs_store := st\<rparr>))"

definition evict :: "('p, 'a, 'k) resolver \<Rightarrow> ('w, 'p, 'm, 'a, 't, 'd, unit zresult) ract" where
  "evict R s = (case ev_run (rv_budget R) (rs_store s) of (st, r) \<Rightarrow> (Ret r, s\<lparr>rs_store := st\<rparr>))"

definition finalize_l1_fetch :: "('w, 'p, 'm, 'a, 't, 'k, 'x) mesh_env \<Rightarrow> ('p, 'a, 'k) resolver \<Rightarrow> bytes \<Rightarrow> 'p \<Rightarrow> bytes \<Rightarrow> string option \<Rightarrow>
    ('w, 'p, 'm, 'a, 't, 'd, resolve_result zresult option) ract" where
  "finalize_l1_fetch E R blob_id peer data payment_error =
     (case verify_blob_by_id (me_walrus E) blob_id data of
        Inl e \<Rightarrow> act_bind (blame E peer) (\<lambda>_. act_ret None)
      | Inr _ \<Rightarrow>
          act_bind (store_blob (wx_show_id (me_walrus E) blob_id) data) (\<lambda>_.
          act_bind (evict R) (\<lambda>_.
          act_bind (credit E peer) (\<lambda>_.
          act_ret (Some (Inr \<lparr>rr_data = data, rr_resolution = L1Peer, rr_cached = True,
            rr_payment_error = payment_error\<rparr>))))))"

section \<open>Whole blobs from connected peers\<close>

fun direct_loop :: "('w, 'p, 'm, 'a, 't, 'k, 'x) mesh_env \<Rightarrow> ('p, 'a, 'k) resolver \<Rightarrow> bytes \<Rightarrow> 'p list \<Rightarrow> ('w, 'p, 'm, 'a, 't, 'd, resolve_result zresult option) ract" where
  "direct_loop E R blob_id [] = act_ret None"
| "direct_loop E R blob_id (peer # peers) =
     act_bind (resolve_payment E R peer blob_id READ_FEE_WAL_NANOS) (\<lambda>(payment_proof, payment_err).
     act_bind (fetch_blob E peer blob_id payment_proof) (\<lambda>r. case r of
       Some data \<Rightarrow> finalize_l1_fetch E R blob_id peer data payment_err
     | None \<Rightarrow> direct_loop E R blob_id peers))"

definition try_direct_peers :: "('w, 'p, 'm, 'a, 't, 'k, 'x) mesh_env \<Rightarrow> ('p, 'a, 'k) resolver \<Rightarrow> bytes \<Rightarrow> ('w, 'p, 'm, 'a, 't, 'd, resolve_result zresult option) ract" where
  "try_direct_peers E R blob_id =
     act_bind (connected_peers E) (\<lambda>c. case c of
       None \<Rightarrow> act_ret None
     | Some connected \<Rightarrow> direct_loop E R blob_id connected)"

section \<open>Ranges from one peer after the other\<close>

definition RANGE_CHUNK :: u64 where "RANGE_CHUNK = 256 * 1024"
definition MAX_CHUNKS :: u64 where "MAX_CHUNKS = 2048"

text \<open>One turn of the loop: the payment's error and the chunk, if one came.\<close>

definition next_chunk :: "('w, 'p, 'm, 'a, 't, 'k, 'x) mesh_env \<Rightarrow> ('p, 'a, 'k) resolver \<Rightarrow> 'p \<Rightarrow> bytes \<Rightarrow> u64 \<Rightarrow> ('w, 'p, 'm, 'a, 't, 'd, string option \<times> bytes option) ract" where
  "next_chunk E R peer blob_id offset =
     act_bind (resolve_payment E R peer blob_id (RANGE_CHUNK * FEE_PER_BYTE_NANOS))
       (\<lambda>(next_proof, next_err).
     act_bind (fetch_range E peer blob_id offset RANGE_CHUNK next_proof)
       (\<lambda>r. act_ret (next_err, r)))"

text \<open>\<^verbatim>\<open>if next_err.is_some() && payment_err.is_none() { payment_err = next_err; }\<close>\<close>

definition first_err :: "string option \<Rightarrow> string option \<Rightarrow> string option" where
  "first_err payment_err next_err = (if payment_err = None then next_err else payment_err)"

lemma chunk_count_step:
  assumes "\<not> MAX_CHUNKS \<le> offset div RANGE_CHUNK"
  shows "unat ((offset + RANGE_CHUNK) div RANGE_CHUNK) = Suc (unat (offset div RANGE_CHUNK))"
proof -
  have q: "unat offset div 262144 < 2048"
    using assms by (simp add: word_le_nat_alt unat_div MAX_CHUNKS_def RANGE_CHUNK_def)
  then have "unat offset < 2048 * 262144" by (simp add: div_less_iff_less_mult)
  then have "unat (offset + 262144) = unat offset + 262144"
    by (subst unat_add_lem [THEN iffD1]) simp_all
  then show ?thesis by (simp add: unat_div RANGE_CHUNK_def)
qed

text \<open>The loop's end: the chunks were too many, or the data so far is to be verified.\<close>

function range_loop :: "('w, 'p, 'm, 'a, 't, 'k, 'x) mesh_env \<Rightarrow> ('p, 'a, 'k) resolver \<Rightarrow> 'p \<Rightarrow> bytes \<Rightarrow> bytes \<Rightarrow> u64 \<Rightarrow> string option \<Rightarrow>
    ('w, 'p, 'm, 'a, 't, 'd) res_state \<Rightarrow> (bytes \<times> string option) option run \<times> ('w, 'p, 'm, 'a, 't, 'd) res_state" where
  "range_loop E R peer blob_id data offset payment_err s =
     (if offset div RANGE_CHUNK \<ge> MAX_CHUNKS then (Ret None, s)
      else case next_chunk E R peer blob_id offset s of
        (Panic, s') \<Rightarrow> (Panic, s')
      | (Ret (next_err, r), s') \<Rightarrow>
          let payment_err = first_err payment_err next_err
          in case r of
               None \<Rightarrow> (Ret (Some (data, payment_err)), s')
             | Some chunk \<Rightarrow>
                 if chunk = [] then (Ret (Some (data, payment_err)), s')
                 else if length chunk < unat RANGE_CHUNK
                   then (Ret (Some (data @ chunk, payment_err)), s')
                 else range_loop E R peer blob_id (data @ chunk) (offset + RANGE_CHUNK) payment_err s')"
  by pat_completeness auto
termination
proof (relation "measure (\<lambda>(E, R, peer, blob_id, data, offset, payment_err, s).
    2048 - unat (offset div RANGE_CHUNK))", goal_cases)
  case 2
  then show ?case
    using chunk_count_step
    by (simp add: word_le_nat_alt not_le MAX_CHUNKS_def)
qed simp

declare range_loop.simps [simp del]

fun range_peers :: "('w, 'p, 'm, 'a, 't, 'k, 'x) mesh_env \<Rightarrow> ('p, 'a, 'k) resolver \<Rightarrow> bytes \<Rightarrow> 'p list \<Rightarrow> ('w, 'p, 'm, 'a, 't, 'd, resolve_result zresult option) ract" where
  "range_peers E R blob_id [] = act_ret None"
| "range_peers E R blob_id (peer # peers) =
     act_bind (next_chunk E R peer blob_id 0) (\<lambda>(payment_err, r). case r of
       None \<Rightarrow> range_peers E R blob_id peers
     | Some chunk \<Rightarrow>
         if length chunk < unat RANGE_CHUNK then finalize_l1_fetch E R blob_id peer chunk payment_err
         else act_bind (range_loop E R peer blob_id chunk RANGE_CHUNK payment_err) (\<lambda>done. case done of
             None \<Rightarrow> act_ret None
           | Some (data, payment_err) \<Rightarrow> finalize_l1_fetch E R blob_id peer data payment_err))"

definition try_direct_peers_range :: "('w, 'p, 'm, 'a, 't, 'k, 'x) mesh_env \<Rightarrow> ('p, 'a, 'k) resolver \<Rightarrow> bytes \<Rightarrow> ('w, 'p, 'm, 'a, 't, 'd, resolve_result zresult option) ract" where
  "try_direct_peers_range E R blob_id =
     act_bind (connected_peers E) (\<lambda>c. case c of
       None \<Rightarrow> act_ret None
     | Some connected \<Rightarrow> range_peers E R blob_id connected)"

section \<open>Ranges from several peers at once\<close>

definition CHUNK_SIZE :: u64 where "CHUNK_SIZE = 64 * 1024"
definition MAX_PARALLEL :: nat where "MAX_PARALLEL = 5"
definition MAX_TOTAL_SIZE :: nat where "MAX_TOTAL_SIZE = 512 * 1024 * 1024"

definition pay_all :: "('w, 'p, 'm, 'a, 't, 'k, 'x) mesh_env \<Rightarrow> ('p, 'a, 'k) resolver \<Rightarrow> bytes \<Rightarrow> u64 \<Rightarrow> 'p list \<Rightarrow> ('w, 'p, 'm, 'a, 't, 'd, (bytes \<times> string option) list) ract" where
  "pay_all E R blob_id amount peers =
     act_map_all (\<lambda>peer. resolve_payment E R peer blob_id amount) peers"

definition find_err :: "(bytes \<times> string option) list \<Rightarrow> string option" where
  "find_err rs = (case List.map_filter snd rs of [] \<Rightarrow> None | e # _ \<Rightarrow> Some e)"

text \<open>
  A round of range requests, each with a tag: all are sent, those that could not be are left
  out, then all answers are awaited, and the non-empty ones are returned with their tags.
\<close>

definition await_chunk :: "('w, 'p, 'm, 'a, 't, 'k, 'x) mesh_env \<Rightarrow> nat \<Rightarrow> 'c \<times> nat \<Rightarrow> ('w, 'p, 'm, 'a, 't, 'd, ('c \<times> bytes) option) ract" where
  "await_chunk E timeout f = (case f of (c, h) \<Rightarrow>
     act_bind (recv E h (Some timeout)) (\<lambda>r. act_ret (case data_reply r of
       Some d \<Rightarrow> if d \<noteq> [] then Some (c, d) else None | None \<Rightarrow> None)))"

definition range_round :: "('w, 'p, 'm, 'a, 't, 'k, 'x) mesh_env \<Rightarrow> nat \<Rightarrow> bytes \<Rightarrow> u64 \<Rightarrow> ('c \<times> 'p \<times> u64 \<times> bytes) list \<Rightarrow>
    ('w, 'p, 'm, 'a, 't, 'd, ('c \<times> bytes) list) ract" where
  "range_round E timeout blob_id len reqs =
     act_bind (act_map_all (\<lambda>(c, peer, offset, proof).
         send_cmd E (FetchRange peer blob_id offset len proof)) reqs) (\<lambda>hs.
       let futs = List.map_filter (\<lambda>(q, h). map_option (Pair (fst q)) h) (zip reqs hs)
       in act_bind (act_map_all (await_chunk E timeout) futs) (\<lambda>rs.
          act_ret (List.map_filter (\<lambda>r. r) rs)))"

text \<open>The chunks of a window are appended while each starts where the one before ended.\<close>

fun append_chunks :: "u64 \<Rightarrow> bytes \<Rightarrow> bool \<Rightarrow> (u64 \<times> bytes) list \<Rightarrow> bytes \<times> bool \<times> bool" where
  "append_chunks expected data eof [] = (data, False, eof)"
| "append_chunks expected data eof ((offset, chunk) # chunks) =
     (if offset \<noteq> expected then (data, True, eof)
      else append_chunks (offset + word_of_nat (length chunk)) (data @ chunk)
        (eof \<or> length chunk < unat CHUNK_SIZE) chunks)"

text \<open>How a window ends: with a next one, the loop's \<^verbatim>\<open>break\<close>, \<^verbatim>\<open>return None\<close>, or the end of the blob.\<close>

datatype window_end = WNext bytes "string option" | WBreak bytes "string option" | WAbort
  | WEof bytes "string option"

definition window_offset :: "nat \<Rightarrow> nat \<Rightarrow> nat \<Rightarrow> u64" where
  "window_offset n window i = word_of_nat window * word_of_nat n * CHUNK_SIZE + word_of_nat i * CHUNK_SIZE"

definition window_chunks :: "('w, 'p, 'm, 'a, 't, 'k, 'x) mesh_env \<Rightarrow> bytes \<Rightarrow> 'p list \<Rightarrow> nat \<Rightarrow> bytes list \<Rightarrow> ('w, 'p, 'm, 'a, 't, 'd, (u64 \<times> bytes) list) ract" where
  "window_chunks E blob_id working window proofs =
     range_round E 30 blob_id CHUNK_SIZE (map (\<lambda>(i, peer, proof).
       (window_offset (length working) window i, peer, window_offset (length working) window i, proof))
       (zip [0..<length working] (zip working proofs)))"

definition window_verdict :: "bytes \<Rightarrow> string option \<Rightarrow> (u64 \<times> bytes) list \<Rightarrow> window_end" where
  "window_verdict data payment_err chunks =
     (if chunks = [] then WBreak data payment_err
      else case append_chunks (word_of_nat (length data)) data False (sort_key fst chunks) of
        (data, has_gap, eof) \<Rightarrow>
          if has_gap then WBreak data payment_err
          else if length data > MAX_TOTAL_SIZE then WAbort
          else if eof then WEof data payment_err
          else WNext data payment_err)"

definition window_step :: "('w, 'p, 'm, 'a, 't, 'k, 'x) mesh_env \<Rightarrow> ('p, 'a, 'k) resolver \<Rightarrow> bytes \<Rightarrow> 'p list \<Rightarrow> nat \<Rightarrow> bytes \<Rightarrow> string option \<Rightarrow>
    ('w, 'p, 'm, 'a, 't, 'd, window_end) ract" where
  "window_step E R blob_id working window data payment_err =
     act_bind (pay_all E R blob_id (CHUNK_SIZE * FEE_PER_BYTE_NANOS) working) (\<lambda>chunk_results.
     act_bind (window_chunks E blob_id working window (map fst chunk_results)) (\<lambda>chunks.
     act_ret (window_verdict data (first_err payment_err (find_err chunk_results)) chunks)))"

lemma append_chunks_length: "append_chunks x data e cs = (data', g, f) \<Longrightarrow> length data \<le> length data'"
  by (induction x data e cs rule: append_chunks.induct) (auto split: if_splits)

lemma append_chunks_grows:
  assumes "append_chunks x data e cs = (data', False, f)" and "cs \<noteq> []" and "\<forall>(o', c) \<in> set cs. c \<noteq> []"
  shows "length data < length data'"
proof (cases cs)
  case (Cons p cs')
  obtain o' c where p: "p = (o', c)" by (cases p)
  with assms(1) Cons have "append_chunks (o' + word_of_nat (length c)) (data @ c)
      (e \<or> length c < unat CHUNK_SIZE) cs' = (data', False, f)"
    by (auto split: if_splits)
  from append_chunks_length [OF this] assms(3) Cons p show ?thesis by (cases c) auto
qed (use assms(2) in simp)

lemma window_verdict_next:
  assumes "window_verdict data e cs = WNext data' e'" and "\<forall>(o', c) \<in> set cs. c \<noteq> []"
  shows "length data < length data' \<and> length data' \<le> MAX_TOTAL_SIZE"
proof -
  from assms(1) obtain g f where a: "append_chunks (word_of_nat (length data)) data False (sort_key fst cs) = (data', g, f)"
    and "cs \<noteq> []" "\<not> g" "length data' \<le> MAX_TOTAL_SIZE"
    by (auto simp: window_verdict_def split: prod.splits if_splits)
  then have "sort_key fst cs \<noteq> []" by (metis length_0_conv length_sort)
  from append_chunks_grows [OF _ this] a \<open>\<not> g\<close> \<open>length data' \<le> MAX_TOTAL_SIZE\<close> assms(2) show ?thesis
    by auto
qed

lemma await_nonempty:
  "act_gives (act_map_all (await_chunk E timeout) futs)
    (\<lambda>rs. \<forall>c d. (c, d) \<in> set (List.map_filter (\<lambda>r. r) rs) \<longrightarrow> d \<noteq> [])"
proof -
  have "act_gives (await_chunk E timeout f) (\<lambda>r. \<forall>c d. r = Some (c, d) \<longrightarrow> d \<noteq> [])" for f
    by (auto simp: await_chunk_def intro!: act_gives_bind act_gives_ret
        split: prod.splits option.splits if_splits)
  from act_gives_map_all [OF this] show ?thesis
    by (rule act_gives_mono)
      (auto simp: List.map_filter_def list_all2_conv_all_nth in_set_conv_nth)
qed

lemma range_round_nonempty:
  assumes "range_round E timeout blob_id len reqs s = (Ret cs, s')"
  shows "\<forall>(o', c) \<in> set cs. c \<noteq> []"
proof -
  have "act_gives (range_round E timeout blob_id len reqs) (\<lambda>cs. \<forall>c d. (c, d) \<in> set cs \<longrightarrow> d \<noteq> [])"
    unfolding range_round_def Let_def
    by (intro act_gives_bind act_gives_seq [OF await_nonempty] act_gives_ret)
  from act_givesD [OF this assms] show ?thesis by auto
qed

lemma window_step_next:
  assumes "window_step E R blob_id working window data e s = (Ret (WNext data' e'), s')"
  shows "length data < length data' \<and> length data' \<le> MAX_TOTAL_SIZE"
  using assms unfolding window_step_def
proof (cases rule: act_bindE)
  case (go rs s1)
  from go(2) show ?thesis
  proof (cases rule: act_bindE)
    case (go cs s2)
    from range_round_nonempty [OF go(1) [unfolded window_chunks_def]] go(2) window_verdict_next
    show ?thesis by auto
  qed simp
qed simp

text \<open>The window loop has no bound of its own: it ends because every next window has more data.\<close>

function window_loop :: "('w, 'p, 'm, 'a, 't, 'k, 'x) mesh_env \<Rightarrow> ('p, 'a, 'k) resolver \<Rightarrow> bytes \<Rightarrow> 'p list \<Rightarrow> nat \<Rightarrow> bytes \<Rightarrow> string option \<Rightarrow>
    ('w, 'p, 'm, 'a, 't, 'd) res_state \<Rightarrow> window_end run \<times> ('w, 'p, 'm, 'a, 't, 'd) res_state" where
  "window_loop E R blob_id working window data payment_err s =
     (case window_step E R blob_id working window data payment_err s of
        (Panic, s') \<Rightarrow> (Panic, s')
      | (Ret r, s') \<Rightarrow> (case r of
          WNext data payment_err \<Rightarrow> window_loop E R blob_id working (Suc window) data payment_err s'
        | WBreak data payment_err \<Rightarrow> (Ret (WBreak data payment_err), s')
        | WAbort \<Rightarrow> (Ret WAbort, s')
        | WEof data payment_err \<Rightarrow> (Ret (WEof data payment_err), s')))"
  by pat_completeness auto
termination
proof (relation "measure (\<lambda>(E, R, blob_id, working, window, data, payment_err, s).
    MAX_TOTAL_SIZE + 1 - length data)", goal_cases)
  case (2 E R blob_id working window data payment_err s x s' r data' payment_err')
  then have "window_step E R blob_id working window data payment_err s = (Ret (WNext data' payment_err'), s')"
    by simp
  from window_step_next [OF this] show ?case by auto
qed simp

declare window_loop.simps [simp del]

definition try_direct_peers_range_parallel :: "('w, 'p, 'm, 'a, 't, 'k, 'x) mesh_env \<Rightarrow> ('p, 'a, 'k) resolver \<Rightarrow> bytes \<Rightarrow>
    ('w, 'p, 'm, 'a, 't, 'd, resolve_result zresult option) ract" where
  "try_direct_peers_range_parallel E R blob_id =
     act_bind (connected_peers E) (\<lambda>c. case c of
       None \<Rightarrow> act_ret None
     | Some connected \<Rightarrow>
         if connected = [] then act_ret None
         else
           let probers = take MAX_PARALLEL connected
           in act_bind (pay_all E R blob_id (8 * FEE_PER_BYTE_NANOS) probers) (\<lambda>probe_results.
              act_bind (range_round E 5 blob_id 8 (map (\<lambda>(peer, proof). (peer, peer, 0, proof))
                (zip probers (map fst probe_results)))) (\<lambda>probes.
                let working = map fst probes
                in if working = [] then act_ret None
                   else act_bind (window_loop E R blob_id working 0 [] (find_err probe_results)) (\<lambda>done.
                     case done of
                       WAbort \<Rightarrow> act_ret None
                     | WEof data payment_err \<Rightarrow>
                         finalize_l1_fetch E R blob_id (hd working) data payment_err
                     | WBreak data payment_err \<Rightarrow>
                         if data = [] then act_ret None
                         else finalize_l1_fetch E R blob_id (hd working) data payment_err
                     | WNext data payment_err \<Rightarrow> act_ret None))))"

section \<open>Providers from the DHT\<close>

definition without_self :: "('p, 'a, 'k) resolver \<Rightarrow> 'p list \<Rightarrow> 'p list" where
  "without_self R peers = filter (\<lambda>p. Some p \<noteq> rv_local_peer_id R) peers"

fun retry_providers :: "nat \<Rightarrow> ('w, 'p, 'm, 'a, 't, 'k, 'x) mesh_env \<Rightarrow> ('p, 'a, 'k) resolver \<Rightarrow> bytes \<Rightarrow> ('w, 'p, 'm, 'a, 't, 'd, 'p list) ract" where
  "retry_providers 0 E R blob_id = act_ret []"
| "retry_providers (Suc n) E R blob_id =
     act_bind (sleep E 2000) (\<lambda>_.
     act_bind (run_find_providers E blob_id) (\<lambda>found.
       let retry = without_self R found
       in if retry \<noteq> [] then act_ret retry else retry_providers n E R blob_id))"

definition dht_providers :: "('w, 'p, 'm, 'a, 't, 'k, 'x) mesh_env \<Rightarrow> ('p, 'a, 'k) resolver \<Rightarrow> bytes \<Rightarrow> ('w, 'p, 'm, 'a, 't, 'd, 'p list) ract" where
  "dht_providers E R blob_id =
     act_bind (run_find_providers E blob_id) (\<lambda>found.
       let dht_peers = without_self R found
       in if dht_peers = [] then retry_providers 3 E R blob_id else act_ret dht_peers)"

definition dial_known :: "('w, 'p, 'm, 'a, 't, 'k, 'x) mesh_env \<Rightarrow> 'p \<Rightarrow> ('w, 'p, 'm, 'a, 't, 'd, unit) ract" where
  "dial_known E peer_id = act_bind (ask_node E (DialKadPeer peer_id None) None) (\<lambda>_. act_ret ())"

definition dial_asked :: "('w, 'p, 'm, 'a, 't, 'k, 'x) mesh_env \<Rightarrow> 'p \<Rightarrow> ('w, 'p, 'm, 'a, 't, 'd, unit) ract" where
  "dial_asked E peer_id =
     act_bind (ask_node E (QueryPeerAddress peer_id) (Some 5)) (\<lambda>r.
       let addrs = (case r of None \<Rightarrow> [] | Some r \<Rightarrow> addrs_reply r)
       in if addrs \<noteq> []
          then act_bind (ask_node E (DialKadPeer peer_id (Some addrs)) None) (\<lambda>_. act_ret ())
          else act_ret ())"

definition MAX_POLL_ITERATIONS :: nat where "MAX_POLL_ITERATIONS = 30"
definition POLL_INTERVAL_MS :: nat where "POLL_INTERVAL_MS = 100"

text \<open>The poll, with the number of iterations left.\<close>

fun poll_connected :: "nat \<Rightarrow> ('w, 'p, 'm, 'a, 't, 'k, 'x) mesh_env \<Rightarrow> 'p list \<Rightarrow> ('w, 'p, 'm, 'a, 't, 'd, 'p option) ract" where
  "poll_connected 0 E dht_peers = act_ret None"
| "poll_connected (Suc n) E dht_peers =
     act_bind (sleep E POLL_INTERVAL_MS) (\<lambda>_.
     act_bind (connected_peers E) (\<lambda>c. case c of
       None \<Rightarrow> act_ret None
     | Some connected \<Rightarrow> (case List.find (\<lambda>p. p \<in> set connected) dht_peers of
           Some p \<Rightarrow> act_ret (Some p)
         | None \<Rightarrow> poll_connected n E dht_peers)))"

definition try_dht_peers :: "('w, 'p, 'm, 'a, 't, 'k, 'x) mesh_env \<Rightarrow> ('p, 'a, 'k) resolver \<Rightarrow> bytes \<Rightarrow> ('w, 'p, 'm, 'a, 't, 'd, resolve_result zresult option) ract" where
  "try_dht_peers E R blob_id =
     act_bind (dht_providers E R blob_id) (\<lambda>dht_peers.
       if dht_peers = [] then act_ret None
       else
         act_bind (act_map_all (dial_known E) dht_peers) (\<lambda>_.
         act_bind (act_map_all (dial_asked E) dht_peers) (\<lambda>_.
         act_bind (poll_connected MAX_POLL_ITERATIONS E dht_peers) (\<lambda>found. case found of
           None \<Rightarrow> act_ret None
         | Some peer \<Rightarrow>
             act_bind (resolve_payment E R peer blob_id READ_FEE_WAL_NANOS) (\<lambda>(payment_proof, payment_err).
             act_bind (fetch_blob E peer blob_id payment_proof) (\<lambda>r. case r of
               None \<Rightarrow> act_ret None
             | Some data \<Rightarrow> finalize_l1_fetch E R blob_id peer data payment_err))))))"

section \<open>Resolving\<close>

text \<open>\<^verbatim>\<open>if let Some(result) = first { return Some(result); }\<close> before the next attempt.\<close>

definition or_else :: "('w, 'p, 'm, 'a, 't, 'd, 'r option) ract \<Rightarrow> ('w, 'p, 'm, 'a, 't, 'd, 'r option) ract \<Rightarrow> ('w, 'p, 'm, 'a, 't, 'd, 'r option) ract" where
  "or_else m m' = act_bind m (\<lambda>r. case r of Some x \<Rightarrow> act_ret (Some x) | None \<Rightarrow> m')"

definition resolve_from_l1 :: "('w, 'p, 'm, 'a, 't, 'k, 'x) mesh_env \<Rightarrow> ('p, 'a, 'k) resolver \<Rightarrow> bytes \<Rightarrow> ('w, 'p, 'm, 'a, 't, 'd, resolve_result zresult option) ract" where
  "resolve_from_l1 E R blob_id =
     or_else (try_direct_peers_range_parallel E R blob_id)
    (or_else (try_direct_peers_range E R blob_id)
    (or_else (try_direct_peers E R blob_id)
             (try_dht_peers E R blob_id)))"

definition on_walrus :: "('w, 'r) act \<Rightarrow> ('w, 'p, 'm, 'a, 't, 'd, 'r) ract" where
  "on_walrus m s = (case m (ws_world (rs_wallet s)) of
     (r, w) \<Rightarrow> (r, s\<lparr>rs_wallet := (rs_wallet s)\<lparr>ws_world := w\<rparr>\<rparr>))"

definition resolve_from_walrus :: "('w, 'p, 'm, 'a, 't, 'k, 'x) mesh_env \<Rightarrow> ('p, 'a, 'k) resolver \<Rightarrow> bytes \<Rightarrow> ('w, 'p, 'm, 'a, 't, 'd, resolve_result zresult) ract" where
  "resolve_from_walrus E R blob_id =
     act_try (on_walrus (read_blob (me_walrus E) blob_id)) (\<lambda>data.
     act_try (store_blob (wx_show_id (me_walrus E) blob_id) data) (\<lambda>_.
     act_try (evict R) (\<lambda>_.
     act_ret (Inr \<lparr>rr_data = data, rr_resolution = L3Walrus, rr_cached = True,
       rr_payment_error = None\<rparr>))))"

definition local_blob :: "('w, 'p, 'm, 'a, 't, 'k, 'x) mesh_env \<Rightarrow> bytes \<Rightarrow> ('w, 'p, 'm, 'a, 't, 'd, bytes option zresult) ract" where
  "local_blob E blob_id s = (Ret (bs_get (rs_store s) (wx_show_id (me_walrus E) blob_id)), s)"

definition resolve :: "('w, 'p, 'm, 'a, 't, 'k, 'x) mesh_env \<Rightarrow> ('p, 'a, 'k) resolver \<Rightarrow> bytes \<Rightarrow> ('w, 'p, 'm, 'a, 't, 'd, resolve_result zresult) ract" where
  "resolve E R blob_id =
     act_try (local_blob E blob_id) (\<lambda>found. case found of
       Some data \<Rightarrow> act_ret (Inr \<lparr>rr_data = data, rr_resolution = LocalCache, rr_cached = True,
         rr_payment_error = None\<rparr>)
     | None \<Rightarrow>
         act_bind (if rv_p2p_channel R then resolve_from_l1 E R blob_id else act_ret None) (\<lambda>r.
           case r of Some result \<Rightarrow> act_ret result | None \<Rightarrow> resolve_from_walrus E R blob_id))"

section \<open>Reports of the stream handlers\<close>

definition record_peer_success :: "('w, 'p, 'm, 'a, 't, 'k, 'x) mesh_env \<Rightarrow> string \<Rightarrow> ('w, 'p, 'm, 'a, 't, 'd) res_state \<Rightarrow> ('w, 'p, 'm, 'a, 't, 'd) res_state" where
  "record_peer_success E p s = s\<lparr>rs_reputation :=
     record_success (me_clocks E (ws_world (rs_wallet s))) (rs_reputation s) p\<rparr>"

definition record_peer_corruption :: "('w, 'p, 'm, 'a, 't, 'k, 'x) mesh_env \<Rightarrow> string \<Rightarrow> ('w, 'p, 'm, 'a, 't, 'd) res_state \<Rightarrow> ('w, 'p, 'm, 'a, 't, 'd) res_state" where
  "record_peer_corruption E p s = s\<lparr>rs_reputation :=
     record_corruption (me_clocks E (ws_world (rs_wallet s))) (rs_reputation s) p\<rparr>"

definition record_peer_dropped :: "('w, 'p, 'm, 'a, 't, 'k, 'x) mesh_env \<Rightarrow> string \<Rightarrow> ('w, 'p, 'm, 'a, 't, 'd) res_state \<Rightarrow> ('w, 'p, 'm, 'a, 't, 'd) res_state" where
  "record_peer_dropped E p s = s\<lparr>rs_reputation :=
     record_dropped (me_clocks E (ws_world (rs_wallet s))) (rs_reputation s) p\<rparr>"

definition record_peer_false_claim :: "('w, 'p, 'm, 'a, 't, 'k, 'x) mesh_env \<Rightarrow> string \<Rightarrow> ('w, 'p, 'm, 'a, 't, 'd) res_state \<Rightarrow> ('w, 'p, 'm, 'a, 't, 'd) res_state" where
  "record_peer_false_claim E p s = s\<lparr>rs_reputation :=
     record_false_claim (me_clocks E (ws_world (rs_wallet s))) (rs_reputation s) p\<rparr>"

end
