(* ===== verification/Http_Text.thy ===== *)
theory Http_Text
  imports Zing_Types
begin

text \<open>
  The text work of the HTTP API, \<^verbatim>\<open>zing-cdn/src/http.rs\<close>: amounts of WAL as decimals, the
  lossy decoding of blob contents for the preview, the guess of the MIME type and shortened ids.
  The standard library's string functions are written out over byte strings.
\<close>

section \<open>Amounts\<close>

fun split_on :: "char \<Rightarrow> string \<Rightarrow> string list" where
  "split_on c [] = [[]]"
| "split_on c (x # xs) =
     (if x = c then [] # split_on c xs
      else (case split_on c xs of w # ws \<Rightarrow> (x # w) # ws | [] \<Rightarrow> [[x]]))"

fun int_error_display :: "int_error \<Rightarrow> string" where
  "int_error_display Empty_Str = ''cannot parse integer from empty string''"
| "int_error_display Invalid_Digit = ''invalid digit found in string''"
| "int_error_display Pos_Overflow = ''number too large to fit in target type''"

definition saturating_mul :: "u64 \<Rightarrow> u64 \<Rightarrow> u64" where
  "saturating_mul a b = (if unat a * unat b < 2 ^ 64 then a * b else -1)"

definition checked_add :: "u64 \<Rightarrow> u64 \<Rightarrow> u64 option" where
  "checked_add a b = (if unat a + unat b < 2 ^ 64 then Some (a + b) else None)"

text \<open>The number of characters of a string is the number of its bytes that start one.\<close>

definition char_count :: "string \<Rightarrow> nat" where
  "char_count s = length (filter (\<lambda>b. \<not> is_cont b) (as_bytes s))"

text \<open>\<^verbatim>\<open>format!("{:0<9}", frac)\<close> and \<^verbatim>\<open>format!("{:09}", n)\<close>.\<close>

definition pad_right :: "string \<Rightarrow> string" where
  "pad_right s = s @ replicate (9 - char_count s) CHR ''0''"

definition pad_left :: "string \<Rightarrow> string" where
  "pad_left s = replicate (9 - char_count s) CHR ''0'' @ s"

definition parse_amount_u64 :: "string \<Rightarrow> string + u64" where
  "parse_amount_u64 s = map_err int_error_display (parse_u64 s)"

definition parse_wal_amount :: "string \<Rightarrow> string + u64" where
  "parse_wal_amount s = (case split_on CHR ''.'' s of
     [a] \<Rightarrow> try_bind (parse_amount_u64 a) (\<lambda>n. Inr (saturating_mul n 1000000000))
   | [a, frac] \<Rightarrow>
       try_bind (parse_amount_u64 a) (\<lambda>integer.
         if length frac > 9 then Inl ''too many decimal places (max 9)''
         else try_bind (parse_amount_u64 (pad_right frac)) (\<lambda>fractional.
           ok_or ''amount overflow'' (checked_add (saturating_mul integer 1000000000) fractional)))
   | _ \<Rightarrow> Inl ''invalid amount format'')"

text \<open>\<^verbatim>\<open>format!("{}.{:09}", balance / 1_000_000_000, balance % 1_000_000_000)\<close>.\<close>

definition balance_wal :: "u64 \<Rightarrow> string" where
  "balance_wal balance =
     dec (unat (balance div 1000000000)) @ ''.'' @ pad_left (dec (unat (balance mod 1000000000)))"

section \<open>Digits\<close>

definition is_digit :: "char \<Rightarrow> bool" where
  "is_digit c \<longleftrightarrow> digit_value c \<noteq> None"

text \<open>The number a string of digits stands for.\<close>

definition digits_val :: "nat \<Rightarrow> string \<Rightarrow> nat" where
  "digits_val acc ds = foldl (\<lambda>a c. a * 10 + the (digit_value c)) acc ds"

lemma digit_value_digit: "d < 10 \<Longrightarrow> digit_value (digit d) = Some d"
  by (simp add: digit_value_def digit_def)

lemma is_digit_digit: "d < 10 \<Longrightarrow> is_digit (digit d)"
  by (simp add: is_digit_def digit_value_digit)

lemma is_digit_code: "is_digit c \<longleftrightarrow> 48 \<le> (of_char c :: nat) \<and> (of_char c :: nat) \<le> 57"
  by (simp add: is_digit_def digit_value_def Let_def)

lemma digit_not_dot: "is_digit c \<Longrightarrow> c \<noteq> CHR ''.'' \<and> c \<noteq> CHR ''+'' \<and> c \<noteq> CHR ''-''"
  by (auto simp: is_digit_code)

lemma digits_val_acc: "digits_val acc ds = acc * 10 ^ length ds + digits_val 0 ds"
proof (induction ds arbitrary: acc)
  case (Cons c ds)
  have step: "digits_val a (c # ds) = digits_val (a * 10 + the (digit_value c)) ds" for a
    by (simp add: digits_val_def)
  show ?case
    unfolding step using Cons.IH [of "acc * 10 + the (digit_value c)"] Cons.IH [of "0 * 10 + the (digit_value c)"]
    by (simp add: algebra_simps)
qed (simp add: digits_val_def)

lemma digits_val_append: "digits_val acc (xs @ ys) = digits_val (digits_val acc xs) ys"
  by (simp add: digits_val_def)

lemma digits_val_ge: "acc \<le> digits_val acc ds"
  by (subst digits_val_acc) (simp add: trans_le_add1)

lemma digits_val_zeros: "digits_val 0 (replicate k CHR ''0'') = 0"
  by (induction k) (simp_all add: digits_val_def digit_value_def)

lemma digits_val_less: "\<forall>c \<in> set ds. is_digit c \<Longrightarrow> digits_val 0 ds < 10 ^ length ds"
proof (induction ds rule: rev_induct)
  case (snoc c ds)
  then have "the (digit_value c) < 10"
    by (auto simp: is_digit_def digit_value_def Let_def split: if_splits)
  with snoc show ?case by (simp add: digits_val_def)
qed (simp add: digits_val_def)

lemma parse_digits_val:
  "\<forall>c \<in> set ds. is_digit c \<Longrightarrow> acc < 2 ^ 64 \<Longrightarrow>
    parse_digits acc ds = (if digits_val acc ds < 2 ^ 64 then Inr (digits_val acc ds) else Inl Pos_Overflow)"
proof (induction ds arbitrary: acc)
  case (Cons c ds)
  then obtain d where d: "digit_value c = Some d" by (auto simp: is_digit_def)
  have step: "digits_val acc (c # ds) = digits_val (acc * 10 + d) ds"
    using d by (simp add: digits_val_def)
  show ?case
  proof (cases "2 ^ 64 \<le> acc * 10 + d")
    case True
    then have "2 ^ 64 \<le> digits_val (acc * 10 + d) ds" using digits_val_ge le_trans by blast
    with True d show ?thesis unfolding step by simp
  next
    case False
    with Cons d show ?thesis unfolding step by simp
  qed
qed (simp add: digits_val_def)

lemma dec_digits: "\<forall>c \<in> set (dec n). is_digit c"
  by (induction n rule: dec.induct) (subst dec.simps, auto simp: is_digit_digit)

lemma dec_not_empty: "dec n \<noteq> []"
  by (subst dec.simps) simp

lemma dec_val: "digits_val 0 (dec n) = n"
proof (induction n rule: dec.induct)
  case (1 n)
  show ?case
  proof (cases "n < 10")
    case True
    then show ?thesis by (subst dec.simps) (simp add: digits_val_def digit_value_digit)
  next
    case False
    with 1 have "digits_val 0 (dec (n div 10)) = n div 10" by blast
    with False show ?thesis
      by (subst dec.simps) (simp add: digits_val_append, simp add: digits_val_def digit_value_digit)
  qed
qed

lemma dec_length: "n < 10 ^ k \<Longrightarrow> 0 < k \<Longrightarrow> length (dec n) \<le> k"
proof (induction n arbitrary: k rule: dec.induct)
  case (1 n)
  show ?case
  proof (cases "n < 10")
    case True
    with "1.prems" show ?thesis by (subst dec.simps) simp
  next
    case False
    then obtain j where k: "k = Suc j" "0 < j" using "1.prems" by (cases k; cases "k - 1") auto
    with "1.prems"(1) have "n div 10 < 10 ^ j" by (simp add: div_less_iff_less_mult mult.commute)
    from "1.IH" [OF False this k(2)] show ?thesis using False k(1) by (subst dec.simps) simp
  qed
qed

lemma parse_u64_digits:
  assumes "\<forall>c \<in> set ds. is_digit c" and "ds \<noteq> []"
  shows "parse_u64 ds = (if digits_val 0 ds < 2 ^ 64 then Inr (word_of_nat (digits_val 0 ds)) else Inl Pos_Overflow)"
proof -
  have "is_digit (hd ds)" using assms by (cases ds) simp_all
  then have "hd ds \<noteq> CHR ''+''" "ds \<noteq> ''+''" "ds \<noteq> ''-''"
    by (auto simp: is_digit_code)
  with assms show ?thesis by (simp add: parse_u64_def parse_digits_val)
qed

lemma digit_starts_char: "\<forall>c \<in> set s. is_digit c \<Longrightarrow> char_count s = length s"
proof (induction s)
  case (Cons c s)
  then have "\<not> is_cont (word_of_nat (of_char c) :: u8)"
    by (auto simp: is_digit_code is_cont_def word_le_nat_alt unat_of_nat)
  with Cons show ?case by (simp add: char_count_def as_bytes_def)
qed (simp add: char_count_def as_bytes_def)

lemma split_on_none: "c \<notin> set s \<Longrightarrow> split_on c s = [s]"
  by (induction s) auto

lemma split_on_dot: "c \<notin> set a \<Longrightarrow> split_on c (a @ c # b) = a # split_on c b"
  by (induction a) auto

lemma no_dot: "\<forall>c \<in> set s. is_digit c \<Longrightarrow> CHR ''.'' \<notin> set s"
  using digit_not_dot by blast

lemma amount_value_digits:
  assumes "n < 2 ^ 64" and "\<forall>c \<in> set ds. is_digit c" and "length ds \<le> 9"
  shows "parse_wal_amount (dec n) =
      Inr (if n * 10 ^ 9 < 2 ^ 64 then word_of_nat (n * 10 ^ 9) else -1) \<and>
    parse_wal_amount (dec n @ ''.'' @ ds) =
      (let v = digits_val 0 ds * 10 ^ (9 - length ds)
       in if n * 10 ^ 9 + v < 2 ^ 64 then Inr (word_of_nat (n * 10 ^ 9 + v))
          else if v = 0 then Inr (-1) else Inl ''amount overflow'')"
proof -
  let ?n = "word_of_nat n :: u64"
  have n: "unat ?n = n" using assms(1) by (subst unat_of_nat) simp
  have int: "parse_amount_u64 (dec n) = Inr ?n"
    using assms(1) by (simp add: parse_amount_u64_def parse_u64_digits dec_digits dec_not_empty dec_val)
  have sat: "saturating_mul ?n 1000000000 = (if n * 10 ^ 9 < 2 ^ 64 then word_of_nat (n * 10 ^ 9) else -1)"
    by (simp add: saturating_mul_def n)
  define v where "v = digits_val 0 ds * 10 ^ (9 - length ds)"
  have pad: "pad_right ds = ds @ replicate (9 - length ds) CHR ''0''"
    using digit_starts_char [OF assms(2)] by (simp add: pad_right_def)
  have digits: "\<forall>c \<in> set (pad_right ds). is_digit c"
    using assms(2) by (auto simp: pad is_digit_code)
  have val: "digits_val 0 (pad_right ds) = v"
    unfolding pad digits_val_append v_def by (subst digits_val_acc) (simp add: digits_val_zeros)
  have "length (pad_right ds) = 9" using assms(3) by (simp add: pad)
  then have v9: "v < 10 ^ 9" and "pad_right ds \<noteq> []"
    using digits_val_less [OF digits] val by (simp, cases "pad_right ds") auto
  then have frac: "parse_amount_u64 (pad_right ds) = Inr (word_of_nat v)"
    using parse_u64_digits [OF digits] val by (simp add: parse_amount_u64_def)
  have v: "unat (word_of_nat v :: u64) = v" using v9 by (subst unat_of_nat) simp
  have whole: "parse_wal_amount (dec n @ ''.'' @ ds) =
      ok_or ''amount overflow'' (checked_add (saturating_mul ?n 1000000000) (word_of_nat v))"
    using assms(3) int frac no_dot [OF dec_digits] no_dot [OF assms(2)]
    by (simp add: parse_wal_amount_def split_on_dot split_on_none)
  have "ok_or ''amount overflow'' (checked_add (saturating_mul ?n 1000000000) (word_of_nat v)) =
      (if n * 10 ^ 9 + v < 2 ^ 64 then Inr (word_of_nat (n * 10 ^ 9 + v))
       else if v = 0 then Inr (-1) else Inl ''amount overflow'')"
  proof (cases "n * 10 ^ 9 < 2 ^ 64")
    case True
    then have "unat (word_of_nat (n * 10 ^ 9) :: u64) = n * 10 ^ 9" by (subst unat_of_nat) simp
    with True v show ?thesis unfolding sat by (simp add: checked_add_def)
  next
    case False
    have "unat (-1 :: u64) = 2 ^ 64 - 1" by (simp add: unsigned_minus_1_eq_mask mask_eq_exp_minus_1)
    with False v show ?thesis unfolding sat by (simp add: checked_add_def)
  qed
  with whole int sat no_dot [OF dec_digits] show ?thesis
    by (simp add: parse_wal_amount_def split_on_none Let_def v_def)
qed

text \<open>Every number of FROST printed as WAL with nine decimals parses to itself.\<close>

lemma balance_roundtrip: "parse_wal_amount (balance_wal b) = Inr b"
proof -
  let ?i = "unat b div 1000000000" and ?f = "unat b mod 1000000000"
  have "?f < 10 ^ 9" by simp
  then have len: "length (dec ?f) \<le> 9" by (intro dec_length) simp_all
  have pad: "pad_left (dec ?f) = replicate (9 - length (dec ?f)) CHR ''0'' @ dec ?f"
    using digit_starts_char [OF dec_digits] by (simp add: pad_left_def)
  have digits: "\<forall>c \<in> set (pad_left (dec ?f)). is_digit c"
    using dec_digits by (auto simp: pad is_digit_code)
  have l9: "length (pad_left (dec ?f)) = 9" using len by (simp add: pad)
  have val: "digits_val 0 (pad_left (dec ?f)) = ?f"
    unfolding pad digits_val_append digits_val_zeros by (rule dec_val)
  have "?i * 10 ^ 9 + ?f = unat b" by (simp add: mult.commute)
  moreover have "unat b < 2 ^ 64" using unat_bound [of b] by simp
  moreover have "?i < 2 ^ 64" using \<open>unat b < 2 ^ 64\<close> by (simp add: div_less_iff_less_mult)
  moreover have "balance_wal b = dec ?i @ ''.'' @ pad_left (dec ?f)"
    by (simp add: balance_wal_def unat_div unat_mod)
  ultimately show ?thesis
    using amount_value_digits [OF _ digits] l9 val by simp
qed

text \<open>
  C29: an amount of digits, with or without decimals, is read exactly: \<open>n.d\<close> with at most nine
  decimals is \<open>n\<close> times ten to the nine plus the decimals scaled, when that fits 64 bits.
  Otherwise a zero or missing fraction is accepted as the largest amount there is, and only a
  non-zero one is reported as an overflow. The balances the API prints are read back as they were.
\<close>

theorem amount_value:
  assumes "n < 2 ^ 64" and "\<forall>c \<in> set ds. is_digit c" and "length ds \<le> 9"
  shows "parse_wal_amount (dec n) =
      Inr (if n * 10 ^ 9 < 2 ^ 64 then word_of_nat (n * 10 ^ 9) else -1) \<and>
    parse_wal_amount (dec n @ ''.'' @ ds) =
      (let v = digits_val 0 ds * 10 ^ (9 - length ds)
       in if n * 10 ^ 9 + v < 2 ^ 64 then Inr (word_of_nat (n * 10 ^ 9 + v))
          else if v = 0 then Inr (-1) else Inl ''amount overflow'') \<and>
    parse_wal_amount (balance_wal b) = Inr b"
  using amount_value_digits [OF assms] balance_roundtrip by simp

theorem amount_value_witness:
  "parse_wal_amount (dec 2 @ ''.'' @ ''5'') = Inr 2500000000 \<and>
   parse_wal_amount (balance_wal 7) = Inr 7"
  using amount_value [of 2 "''5''" 7] by (simp add: is_digit_code digits_val_def digit_value_def Let_def)

section \<open>Lossy decoding\<close>

text \<open>
  \<^verbatim>\<open>String::from_utf8_lossy\<close>: well-formed sequences are kept, and each maximal ill-formed
  piece becomes one replacement character.
\<close>

definition REPLACEMENT :: bytes where "REPLACEMENT = [0xEF, 0xBF, 0xBD]"

definition second_of_3 :: "u8 \<Rightarrow> u8 \<Rightarrow> bool" where
  "second_of_3 b c \<longleftrightarrow> is_cont c \<and> (b = 0xE0 \<longrightarrow> 0xA0 \<le> c) \<and> (b = 0xED \<longrightarrow> c \<le> 0x9F)"

definition second_of_4 :: "u8 \<Rightarrow> u8 \<Rightarrow> bool" where
  "second_of_4 b c \<longleftrightarrow> is_cont c \<and> (b = 0xF0 \<longrightarrow> 0x90 \<le> c) \<and> (b = 0xF4 \<longrightarrow> c \<le> 0x8F)"

text \<open>
  The piece that starts with a byte: how many more bytes it has, and whether it is well-formed.
\<close>

fun more_conts :: "nat \<Rightarrow> bytes \<Rightarrow> nat" where
  "more_conts 0 bs = 0"
| "more_conts (Suc n) bs = (case bs of c # r \<Rightarrow> if is_cont c then Suc (more_conts n r) else 0 | [] \<Rightarrow> 0)"

definition after_second :: "bool \<Rightarrow> nat \<Rightarrow> bytes \<Rightarrow> nat \<times> bool" where
  "after_second ok n r = (if \<not> ok then (0, False) else (let k = more_conts n r in (Suc k, k = n)))"

definition utf8_piece :: "u8 \<Rightarrow> bytes \<Rightarrow> nat \<times> bool" where
  "utf8_piece b bs =
     (if b < 0x80 then (0, True)
      else case bs of
        [] \<Rightarrow> (0, False)
      | c # r \<Rightarrow>
          if 0xC2 \<le> b \<and> b \<le> 0xDF then after_second (is_cont c) 0 r
          else if 0xE0 \<le> b \<and> b \<le> 0xEF then after_second (second_of_3 b c) 1 r
          else if 0xF0 \<le> b \<and> b \<le> 0xF4 then after_second (second_of_4 b c) 2 r
          else (0, False))"

fun utf8_lossy :: "bytes \<Rightarrow> bytes" where
  "utf8_lossy [] = []"
| "utf8_lossy (b # bs) = (case utf8_piece b bs of (k, ok) \<Rightarrow>
     (if ok then b # take k bs else REPLACEMENT) @ utf8_lossy (drop k bs))"

lemma valid_REPLACEMENT: "utf8_valid (REPLACEMENT @ bs) = utf8_valid bs"
  by (simp add: REPLACEMENT_def is_cont_def)

lemma more_conts_Suc0: "more_conts (Suc 0) r = Suc 0 \<Longrightarrow> \<exists>c r'. r = c # r' \<and> is_cont c"
  by (cases r) (auto split: if_splits)

lemma more_conts_2: "more_conts 2 r = 2 \<Longrightarrow> \<exists>c c' r'. r = c # c' # r' \<and> is_cont c \<and> is_cont c'"
  by (cases r; cases "tl r") (auto simp: numeral_2_eq_2 split: if_splits)

text \<open>The four forms of a well-formed piece.\<close>

lemma utf8_pieceE:
  assumes "utf8_piece b bs = (k, True)"
  obtains "b < 0x80" "k = 0"
  | c r where "\<not> b < 0x80" "0xC2 \<le> b" "b \<le> 0xDF" "bs = c # r" "is_cont c" "k = 1"
  | c c2 r where "\<not> b < 0x80" "\<not> (0xC2 \<le> b \<and> b \<le> 0xDF)" "0xE0 \<le> b" "b \<le> 0xEF" "bs = c # c2 # r"
      "second_of_3 b c" "is_cont c2" "k = 2"
  | c c2 c3 r where "\<not> b < 0x80" "\<not> (0xC2 \<le> b \<and> b \<le> 0xDF)" "\<not> (0xE0 \<le> b \<and> b \<le> 0xEF)" "0xF0 \<le> b" "b \<le> 0xF4"
      "bs = c # c2 # c3 # r" "second_of_4 b c" "is_cont c2" "is_cont c3" "k = 3"
proof (cases "b < 0x80")
  case True
  with assms that(1) show thesis by (simp add: utf8_piece_def)
next
  case ascii: False
  with assms obtain c r where bs: "bs = c # r" by (cases bs) (auto simp: utf8_piece_def)
  show thesis
  proof (cases "0xC2 \<le> b \<and> b \<le> 0xDF")
    case True
    with assms bs ascii that(2) show thesis
      by (auto simp: utf8_piece_def after_second_def split: if_splits)
  next
    case two: False
    show thesis
    proof (cases "0xE0 \<le> b \<and> b \<le> 0xEF")
      case True
      with assms bs ascii two have "second_of_3 b c" "more_conts (Suc 0) r = Suc 0" "k = 2"
        by (auto simp: utf8_piece_def after_second_def Let_def split: if_splits)
      with more_conts_Suc0 that(3) ascii two True bs show thesis by blast
    next
      case False
      with assms bs ascii two have "0xF0 \<le> b \<and> b \<le> 0xF4" "second_of_4 b c" "more_conts 2 r = 2" "k = 3"
        by (auto simp: utf8_piece_def after_second_def Let_def split: if_splits)
      with more_conts_2 that(4) ascii two False bs show thesis by blast
    qed
  qed
qed

lemma utf8_valid_1: "b < 0x80 \<Longrightarrow> utf8_valid (b # bs) = utf8_valid bs"
  by (simp only: utf8_valid.simps if_True)

lemma utf8_valid_2:
  assumes "\<not> b < 0x80" "0xC2 \<le> b \<and> b \<le> 0xDF"
  shows "utf8_valid (b # bs) = (case bs of c # r \<Rightarrow> is_cont c \<and> utf8_valid r | _ \<Rightarrow> False)"
  by (simp only: utf8_valid.simps assms if_True if_False simp_thms)

lemma utf8_valid_3:
  assumes "\<not> b < 0x80" "\<not> (0xC2 \<le> b \<and> b \<le> 0xDF)" "0xE0 \<le> b \<and> b \<le> 0xEF"
  shows "utf8_valid (b # bs) = (case bs of
      c # c2 # r \<Rightarrow> second_of_3 b c \<and> is_cont c2 \<and> utf8_valid r | _ \<Rightarrow> False)"
  by (simp only: utf8_valid.simps assms second_of_3_def conj_assoc if_True if_False simp_thms)

lemma utf8_valid_4:
  assumes "\<not> b < 0x80" "\<not> (0xC2 \<le> b \<and> b \<le> 0xDF)" "\<not> (0xE0 \<le> b \<and> b \<le> 0xEF)"
  shows "utf8_valid (b # bs) = (0xF0 \<le> b \<and> b \<le> 0xF4 \<and> (case bs of
      c # c2 # c3 # r \<Rightarrow> second_of_4 b c \<and> is_cont c2 \<and> is_cont c3 \<and> utf8_valid r | _ \<Rightarrow> False))"
  by (cases "0xF0 \<le> b \<and> b \<le> 0xF4")
    (simp_all only: utf8_valid.simps assms second_of_4_def conj_assoc if_True if_False simp_thms, blast)

lemma utf8_piece_valid:
  assumes "utf8_piece b bs = (k, True)"
  shows "utf8_valid (b # take k bs @ rest) = utf8_valid rest"
  using assms
proof (cases rule: utf8_pieceE)
  case 1
  then show ?thesis by (simp add: utf8_valid_1 del: utf8_valid.simps)
next
  case (2 c r)
  then show ?thesis by (simp add: utf8_valid_2 del: utf8_valid.simps)
next
  case (3 c c2 r)
  then show ?thesis by (subst utf8_valid_3) simp_all
next
  case (4 c c2 c3 r)
  then show ?thesis by (subst utf8_valid_4) simp_all
qed

lemma utf8_valid_two:
  assumes "\<not> b < 0x80" "0xC2 \<le> b \<and> b \<le> 0xDF" "utf8_valid (b # bs)"
  shows "\<exists>c r. bs = c # r \<and> is_cont c"
  using assms(3) unfolding utf8_valid_2 [OF assms(1,2)] by (simp split: list.splits)

lemma utf8_valid_three:
  assumes "\<not> b < 0x80" "\<not> (0xC2 \<le> b \<and> b \<le> 0xDF)" "0xE0 \<le> b \<and> b \<le> 0xEF" "utf8_valid (b # bs)"
  shows "\<exists>c c2 r. bs = c # c2 # r \<and> second_of_3 b c \<and> is_cont c2"
  using assms(4) unfolding utf8_valid_3 [OF assms(1-3)] by (simp split: list.splits)

lemma utf8_valid_four:
  assumes "\<not> b < 0x80" "\<not> (0xC2 \<le> b \<and> b \<le> 0xDF)" "\<not> (0xE0 \<le> b \<and> b \<le> 0xEF)" "utf8_valid (b # bs)"
  shows "0xF0 \<le> b \<and> b \<le> 0xF4 \<and> (\<exists>c c2 c3 r. bs = c # c2 # c3 # r \<and> second_of_4 b c \<and> is_cont c2 \<and> is_cont c3)"
  using assms(4) unfolding utf8_valid_4 [OF assms(1-3)] by (simp split: list.splits)

lemma utf8_valid_piece:
  assumes "utf8_valid (b # bs)"
  shows "snd (utf8_piece b bs)"
proof (cases "b < 0x80")
  case True
  then show ?thesis by (simp add: utf8_piece_def)
next
  case nonascii: False
  show ?thesis
  proof (cases "0xC2 \<le> b \<and> b \<le> 0xDF")
    case True
    with utf8_valid_two [OF nonascii True assms] nonascii show ?thesis
      by (force simp: utf8_piece_def after_second_def)
  next
    case two: False
    show ?thesis
    proof (cases "0xE0 \<le> b \<and> b \<le> 0xEF")
      case True
      with utf8_valid_three [OF nonascii two True assms] obtain c c2 r
        where "bs = c # c2 # r" "second_of_3 b c" "is_cont c2" by blast
      with nonascii two True show ?thesis by (simp add: utf8_piece_def after_second_def)
    next
      case False
      with utf8_valid_four [OF nonascii two False assms] obtain c c2 c3 r where "0xF0 \<le> b \<and> b \<le> 0xF4"
        "bs = c # c2 # c3 # r" "second_of_4 b c" "is_cont c2" "is_cont c3" by blast
      with nonascii two False show ?thesis by (simp add: utf8_piece_def after_second_def numeral_2_eq_2)
    qed
  qed
qed

text \<open>The result is well-formed, and well-formed input is unchanged.\<close>

lemma utf8_lossy_valid: "utf8_valid (utf8_lossy bs)"
proof (induction bs rule: utf8_lossy.induct)
  case (2 b bs)
  obtain k ok where p: "utf8_piece b bs = (k, ok)" by fastforce
  show ?case
  proof (cases ok)
    case True
    with p utf8_piece_valid [of b bs k "utf8_lossy (drop k bs)"] 2 [OF p [symmetric]] show ?thesis
      by (simp del: utf8_valid.simps)
  next
    case False
    with p 2 [OF p [symmetric]] show ?thesis by (simp add: valid_REPLACEMENT del: utf8_valid.simps)
  qed
qed simp

lemma utf8_lossy_id: "utf8_valid bs \<Longrightarrow> utf8_lossy bs = bs"
proof (induction bs rule: utf8_lossy.induct)
  case (2 b bs)
  obtain k where p: "utf8_piece b bs = (k, True)"
    using utf8_valid_piece [OF "2.prems"] by (cases "utf8_piece b bs") auto
  have "utf8_valid (drop k bs)"
    using utf8_piece_valid [OF p, of "drop k bs"] "2.prems" by simp
  from "2.IH" [OF p [symmetric] this] p show ?case by simp
qed simp

definition from_utf8_lossy :: "bytes \<Rightarrow> string" where
  "from_utf8_lossy bs = of_bytes (utf8_lossy bs)"

definition text_preview :: "bytes \<Rightarrow> string" where
  "text_preview data =
     (if length data > 2000 then from_utf8_lossy (take 2000 data) @ ''...'' else from_utf8_lossy data)"

section \<open>MIME types\<close>

definition starts_with :: "bytes \<Rightarrow> bytes \<Rightarrow> bool" where
  "starts_with data prefix \<longleftrightarrow> take (length prefix) data = prefix"

text \<open>A character that is not ASCII has no byte that passes.\<close>

definition plain_ascii :: "char \<Rightarrow> bool" where
  "plain_ascii c \<longleftrightarrow> (let n = of_char c :: nat
     in (0x21 \<le> n \<and> n \<le> 0x7E) \<or> n \<in> {0x20, 0x09, 0x0A, 0x0C, 0x0D})"

text \<open>The \<^verbatim>\<open>&&\<close> of the WebP test: the second slice is only taken after the first matched.\<close>

definition is_webp :: "bytes \<Rightarrow> bool run" where
  "is_webp data =
     (if length data > 8 then
        (case slice 0 4 data of
           Panic \<Rightarrow> Panic
         | Ret riff \<Rightarrow>
             if riff = as_bytes ''RIFF'' then
               (case slice 8 12 data of Panic \<Rightarrow> Panic | Ret webp \<Rightarrow> Ret (webp = as_bytes ''WEBP''))
             else Ret False)
      else Ret False)"

definition detect_mime :: "bytes \<Rightarrow> string run" where
  "detect_mime data =
     (if (starts_with data (as_bytes ''{'') \<or> starts_with data (as_bytes ''['') \<or>
          starts_with data (as_bytes ''<'')) \<and> list_all plain_ascii (from_utf8_lossy data)
      then Ret ''application/json''
      else if starts_with data [0x89, 0x50, 0x4E, 0x47, 0x0D, 0x0A, 0x1A, 0x0A] then Ret ''image/png''
      else if starts_with data [0xFF, 0xD8, 0xFF] then Ret ''image/jpeg''
      else if starts_with data [0x47, 0x49, 0x46, 0x38] then Ret ''image/gif''
      else (case is_webp data of
          Panic \<Rightarrow> Panic
        | Ret True \<Rightarrow> Ret ''image/webp''
        | Ret False \<Rightarrow> Ret ''text/plain''))"

lemma is_webp_panic:
  "is_webp data = Panic \<longleftrightarrow> take 4 data = as_bytes ''RIFF'' \<and> 8 < length data \<and> length data < 12"
  by (auto simp: is_webp_def slice_def)

lemma riff_prefix:
  assumes "take 4 data = as_bytes ''RIFF''"
  shows "\<exists>rest. data = 0x52 # rest"
proof -
  have "as_bytes ''RIFF'' = [0x52, 0x49, 0x46, 0x46]" by (simp add: as_bytes_def)
  with assms show ?thesis by (cases data) auto
qed

text \<open>
  C30: the guess of the MIME type panics on exactly the blobs of nine to eleven bytes that start
  with RIFF: the length is checked against 8 but the slice goes up to 12.
\<close>

theorem detect_mime_panics_iff:
  "detect_mime data = Panic \<longleftrightarrow> take 4 data = as_bytes ''RIFF'' \<and> 8 < length data \<and> length data < 12"
proof (cases "take 4 data = as_bytes ''RIFF''")
  case True
  then obtain rest where "data = 0x52 # rest" using riff_prefix by blast
  then have "detect_mime data = (case is_webp data of
      Panic \<Rightarrow> Panic | Ret True \<Rightarrow> Ret ''image/webp'' | Ret False \<Rightarrow> Ret ''text/plain'')"
    by (simp add: detect_mime_def starts_with_def as_bytes_def)
  with is_webp_panic [of data] show ?thesis by (cases "is_webp data") (auto split: bool.split)
next
  case False
  with is_webp_panic [of data] show ?thesis
    by (cases "is_webp data") (auto simp: detect_mime_def split: bool.split)
qed

section \<open>Shortened ids\<close>

text \<open>Slices of a string panic inside a character as well as out of range.\<close>

definition is_boundary :: "string \<Rightarrow> nat \<Rightarrow> bool" where
  "is_boundary s i \<longleftrightarrow> i = 0 \<or> i = length s \<or> (i < length s \<and> \<not> is_cont (as_bytes s ! i))"

definition str_slice :: "nat \<Rightarrow> nat \<Rightarrow> string \<Rightarrow> string run" where
  "str_slice a b s = (if is_boundary s a \<and> is_boundary s b then slice a b s else Panic)"

text \<open>The first \<open>a\<close> and the last \<open>b\<close> bytes with dots between, when it is longer than 16.\<close>

definition shorten :: "nat \<Rightarrow> nat \<Rightarrow> string \<Rightarrow> string run" where
  "shorten a b s =
     (if length s > 16 then
        (case str_slice 0 a s of
           Panic \<Rightarrow> Panic
         | Ret front \<Rightarrow> (case str_slice (length s - b) (length s) s of
             Panic \<Rightarrow> Panic | Ret back \<Rightarrow> Ret (front @ ''...'' @ back)))
      else Ret s)"

end
