(* ===== verification/Http.thy ===== *)
theory Http
  imports Resolver Http_Text
begin

text \<open>
  \<^verbatim>\<open>zing-cdn/src/http.rs\<close>: the HTTP API. Its handlers share the store, the wallet, the
  channel to the node and the list of bootstrap peers; a resolver, with its reputation table and
  its address caches, is made for each request. One request is run at a time. The answer of a
  handler is the value the code returns before axum encodes it; the events of a stream are its
  JSON values. Queries that axum itself refuses never reach a handler.
\<close>

section \<open>Data\<close>

datatype http_status = BAD_REQUEST | INTERNAL_SERVER_ERROR

type_synonym 'a http_result = "(http_status \<times> string) + 'a"

record http_blob_info =
  hb_blob_id :: string
  hb_size :: u64
  hb_source :: string
  hb_cached :: bool
  hb_content :: string
  hb_mime_type :: string
  hb_data_base64 :: string
  hb_payment_error :: "string option"

record peers_info =
  ps_bootstrap :: "string list"
  ps_connected :: "string list"
  ps_listen_addr :: string
  ps_cache_dir :: string
  ps_peer_id :: string
  ps_p2p_addr :: string

record health_status =
  hs_status :: string
  hs_peer_id :: string
  hs_connected_peers :: nat

record cache_entry =
  ce_blob_id :: string
  ce_size :: u64
  ce_pinned :: bool

record staking_peer_info =
  sp_sui_address :: string
  sp_peer_id_short :: string
  sp_peer_object_id :: string
  sp_bond :: u64
  sp_is_active :: bool
  sp_is_live :: bool
  sp_vault_reserves :: "u64 option"
  sp_vault_total_shares :: "u64 option"
  sp_vault_commission_bps :: "u64 option"
  sp_vault_peer_earnings :: "u64 option"
  sp_vault_object_id :: "string option"

record my_peer_info =
  mp_wallet_address :: string
  mp_peer_object_id :: string
  mp_peer_id_short :: "string option"
  mp_bond :: "u64 option"
  mp_is_active :: "bool option"
  mp_is_live :: "bool option"
  mp_is_registered :: bool

record wal_balance =
  wb_balance :: u64
  wb_balance_wal :: string

record register_result =
  rg_success :: bool
  rg_message :: string

record share_view =
  sv_cert_object_id :: string
  sv_vault_address :: string
  sv_shares :: u64
  sv_estimated_value :: u64

record my_vault_info =
  mv_has_vault :: bool
  mv_reserves :: "u64 option"
  mv_total_shares :: "u64 option"
  mv_commission_bps :: "u64 option"
  mv_peer_earnings :: "u64 option"
  mv_vault_object_id :: "string option"

datatype http_event =
    EvStatus string string
  | EvResolved string string string
  | EvInfo http_blob_info
  | EvError string

datatype 'p protocol = P2p 'p | Udp u16 | OtherProtocol

text \<open>The calls of other crates, and what the state of the API holds beside the shared parts.\<close>

record ('w, 'p, 'm, 'a, 't, 'k, 'x) http_env =
  he_mesh :: "('w, 'p, 'm, 'a, 't, 'k, 'x) mesh_env"
  blob_parse :: "string \<Rightarrow> string + bytes"
  b64_encode :: "bytes \<Rightarrow> string"
  ma_parse :: "string \<Rightarrow> 'm option"
  ma_protocols :: "'m \<Rightarrow> 'p protocol list"
  ma_pop :: "'m \<Rightarrow> 'm"
  ma_show :: "'m \<Rightarrow> string"
  pid_to_bytes :: "'p \<Rightarrow> bytes"
  send_error :: string
  recv_error :: string

record ('p, 'm, 'a, 'k) http_conf =
  hc_peer_id :: 'p
  hc_listen_addr :: 'm
  hc_cache_dir :: string
  hc_p2p_port :: u16
  hc_wallet :: "('a, 'k) zing_wallet option"
  hc_budget :: u64

record ('w, 'p, 'm, 'a, 't, 'd) api_state =
  api_wallet :: "('w, 'a, 't) wallet_state"
  api_store :: "'d blob_store"
  api_sent :: "('p, 'm) p2p_command list"
  api_bootstrap :: "string list"
  api_events :: "http_event list"

type_synonym ('w, 'p, 'm, 'a, 't, 'd, 'r) hact = "(('w, 'p, 'm, 'a, 't, 'd) api_state, 'r) act"

section \<open>Access to the shared parts\<close>

text \<open>
  A resolver made for one action, over the shared store, wallet and channel. Its reputation
  table and its caches start empty and are dropped with it.
\<close>

definition new_resolver :: "('p, 'm, 'a, 'k) http_conf \<Rightarrow> ('p, 'a, 'k) resolver" where
  "new_resolver C = \<lparr>rv_budget = hc_budget C, rv_p2p_channel = True,
     rv_local_peer_id = Some (hc_peer_id C), rv_wallet = hc_wallet C\<rparr>"

definition new_tables :: "('w, 'p, 'm, 'a, 't, 'd) api_state \<Rightarrow> ('w, 'p, 'm, 'a, 't, 'd) res_state" where
  "new_tables s = \<lparr>rs_wallet = api_wallet s, rs_store = api_store s, rs_reputation = rep_new,
     rs_sui_addr_cache = Map.empty, rs_vault_addr_cache = Map.empty, rs_sent = api_sent s\<rparr>"

definition on_mesh :: "('w, 'p, 'm, 'a, 't, 'd, 'r) ract \<Rightarrow> ('w, 'p, 'm, 'a, 't, 'd, 'r) hact" where
  "on_mesh m s = (case m (new_tables s) of (r, rs) \<Rightarrow>
     (r, s\<lparr>api_wallet := rs_wallet rs, api_store := rs_store rs, api_sent := rs_sent rs\<rparr>))"

definition on_sui :: "('w, 'a, 't, 'r) wact \<Rightarrow> ('w, 'p, 'm, 'a, 't, 'd, 'r) hact" where
  "on_sui m s = (case m (api_wallet s) of (r, ws) \<Rightarrow> (r, s\<lparr>api_wallet := ws\<rparr>))"

definition emit :: "http_event \<Rightarrow> ('w, 'p, 'm, 'a, 't, 'd, unit) hact" where
  "emit e s = (Ret (), s\<lparr>api_events := api_events s @ [e]\<rparr>)"

definition tell_node :: "('w, 'p, 'm, 'a, 't, 'k, 'x) http_env \<Rightarrow> ('p, 'm) p2p_command \<Rightarrow>
    ('w, 'p, 'm, 'a, 't, 'd, string + unit) hact" where
  "tell_node E cmd = act_bind (on_mesh (send_cmd (he_mesh E) (\<lambda>_. cmd)))
     (\<lambda>h. act_ret (if h = None then Inl (send_error E) else Inr ()))"

text \<open>The connected peers; unlike in the resolver, a lost reply is an error.\<close>

definition ask_connected :: "('w, 'p, 'm, 'a, 't, 'k, 'x) http_env \<Rightarrow>
    ('w, 'p, 'm, 'a, 't, 'd, string + 'p list) hact" where
  "ask_connected E = act_bind (on_mesh (ask_node (he_mesh E) GetConnectedPeers None)) (\<lambda>r. act_ret (case r of
     None \<Rightarrow> Inl (send_error E)
   | Some (Some (RPeers ps)) \<Rightarrow> Inr ps
   | Some _ \<Rightarrow> Inl (recv_error E)))"

text \<open>\<^verbatim>\<open>map_err(|e| (status, e.to_string()))\<close>, and the wallet or \<^verbatim>\<open>BAD_REQUEST\<close>.\<close>

definition internal :: "('w, 'p, 'm, 'a, 't, 'd, string + 'r) hact \<Rightarrow> ('w, 'p, 'm, 'a, 't, 'd, 'r http_result) hact" where
  "internal m = act_map_err (Pair INTERNAL_SERVER_ERROR) m"

definition with_wallet :: "('p, 'm, 'a, 'k) http_conf \<Rightarrow>
    (('a, 'k) zing_wallet \<Rightarrow> ('w, 'p, 'm, 'a, 't, 'd, 'r http_result) hact) \<Rightarrow>
    ('w, 'p, 'm, 'a, 't, 'd, 'r http_result) hact" where
  "with_wallet C f = (case hc_wallet C of
     None \<Rightarrow> act_ret (Inl (BAD_REQUEST, ''Wallet not configured'')) | Some W \<Rightarrow> f W)"

definition wallet_call :: "('w, 'a, 't, 'r zresult) wact \<Rightarrow> ('w, 'p, 'm, 'a, 't, 'd, 'r http_result) hact" where
  "wallet_call m = act_map_err (\<lambda>e. (INTERNAL_SERVER_ERROR, zing_display e)) (on_sui m)"

section \<open>Resolving\<close>

fun source_name :: "blob_resolution \<Rightarrow> string" where
  "source_name LocalCache = ''L0 local cache''"
| "source_name L1Peer = ''L1 peer''"
| "source_name L3Walrus = ''L3 Walrus''"

definition binary_note :: "nat \<Rightarrow> string" where
  "binary_note n = ''[Binary image '' @ of_bytes [0xE2, 0x80, 0x94] @ '' '' @ dec n @ '' bytes]''"

definition is_image :: "string \<Rightarrow> bool" where
  "is_image mime_type \<longleftrightarrow> take 6 mime_type = ''image/''"

definition build_blobinfo :: "('w, 'p, 'm, 'a, 't, 'k, 'x) http_env \<Rightarrow> string \<Rightarrow> bytes \<Rightarrow> string \<Rightarrow> bool \<Rightarrow>
    string option \<Rightarrow> http_blob_info run" where
  "build_blobinfo E blob_id data source cached payment_error =
     (case detect_mime data of
        Panic \<Rightarrow> Panic
      | Ret mime_type \<Rightarrow>
          let (content, data_base64) =
            (if is_image mime_type then (binary_note (length data), b64_encode E data)
             else (text_preview data, []))
          in Ret \<lparr>hb_blob_id = blob_id, hb_size = word_of_nat (length data), hb_source = source,
               hb_cached = cached, hb_content = content, hb_mime_type = mime_type,
               hb_data_base64 = data_base64, hb_payment_error = payment_error\<rparr>)"

text \<open>
  \<open>resolve_blob\<close> has the text of \<open>build_blobinfo\<close> inline, with the announcement before the
  record is built.
\<close>

definition resolve_blob :: "('w, 'p, 'm, 'a, 't, 'k, 'x) http_env \<Rightarrow> ('p, 'm, 'a, 'k) http_conf \<Rightarrow> string \<Rightarrow>
    ('w, 'p, 'm, 'a, 't, 'd, string + http_blob_info) hact" where
  "resolve_blob E C blob_id =
     act_try (act_ret (map_err (\<lambda>e. ''invalid blob id: '' @ blob_id @ '': '' @ e) (blob_parse E blob_id))) (\<lambda>i.
     act_try (act_map_err zing_display (on_mesh (resolve (he_mesh E) (new_resolver C) i))) (\<lambda>result.
       let data = rr_data result;
           payment_error = rr_payment_error result;
           source = source_name (rr_resolution result)
       in act_bind (act_run (detect_mime data)) (\<lambda>mime_type.
          let (content, data_base64) =
            (if is_image mime_type then (binary_note (length data), b64_encode E data)
             else (text_preview data, []))
          in act_bind (tell_node E (AnnounceBlob i)) (\<lambda>_.
             act_ret (Inr \<lparr>hb_blob_id = blob_id, hb_size = word_of_nat (length data), hb_source = source,
               hb_cached = rr_cached result, hb_content = content, hb_mime_type = mime_type,
               hb_data_base64 = data_base64, hb_payment_error = payment_error\<rparr>)))))"

definition stored :: "string \<Rightarrow> ('w, 'p, 'm, 'a, 't, 'd, bytes option zresult) hact" where
  "stored blob_id s = (Ret (bs_get (api_store s) blob_id), s)"

definition resolve_blob_with_progress :: "('w, 'p, 'm, 'a, 't, 'k, 'x) http_env \<Rightarrow> ('p, 'm, 'a, 'k) http_conf \<Rightarrow>
    string \<Rightarrow> ('w, 'p, 'm, 'a, 't, 'd, unit) hact" where
  "resolve_blob_with_progress E C blob_id =
     (case blob_parse E blob_id of
        Inl e \<Rightarrow> emit (EvError (''invalid blob id: '' @ e))
      | Inr i \<Rightarrow>
          act_bind (emit (EvStatus ''Checking local cache...'' ''L0'')) (\<lambda>_.
          act_bind (stored blob_id) (\<lambda>found.
            case ok_opt found of
              Some (Some data) \<Rightarrow>
                act_bind (act_run (build_blobinfo E blob_id data ''L0 local cache'' True None)) (\<lambda>info.
                act_bind (emit (EvInfo info)) (\<lambda>_.
                act_bind (tell_node E (AnnounceBlob i)) (\<lambda>_. act_ret ())))
            | _ \<Rightarrow>
              act_bind (emit (EvStatus ''Searching P2P network...'' ''L1'')) (\<lambda>_.
              act_bind (on_mesh (resolve (he_mesh E) (new_resolver C) i)) (\<lambda>r. case r of
                 Inr result \<Rightarrow>
                   let source = source_name (rr_resolution result)
                   in act_bind (emit (EvResolved (''Resolved via '' @ source) (take 2 source) source)) (\<lambda>_.
                      act_bind (act_run (build_blobinfo E blob_id (rr_data result) source (rr_cached result)
                        (rr_payment_error result))) (\<lambda>info.
                      act_bind (tell_node E (AnnounceBlob i)) (\<lambda>_.
                      emit (EvInfo info))))
               | Inl e \<Rightarrow> emit (EvError (zing_display e)))))))"

definition handle_resolve :: "('w, 'p, 'm, 'a, 't, 'k, 'x) http_env \<Rightarrow> ('p, 'm, 'a, 'k) http_conf \<Rightarrow> string \<Rightarrow>
    ('w, 'p, 'm, 'a, 't, 'd, http_blob_info http_result) hact" where
  "handle_resolve E C blob_id = internal (resolve_blob E C blob_id)"

text \<open>The stream has a channel of its own; a panic ends it after the events sent so far.\<close>

definition handle_resolve_stream :: "('w, 'p, 'm, 'a, 't, 'k, 'x) http_env \<Rightarrow> ('p, 'm, 'a, 'k) http_conf \<Rightarrow> string \<Rightarrow>
    ('w, 'p, 'm, 'a, 't, 'd, http_event list) hact" where
  "handle_resolve_stream E C blob_id s =
     (case resolve_blob_with_progress E C blob_id (s\<lparr>api_events := []\<rparr>) of
        (_, s') \<Rightarrow> (Ret (api_events s'), s'\<lparr>api_events := api_events s\<rparr>))"

section \<open>The node\<close>

definition handle_health :: "('w, 'p, 'm, 'a, 't, 'k, 'x) http_env \<Rightarrow> ('p, 'm, 'a, 'k) http_conf \<Rightarrow>
    ('w, 'p, 'm, 'a, 't, 'd, health_status) hact" where
  "handle_health E C =
     act_bind (on_mesh (connected_peers (he_mesh E))) (\<lambda>r.
       let connected = (case r of Some ps \<Rightarrow> ps | None \<Rightarrow> [])
       in act_ret \<lparr>hs_status = ''ok'', hs_peer_id = pid_show (he_mesh E) (hc_peer_id C),
            hs_connected_peers = length connected\<rparr>)"

definition bootstrap_list :: "('w, 'p, 'm, 'a, 't, 'd, string list) hact" where
  "bootstrap_list s = (Ret (api_bootstrap s), s)"

definition peers_list :: "('w, 'p, 'm, 'a, 't, 'k, 'x) http_env \<Rightarrow> ('p, 'm, 'a, 'k) http_conf \<Rightarrow>
    ('w, 'p, 'm, 'a, 't, 'd, string + peers_info) hact" where
  "peers_list E C =
     act_try (ask_connected E) (\<lambda>connected.
     act_bind bootstrap_list (\<lambda>bootstrap.
       let self = pid_show (he_mesh E) (hc_peer_id C)
       in act_ret (Inr \<lparr>ps_bootstrap = bootstrap, ps_connected = map (pid_show (he_mesh E)) connected,
            ps_listen_addr = ma_show E (hc_listen_addr C), ps_cache_dir = hc_cache_dir C, ps_peer_id = self,
            ps_p2p_addr = ''/ip4/127.0.0.1/udp/'' @ dec (unat (hc_p2p_port C)) @ ''/quic-v1/p2p/'' @ self\<rparr>)))"

definition handle_peers_list :: "('w, 'p, 'm, 'a, 't, 'k, 'x) http_env \<Rightarrow> ('p, 'm, 'a, 'k) http_conf \<Rightarrow>
    ('w, 'p, 'm, 'a, 't, 'd, peers_info http_result) hact" where
  "handle_peers_list E C = internal (peers_list E C)"

fun first_p2p :: "'p protocol list \<Rightarrow> 'p option" where
  "first_p2p [] = None"
| "first_p2p (P2p peer # protos) = Some peer"
| "first_p2p (_ # protos) = first_p2p protos"

text \<open>The wait for the connection, with the number of polls left.\<close>

fun await_connected :: "nat \<Rightarrow> ('w, 'p, 'm, 'a, 't, 'k, 'x) http_env \<Rightarrow> 'p \<Rightarrow> ('w, 'p, 'm, 'a, 't, 'd, unit) hact" where
  "await_connected 0 E peer_id = act_ret ()"
| "await_connected (Suc n) E peer_id =
     act_bind (on_mesh (sleep (he_mesh E) 300)) (\<lambda>_.
     act_bind (on_mesh (ask_node (he_mesh E) GetConnectedPeers None)) (\<lambda>r. case r of
       None \<Rightarrow> act_ret ()
     | Some r \<Rightarrow> if peer_id \<in> set (peers_reply r) then act_ret () else await_connected n E peer_id))"

definition remember_peer :: "string \<Rightarrow> ('w, 'p, 'm, 'a, 't, 'd, unit) hact" where
  "remember_peer addr_str s =
     (Ret (), if addr_str \<in> set (api_bootstrap s) then s
              else s\<lparr>api_bootstrap := api_bootstrap s @ [addr_str]\<rparr>)"

definition bad_multiaddr :: string where
  "bad_multiaddr = ''invalid multiaddr '' @ of_bytes [0xE2, 0x80, 0x94] @
     '' expected format: /ip4/<ip>/udp/<port>/quic-v1/p2p/<peer_id>''"

definition peers_add :: "('w, 'p, 'm, 'a, 't, 'k, 'x) http_env \<Rightarrow> string \<Rightarrow> ('w, 'p, 'm, 'a, 't, 'd, string + unit) hact" where
  "peers_add E addr_str =
     act_try (act_ret (ok_or bad_multiaddr (ma_parse E addr_str))) (\<lambda>addr.
     act_try (act_ret (ok_or ''multiaddr must contain /p2p/ protocol'' (first_p2p (ma_protocols E addr))))
       (\<lambda>peer_id.
       let addr_no_p2p = ma_pop E addr
       in act_try (tell_node E (AddBootstrapPeer peer_id addr_no_p2p)) (\<lambda>_.
          act_try (tell_node E (Dial peer_id addr_no_p2p)) (\<lambda>_.
          act_bind (await_connected 15 E peer_id) (\<lambda>_.
          act_bind (tell_node E Bootstrap) (\<lambda>_.
          act_bind (remember_peer addr_str) (\<lambda>_. act_ret (Inr ()))))))))"

definition handle_peers_add :: "('w, 'p, 'm, 'a, 't, 'k, 'x) http_env \<Rightarrow> string \<Rightarrow>
    ('w, 'p, 'm, 'a, 't, 'd, unit http_result) hact" where
  "handle_peers_add E addr = act_map_err (Pair BAD_REQUEST) (peers_add E addr)"

definition cache_entry_of :: "'d blob_store \<Rightarrow> string \<Rightarrow> cache_entry" where
  "cache_entry_of st blob_id = \<lparr>ce_blob_id = blob_id,
     ce_size = (case ok_opt (bs_blob_size st blob_id) of Some (Some n) \<Rightarrow> n | _ \<Rightarrow> 0),
     ce_pinned = (case ok_opt (is_pinned st blob_id) of Some b \<Rightarrow> b | None \<Rightarrow> False)\<rparr>"

definition handle_cache_list :: "('w, 'p, 'm, 'a, 't, 'd, cache_entry list) hact" where
  "handle_cache_list s =
     (Ret (case bs_list_blob_ids (api_store s) of
         Inr ids \<Rightarrow> map (cache_entry_of (api_store s)) ids | Inl _ \<Rightarrow> []), s)"

section \<open>The wallet\<close>

definition staking_view :: "string list \<Rightarrow> peer_info \<Rightarrow> staking_peer_info run" where
  "staking_view connected_ids p =
     (case shorten 8 8 (pi_peer_id_b58 p) of
        Panic \<Rightarrow> Panic
      | Ret short \<Rightarrow> Ret \<lparr>sp_sui_address = pi_sui_address p, sp_peer_id_short = short,
          sp_peer_object_id = pi_peer_object_id p, sp_bond = pi_bond p, sp_is_active = pi_is_active p,
          sp_is_live = (pi_peer_id_b58 p \<in> set connected_ids),
          sp_vault_reserves = map_option pv_reserves (pi_vault p),
          sp_vault_total_shares = map_option pv_total_shares (pi_vault p),
          sp_vault_commission_bps = map_option pv_commission_bps (pi_vault p),
          sp_vault_peer_earnings = map_option pv_peer_earnings (pi_vault p),
          sp_vault_object_id = map_option pv_vault_object_id (pi_vault p)\<rparr>)"

text \<open>A mapped iterator, collected: a panic of the closure ends it.\<close>

fun run_map :: "('b \<Rightarrow> 'c run) \<Rightarrow> 'b list \<Rightarrow> 'c list run" where
  "run_map f [] = Ret []"
| "run_map f (x # xs) = (case f x of Panic \<Rightarrow> Panic
     | Ret y \<Rightarrow> (case run_map f xs of Panic \<Rightarrow> Panic | Ret ys \<Rightarrow> Ret (y # ys)))"

definition peers_and_connected :: "('w, 'p, 'm, 'a, 't, 'k, 'x) http_env \<Rightarrow> ('a, 'k) zing_wallet \<Rightarrow>
    ('w, 'p, 'm, 'a, 't, 'd, (peer_info list \<times> string list) http_result) hact" where
  "peers_and_connected E W =
     act_try (wallet_call (list_all_peers (me_sui (he_mesh E)) W)) (\<lambda>peers.
     act_try (internal (ask_connected E)) (\<lambda>connected.
       act_ret (Inr (peers, map (pid_show (he_mesh E)) connected))))"

definition handle_staking :: "('w, 'p, 'm, 'a, 't, 'k, 'x) http_env \<Rightarrow> ('p, 'm, 'a, 'k) http_conf \<Rightarrow>
    ('w, 'p, 'm, 'a, 't, 'd, staking_peer_info list http_result) hact" where
  "handle_staking E C = with_wallet C (\<lambda>W.
     act_try (peers_and_connected E W) (\<lambda>(peers, connected_ids).
     act_bind (act_run (run_map (staking_view connected_ids) peers)) (\<lambda>result.
     act_ret (Inr result))))"

definition my_peer_view :: "string \<Rightarrow> string list \<Rightarrow> peer_info option \<Rightarrow> my_peer_info run" where
  "my_peer_view wallet_address connected_ids my_peer =
     (case my_peer of
        Some p \<Rightarrow> (case shorten 8 8 (pi_peer_id_b58 p) of
            Panic \<Rightarrow> Panic
          | Ret short \<Rightarrow> Ret \<lparr>mp_wallet_address = wallet_address, mp_peer_object_id = pi_peer_object_id p,
              mp_peer_id_short = Some short, mp_bond = Some (pi_bond p),
              mp_is_active = Some (pi_is_active p),
              mp_is_live = Some (pi_peer_id_b58 p \<in> set connected_ids), mp_is_registered = True\<rparr>)
      | None \<Rightarrow> Ret \<lparr>mp_wallet_address = wallet_address, mp_peer_object_id = [],
          mp_peer_id_short = None, mp_bond = None, mp_is_active = None, mp_is_live = None,
          mp_is_registered = False\<rparr>)"

definition handle_my_peer :: "('w, 'p, 'm, 'a, 't, 'k, 'x) http_env \<Rightarrow> ('p, 'm, 'a, 'k) http_conf \<Rightarrow>
    ('w, 'p, 'm, 'a, 't, 'd, my_peer_info http_result) hact" where
  "handle_my_peer E C = with_wallet C (\<lambda>W.
     let wallet_address = addr_show_alt (me_sui (he_mesh E)) (wl_address W)
     in act_try (peers_and_connected E W) (\<lambda>(peers, connected_ids).
        let my_peer = List.find (\<lambda>p. pi_sui_address p = wallet_address) peers
        in act_bind (act_run (my_peer_view wallet_address connected_ids my_peer)) (\<lambda>info.
           act_ret (Inr info))))"

definition handle_balance :: "('w, 'p, 'm, 'a, 't, 'k, 'x) http_env \<Rightarrow> ('p, 'm, 'a, 'k) http_conf \<Rightarrow>
    ('w, 'p, 'm, 'a, 't, 'd, wal_balance http_result) hact" where
  "handle_balance E C = with_wallet C (\<lambda>W.
     act_try (wallet_call (get_wal_balance (me_sui (he_mesh E)) W)) (\<lambda>balance.
     act_ret (Inr \<lparr>wb_balance = balance, wb_balance_wal = balance_wal balance\<rparr>)))"

text \<open>The end of the handlers that submit a transaction.\<close>

definition success :: "string \<Rightarrow> ('w, 'a, 't, unit zresult) wact \<Rightarrow>
    ('w, 'p, 'm, 'a, 't, 'd, register_result http_result) hact" where
  "success message m = act_try (wallet_call m)
     (\<lambda>_. act_ret (Inr \<lparr>rg_success = True, rg_message = message\<rparr>))"

definition handle_register :: "('w, 'p, 'm, 'a, 't, 'k, 'x) http_env \<Rightarrow> ('p, 'm, 'a, 'k) http_conf \<Rightarrow>
    ('w, 'p, 'm, 'a, 't, 'd, register_result http_result) hact" where
  "handle_register E C = with_wallet C (\<lambda>W. success ''Peer registered successfully''
     (register_peer (me_sui (he_mesh E)) W (pid_to_bytes E (hc_peer_id C))))"

definition handle_update_peer_id :: "('w, 'p, 'm, 'a, 't, 'k, 'x) http_env \<Rightarrow> ('p, 'm, 'a, 'k) http_conf \<Rightarrow>
    ('w, 'p, 'm, 'a, 't, 'd, register_result http_result) hact" where
  "handle_update_peer_id E C = with_wallet C (\<lambda>W. success ''Peer ID updated successfully''
     (update_peer_id (me_sui (he_mesh E)) W (pid_to_bytes E (hc_peer_id C))))"

fun vault_view :: "peer_vault_info option \<Rightarrow> my_vault_info" where
  "vault_view (Some v) = \<lparr>mv_has_vault = True, mv_reserves = Some (pv_reserves v),
     mv_total_shares = Some (pv_total_shares v), mv_commission_bps = Some (pv_commission_bps v),
     mv_peer_earnings = Some (pv_peer_earnings v), mv_vault_object_id = Some (pv_vault_object_id v)\<rparr>"
| "vault_view None = \<lparr>mv_has_vault = False, mv_reserves = None, mv_total_shares = None,
     mv_commission_bps = None, mv_peer_earnings = None, mv_vault_object_id = None\<rparr>"

definition handle_my_vault :: "('w, 'p, 'm, 'a, 't, 'k, 'x) http_env \<Rightarrow> ('p, 'm, 'a, 'k) http_conf \<Rightarrow>
    ('w, 'p, 'm, 'a, 't, 'd, my_vault_info http_result) hact" where
  "handle_my_vault E C = with_wallet C (\<lambda>W.
     act_try (wallet_call (get_my_vault_info (me_sui (he_mesh E)) W)) (\<lambda>vault.
     act_ret (Inr (vault_view vault))))"

definition handle_create_vault :: "('w, 'p, 'm, 'a, 't, 'k, 'x) http_env \<Rightarrow> ('p, 'm, 'a, 'k) http_conf \<Rightarrow>
    ('w, 'p, 'm, 'a, 't, 'd, register_result http_result) hact" where
  "handle_create_vault E C = with_wallet C (\<lambda>W. success ''Vault created successfully''
     (create_vault (me_sui (he_mesh E)) W))"

definition share_view_of :: "share_certificate_info \<Rightarrow> share_view run" where
  "share_view_of c =
     (case shorten 10 4 (sc_vault_address c) of
        Panic \<Rightarrow> Panic
      | Ret addr_short \<Rightarrow> Ret \<lparr>sv_cert_object_id = sc_cert_object_id c, sv_vault_address = addr_short,
          sv_shares = sc_shares c, sv_estimated_value = sc_estimated_value c\<rparr>)"

definition handle_my_shares :: "('w, 'p, 'm, 'a, 't, 'k, 'x) http_env \<Rightarrow> ('p, 'm, 'a, 'k) http_conf \<Rightarrow>
    ('w, 'p, 'm, 'a, 't, 'd, share_view list http_result) hact" where
  "handle_my_shares E C = with_wallet C (\<lambda>W.
     act_try (wallet_call (list_my_share_certificates (me_sui (he_mesh E)) W)) (\<lambda>certs.
     act_bind (act_run (run_map share_view_of certs)) (\<lambda>result. act_ret (Inr result))))"

definition handle_claim_earnings :: "('w, 'p, 'm, 'a, 't, 'k, 'x) http_env \<Rightarrow> ('p, 'm, 'a, 'k) http_conf \<Rightarrow>
    ('w, 'p, 'm, 'a, 't, 'd, register_result http_result) hact" where
  "handle_claim_earnings E C = with_wallet C (\<lambda>W. success ''Earnings claimed successfully''
     (claim_earnings (me_sui (he_mesh E)) W))"

definition handle_delegate :: "('w, 'p, 'm, 'a, 't, 'k, 'x) http_env \<Rightarrow> ('p, 'm, 'a, 'k) http_conf \<Rightarrow>
    string \<Rightarrow> string \<Rightarrow> ('w, 'p, 'm, 'a, 't, 'd, register_result http_result) hact" where
  "handle_delegate E C vault_object amount = with_wallet C (\<lambda>W.
     act_try (act_ret (map_err (Pair BAD_REQUEST) (parse_wal_amount amount))) (\<lambda>amount_frost.
     success ''Delegated successfully'' (delegate (me_sui (he_mesh E)) W vault_object amount_frost)))"

definition handle_undelegate :: "('w, 'p, 'm, 'a, 't, 'k, 'x) http_env \<Rightarrow> ('p, 'm, 'a, 'k) http_conf \<Rightarrow>
    string \<Rightarrow> ('w, 'p, 'm, 'a, 't, 'd, register_result http_result) hact" where
  "handle_undelegate E C cert_object_id = with_wallet C (\<lambda>W. success ''Undelegated successfully''
     (undelegate (me_sui (he_mesh E)) W cert_object_id))"

section \<open>The routes\<close>

text \<open>A request with its query, the method and path the router binds to its handler, and the answers.\<close>

datatype request =
    ReqResolve string
  | ReqResolveStream string
  | ReqHealth
  | ReqPeers
  | ReqPeersAdd string
  | ReqCache
  | ReqStaking
  | ReqMyPeer
  | ReqBalance
  | ReqRegister
  | ReqUpdatePeerId
  | ReqMyVault
  | ReqCreateVault
  | ReqMyShares
  | ReqClaimEarnings
  | ReqDelegate string string
  | ReqUndelegate string

datatype http_method = GET | POST

fun route :: "request \<Rightarrow> http_method \<times> string" where
  "route (ReqResolve _) = (GET, ''/api/v1/resolve'')"
| "route (ReqResolveStream _) = (GET, ''/api/v1/resolve/stream'')"
| "route ReqHealth = (GET, ''/api/v1/health'')"
| "route ReqPeers = (GET, ''/api/v1/peers'')"
| "route (ReqPeersAdd _) = (GET, ''/api/v1/peers/add'')"
| "route ReqCache = (GET, ''/api/v1/cache'')"
| "route ReqStaking = (GET, ''/api/v1/staking'')"
| "route ReqMyPeer = (GET, ''/api/v1/my_peer'')"
| "route ReqBalance = (GET, ''/api/v1/balance'')"
| "route ReqRegister = (POST, ''/api/v1/register'')"
| "route ReqUpdatePeerId = (POST, ''/api/v1/update_peer_id'')"
| "route ReqMyVault = (GET, ''/api/v1/my_vault'')"
| "route ReqCreateVault = (POST, ''/api/v1/create_vault'')"
| "route ReqMyShares = (GET, ''/api/v1/my_shares'')"
| "route ReqClaimEarnings = (POST, ''/api/v1/claim_earnings'')"
| "route (ReqDelegate _ _) = (POST, ''/api/v1/delegate'')"
| "route (ReqUndelegate _) = (POST, ''/api/v1/undelegate'')"

datatype http_body =
    BodyBlob http_blob_info
  | BodyEvents "http_event list"
  | BodyHealth health_status
  | BodyPeers peers_info
  | BodyOk
  | BodyCache "cache_entry list"
  | BodyStaking "staking_peer_info list"
  | BodyMyPeer my_peer_info
  | BodyBalance wal_balance
  | BodyDone register_result
  | BodyMyVault my_vault_info
  | BodyShares "share_view list"

definition json :: "('r \<Rightarrow> http_body) \<Rightarrow> ('w, 'p, 'm, 'a, 't, 'd, 'r http_result) hact \<Rightarrow>
    ('w, 'p, 'm, 'a, 't, 'd, http_body http_result) hact" where
  "json f m = act_try m (\<lambda>r. act_ret (Inr (f r)))"

definition plain :: "('r \<Rightarrow> http_body) \<Rightarrow> ('w, 'p, 'm, 'a, 't, 'd, 'r) hact \<Rightarrow>
    ('w, 'p, 'm, 'a, 't, 'd, http_body http_result) hact" where
  "plain f m = act_bind m (\<lambda>r. act_ret (Inr (f r)))"

fun serve :: "('w, 'p, 'm, 'a, 't, 'k, 'x) http_env \<Rightarrow> ('p, 'm, 'a, 'k) http_conf \<Rightarrow> request \<Rightarrow>
    ('w, 'p, 'm, 'a, 't, 'd, http_body http_result) hact" where
  "serve E C (ReqResolve blob_id) = json BodyBlob (handle_resolve E C blob_id)"
| "serve E C (ReqResolveStream blob_id) = plain BodyEvents (handle_resolve_stream E C blob_id)"
| "serve E C ReqHealth = plain BodyHealth (handle_health E C)"
| "serve E C ReqPeers = json BodyPeers (handle_peers_list E C)"
| "serve E C (ReqPeersAdd addr) = json (\<lambda>_. BodyOk) (handle_peers_add E addr)"
| "serve E C ReqCache = plain BodyCache handle_cache_list"
| "serve E C ReqStaking = json BodyStaking (handle_staking E C)"
| "serve E C ReqMyPeer = json BodyMyPeer (handle_my_peer E C)"
| "serve E C ReqBalance = json BodyBalance (handle_balance E C)"
| "serve E C ReqRegister = json BodyDone (handle_register E C)"
| "serve E C ReqUpdatePeerId = json BodyDone (handle_update_peer_id E C)"
| "serve E C ReqMyVault = json BodyMyVault (handle_my_vault E C)"
| "serve E C ReqCreateVault = json BodyDone (handle_create_vault E C)"
| "serve E C ReqMyShares = json BodyShares (handle_my_shares E C)"
| "serve E C ReqClaimEarnings = json BodyDone (handle_claim_earnings E C)"
| "serve E C (ReqDelegate vault_object amount) = json BodyDone (handle_delegate E C vault_object amount)"
| "serve E C (ReqUndelegate cert_object_id) = json BodyDone (handle_undelegate E C cert_object_id)"

end
