(* ===== verification/Config.thy ===== *)
theory Config
  imports Http
begin

text \<open>
  Where a node's settings come from: \<^verbatim>\<open>zing-cdn-core/src/config.rs\<close>, the part of
  \<^verbatim>\<open>zing-cdn/src/main.rs\<close> that combines the configuration file with the command line, and the
  loading of the wallet's key in \<^verbatim>\<open>zing-cdn-core/src/sui/wallet.rs\<close>. The process environment, the
  file system and the TOML and JSON parsers are the record \<open>host\<close>. Paths are strings.
\<close>

section \<open>The configuration file\<close>

record settlement_section =
  ss_package :: "string option"
  ss_settlement_object :: "string option"
  ss_vault_object :: "string option"
  ss_registry_object :: "string option"
  ss_registry_peers_table :: "string option"
  ss_peer_vaults_table :: "string option"
  ss_peer_vault_registry :: "string option"
  ss_registry_version :: "u64 option"
  ss_settlement_version :: "u64 option"
  ss_vault_version :: "u64 option"
  ss_peer_vaults_version :: "u64 option"
  ss_peer_vault_registry_version :: "u64 option"

record zing_config =
  zc_settlement :: "settlement_section option"

record host =
  env_var :: "string \<Rightarrow> string option"
  read_to_string :: "string \<Rightarrow> string + string"
  toml_config :: "string \<Rightarrow> zing_config option"
  json_strings :: "string \<Rightarrow> string + string list"

text \<open>\<^verbatim>\<open>PathBuf::join\<close>: an absolute path replaces, and no separator is doubled.\<close>

definition path_join :: "string \<Rightarrow> string \<Rightarrow> string" where
  "path_join a b =
     (if b \<noteq> [] \<and> hd b = CHR ''/'' then b
      else if a = [] \<or> last a = CHR ''/'' then a @ b
      else a @ ''/'' @ b)"

definition home_dir :: "host \<Rightarrow> string" where
  "home_dir H = (case env_var H ''HOME'' of
     Some home \<Rightarrow> home
   | None \<Rightarrow> (case env_var H ''USERPROFILE'' of Some home \<Rightarrow> home | None \<Rightarrow> ''/tmp''))"

definition default_path :: "host \<Rightarrow> string" where
  "default_path H = path_join (path_join (home_dir H) ''.zing-cdn'') ''config.toml''"

definition default_config :: zing_config where
  "default_config = \<lparr>zc_settlement = None\<rparr>"

definition load_from :: "host \<Rightarrow> string \<Rightarrow> zing_config" where
  "load_from H path = (case read_to_string H path of
     Inr content \<Rightarrow> (case toml_config H content of Some cfg \<Rightarrow> cfg | None \<Rightarrow> default_config)
   | Inl _ \<Rightarrow> default_config)"

definition load :: "host \<Rightarrow> zing_config" where
  "load H = load_from H (default_path H)"

fun strip_prefix :: "string \<Rightarrow> string \<Rightarrow> string option" where
  "strip_prefix [] s = Some s"
| "strip_prefix (p # ps) (c # cs) = (if p = c then strip_prefix ps cs else None)"
| "strip_prefix (p # ps) [] = None"

definition resolve_cache_dir :: "host \<Rightarrow> string \<Rightarrow> string" where
  "resolve_cache_dir H path = (case strip_prefix ''~/'' path of
     Some rest \<Rightarrow> path_join (home_dir H) rest
   | None \<Rightarrow> path)"

section \<open>The key of the wallet\<close>

text \<open>The characters \<^verbatim>\<open>trim\<close> removes, in UTF-8.\<close>

definition whitespace :: "bytes list" where
  "whitespace = [[0x09], [0x0A], [0x0B], [0x0C], [0x0D], [0x20], [0xC2, 0x85], [0xC2, 0xA0], [0xE1, 0x9A, 0x80],
     [0xE2, 0x80, 0x80], [0xE2, 0x80, 0x81], [0xE2, 0x80, 0x82], [0xE2, 0x80, 0x83], [0xE2, 0x80, 0x84],
     [0xE2, 0x80, 0x85], [0xE2, 0x80, 0x86], [0xE2, 0x80, 0x87], [0xE2, 0x80, 0x88], [0xE2, 0x80, 0x89],
     [0xE2, 0x80, 0x8A], [0xE2, 0x80, 0xA8], [0xE2, 0x80, 0xA9], [0xE2, 0x80, 0xAF], [0xE2, 0x81, 0x9F],
     [0xE3, 0x80, 0x80]]"

text \<open>
  Pieces of a list removed from the front of a string as long as one matches. A piece is not
  empty, so that the rest gets shorter.
\<close>

definition first_match :: "string list \<Rightarrow> string \<Rightarrow> string option" where
  "first_match ps s = (case List.find (\<lambda>p. p \<noteq> [] \<and> strip_prefix p s \<noteq> None) ps of
     Some p \<Rightarrow> strip_prefix p s | None \<Rightarrow> None)"

lemma strip_prefix_Some: "strip_prefix p s = Some r \<longleftrightarrow> s = p @ r"
  by (induction p s rule: strip_prefix.induct) auto

lemma first_match_shorter: "first_match ps s = Some r \<Longrightarrow> length r < length s"
  by (auto simp: first_match_def find_Some_iff strip_prefix_Some split: option.splits)

function trim_start :: "string list \<Rightarrow> string \<Rightarrow> string" where
  "trim_start ps s = (case first_match ps s of Some r \<Rightarrow> trim_start ps r | None \<Rightarrow> s)"
  by pat_completeness auto
termination
  by (relation "measure (\<lambda>(ps, s). length s)") (auto dest: first_match_shorter)

declare trim_start.simps [simp del]

definition trim_end :: "string list \<Rightarrow> string \<Rightarrow> string" where
  "trim_end ps s = rev (trim_start (map rev ps) (rev s))"

definition trim :: "string \<Rightarrow> string" where
  "trim s = (let ws = map of_bytes whitespace in trim_end ws (trim_start ws s))"

text \<open>\<^verbatim>\<open>str::lines\<close>: the pieces between line feeds without a final carriage return; an empty last
  piece is no line.\<close>

definition strip_cr :: "string \<Rightarrow> string" where
  "strip_cr s = (if s \<noteq> [] \<and> last s = CHR 0x0D then butlast s else s)"

definition lines :: "string \<Rightarrow> string list" where
  "lines s = (let ps = split_on CHR 0x0A s
     in map strip_cr (butlast ps) @ (if last ps = [] then [] else [last ps]))"

fun active_address :: "(string \<Rightarrow> string + 'a) \<Rightarrow> string list \<Rightarrow> 'a option" where
  "active_address parse [] = None"
| "active_address parse (line # rest) = (case strip_prefix ''active_address:'' (trim line) of
     Some a \<Rightarrow>
       let a = trim_end ['' ~''] (trim_end [[CHR 0x22]] (trim_start [[CHR 0x22]] (trim a)))
       in if a \<noteq> [] \<and> a \<noteq> ''~'' then ok_opt (parse a) else active_address parse rest
   | None \<Rightarrow> active_address parse rest)"

definition parse_active_address :: "host \<Rightarrow> (string \<Rightarrow> string + 'a) \<Rightarrow> string \<Rightarrow> 'a option" where
  "parse_active_address H parse client_yaml = (case read_to_string H client_yaml of
     Inl _ \<Rightarrow> None | Inr content \<Rightarrow> active_address parse (lines content))"

text \<open>The keys of a keystore file, and the one of the active address among them.\<close>

definition keystore_key :: "('w, 'a, 't, 'k, 'x) sui_env \<Rightarrow> host \<Rightarrow> string \<Rightarrow> string option \<Rightarrow>
    ('k \<times> 'a \<times> bytes) zresult" where
  "keystore_key E H config_dir keystore_path =
     (let keystore_file = (case keystore_path of Some p \<Rightarrow> p | None \<Rightarrow> path_join config_dir ''sui.keystore'')
      in try_bind (map_err (\<lambda>e. SuiClientErr (''keystore read: '' @ e)) (read_to_string H keystore_file)) (\<lambda>content.
         try_bind (map_err (\<lambda>e. SuiClientErr (''keystore parse: '' @ e)) (json_strings H content)) (\<lambda>keys.
         try_bind (ok_or (SuiClientErr ''no active_address in client.yaml'')
           (parse_active_address H (parse_address (se_sdk E)) (path_join config_dir ''client.yaml''))) (\<lambda>target.
         decode_first_matching E keys target))))"

definition load_key :: "('w, 'a, 't, 'k, 'x) sui_env \<Rightarrow> host \<Rightarrow> string option \<Rightarrow> ('k \<times> 'a \<times> bytes) zresult" where
  "load_key E H keystore_path =
     (let config_dir = path_join (path_join (home_dir H) ''.sui'') ''sui_config''
      in case env_var H ''ZING_CDN_SUI_PRIVATE_KEY'' of
           Some key \<Rightarrow> decode_and_derive E [key]
         | None \<Rightarrow> (case env_var H ''ZING_CDN_SUI_KEYSTORE_JSON'' of
             Some js \<Rightarrow>
               try_bind (map_err (\<lambda>e. SuiClientErr (''env ZING_CDN_SUI_KEYSTORE_JSON: '' @ e)) (json_strings H js))
                 (\<lambda>keys. decode_and_derive E keys)
           | None \<Rightarrow> keystore_key E H config_dir keystore_path))"

definition from_keystore :: "('w, 'a, 't, 'k, 'x) sui_env \<Rightarrow> host \<Rightarrow> string option \<Rightarrow>
    'a settlement_config option \<Rightarrow> ('a, 'k) zing_wallet zresult" where
  "from_keystore E H keystore_path settlement =
     try_bind (load_key E H keystore_path) (\<lambda>(keypair, address, seed).
       Inr \<lparr>wl_address = address, wl_keypair = keypair, wl_seed = seed, wl_settlement = settlement,
            wl_rpc_url = ''https://fullnode.mainnet.sui.io:443''\<rparr>)"

section \<open>The settlement contract\<close>

datatype command = Get string | Cat string | Metadata string | Status string | Verify string | CmdList
  | Pin string | Unpin string | Info string

record 'm cli =
  cl_cache_dir :: string
  cl_listen :: 'm
  cl_external_addr :: "'m list"
  cl_bootstrap :: "string list"
  cl_serve :: bool
  cl_sui_keystore :: "string option"
  cl_settlement_package :: "string option"
  cl_settlement_object :: "string option"
  cl_vault_object :: "string option"
  cl_registry_object :: "string option"
  cl_api_port :: u16
  cl_command :: "command option"

text \<open>A flag of the command line, or else the field of the configuration file.\<close>

definition flag_or :: "string option \<Rightarrow> (settlement_section \<Rightarrow> string option) \<Rightarrow> zing_config \<Rightarrow> string option" where
  "flag_or flag fld cfg = (case flag of Some v \<Rightarrow> Some v | None \<Rightarrow> Option.bind (zc_settlement cfg) fld)"

definition version_or :: "(settlement_section \<Rightarrow> u64 option) \<Rightarrow> u64 \<Rightarrow> zing_config \<Rightarrow> u64" where
  "version_or fld dflt cfg = (case Option.bind (zc_settlement cfg) fld of Some v \<Rightarrow> v | None \<Rightarrow> dflt)"

definition hex_digit :: "char \<Rightarrow> nat option" where
  "hex_digit c = (let n = of_char c :: nat
     in if 48 \<le> n \<and> n \<le> 57 then Some (n - 48)
        else if 97 \<le> n \<and> n \<le> 102 then Some (n - 87)
        else if 65 \<le> n \<and> n \<le> 70 then Some (n - 55)
        else None)"

text \<open>\<^verbatim>\<open>u8::from_str_radix(s, 16)\<close>, which accepts a leading plus sign.\<close>

fun hex_digits :: "nat \<Rightarrow> string \<Rightarrow> nat option" where
  "hex_digits acc [] = Some acc"
| "hex_digits acc (c # cs) = (case hex_digit c of
     None \<Rightarrow> None
   | Some d \<Rightarrow> if acc * 16 + d < 256 then hex_digits (acc * 16 + d) cs else None)"

definition from_str_radix_16 :: "string \<Rightarrow> u8 option" where
  "from_str_radix_16 s =
     (if s = [] \<or> s = ''+'' \<or> s = ''-'' then None
      else map_option word_of_nat (hex_digits 0 (if hd s = CHR ''+'' then tl s else s)))"

definition hex_at :: "string \<Rightarrow> nat \<Rightarrow> u8 option run" where
  "hex_at s i = bind_run (str_slice (i * 2) (i * 2 + 2) s) (\<lambda>t. Ret (from_str_radix_16 t))"

text \<open>The table's id: 64 characters, in which a bad pair counts as zero, or all zeros.\<close>

definition table_id :: "string \<Rightarrow> bytes run" where
  "table_id s =
     (if length s = 64
      then run_map (\<lambda>i. bind_run (hex_at s i) (\<lambda>b. Ret (case b of Some b \<Rightarrow> b | None \<Rightarrow> 0))) [0..<32]
      else Ret (replicate 32 0))"

text \<open>The vault's id for the DHT record: here a bad pair gives up.\<close>

fun all_pairs :: "string \<Rightarrow> nat list \<Rightarrow> bytes option run" where
  "all_pairs s [] = Ret (Some [])"
| "all_pairs s (i # is) = bind_run (hex_at s i) (\<lambda>b. case b of
     None \<Rightarrow> Ret None
   | Some b \<Rightarrow> bind_run (all_pairs s is) (\<lambda>bs. Ret (map_option ((#) b) bs)))"

definition vault_bytes :: "string option \<Rightarrow> bytes option run" where
  "vault_bytes vault_object = (case vault_object of
     None \<Rightarrow> Ret None
   | Some v \<Rightarrow> let hex_str = strip_0x v
       in if length hex_str \<noteq> 64 then Ret None else all_pairs hex_str [0..<32])"

text \<open>\<^verbatim>\<open>and_then(|v| v.parse().ok()).unwrap_or_else(|| default.parse().expect(..))\<close>\<close>

definition parsed_or :: "('a, 't) sui_sdk \<Rightarrow> string option \<Rightarrow> string \<Rightarrow> 'a run" where
  "parsed_or K given dflt = (case Option.bind given (\<lambda>v. ok_opt (parse_address K v)) of
     Some a \<Rightarrow> Ret a | None \<Rightarrow> expect (parse_address K dflt))"

definition settlement_of :: "('a, 't) sui_sdk \<Rightarrow> 'm cli \<Rightarrow> zing_config \<Rightarrow> 'a settlement_config option run" where
  "settlement_of K cli cfg =
     (case (flag_or (cl_settlement_package cli) ss_package cfg,
            flag_or (cl_settlement_object cli) ss_settlement_object cfg) of
        (Some pkg, Some obj) \<Rightarrow>
          let package = ok_opt (parse_address K pkg);
              settlement = ok_opt (parse_address K obj);
              vault = Option.bind (flag_or (cl_vault_object cli) ss_vault_object cfg)
                (\<lambda>v. ok_opt (parse_address K v))
          in bind_run (parsed_or K (flag_or (cl_registry_object cli) ss_registry_object cfg)
               ''0x97b5153b9e9897ad1630cdd06e5caa81ebbf8865e96003f38e50c5f1d6752527'') (\<lambda>registry.
             bind_run (parsed_or K (flag_or None ss_registry_peers_table cfg)
               ''0xbcd17d4df8489569fdca7bc9a795c16a73560efbde2355d91ef9195bf676ea00'') (\<lambda>peers_table.
             bind_run (table_id (strip_0x (case flag_or None ss_peer_vaults_table cfg of
                 Some t \<Rightarrow> t
               | None \<Rightarrow> ''0x465bf3e99dff79a56705b111396ee5b9bd35f2a1aac70d118f466a7c581e0e07''))) (\<lambda>vaults_table.
               let vault_registry = Option.bind (flag_or None ss_peer_vault_registry cfg)
                     (\<lambda>v. ok_opt (parse_address K v));
                   wal = ok_opt (parse_address K
                     ''0x356a26eb9e012a68958082340d4c4116e7f55615cf27affcff209cf0ae544f59'')
               in Ret (case (package, settlement, wal) of
                  (Some package, Some settlement, Some wal) \<Rightarrow> Some
                    \<lparr>package_id = package, settlement_object_id = settlement, registry_object_id = registry,
                     registry_peers_table_id = peers_table, peer_vaults_table_id = vaults_table,
                     peer_vault_registry_id = vault_registry, vault_object_id = vault,
                     wal_coin_type =
                       ''0x356a26eb9e012a68958082340d4c4116e7f55615cf27affcff209cf0ae544f59::wal::WAL'',
                     wal_package_id = wal,
                     registry_initial_shared_version = version_or ss_registry_version 921074118 cfg,
                     settlement_initial_shared_version = version_or ss_settlement_version 921074118 cfg,
                     vault_initial_shared_version = version_or ss_vault_version 921074119 cfg,
                     peer_vaults_initial_shared_version = version_or ss_peer_vaults_version 923306507 cfg,
                     peer_vault_registry_initial_shared_version =
                       version_or ss_peer_vault_registry_version 923306507 cfg,
                     share_certificate_type =
                       ''0x9dd1a5dc551e322dd1b0394514ece30eb1e5f54d5de5b1f6fe135ebe24032b9c::peer_vault::ShareCertificate''\<rparr>
                | _ \<Rightarrow> None))))
      | _ \<Rightarrow> Ret None)"

end
