(* ===== verification/Cli.thy ===== *)
theory Cli
  imports Config
begin

text \<open>
  \<^verbatim>\<open>zing-cdn/src/main.rs\<close>, the command line program, and \<^verbatim>\<open>zing-cdn-core/src/client.rs\<close>, which
  connects it to Walrus. The state is what the API's handlers share, the standard output, and a
  trace of what the node's task was started with. Argument parsing, the logging set-up and the
  HTTP listener are library code; standard output accepts what is written to it. The node's task
  and the API server run beside the command and are modelled in \<open>Node\<close> and \<open>Http\<close>.
\<close>

section \<open>Connecting to Walrus\<close>

record ('w, 'c, 'o) client_sdk =
  object_id_hex :: "string \<Rightarrow> string + 'o"
  contract_config :: "'o \<Rightarrow> 'o \<Rightarrow> 'c"
  push_rpc_url :: "string \<Rightarrow> 'c \<Rightarrow> 'c"
  new_retriable :: "'c \<Rightarrow> string + unit"
  new_read_client :: "'c \<Rightarrow> 'w \<Rightarrow> (string + unit) \<times> 'w"
  build_refresher :: "'c \<Rightarrow> 'w \<Rightarrow> (string + u16) \<times> 'w"
  new_node_client :: "'c \<Rightarrow> string + unit"

record 'p zing_client =
  zk_n_shards :: u16
  zk_p2p_command_tx :: bool
  zk_p2p_peer_id :: "'p option"

definition mainnet_config :: "('w, 'c, 'o) client_sdk \<Rightarrow> 'c run" where
  "mainnet_config X =
     bind_run (expect (object_id_hex X
       ''0x2134d52768ea07e8c43570ef975eb3e4c27a39fa6396bef985b5abc58d03ddd2'')) (\<lambda>system_object.
     bind_run (expect (object_id_hex X
       ''0x10b9d30c28448939ce6c4d6c6e0ffce4a7f8a4ada8248bdad09ef8b70e4a3904'')) (\<lambda>staking_object.
     Ret (push_rpc_url X ''https://fullnode.mainnet.sui.io:443''
       (contract_config X system_object staking_object))))"

definition sdk_call :: "(string \<Rightarrow> zing_error) \<Rightarrow> ('w \<Rightarrow> (string + 'r) \<times> 'w) \<Rightarrow> ('w, 'r zresult) act" where
  "sdk_call err op w = (case op w of (r, w') \<Rightarrow> (Ret (map_err err r), w'))"

definition from_config :: "('w, 'c, 'o) client_sdk \<Rightarrow> 'c \<Rightarrow> ('w, 'p zing_client zresult) act" where
  "from_config X cfg =
     act_try (act_ret (map_err SuiClientErr (new_retriable X cfg))) (\<lambda>_.
     act_try (sdk_call SuiClientErr (new_read_client X cfg)) (\<lambda>_.
     act_try (sdk_call WalrusClient (build_refresher X cfg)) (\<lambda>n_shards.
     act_try (act_ret (map_err WalrusClient (new_node_client X cfg))) (\<lambda>_.
     act_ret (Inr \<lparr>zk_n_shards = n_shards, zk_p2p_command_tx = False, zk_p2p_peer_id = None\<rparr>)))))"

definition from_mainnet :: "('w, 'c, 'o) client_sdk \<Rightarrow> ('w, 'p zing_client zresult) act" where
  "from_mainnet X = act_bind (act_run (mainnet_config X)) (from_config X)"

definition set_p2p_handle :: "'p \<Rightarrow> 'p zing_client \<Rightarrow> 'p zing_client" where
  "set_p2p_handle peer_id client = client\<lparr>zk_p2p_command_tx := True, zk_p2p_peer_id := Some peer_id\<rparr>"

section \<open>The program's state\<close>

record ('w, 'p, 'm, 'a, 't, 'k, 'x, 'c, 'o) cli_env =
  cv_http :: "('w, 'p, 'm, 'a, 't, 'k, 'x) http_env"
  cv_client :: "('w, 'c, 'o) client_sdk"
  cv_show_encoding :: "encoding_type \<Rightarrow> string"
  cv_peer_of_seed :: "bytes \<Rightarrow> 'p option"
  cv_create_dir_all :: "string \<Rightarrow> bool"

record ('p, 'm) node_args =
  na_listen :: 'm
  na_bootstrap :: "('p \<times> 'm) list"
  na_external :: "'m list"
  na_sui_address :: "bytes option"
  na_vault :: "bytes option"

record ('w, 'p, 'm, 'a, 't, 'd) cli_state =
  cs_api :: "('w, 'p, 'm, 'a, 't, 'd) api_state"
  cs_out :: bytes
  cs_node :: "('p, 'm) node_args option"

type_synonym ('w, 'p, 'm, 'a, 't, 'd, 'r) cact = "(('w, 'p, 'm, 'a, 't, 'd) cli_state, 'r) act"

definition on_api :: "('w, 'p, 'm, 'a, 't, 'd, 'r) hact \<Rightarrow> ('w, 'p, 'm, 'a, 't, 'd, 'r) cact" where
  "on_api m s = (case m (cs_api s) of (r, a) \<Rightarrow> (r, s\<lparr>cs_api := a\<rparr>))"

definition put_out :: "bytes \<Rightarrow> ('w, 'p, 'm, 'a, 't, 'd, unit) cact" where
  "put_out bs s = (Ret (), s\<lparr>cs_out := cs_out s @ bs\<rparr>)"

definition println :: "string \<Rightarrow> ('w, 'p, 'm, 'a, 't, 'd, unit) cact" where
  "println line = put_out (as_bytes line @ [0x0A])"

text \<open>\<^verbatim>\<open>?\<close> into \<^verbatim>\<open>anyhow::Error\<close>, whose text is the error's.\<close>

definition anyhow :: "('s, 'r zresult) act \<Rightarrow> ('s, string + 'r) act" where
  "anyhow m = act_map_err zing_display m"

definition on_client :: "('w, 'r) act \<Rightarrow> ('w, 'p, 'm, 'a, 't, 'd, 'r) cact" where
  "on_client m = on_api (on_mesh (on_walrus m))"

definition connect_mainnet :: "('w, 'p, 'm, 'a, 't, 'k, 'x, 'c, 'o) cli_env \<Rightarrow>
    ('w, 'p, 'm, 'a, 't, 'd, string + 'p zing_client) cact" where
  "connect_mainnet E = anyhow (on_client (from_mainnet (cv_client E)))"

section \<open>Helpers\<close>

definition CACHE_BUDGET_BYTES :: u64 where "CACHE_BUDGET_BYTES = 500 * 1024 * 1024"
definition DEFAULT_BOOTSTRAP :: "string list" where "DEFAULT_BOOTSTRAP = []"

fun first_udp :: "'p protocol list \<Rightarrow> u16 option" where
  "first_udp [] = None"
| "first_udp (Udp port # protos) = Some port"
| "first_udp (_ # protos) = first_udp protos"

definition extract_port :: "('w, 'p, 'm, 'a, 't, 'k, 'x) http_env \<Rightarrow> 'm \<Rightarrow> u16 option" where
  "extract_port E addr = first_udp (ma_protocols E addr)"

definition parse_bootstrap_peers :: "('w, 'p, 'm, 'a, 't, 'k, 'x) http_env \<Rightarrow> string list \<Rightarrow> ('p \<times> 'm) list" where
  "parse_bootstrap_peers E inputs = List.map_filter (\<lambda>s.
     Option.bind (ma_parse E s) (\<lambda>addr.
     Option.bind (first_p2p (ma_protocols E addr)) (\<lambda>peer_id.
     Some (peer_id, ma_pop E addr)))) inputs"

definition parse_blob_id :: "('w, 'p, 'm, 'a, 't, 'k, 'x) http_env \<Rightarrow> string \<Rightarrow> string + bytes" where
  "parse_blob_id E s = map_err (\<lambda>_. ''invalid blob ID: '' @ s) (blob_parse E s)"

text \<open>
  \<^verbatim>\<open>bytes as f64\<close>: 53 significant bits, rounded to the nearest, ties to even. Divisions by 1024
  are exact, so that the value stays the numerator over a power of 1024.
\<close>

definition round_even :: "nat \<Rightarrow> nat \<Rightarrow> nat" where
  "round_even n d = (let q = n div d; r = n mod d
     in if 2 * r > d \<or> (2 * r = d \<and> odd q) then q + 1 else q)"

fun as_f64 :: "nat \<Rightarrow> nat \<Rightarrow> nat" where
  "as_f64 0 n = n"
| "as_f64 (Suc e) n = (if n < 2 ^ (53 + e) then as_f64 e n else round_even n (2 ^ Suc e) * 2 ^ Suc e)"

definition UNITS :: "string list" where "UNITS = [''B'', ''KiB'', ''MiB'', ''GiB'', ''TiB'']"

fun unit_idx :: "nat \<Rightarrow> nat \<Rightarrow> nat \<Rightarrow> nat" where
  "unit_idx 0 n i = i"
| "unit_idx (Suc k) n i = (if n \<ge> 1024 ^ Suc i then unit_idx k n (Suc i) else i)"

definition two_decimals :: "nat \<Rightarrow> nat \<Rightarrow> string" where
  "two_decimals n d = (let q = round_even (100 * n) d
     in dec (q div 100) @ ''.'' @ (if q mod 100 < 10 then ''0'' else []) @ dec (q mod 100))"

definition format_size :: "nat \<Rightarrow> string" where
  "format_size bytes = (let n = as_f64 11 bytes; i = unit_idx 4 n 0
     in if i = 0 then dec n @ '' '' @ UNITS ! i
        else two_decimals n (1024 ^ i) @ '' '' @ UNITS ! i)"

section \<open>Commands\<close>

text \<open>The resolver of a command has a channel only when bootstrap peers were given.\<close>

definition cli_resolver :: "bool \<Rightarrow> 'p \<Rightarrow> ('a, 'k) zing_wallet \<Rightarrow> ('p, 'a, 'k) resolver" where
  "cli_resolver p2p_tx peer_id W = \<lparr>rv_budget = CACHE_BUDGET_BYTES, rv_p2p_channel = p2p_tx,
     rv_local_peer_id = Some peer_id, rv_wallet = Some W\<rparr>"

definition cli_resolve :: "('w, 'p, 'm, 'a, 't, 'k, 'x, 'c, 'o) cli_env \<Rightarrow> bool \<Rightarrow> 'p \<Rightarrow> ('a, 'k) zing_wallet \<Rightarrow>
    bytes \<Rightarrow> ('w, 'p, 'm, 'a, 't, 'd, string + resolve_result) cact" where
  "cli_resolve E p2p_tx peer_id W blob_id =
     anyhow (on_api (on_mesh (resolve (he_mesh (cv_http E)) (cli_resolver p2p_tx peer_id W) blob_id)))"

definition cmd_get :: "('w, 'p, 'm, 'a, 't, 'k, 'x, 'c, 'o) cli_env \<Rightarrow> string \<Rightarrow> bool \<Rightarrow> 'p \<Rightarrow>
    ('a, 'k) zing_wallet \<Rightarrow> string \<Rightarrow> ('w, 'p, 'm, 'a, 't, 'd, string + unit) cact" where
  "cmd_get E cache_dir p2p_tx peer_id W blob_id_str =
     act_try (act_ret (parse_blob_id (cv_http E) blob_id_str)) (\<lambda>blob_id.
     act_try (connect_mainnet E) (\<lambda>client.
     act_try (cli_resolve E p2p_tx peer_id W blob_id) (\<lambda>result.
     act_bind (if p2p_tx then act_bind (on_api (tell_node (cv_http E) (AnnounceBlob blob_id))) (\<lambda>_. act_ret ())
               else act_ret ()) (\<lambda>_.
       let n = length (rr_data result)
       in act_bind (println (''Blob:    '' @ blob_id_str)) (\<lambda>_.
          act_bind (println (''Size:    '' @ format_size n @ '' ('' @ dec n @ '' bytes)'')) (\<lambda>_.
          act_bind (println (''Source:  '' @ source_name (rr_resolution result))) (\<lambda>_.
          act_bind (println (''Cached:  '' @
            (if rr_cached result then ''yes (at '' @ cache_dir @ '')'' else ''now cached''))) (\<lambda>_.
          act_ret (Inr ())))))))))"

definition cmd_cat :: "('w, 'p, 'm, 'a, 't, 'k, 'x, 'c, 'o) cli_env \<Rightarrow> bool \<Rightarrow> 'p \<Rightarrow> ('a, 'k) zing_wallet \<Rightarrow>
    string \<Rightarrow> ('w, 'p, 'm, 'a, 't, 'd, string + unit) cact" where
  "cmd_cat E p2p_tx peer_id W blob_id_str =
     act_try (act_ret (parse_blob_id (cv_http E) blob_id_str)) (\<lambda>blob_id.
     act_try (connect_mainnet E) (\<lambda>client.
     act_try (cli_resolve E p2p_tx peer_id W blob_id) (\<lambda>result.
     act_bind (put_out (rr_data result)) (\<lambda>_. act_ret (Inr ())))))"

definition cmd_metadata :: "('w, 'p, 'm, 'a, 't, 'k, 'x, 'c, 'o) cli_env \<Rightarrow> string \<Rightarrow>
    ('w, 'p, 'm, 'a, 't, 'd, string + unit) cact" where
  "cmd_metadata E blob_id_str =
     act_try (act_ret (parse_blob_id (cv_http E) blob_id_str)) (\<lambda>blob_id.
     act_try (connect_mainnet E) (\<lambda>client.
     act_try (anyhow (on_client (fetch_metadata (me_walrus (he_mesh (cv_http E))) blob_id))) (\<lambda>m.
     act_bind (println (''Blob ID:         '' @ blob_id_str)) (\<lambda>_.
     act_bind (println (''Unencoded:        '' @ dec (unat (md_unencoded_length m)) @ '' bytes'')) (\<lambda>_.
     act_bind (println (''Encoding Type:    '' @ cv_show_encoding E (md_encoding_type m))) (\<lambda>_.
     act_ret (Inr ())))))))"

fun epoch_text :: "u32 option \<Rightarrow> string" where
  "epoch_text (Some e) = dec (unat e)"
| "epoch_text None = ''none''"

fun status_lines :: "blob_status \<Rightarrow> string list" where
  "status_lines (Permanent certified end_epoch) =
     [''Status:     permanent'', ''Certified:  epoch '' @ epoch_text certified,
      ''End Epoch:  '' @ dec (unat end_epoch)]"
| "status_lines (Deletable certified) =
     [''Status:     deletable'', ''Certified:  epoch '' @ epoch_text certified]"
| "status_lines InvalidBlob = [''Status:     invalid'']"
| "status_lines Nonexistent = [''Status:     not found'']"

fun println_all :: "string list \<Rightarrow> ('w, 'p, 'm, 'a, 't, 'd, unit) cact" where
  "println_all [] = act_ret ()"
| "println_all (l # ls) = act_bind (println l) (\<lambda>_. println_all ls)"

definition cmd_status :: "('w, 'p, 'm, 'a, 't, 'k, 'x, 'c, 'o) cli_env \<Rightarrow> string \<Rightarrow>
    ('w, 'p, 'm, 'a, 't, 'd, string + unit) cact" where
  "cmd_status E blob_id_str =
     act_try (act_ret (parse_blob_id (cv_http E) blob_id_str)) (\<lambda>blob_id.
     act_try (connect_mainnet E) (\<lambda>client.
     act_try (anyhow (on_client (check_blob_status (me_walrus (he_mesh (cv_http E))) blob_id))) (\<lambda>status.
     act_bind (println (''Blob ID:    '' @ blob_id_str)) (\<lambda>_.
     act_bind (println_all (status_lines status)) (\<lambda>_. act_ret (Inr ()))))))"

definition cmd_verify :: "('w, 'p, 'm, 'a, 't, 'k, 'x, 'c, 'o) cli_env \<Rightarrow> string \<Rightarrow>
    ('w, 'p, 'm, 'a, 't, 'd, string + unit) cact" where
  "cmd_verify E blob_id_str =
     (let X = me_walrus (he_mesh (cv_http E))
      in act_try (act_ret (parse_blob_id (cv_http E) blob_id_str)) (\<lambda>blob_id.
         act_try (connect_mainnet E) (\<lambda>client.
         act_try (anyhow (on_client (read_blob X blob_id))) (\<lambda>data.
         act_try (anyhow (on_client (fetch_metadata X blob_id))) (\<lambda>metadata.
         act_bind (case verify_blob_against_metadata X metadata data of
             Inr _ \<Rightarrow> println_all
               [''Verification: '' @ of_bytes [0xE2, 0x9C, 0x85] @ '' PASSED'',
                ''  Computed: '' @ blob_id_str, ''  Expected: '' @ blob_id_str]
           | Inl e \<Rightarrow> println_all
               [''Verification: '' @ of_bytes [0xE2, 0x9D, 0x8C] @ '' FAILED'',
                ''  Error: '' @ zing_display e]) (\<lambda>_.
         act_ret (Inr ())))))))"

text \<open>An operation of the store or of the pins, and one that changes it.\<close>

definition on_store :: "('d blob_store \<Rightarrow> 'r zresult) \<Rightarrow> ('w, 'p, 'm, 'a, 't, 'd, string + 'r) cact" where
  "on_store op s = (Ret (map_err zing_display (op (api_store (cs_api s)))), s)"

definition change_store :: "('d blob_store \<Rightarrow> 'd blob_store zresult) \<Rightarrow>
    ('w, 'p, 'm, 'a, 't, 'd, string + unit) cact" where
  "change_store op s = (case op (api_store (cs_api s)) of
     Inl e \<Rightarrow> (Ret (Inl (zing_display e)), s)
   | Inr st \<Rightarrow> (Ret (Inr ()), s\<lparr>cs_api := (cs_api s)\<lparr>api_store := st\<rparr>\<rparr>))"

fun list_entries :: "string list \<Rightarrow> ('w, 'p, 'm, 'a, 't, 'd, string + unit) cact" where
  "list_entries [] = act_ret (Inr ())"
| "list_entries (i # is) =
     act_try (on_store (\<lambda>st. bs_blob_size st i)) (\<lambda>n.
     act_try (on_store (\<lambda>st. is_pinned st i)) (\<lambda>p.
     act_bind (println (''  '' @ i @ ''  '' @ format_size (case n of Some n \<Rightarrow> unat n | None \<Rightarrow> 0) @
       ''  pinned: '' @ (if p then ''yes'' else ''no ''))) (\<lambda>_.
     list_entries is)))"

definition cmd_list :: "('w, 'p, 'm, 'a, 't, 'd, string + unit) cact" where
  "cmd_list =
     act_try (on_store bs_list_blob_ids) (\<lambda>ids.
       if ids = [] then act_ret (Inr ())
       else act_bind (println ''Cached Blobs:'') (\<lambda>_. list_entries ids))"

definition cmd_pin :: "string \<Rightarrow> ('w, 'p, 'm, 'a, 't, 'd, string + unit) cact" where
  "cmd_pin blob_id_str =
     act_try (on_store (\<lambda>st. bs_get st blob_id_str)) (\<lambda>found.
       if found = None then act_ret (Inl (''blob '' @ blob_id_str @
         '' not found in cache. fetch it first with `zing-cdn get '' @ blob_id_str @ ''`''))
       else
         act_try (change_store (\<lambda>st. pin st blob_id_str)) (\<lambda>_.
         act_bind (println (''Blob '' @ blob_id_str @ '' pinned'')) (\<lambda>_. act_ret (Inr ()))))"

definition cmd_unpin :: "string \<Rightarrow> ('w, 'p, 'm, 'a, 't, 'd, string + unit) cact" where
  "cmd_unpin blob_id_str =
     act_try (change_store (\<lambda>st. unpin st blob_id_str)) (\<lambda>_.
     act_bind (println (''Blob '' @ blob_id_str @ '' unpinned'')) (\<lambda>_. act_ret (Inr ())))"

definition cmd_info :: "string \<Rightarrow> ('w, 'p, 'm, 'a, 't, 'd, string + unit) cact" where
  "cmd_info blob_id_str =
     act_try (on_store (\<lambda>st. bs_get st blob_id_str)) (\<lambda>found. case found of
       None \<Rightarrow> act_ret (Inl (''blob '' @ blob_id_str @ '' not found in cache''))
     | Some data \<Rightarrow>
         act_try (on_store (\<lambda>st. is_pinned st blob_id_str)) (\<lambda>p.
         act_bind (println_all
           [''Blob ID:  '' @ blob_id_str,
            ''State:    '' @ (if p then ''Pinned'' else ''Cached''),
            ''Pinned:   '' @ (if p then ''yes'' else ''no''),
            ''Size:     '' @ format_size (length data) @ '' ('' @ dec (length data) @ '' bytes)'']) (\<lambda>_.
         act_ret (Inr ()))))"

section \<open>The program\<close>

fun run_command :: "('w, 'p, 'm, 'a, 't, 'k, 'x, 'c, 'o) cli_env \<Rightarrow> string \<Rightarrow> bool \<Rightarrow> 'p \<Rightarrow>
    ('a, 'k) zing_wallet \<Rightarrow> command \<Rightarrow> ('w, 'p, 'm, 'a, 't, 'd, string + unit) cact" where
  "run_command E cache_dir p2p_tx peer_id W (Get blob_id) = cmd_get E cache_dir p2p_tx peer_id W blob_id"
| "run_command E cache_dir p2p_tx peer_id W (Cat blob_id) = cmd_cat E p2p_tx peer_id W blob_id"
| "run_command E cache_dir p2p_tx peer_id W (Metadata blob_id) = cmd_metadata E blob_id"
| "run_command E cache_dir p2p_tx peer_id W (Status blob_id) = cmd_status E blob_id"
| "run_command E cache_dir p2p_tx peer_id W (Verify blob_id) = cmd_verify E blob_id"
| "run_command E cache_dir p2p_tx peer_id W CmdList = cmd_list"
| "run_command E cache_dir p2p_tx peer_id W (Pin blob_id) = cmd_pin blob_id"
| "run_command E cache_dir p2p_tx peer_id W (Unpin blob_id) = cmd_unpin blob_id"
| "run_command E cache_dir p2p_tx peer_id W (Info blob_id) = cmd_info blob_id"

text \<open>How the program goes on: it ends, exits with a code, or waits for Ctrl+C, with the API or without.\<close>

datatype ('p, 'm, 'a, 'k) main_end = Done | ExitCode nat | Serving "('p, 'm, 'a, 'k) http_conf option"

definition bootstrap_args :: "'m cli \<Rightarrow> string list" where
  "bootstrap_args cli = fold (\<lambda>bp bs. if bp \<in> set bs then bs else bs @ [bp]) DEFAULT_BOOTSTRAP (cl_bootstrap cli)"

definition start_node :: "('p, 'm) node_args \<Rightarrow> ('w, 'p, 'm, 'a, 't, 'd, unit) cact" where
  "start_node args s = (Ret (), s\<lparr>cs_node := Some args\<rparr>)"

definition set_bootstrap :: "string list \<Rightarrow> ('w, 'p, 'm, 'a, 't, 'd, unit) cact" where
  "set_bootstrap bs s = (Ret (), s\<lparr>cs_api := (cs_api s)\<lparr>api_bootstrap := bs\<rparr>\<rparr>)"

definition auto_register :: "('w, 'p, 'm, 'a, 't, 'k, 'x, 'c, 'o) cli_env \<Rightarrow> 'p \<Rightarrow> ('a, 'k) zing_wallet \<Rightarrow>
    ('w, 'p, 'm, 'a, 't, 'd, unit) cact" where
  "auto_register E peer_id W =
     (if wl_settlement W = None then act_ret ()
      else act_bind (on_api (on_sui (ensure_peer_registered (me_sui (he_mesh (cv_http E))) W
             (pid_to_bytes (cv_http E) peer_id)))) (\<lambda>_. act_ret ()))"

definition serve_api :: "('w, 'p, 'm, 'a, 't, 'k, 'x, 'c, 'o) cli_env \<Rightarrow> host \<Rightarrow> 'm cli \<Rightarrow> 'p \<Rightarrow>
    ('a, 'k) zing_wallet \<Rightarrow> ('w, 'p, 'm, 'a, 't, 'd, string + ('p, 'm, 'a, 'k) main_end) cact" where
  "serve_api E H cli peer_id W =
     (if cl_api_port cli > 0 then
        act_try (connect_mainnet E) (\<lambda>client.
        act_bind (set_bootstrap (bootstrap_args cli)) (\<lambda>_.
        act_ret (Inr (Serving (Some \<lparr>hc_peer_id = peer_id, hc_listen_addr = cl_listen cli,
          hc_cache_dir = resolve_cache_dir H (cl_cache_dir cli),
          hc_p2p_port = (case extract_port (cv_http E) (cl_listen cli) of Some p \<Rightarrow> p | None \<Rightarrow> 34291),
          hc_wallet = Some W, hc_budget = CACHE_BUDGET_BYTES\<rparr>)))))
      else act_ret (Inr (Serving None)))"

definition open_cache :: "('w, 'p, 'm, 'a, 't, 'k, 'x, 'c, 'o) cli_env \<Rightarrow> 'd rocksdb \<Rightarrow> string \<Rightarrow>
    ('w, 'p, 'm, 'a, 't, 'd, unit) cact" where
  "open_cache E K cache_dir s =
     (if \<not> cv_create_dir_all E cache_dir then (Panic, s)
      else case bs_open K cache_dir of
        Inl _ \<Rightarrow> (Panic, s)
      | Inr st \<Rightarrow> (Ret (), s\<lparr>cs_api := (cs_api s)\<lparr>api_store := st\<rparr>\<rparr>))"

definition main :: "('w, 'p, 'm, 'a, 't, 'k, 'x, 'c, 'o) cli_env \<Rightarrow> host \<Rightarrow> 'd rocksdb \<Rightarrow> 'm cli \<Rightarrow>
    ('w, 'p, 'm, 'a, 't, 'd, string + ('p, 'm, 'a, 'k) main_end) cact" where
  "main E H K cli =
     (let cfg = load H; S = me_sui (he_mesh (cv_http E)); cache_dir = resolve_cache_dir H (cl_cache_dir cli)
      in act_bind (open_cache E K cache_dir) (\<lambda>_.
         act_bind (act_run (settlement_of (se_sdk S) cli cfg)) (\<lambda>settlement.
         act_try (act_ret (map_err (\<lambda>e. ''Sui wallet required: '' @ zing_display e)
           (from_keystore S H (map_option (resolve_cache_dir H) (cl_sui_keystore cli)) settlement))) (\<lambda>W.
         act_bind (act_run (case cv_peer_of_seed E (wl_seed W) of Some p \<Rightarrow> Ret p | None \<Rightarrow> Panic)) (\<lambda>peer_id.
         act_bind (auto_register E peer_id W) (\<lambda>_.
         act_bind (act_run (vault_bytes (flag_or (cl_vault_object cli) ss_vault_object cfg))) (\<lambda>vault.
         act_bind (start_node \<lparr>na_listen = cl_listen cli,
             na_bootstrap = parse_bootstrap_peers (cv_http E) (bootstrap_args cli),
             na_external = cl_external_addr cli, na_sui_address = Some (addr_bytes S (wl_address W)),
             na_vault = vault\<rparr>) (\<lambda>_.
           case cl_command cli of
             Some cmd \<Rightarrow>
               act_try (run_command E cache_dir (cl_bootstrap cli \<noteq> []) peer_id W cmd) (\<lambda>_.
                 if cl_serve cli then serve_api E H cli peer_id W else act_ret (Inr Done))
           | None \<Rightarrow>
               if \<not> cl_serve cli then act_ret (Inr (ExitCode 1))
               else serve_api E H cli peer_id W))))))))"

end
