(* ===== verification/Resolver_Safety.thy ===== *)
theory Resolver_Safety
  imports Resolver
begin

text \<open>
  What the resolver guarantees whatever the peers do: the data it returns is verified, the cache
  only gains verified data and keeps what is pinned, and no peer can make it fail.
\<close>

section \<open>The parts of the state an action touches\<close>

text \<open>The store and the reputation: what talking to peers and paying them leaves alone.\<close>

definition mesh_books :: "('w, 'p, 'm, 'a, 't, 'd) res_state \<Rightarrow> 'd blob_store \<times> rep_table" where
  "mesh_books s = (rs_store s, rs_reputation s)"

lemma on_world_keeps: "act_keeps mesh_books (on_world op)"
  by (auto simp: act_keeps_def on_world_def mesh_books_def split: prod.splits)

lemma on_wallet_keeps: "act_keeps mesh_books (on_wallet m)"
  by (auto simp: act_keeps_def on_wallet_def mesh_books_def split: prod.splits)

lemma send_cmd_eq:
  "send_cmd E mk s = (case ch_send E (mk (length (rs_sent s))) (ws_world (rs_wallet s)) of (ok, w) \<Rightarrow>
     (Ret (if ok then Some (length (rs_sent s)) else None),
      s\<lparr>rs_sent := rs_sent s @ [mk (length (rs_sent s))], rs_wallet := (rs_wallet s)\<lparr>ws_world := w\<rparr>\<rparr>))"
  by (simp add: send_cmd_def on_world_def act_bind_def Let_def split: prod.split)

lemma send_keeps: "act_keeps mesh_books (send_cmd E mk)"
  by (auto simp: act_keeps_def send_cmd_eq mesh_books_def split: prod.splits)

lemma recv_keeps: "act_keeps mesh_books (recv E h t)" "act_keeps mesh_books (sleep E ms)"
  by (simp_all add: recv_def sleep_def on_world_keeps)

lemma ask_keeps: "act_keeps mesh_books (ask_node E mk t)"
  unfolding ask_node_def by (intro act_keeps_rules send_keeps recv_keeps)

lemma cache_keeps: "act_keeps mesh_books (sui_cached p)" "act_keeps mesh_books (sui_insert p r)"
    "act_keeps mesh_books (query_vault E p)"
  using send_keeps [of E "GetPeerVault p"]
  by (auto simp: act_keeps_def sui_cached_def sui_insert_def query_vault_def mesh_books_def)

lemma pay_keeps: "act_keeps mesh_books (pay E W r h a)"
  unfolding pay_def by (intro act_keeps_rules on_wallet_keeps)

lemma sum_keeps:
  "(\<And>e. act_keeps g (f e)) \<Longrightarrow> (\<And>a. act_keeps g (h a)) \<Longrightarrow>
    act_keeps g (case x of Inl e \<Rightarrow> f e | Inr a \<Rightarrow> h a)"
  by (cases x) simp_all

lemma payment_keeps: "act_keeps mesh_books (resolve_payment E R p h a)"
  unfolding resolve_payment_def Let_def
  by (intro act_keeps_rules ask_keeps cache_keeps pay_keeps sum_keeps)

lemma calls_keep:
  "act_keeps mesh_books (connected_peers E)" "act_keeps mesh_books (fetch_blob E p b pr)"
  "act_keeps mesh_books (fetch_range E p b off len pr)" "act_keeps mesh_books (run_find_providers E b)"
  "act_keeps mesh_books (dial_known E p)" "act_keeps mesh_books (dial_asked E p)"
  unfolding connected_peers_def fetch_blob_def fetch_range_def run_find_providers_def dial_known_def
    dial_asked_def Let_def
  by (intro act_keeps_rules ask_keeps)+

lemmas mesh_keeps = calls_keep payment_keeps ask_keeps send_keeps recv_keeps act_keeps_map_all act_keeps_rules

lemma pair_keeps [simp]: "act_keeps g (Pair (Ret a))"
  by (simp add: act_keeps_def)

lemma poll_keeps: "act_keeps mesh_books (poll_connected n E ps)"
  by (induction n) (auto intro!: mesh_keeps)

lemma providers_keep: "act_keeps mesh_books (dht_providers E R b)"
proof -
  have "act_keeps mesh_books (retry_providers n E R b)" for n
    by (induction n) (auto simp: Let_def intro!: mesh_keeps)
  then show ?thesis unfolding dht_providers_def Let_def by (intro mesh_keeps)
qed

lemma case_prod_keeps: "(\<And>a b. act_keeps g (f a b)) \<Longrightarrow> act_keeps g (case x of (a, b) \<Rightarrow> f a b)"
  by (cases x) simp

lemma round_keeps: "act_keeps mesh_books (range_round E t b len reqs)"
  unfolding range_round_def Let_def await_chunk_def by (intro mesh_keeps case_prod_keeps)

lemma next_chunk_keeps: "act_keeps mesh_books (next_chunk E R p b off)"
  unfolding next_chunk_def by (intro mesh_keeps case_prod_keeps)

lemma pay_all_keeps: "act_keeps mesh_books (pay_all E R b a ps)"
  unfolding pay_all_def by (intro mesh_keeps)

lemma window_step_keeps: "act_keeps mesh_books (window_step E R b ws i d e)"
  unfolding window_step_def window_chunks_def by (intro mesh_keeps round_keeps pay_all_keeps)

lemma range_loop_books: "range_loop E R p b d off e s = (r, s') \<Longrightarrow> mesh_books s' = mesh_books s"
proof (induction E R p b d off e s arbitrary: r s' rule: range_loop.induct)
  case (1 E R p b d off e s)
  show ?case
    using "1.prems" "1.IH" act_keepsD [OF next_chunk_keeps, of E R p b off s]
    by (subst (asm) range_loop.simps)
      (auto simp: Let_def split: if_splits prod.splits run.splits option.splits)
qed

lemma window_loop_books: "window_loop E R b ws i d e s = (r, s') \<Longrightarrow> mesh_books s' = mesh_books s"
proof (induction E R b ws i d e s arbitrary: r s' rule: window_loop.induct)
  case (1 E R b ws i d e s)
  show ?case
    using "1.prems" "1.IH" act_keepsD [OF window_step_keeps, of E R b ws i d e s]
    by (subst (asm) window_loop.simps)
      (auto split: prod.splits run.splits window_end.splits)
qed

lemma loops_keep:
  "act_keeps mesh_books (range_loop E R p b d off e)" "act_keeps mesh_books (window_loop E R b ws i d e)"
  by (auto simp: act_keeps_def dest: range_loop_books window_loop_books)

section \<open>The cache\<close>

text \<open>Data that may be cached for a blob: it hashes to the blob, or Walrus delivered it.\<close>

definition good_data :: "'w walrus_sdk \<Rightarrow> bytes \<Rightarrow> bytes \<Rightarrow> bool" where
  "good_data X blob_id d \<longleftrightarrow>
     wx_compute_blob_id X RS2 d = Inr blob_id \<or> (\<exists>w w'. wx_read_blob X blob_id w = (Inr d, w'))"

text \<open>How a store may change: blobs go unless pinned, and good data comes for the one key.\<close>

definition cache_step :: "(bytes \<Rightarrow> bool) \<Rightarrow> string \<Rightarrow> 'd blob_store \<Rightarrow> 'd blob_store \<Rightarrow> bool" where
  "cache_step G key st st' \<longleftrightarrow> bs_ops st' = bs_ops st \<and>
     (store_ok st \<longrightarrow> pinned st' = pinned st \<and>
       (\<forall>k. blobs_view st' k \<in> {None, blobs_view st k} \<or>
          (k = key \<and> (\<exists>d. G d \<and> blobs_view st' k = Some d))) \<and>
       (\<forall>k. pinned st k \<and> blobs_view st k \<noteq> None \<longrightarrow> blobs_view st' k \<noteq> None))"

lemma cache_step_refl: "cache_step G key st st"
  by (simp add: cache_step_def)

lemma cache_step_trans: "cache_step G key a b \<Longrightarrow> cache_step G key b c \<Longrightarrow> cache_step G key a c"
  unfolding cache_step_def store_ok_def by (smt (verit) insert_iff singletonD)

lemma cache_step_put:
  assumes "bs_put st key d = Inr st'" and "G d"
  shows "cache_step G key st st'"
proof -
  have "bs_ops st' = bs_ops st"
    using assms(1) by (auto simp: bs_put_def cf_put_def try_bind_eq_Inr)
  moreover have "store_ok st \<Longrightarrow> pinned st' = pinned st \<and> blobs_view st' = (blobs_view st)(key \<mapsto> d)"
    using put_pinned [OF _ assms(1)] cf_put_view assms(1) unfolding bs_put_def by blast
  ultimately show ?thesis using assms(2) by (auto simp: cache_step_def)
qed

lemma cache_step_evict:
  assumes "ev_run budget st = (st', r)"
  shows "cache_step G key st st'"
  using ev_run_ops [OF assms] ev_run_frame [OF _ assms] by (auto simp: cache_step_def)

definition cache_rel :: "(bytes \<Rightarrow> bool) \<Rightarrow> string \<Rightarrow> ('w, 'p, 'm, 'a, 't, 'd) res_state \<Rightarrow> ('w, 'p, 'm, 'a, 't, 'd) res_state \<Rightarrow> bool" where
  "cache_rel G key s s' \<longleftrightarrow> cache_step G key (rs_store s) (rs_store s')"

lemma cache_rel_order: "reflp (cache_rel G key)" "transp (cache_rel G key)"
  by (auto simp: cache_rel_def reflp_def transp_def intro: cache_step_refl cache_step_trans)

lemma cache_rel_books: "act_keeps mesh_books m \<Longrightarrow> act_rel (cache_rel G key) m"
  by (rule act_rel_keeps [OF cache_rel_order, where g = mesh_books])
    (simp_all add: cache_rel_def mesh_books_def cache_step_refl)

lemma cache_rel_ret: "act_rel (cache_rel G key) (act_ret a)"
  by (rule cache_rel_books) simp

lemma cache_rel_marks:
  "act_rel (cache_rel G key) (blame E p)" "act_rel (cache_rel G key) (credit E p)"
  by (rule act_relI [OF cache_rel_order];
      auto simp: blame_def credit_def cache_rel_def cache_step_refl)+

lemma cache_rel_store: "G d \<Longrightarrow> act_rel (cache_rel G key) (store_blob key d)"
  by (rule act_relI [OF cache_rel_order])
    (auto simp: store_blob_def cache_rel_def cache_step_refl cache_step_put split: sum.splits)

lemma cache_rel_evict: "act_rel (cache_rel G key) (evict R)"
  by (rule act_relI [OF cache_rel_order])
    (auto simp: evict_def cache_rel_def cache_step_evict split: prod.splits)

text \<open>Every attempt on the peers ends in \<open>finalize_l1_fetch\<close> or with nothing.\<close>



lemmas rel_rules = act_rel_bind cache_rel_ret cache_rel_books

lemma finalize_rel:
  assumes "\<And>d. wx_compute_blob_id (me_walrus E) RS2 d = Inr b \<Longrightarrow> G d"
  shows "act_rel (cache_rel G (wx_show_id (me_walrus E) b)) (finalize_l1_fetch E R b p d e)"
proof (cases rule: verify_by_id_cases [of "me_walrus E" b d])
  case ok
  with assms show ?thesis
    by (simp add: finalize_l1_fetch_def rel_rules cache_rel_marks cache_rel_store cache_rel_evict)
next
  case (bad e')
  then show ?thesis by (simp add: finalize_l1_fetch_def rel_rules cache_rel_marks)
qed


lemma option_rel:
  "act_rel Q m \<Longrightarrow> (\<And>a. act_rel Q (f a)) \<Longrightarrow> act_rel Q (case x of None \<Rightarrow> m | Some a \<Rightarrow> f a)"
  by (cases x) simp_all

lemma case_prod_rel: "(\<And>a b. act_rel Q (f a b)) \<Longrightarrow> act_rel Q (case x of (a, b) \<Rightarrow> f a b)"
  by (cases x) simp

lemma if_rel: "act_rel Q m \<Longrightarrow> act_rel Q m' \<Longrightarrow> act_rel Q (if c then m else m')"
  by simp

lemma window_end_rel:
  "(\<And>d e. act_rel Q (f d e)) \<Longrightarrow> (\<And>d e. act_rel Q (f' d e)) \<Longrightarrow> act_rel Q m \<Longrightarrow>
    (\<And>d e. act_rel Q (f'' d e)) \<Longrightarrow>
    act_rel Q (case x of WNext d e \<Rightarrow> f d e | WBreak d e \<Rightarrow> f' d e | WAbort \<Rightarrow> m | WEof d e \<Rightarrow> f'' d e)"
  by (cases x) simp_all

lemmas tier_rules = act_rel_bind cache_rel_ret option_rel case_prod_rel if_rel window_end_rel
  cache_rel_books [OF calls_keep(1)] cache_rel_books [OF calls_keep(2)]
  cache_rel_books [OF payment_keeps] cache_rel_books [OF next_chunk_keeps]
  cache_rel_books [OF round_keeps] cache_rel_books [OF pay_all_keeps]
  cache_rel_books [OF providers_keep] cache_rel_books [OF poll_keeps]
  cache_rel_books [OF loops_keep(1)] cache_rel_books [OF loops_keep(2)]
  cache_rel_books [OF act_keeps_map_all, OF calls_keep(5)]
  cache_rel_books [OF act_keeps_map_all, OF calls_keep(6)]

lemma l1_rel:
  assumes "\<And>d. wx_compute_blob_id (me_walrus E) RS2 d = Inr b \<Longrightarrow> G d"
  shows "act_rel (cache_rel G (wx_show_id (me_walrus E) b)) (resolve_from_l1 E R b)"
proof -
  note fin = finalize_rel [where G = G, OF assms]
  have "act_rel (cache_rel G (wx_show_id (me_walrus E) b)) (direct_loop E R b ps)" for ps
    by (induction ps; unfold direct_loop.simps; intro tier_rules fin)
  moreover have "act_rel (cache_rel G (wx_show_id (me_walrus E) b)) (range_peers E R b ps)" for ps
    by (induction ps; unfold range_peers.simps; intro tier_rules fin)
  ultimately show ?thesis
    unfolding resolve_from_l1_def or_else_def try_direct_peers_def try_direct_peers_range_def
      try_dht_peers_def try_direct_peers_range_parallel_def Let_def
    by (intro tier_rules fin)
qed

section \<open>Results\<close>

text \<open>What the first layer gives: nothing, or verified data.\<close>

definition l1_result :: "'w walrus_sdk \<Rightarrow> bytes \<Rightarrow> resolve_result zresult option \<Rightarrow> bool" where
  "l1_result X blob_id r \<longleftrightarrow> (\<forall>x. r = Some x \<longrightarrow>
     (\<exists>d e. x = Inr \<lparr>rr_data = d, rr_resolution = L1Peer, rr_cached = True, rr_payment_error = e\<rparr> \<and>
       wx_compute_blob_id X RS2 d = Inr blob_id))"

lemma finalize_gives: "act_gives (finalize_l1_fetch E R b p d e) (l1_result (me_walrus E) b)"
proof (cases rule: verify_by_id_cases [of "me_walrus E" b d])
  case ok
  then show ?thesis
    by (auto simp: finalize_l1_fetch_def l1_result_def intro!: act_gives_bind act_gives_ret)
next
  case (bad e')
  then show ?thesis
    by (auto simp: finalize_l1_fetch_def l1_result_def intro!: act_gives_bind act_gives_ret)
qed

lemma case_prod_gives: "(\<And>a b. act_gives (f a b) P) \<Longrightarrow> act_gives (case x of (a, b) \<Rightarrow> f a b) P"
  by (cases x) simp

lemma if_gives: "act_gives m P \<Longrightarrow> act_gives m' P \<Longrightarrow> act_gives (if c then m else m') P"
  by simp

lemma window_end_gives:
  "(\<And>d e. act_gives (f d e) P) \<Longrightarrow> (\<And>d e. act_gives (f' d e) P) \<Longrightarrow> act_gives m P \<Longrightarrow>
    (\<And>d e. act_gives (f'' d e) P) \<Longrightarrow>
    act_gives (case x of WNext d e \<Rightarrow> f d e | WBreak d e \<Rightarrow> f' d e | WAbort \<Rightarrow> m | WEof d e \<Rightarrow> f'' d e) P"
  by (cases x) simp_all

lemma nothing_gives: "act_gives (act_ret None) (l1_result X b)"
  by (rule act_gives_ret) (simp add: l1_result_def)

lemmas gives_rules = act_gives_bind act_gives_option case_prod_gives if_gives window_end_gives
  nothing_gives finalize_gives

lemma or_else_gives:
  assumes "act_gives m (l1_result X b)" and "act_gives m' (l1_result X b)"
  shows "act_gives (or_else m m') (l1_result X b)"
  unfolding or_else_def
proof (rule act_gives_seq [OF assms(1)])
  fix r assume r: "l1_result X b r"
  show "act_gives (case r of None \<Rightarrow> m' | Some x \<Rightarrow> act_ret (Some x)) (l1_result X b)"
  proof (cases r)
    case (Some x)
    with r show ?thesis unfolding Some option.case by (intro act_gives_ret)
  qed (use assms(2) in simp)
qed

lemma l1_gives: "act_gives (resolve_from_l1 E R b) (l1_result (me_walrus E) b)"
proof -
  have "act_gives (direct_loop E R b ps) (l1_result (me_walrus E) b)" for ps
    by (induction ps; unfold direct_loop.simps; intro gives_rules)
  moreover have "act_gives (range_peers E R b ps) (l1_result (me_walrus E) b)" for ps
    by (induction ps; unfold range_peers.simps; intro gives_rules)
  ultimately show ?thesis
    unfolding resolve_from_l1_def try_direct_peers_def try_direct_peers_range_def
      try_dht_peers_def try_direct_peers_range_parallel_def Let_def
    by (intro or_else_gives gives_rules)
qed

section \<open>No panic\<close>

text \<open>The wallet's payments are the only code of a resolve that can panic.\<close>

definition payments_safe :: "('w, 'p, 'm, 'a, 't, 'k, 'x) mesh_env \<Rightarrow> ('p, 'a, 'k) resolver \<Rightarrow> bool" where
  "payments_safe E R \<longleftrightarrow>
     (\<forall>W r h a. rv_wallet R = Some W \<longrightarrow> act_safe (pay_wal (me_sui E) W r h a))"

lemma world_safe: "act_safe (on_world op)" "act_safe (recv E h t)" "act_safe (sleep E ms)"
    "act_safe (send_cmd E mk)"
  by (auto simp: act_safe_def on_world_def recv_def sleep_def send_cmd_eq split: prod.split)

lemma case_prod_safe: "(\<And>a b. act_safe (f a b)) \<Longrightarrow> act_safe (case x of (a, b) \<Rightarrow> f a b)"
  by (cases x) simp

lemma if_safe: "act_safe m \<Longrightarrow> act_safe m' \<Longrightarrow> act_safe (if c then m else m')"
  by simp

lemma sum_safe:
  "(\<And>e. act_safe (f e)) \<Longrightarrow> (\<And>a. act_safe (h a)) \<Longrightarrow> act_safe (case x of Inl e \<Rightarrow> f e | Inr a \<Rightarrow> h a)"
  by (cases x) simp_all

lemma window_end_safe:
  "(\<And>d e. act_safe (f d e)) \<Longrightarrow> (\<And>d e. act_safe (f' d e)) \<Longrightarrow> act_safe m \<Longrightarrow>
    (\<And>d e. act_safe (f'' d e)) \<Longrightarrow>
    act_safe (case x of WNext d e \<Rightarrow> f d e | WBreak d e \<Rightarrow> f' d e | WAbort \<Rightarrow> m | WEof d e \<Rightarrow> f'' d e)"
  by (cases x) simp_all

lemma local_safe: "act_safe (sui_cached p)" "act_safe (sui_insert p r)" "act_safe (query_vault E p)"
    "act_safe (blame E p)" "act_safe (credit E p)" "act_safe (store_blob k d)" "act_safe (evict R)"
  using world_safe(4) [of E "GetPeerVault p"]
  by (auto simp: act_safe_def sui_cached_def sui_insert_def query_vault_def blame_def credit_def
      store_blob_def evict_def split: sum.split prod.split)

lemmas safe_rules = act_safe_bind act_safe_ret act_safe_option case_prod_safe if_safe sum_safe
  window_end_safe act_safe_map_all world_safe local_safe

lemma ask_safe: "act_safe (ask_node E mk t)"
  unfolding ask_node_def by (intro safe_rules)

lemma calls_safe: "act_safe (connected_peers E)" "act_safe (fetch_blob E p b pr)"
    "act_safe (fetch_range E p b off len pr)" "act_safe (run_find_providers E b)"
    "act_safe (dial_known E p)" "act_safe (dial_asked E p)" "act_safe (range_round E t b len reqs)"
  unfolding connected_peers_def fetch_blob_def fetch_range_def run_find_providers_def dial_known_def
    dial_asked_def range_round_def await_chunk_def Let_def
  by (intro safe_rules ask_safe)+

lemma payment_safe:
  assumes "payments_safe E R"
  shows "act_safe (resolve_payment E R p h a)"
proof -
  have "act_safe (pay E W r h a)" if "rv_wallet R = Some W" for W r
  proof -
    have "act_safe (on_wallet (pay_wal (me_sui E) W r h a))"
      using assms that by (auto simp: payments_safe_def act_safe_def on_wallet_def split: prod.split)
        (metis fst_conv)
    then show ?thesis unfolding pay_def by (intro safe_rules)
  qed
  then show ?thesis
    unfolding resolve_payment_def Let_def by (cases "rv_wallet R") (auto intro!: safe_rules ask_safe
      simp del: act_ret_simp)
qed

lemma providers_safe: "act_safe (dht_providers E R b)"
proof -
  have "act_safe (retry_providers n E R b)" for n
    by (induction n; unfold retry_providers.simps Let_def; intro safe_rules calls_safe)
  then show ?thesis unfolding dht_providers_def Let_def by (intro safe_rules calls_safe)
qed

lemma poll_safe: "act_safe (poll_connected n E ps)"
  by (induction n; unfold poll_connected.simps; intro safe_rules calls_safe)

lemma finalize_safe: "act_safe (finalize_l1_fetch E R b p d e)"
  unfolding finalize_l1_fetch_def by (intro safe_rules)

lemma steps_safe:
  assumes "payments_safe E R"
  shows "act_safe (next_chunk E R p b off)" "act_safe (pay_all E R b a ps)"
    "act_safe (window_step E R b ws i d e)"
  unfolding next_chunk_def window_step_def window_chunks_def pay_all_def
  by (intro safe_rules calls_safe payment_safe [OF assms])+

lemma range_loop_panic:
  "range_loop E R p b d off e s = (r, s') \<Longrightarrow> payments_safe E R \<Longrightarrow> r \<noteq> Panic"
proof (induction E R p b d off e s arbitrary: r s' rule: range_loop.induct)
  case (1 E R p b d off e s)
  obtain a s1 where "next_chunk E R p b off s = (Ret a, s1)"
    using act_safe_eq [OF steps_safe(1) [OF "1.prems"(2)]] by blast
  with "1.prems" "1.IH" show ?case
    by (subst (asm) range_loop.simps)
      (cases a, auto simp: Let_def split: if_splits option.splits)
qed

lemma window_loop_panic:
  "window_loop E R b ws i d e s = (r, s') \<Longrightarrow> payments_safe E R \<Longrightarrow> r \<noteq> Panic"
proof (induction E R b ws i d e s arbitrary: r s' rule: window_loop.induct)
  case (1 E R b ws i d e s)
  obtain a s1 where "window_step E R b ws i d e s = (Ret a, s1)"
    using act_safe_eq [OF steps_safe(3) [OF "1.prems"(2)]] by blast
  with "1.prems" "1.IH" show ?case
    by (subst (asm) window_loop.simps) (auto split: window_end.splits)
qed

lemma loops_safe:
  assumes "payments_safe E R"
  shows "act_safe (range_loop E R p b d off e)" "act_safe (window_loop E R b ws i d e)"
  unfolding act_safe_def
  by (metis assms prod.collapse range_loop_panic, metis assms prod.collapse window_loop_panic)

lemma l1_safe:
  assumes "payments_safe E R"
  shows "act_safe (resolve_from_l1 E R b)"
proof -
  note rules = safe_rules calls_safe payment_safe [OF assms] steps_safe [OF assms]
    loops_safe [OF assms] finalize_safe poll_safe providers_safe
  have "act_safe (direct_loop E R b ps)" for ps
    by (induction ps; unfold direct_loop.simps; intro rules)
  moreover have "act_safe (range_peers E R b ps)" for ps
    by (induction ps; unfold range_peers.simps; intro rules)
  ultimately show ?thesis
    unfolding resolve_from_l1_def or_else_def try_direct_peers_def try_direct_peers_range_def
      try_dht_peers_def try_direct_peers_range_parallel_def Let_def
    by (intro rules)
qed

section \<open>A whole resolve\<close>

text \<open>The three ways a resolve can go, once the local lookup has answered.\<close>

lemma resolve_cases:
  assumes "resolve E R b s = (r, s')"
  obtains (broken) e where "bs_get (rs_store s) (wx_show_id (me_walrus E) b) = Inl e" "r = Ret (Inl e)" "s' = s"
  | (hit) d where "bs_get (rs_store s) (wx_show_id (me_walrus E) b) = Inr (Some d)" "s' = s"
      "r = Ret (Inr \<lparr>rr_data = d, rr_resolution = LocalCache, rr_cached = True, rr_payment_error = None\<rparr>)"
  | (peer) res where "bs_get (rs_store s) (wx_show_id (me_walrus E) b) = Inr None" "rv_p2p_channel R"
      "resolve_from_l1 E R b s = (Ret (Some res), s')" "r = Ret res"
  | (panic) "bs_get (rs_store s) (wx_show_id (me_walrus E) b) = Inr None" "rv_p2p_channel R"
      "resolve_from_l1 E R b s = (Panic, s')" "r = Panic"
  | (walrus) s1 where "bs_get (rs_store s) (wx_show_id (me_walrus E) b) = Inr None"
      "s1 = s \<or> rv_p2p_channel R \<and> resolve_from_l1 E R b s = (Ret None, s1)"
      "resolve_from_walrus E R b s1 = (r, s')"
proof (cases "bs_get (rs_store s) (wx_show_id (me_walrus E) b)")
  case (Inl e)
  have "r = Ret (Inl e) \<and> s' = s"
    using assms by (simp add: resolve_def act_try_def act_bind_def local_blob_def Inl)
  with that(1) [OF Inl] show thesis by blast
next
  case (Inr found)
  show thesis
  proof (cases found)
    case (Some d)
    have "r = Ret (Inr \<lparr>rr_data = d, rr_resolution = LocalCache, rr_cached = True, rr_payment_error = None\<rparr>)
        \<and> s' = s"
      using assms by (simp add: resolve_def act_try_def act_bind_def local_blob_def Inr Some)
    with that(2) [OF Inr [unfolded Some]] show thesis by blast
  next
    case None
    note get = Inr [unfolded None]
    have "act_bind (if rv_p2p_channel R then resolve_from_l1 E R b else act_ret None) (\<lambda>r.
        case r of Some res \<Rightarrow> act_ret res | None \<Rightarrow> resolve_from_walrus E R b) s = (r, s')"
      using assms get by (simp add: resolve_def act_try_def act_bind_def local_blob_def cong: if_cong)
    then show thesis
    proof (cases rule: act_bindE)
      case panic
      with that(4) [OF get] show thesis by (cases "rv_p2p_channel R") simp_all
    next
      case (go found' s1)
      show thesis
      proof (cases "rv_p2p_channel R")
        case True
        with go that(3,5) [OF get] show thesis by (cases found') auto
      next
        case False
        with go that(5) [OF get] show thesis by simp
      qed
    qed
  qed
qed

lemma walrus_cases:
  assumes "resolve_from_walrus E R b s = (r, s')"
  obtains (unread) m w w' where "wx_read_blob (me_walrus E) b w = (Inl m, w')"
      "r = Ret (Inl (WalrusClient m))" "rs_store s' = rs_store s"
  | (unstored) d e where "bs_put (rs_store s) (wx_show_id (me_walrus E) b) d = Inl e" "r = Ret (Inl e)"
      "rs_store s' = rs_store s"
  | (evicted) d w w' st v where "wx_read_blob (me_walrus E) b w = (Inr d, w')"
      "bs_put (rs_store s) (wx_show_id (me_walrus E) b) d = Inr st"
      "ev_run (rv_budget R) st = (rs_store s', v)"
      "r = Ret (case v of Inl e \<Rightarrow> Inl e | Inr _ \<Rightarrow> Inr \<lparr>rr_data = d, rr_resolution = L3Walrus,
        rr_cached = True, rr_payment_error = None\<rparr>)"
proof -
  obtain x w' where rd: "wx_read_blob (me_walrus E) b (ws_world (rs_wallet s)) = (x, w')" by fastforce
  note eval = resolve_from_walrus_def act_try_def act_bind_def on_walrus_def read_blob_def walrus_def
    store_blob_def evict_def
  show thesis
  proof (cases x)
    case (Inl m)
    with rd assms that(1) [OF rd [unfolded Inl]] show thesis by (auto simp: eval)
  next
    case (Inr d)
    show thesis
    proof (cases "bs_put (rs_store s) (wx_show_id (me_walrus E) b) d")
      case (Inl e)
      with rd Inr assms that(2) [OF Inl] show thesis by (auto simp: eval)
    next
      case put: (Inr st)
      obtain st' v where ev: "ev_run (rv_budget R) st = (st', v)" by fastforce
      have "rs_store s' = st' \<and> r = Ret (case v of Inl e \<Rightarrow> Inl e | Inr _ \<Rightarrow>
          Inr \<lparr>rr_data = d, rr_resolution = L3Walrus, rr_cached = True, rr_payment_error = None\<rparr>)"
        using rd Inr put ev assms by (cases v) (auto simp: eval)
      with that(3) [OF rd [unfolded Inr] put] ev show thesis by simp
    qed
  qed
qed

lemma put_ops: "bs_put st k d = Inr st' \<Longrightarrow> bs_ops st' = bs_ops st"
  by (auto simp: bs_put_def cf_put_def try_bind_eq_Inr)

lemma walrus_rel:
  "act_rel (cache_rel (good_data (me_walrus E) b) (wx_show_id (me_walrus E) b)) (resolve_from_walrus E R b)"
proof (rule act_relI [OF cache_rel_order])
  fix s r s'
  assume "resolve_from_walrus E R b s = (r, s')"
  then show "cache_rel (good_data (me_walrus E) b) (wx_show_id (me_walrus E) b) s s'"
  proof (cases rule: walrus_cases)
    case (evicted d w w' st v)
    then have "good_data (me_walrus E) b d" by (auto simp: good_data_def)
    from cache_step_trans [OF cache_step_put [OF evicted(2), where G = "good_data (me_walrus E) b", OF this]
        cache_step_evict [OF evicted(3)]]
    show ?thesis by (simp add: cache_rel_def)
  qed (simp_all add: cache_rel_def cache_step_refl)
qed

lemma l1_cache:
  "act_rel (cache_rel (good_data (me_walrus E) b) (wx_show_id (me_walrus E) b)) (resolve_from_l1 E R b)"
  by (rule l1_rel) (simp add: good_data_def)

text \<open>Where the data of a result comes from.\<close>

lemma resolve_origin:
  assumes "resolve E R b s = (Ret (Inr res), s')"
  shows "(rr_resolution res = LocalCache \<and> s' = s \<and>
      bs_get (rs_store s) (wx_show_id (me_walrus E) b) = Inr (Some (rr_data res))) \<or>
    (rr_resolution res = L1Peer \<and> rv_p2p_channel R \<and>
      bs_get (rs_store s) (wx_show_id (me_walrus E) b) = Inr None \<and>
      wx_compute_blob_id (me_walrus E) RS2 (rr_data res) = Inr b) \<or>
    (rr_resolution res = L3Walrus \<and>
      bs_get (rs_store s) (wx_show_id (me_walrus E) b) = Inr None \<and>
      (\<exists>w w'. wx_read_blob (me_walrus E) b w = (Inr (rr_data res), w')))"
  using assms
proof (cases rule: resolve_cases)
  case (peer x)
  from act_givesD [OF l1_gives peer(3)] peer show ?thesis by (auto simp: l1_result_def)
next
  case (walrus s1)
  from walrus(3) show ?thesis
    by (cases rule: walrus_cases) (use walrus(1) in \<open>auto split: sum.splits\<close>)
qed auto

text \<open>
  C19: the data a resolve returns is always the blob asked for: either the cache had it, and
  nothing at all has happened, or the peers delivered data whose blob id was computed and equals
  the one asked for, or it is what Walrus delivered for that id; the last two only when the
  cache did not have it, and from the peers only when the node is connected to them.
\<close>

theorem resolve_result_verified:
  assumes "resolve E R b s = (Ret (Inr res), s')"
  shows "(rr_resolution res = LocalCache \<and> s' = s \<and>
      bs_get (rs_store s) (wx_show_id (me_walrus E) b) = Inr (Some (rr_data res))) \<or>
    (rr_resolution res = L1Peer \<and> rv_p2p_channel R \<and>
      bs_get (rs_store s) (wx_show_id (me_walrus E) b) = Inr None \<and>
      wx_compute_blob_id (me_walrus E) RS2 (rr_data res) = Inr b) \<or>
    (rr_resolution res = L3Walrus \<and>
      bs_get (rs_store s) (wx_show_id (me_walrus E) b) = Inr None \<and>
      (\<exists>w w'. wx_read_blob (me_walrus E) b w = (Inr (rr_data res), w')))"
  using assms by (rule resolve_origin)

text \<open>How a whole resolve changes the cache.\<close>

lemma resolve_cache_rel:
  assumes "resolve E R b s = (r, s')"
  shows "cache_rel (good_data (me_walrus E) b) (wx_show_id (me_walrus E) b) s s'"
  using assms
proof (cases rule: resolve_cases)
  case (walrus s1)
  then have "cache_rel (good_data (me_walrus E) b) (wx_show_id (me_walrus E) b) s s1"
    using act_relD [OF l1_cache] reflpD [OF cache_rel_order(1)] by blast
  with act_relD [OF walrus_rel walrus(3)] transpD [OF cache_rel_order(2)] show ?thesis by blast
qed (auto intro: reflpD [OF cache_rel_order(1)] act_relD [OF l1_cache])

text \<open>A pinned blob that is in the cache stays there as it is, also when it is the one asked for.\<close>

lemma resolve_keeps_pinned:
  assumes "resolve E R b s = (r, s')" and "store_ok (rs_store s)"
    and "pinned (rs_store s) k" and "blobs_view (rs_store s) k = Some d"
  shows "store_ok (rs_store s') \<and> pinned (rs_store s') = pinned (rs_store s) \<and> blobs_view (rs_store s') k = Some d"
proof -
  have step: "cache_step (good_data (me_walrus E) b) (wx_show_id (me_walrus E) b) (rs_store s) (rs_store s')"
    using resolve_cache_rel [OF assms(1)] by (simp add: cache_rel_def)
  have "blobs_view (rs_store s') k = Some d"
  proof (cases "k = wx_show_id (me_walrus E) b")
    case True
    have "bs_get (rs_store s) k \<noteq> Inr None"
      using cf_get_view [OF assms(2), of BLOBS_CF k None] assms(4) by (auto simp: bs_get_def)
    with assms(1) have "s' = s" unfolding True by (cases rule: resolve_cases) auto
    with assms(4) show ?thesis by simp
  next
    case False
    with step assms(2-4) show ?thesis unfolding cache_step_def by (metis option.distinct(1) insertE singletonD)
  qed
  with step assms(2) show ?thesis unfolding cache_step_def store_ok_def by simp
qed

text \<open>
  C20: a resolve, however it ends, leaves a sound cache: only the entry of the blob asked for can
  gain data, which is verified or from Walrus, every other entry is as it was or evicted, the
  same blobs are pinned, and no pinned blob is lost.
\<close>

theorem resolve_keeps_cache_sound:
  assumes "resolve E R b s = (r, s')" and "store_ok (rs_store s)"
  shows "store_ok (rs_store s') \<and> pinned (rs_store s') = pinned (rs_store s) \<and>
    (\<forall>k. blobs_view (rs_store s') k \<in> {None, blobs_view (rs_store s) k} \<or>
      (k = wx_show_id (me_walrus E) b \<and>
       (\<exists>d. good_data (me_walrus E) b d \<and> blobs_view (rs_store s') k = Some d))) \<and>
    (\<forall>k. pinned (rs_store s) k \<and> blobs_view (rs_store s) k \<noteq> None \<longrightarrow>
      blobs_view (rs_store s') k \<noteq> None)"
proof -
  from resolve_cache_rel [OF assms(1)]
  have "cache_step (good_data (me_walrus E) b) (wx_show_id (me_walrus E) b) (rs_store s) (rs_store s')"
    by (simp add: cache_rel_def)
  with assms(2) show ?thesis unfolding cache_step_def store_ok_def by simp
qed

text \<open>
  C21: no peer can make a resolve fail: as long as the wallet's payments do not panic, every
  resolve returns, whatever the peers and the network do; and it returns an error only because
  the local database failed or because Walrus, the last resort, did.
\<close>

theorem peers_cannot_fail_a_resolve:
  assumes "payments_safe E R"
  shows "\<exists>res s'. resolve E R b s = (Ret res, s') \<and>
    (\<forall>e. res = Inl e \<longrightarrow>
      (\<exists>w m w'. wx_read_blob (me_walrus E) b w = (Inl m, w') \<and> e = WalrusClient m) \<or>
      (\<exists>st d. bs_ops st = bs_ops (rs_store s) \<and>
        (bs_get st (wx_show_id (me_walrus E) b) = Inl e \<or>
         bs_put st (wx_show_id (me_walrus E) b) d = Inl e \<or> snd (ev_run (rv_budget R) st) = Inl e)))"
proof -
  obtain r s' where run: "resolve E R b s = (r, s')" by fastforce
  then show ?thesis
  proof (cases rule: resolve_cases)
    case (peer x)
    from act_givesD [OF l1_gives peer(3)] obtain y where "x = Inr y" by (auto simp: l1_result_def)
    with run peer show ?thesis by auto
  next
    case panic
    with l1_safe [OF assms, of b] show ?thesis by (metis act_safe_def fst_conv)
  next
    case (walrus s1)
    have "bs_ops (rs_store s1) = bs_ops (rs_store s)"
      using walrus(2) by (auto dest!: act_relD [OF l1_cache] simp: cache_rel_def cache_step_def)
    note ops = this
    from walrus(3) show ?thesis
    proof (cases rule: walrus_cases)
      case (unread m w w')
      with run show ?thesis by auto
    next
      case (unstored d e)
      with run ops show ?thesis by auto
    next
      case (evicted d w w' st v)
      from put_ops [OF evicted(2)] evicted(3) ops
      have "\<exists>st. bs_ops st = bs_ops (rs_store s) \<and> snd (ev_run (rv_budget R) st) = v"
        by (metis snd_conv)
      with run evicted(4) show ?thesis by (cases v) auto
    qed
  next
    case (broken e)
    with run show ?thesis by auto
  qed (use run in auto)
qed

end
