(* ===== verification/Http_Safety.thy ===== *)
theory Http_Safety
  imports Http Resolver_Safety Wallet_Safety
begin

text \<open>
  What the requests of the HTTP API can do: which of them can spend, what the two resolve
  endpoints have in common, and what an answer is.
\<close>

section \<open>Talking to the node spends nothing\<close>

text \<open>The payment counter and the transactions, seen from the resolver.\<close>

definition spent :: "('w, 'p, 'm, 'a, 't, 'd) res_state \<Rightarrow> u64 \<times> ('a, 't) ptb list" where
  "spent s = ledger (rs_wallet s)"

lemma world_unspent: "act_keeps spent (on_world op)" "act_keeps spent (on_walrus m)"
  by (auto simp: act_keeps_def on_world_def on_walrus_def spent_def ledger_def split: prod.splits)

lemma send_unspent: "act_keeps spent (send_cmd E mk)"
  by (auto simp: act_keeps_def send_cmd_eq spent_def ledger_def split: prod.splits)

lemma recv_unspent: "act_keeps spent (recv E h t)" "act_keeps spent (sleep E ms)"
  by (simp_all add: recv_def sleep_def world_unspent)

lemma ask_unspent: "act_keeps spent (ask_node E mk t)"
  unfolding ask_node_def by (intro act_keeps_rules send_unspent recv_unspent)

lemma payment_unspent: "rv_wallet R = None \<Longrightarrow> act_keeps spent (resolve_payment E R p h a)"
  unfolding resolve_payment_def by (simp del: act_ret_simp)

lemma marks_unspent:
  "act_keeps spent (blame E p)" "act_keeps spent (credit E p)" "act_keeps spent (store_blob k d)"
  "act_keeps spent (evict R)" "act_keeps spent (local_blob E b)"
  by (auto simp: act_keeps_def blame_def credit_def store_blob_def evict_def local_blob_def spent_def
      split: sum.splits prod.splits)

lemma calls_unspent:
  "act_keeps spent (connected_peers E)" "act_keeps spent (fetch_blob E p b pr)"
  "act_keeps spent (fetch_range E p b off len pr)" "act_keeps spent (run_find_providers E b)"
  "act_keeps spent (dial_known E p)" "act_keeps spent (dial_asked E p)"
  unfolding connected_peers_def fetch_blob_def fetch_range_def run_find_providers_def dial_known_def
    dial_asked_def Let_def
  by (intro act_keeps_rules ask_unspent)+

lemma window_end_keeps:
  "(\<And>d e. act_keeps g (f d e)) \<Longrightarrow> (\<And>d e. act_keeps g (f' d e)) \<Longrightarrow> act_keeps g m \<Longrightarrow>
    (\<And>d e. act_keeps g (f'' d e)) \<Longrightarrow>
    act_keeps g (case x of WNext d e \<Rightarrow> f d e | WBreak d e \<Rightarrow> f' d e | WAbort \<Rightarrow> m | WEof d e \<Rightarrow> f'' d e)"
  by (cases x) simp_all

lemmas unspent_rules = calls_unspent marks_unspent ask_unspent send_unspent recv_unspent world_unspent
  act_keeps_map_all case_prod_keeps sum_keeps window_end_keeps act_keeps_rules

lemma finalize_unspent: "act_keeps spent (finalize_l1_fetch E R b p d e)"
  unfolding finalize_l1_fetch_def by (intro unspent_rules)

lemma dht_unspent: "act_keeps spent (poll_connected n E ps)" "act_keeps spent (dht_providers E R b)"
proof -
  show "act_keeps spent (poll_connected n E ps)"
    by (induction n; unfold poll_connected.simps; intro unspent_rules)
  have "act_keeps spent (retry_providers n E R b)" for n
    by (induction n; unfold retry_providers.simps Let_def; intro unspent_rules)
  then show "act_keeps spent (dht_providers E R b)"
    unfolding dht_providers_def Let_def by (intro unspent_rules)
qed

lemma steps_unspent:
  assumes "rv_wallet R = None"
  shows "act_keeps spent (next_chunk E R p b off)" "act_keeps spent (pay_all E R b a ps)"
    "act_keeps spent (window_step E R b ws i d e)" "act_keeps spent (range_round E t b len reqs)"
  unfolding next_chunk_def window_step_def window_chunks_def pay_all_def range_round_def await_chunk_def
    Let_def
  by (intro unspent_rules payment_unspent [OF assms])+

lemma range_loop_unspent:
  "range_loop E R p b d off e s = (r, s') \<Longrightarrow> rv_wallet R = None \<Longrightarrow> spent s' = spent s"
proof (induction E R p b d off e s arbitrary: r s' rule: range_loop.induct)
  case (1 E R p b d off e s)
  show ?case
    using "1.prems" "1.IH" act_keepsD [OF steps_unspent(1), of R E p b off s]
    by (subst (asm) range_loop.simps)
      (auto simp: Let_def split: if_splits prod.splits run.splits option.splits)
qed

lemma window_loop_unspent:
  "window_loop E R b ws i d e s = (r, s') \<Longrightarrow> rv_wallet R = None \<Longrightarrow> spent s' = spent s"
proof (induction E R b ws i d e s arbitrary: r s' rule: window_loop.induct)
  case (1 E R b ws i d e s)
  show ?case
    using "1.prems" "1.IH" act_keepsD [OF steps_unspent(3), of R E b ws i d e s]
    by (subst (asm) window_loop.simps)
      (auto split: prod.splits run.splits window_end.splits)
qed

lemma loops_unspent:
  assumes "rv_wallet R = None"
  shows "act_keeps spent (range_loop E R p b d off e)" "act_keeps spent (window_loop E R b ws i d e)"
  by (auto simp: act_keeps_def dest: range_loop_unspent [OF _ assms] window_loop_unspent [OF _ assms])

lemma l1_unspent:
  assumes "rv_wallet R = None"
  shows "act_keeps spent (resolve_from_l1 E R b)"
proof -
  note rules = unspent_rules payment_unspent [OF assms] steps_unspent [OF assms]
    loops_unspent [OF assms] finalize_unspent dht_unspent
  have "act_keeps spent (direct_loop E R b ps)" for ps
    by (induction ps; unfold direct_loop.simps; intro rules)
  moreover have "act_keeps spent (range_peers E R b ps)" for ps
    by (induction ps; unfold range_peers.simps; intro rules)
  ultimately show ?thesis
    unfolding resolve_from_l1_def or_else_def try_direct_peers_def try_direct_peers_range_def
      try_dht_peers_def try_direct_peers_range_parallel_def Let_def
    by (intro rules)
qed

lemma resolve_unspent: "rv_wallet R = None \<Longrightarrow> act_keeps spent (resolve E R b)"
  unfolding resolve_def resolve_from_walrus_def
  by (intro unspent_rules l1_unspent; assumption)

section \<open>What a request can change\<close>

text \<open>The counter and the transactions, and with them the store.\<close>

definition api_spent :: "('w, 'p, 'm, 'a, 't, 'd) api_state \<Rightarrow> u64 \<times> ('a, 't) ptb list" where
  "api_spent s = ledger (api_wallet s)"

definition api_books :: "('w, 'p, 'm, 'a, 't, 'd) api_state \<Rightarrow> (u64 \<times> ('a, 't) ptb list) \<times> 'd blob_store" where
  "api_books s = (api_spent s, api_store s)"

lemma mesh_unspent: "act_keeps spent m \<Longrightarrow> act_keeps api_spent (on_mesh m)"
  unfolding act_keeps_def
  by (auto simp: on_mesh_def new_tables_def spent_def api_spent_def split: prod.splits)

lemma mesh_books_kept: "act_keeps spent m \<Longrightarrow> act_keeps mesh_books m \<Longrightarrow> act_keeps api_books (on_mesh m)"
  unfolding act_keeps_def
  by (auto simp: on_mesh_def new_tables_def spent_def mesh_books_def api_books_def api_spent_def
      split: prod.splits)

lemma node_books:
  "act_keeps api_books (on_mesh (send_cmd E mk))" "act_keeps api_books (on_mesh (ask_node E mk t))"
  "act_keeps api_books (on_mesh (sleep E ms))" "act_keeps api_books (on_mesh (connected_peers E))"
  by (intro mesh_books_kept unspent_rules send_keeps ask_keeps recv_keeps calls_keep)+

lemma local_books:
  "act_keeps api_books (emit e)" "act_keeps api_books (stored b)" "act_keeps api_books bootstrap_list"
  "act_keeps api_books (remember_peer a)" "act_keeps api_books handle_cache_list"
  by (simp_all add: act_keeps_def emit_def stored_def bootstrap_list_def remember_peer_def
      handle_cache_list_def api_books_def api_spent_def)

lemma map_err_keeps: "act_keeps g m \<Longrightarrow> act_keeps g (act_map_err f m)"
  unfolding act_map_err_def by (intro act_keeps_rules)

lemma node_calls_books: "act_keeps api_books (tell_node E cmd)" "act_keeps api_books (ask_connected E)"
  unfolding tell_node_def ask_connected_def by (intro act_keeps_rules node_books)+

lemma books_spent: "act_keeps api_books m \<Longrightarrow> act_keeps api_spent m"
  by (simp add: act_keeps_def api_books_def)

text \<open>A wallet call leaves the store; one that reads the chain leaves the counter as well.\<close>

lemma sui_store: "act_keeps api_store (on_sui m)"
  by (auto simp: act_keeps_def on_sui_def split: prod.splits)

lemma sui_books: "act_keeps ledger m \<Longrightarrow> act_keeps api_books (on_sui m)"
  by (auto simp: act_keeps_def on_sui_def api_books_def api_spent_def split: prod.splits)

lemma keeps_balance: "act_keeps ledger (get_wal_balance E W)"
  unfolding get_wal_balance_def by (intro keeps_calls)

lemma keeps_my_vault: "act_keeps ledger (get_my_vault_info E W)"
  unfolding get_my_vault_info_def by (intro keeps_calls keeps_vaults)

lemma keeps_peers: "act_keeps ledger (list_all_peers E W)"
  unfolding list_all_peers_def Let_def by (intro keeps_calls keeps_vaults)

lemma keeps_certificates: "act_keeps ledger (list_my_share_certificates E W)"
  unfolding list_my_share_certificates_def Let_def by (intro keeps_calls keeps_vaults)

lemma reads_books:
  assumes "act_keeps ledger m"
  shows "act_keeps api_books (wallet_call m)"
  unfolding wallet_call_def by (intro map_err_keeps sui_books assms)

lemmas reading = reads_books [OF keeps_balance] reads_books [OF keeps_my_vault]
  reads_books [OF keeps_peers] reads_books [OF keeps_certificates]

lemma with_wallet_keeps: "(\<And>W. act_keeps g (f W)) \<Longrightarrow> act_keeps g (with_wallet C f)"
  unfolding with_wallet_def by (intro act_keeps_rules)

lemma internal_keeps: "act_keeps g m \<Longrightarrow> act_keeps g (internal m)"
  unfolding internal_def by (rule map_err_keeps)

lemma encode_keeps: "act_keeps g m \<Longrightarrow> act_keeps g (json f m)" "act_keeps g m' \<Longrightarrow> act_keeps g (plain h m')"
  unfolding json_def plain_def by (intro act_keeps_rules; assumption)+

lemma peers_and_connected_books: "act_keeps api_books (peers_and_connected E W)"
  unfolding peers_and_connected_def by (intro act_keeps_rules reading internal_keeps node_calls_books)

lemmas reading_rules = reading local_books node_books node_calls_books peers_and_connected_books
  with_wallet_keeps internal_keeps map_err_keeps case_prod_keeps encode_keeps act_keeps_rules

lemma await_books: "act_keeps api_books (await_connected n E p)"
  by (induction n; unfold await_connected.simps; intro reading_rules)

text \<open>The requests that only read, and the two that resolve a blob.\<close>

fun resolves :: "request \<Rightarrow> bool" where
  "resolves (ReqResolve _) = True"
| "resolves (ReqResolveStream _) = True"
| "resolves _ = False"

lemma reading_books: "fst (route q) = GET \<Longrightarrow> \<not> resolves q \<Longrightarrow> act_keeps api_books (serve E C q)"
  by (cases q; simp only: route.simps resolves.simps fst_conv http_method.simps not_True_eq_False serve.simps;
      (unfold handle_health_def handle_peers_list_def peers_list_def handle_peers_add_def peers_add_def
        handle_staking_def handle_my_peer_def handle_balance_def handle_my_vault_def handle_my_shares_def
        Let_def)?; intro reading_rules await_books)

lemma success_store: "act_keeps api_store (success msg m)"
  unfolding success_def wallet_call_def by (intro act_keeps_rules map_err_keeps sui_store)

lemma posting_store: "fst (route q) = POST \<Longrightarrow> act_keeps api_store (serve E C q)"
  by (cases q; simp only: route.simps fst_conv http_method.simps serve.simps;
      (unfold handle_register_def handle_update_peer_id_def handle_create_vault_def handle_claim_earnings_def
        handle_delegate_def handle_undelegate_def)?;
      intro encode_keeps with_wallet_keeps success_store act_keeps_rules)

lemma resolving_unspent:
  assumes "hc_wallet C = None"
  shows "act_keeps api_spent (resolve_blob E C b)" "act_keeps api_spent (resolve_blob_with_progress E C b)"
proof -
  have "act_keeps api_spent (on_mesh (resolve (he_mesh E) (new_resolver C) i))" for i
    by (intro mesh_unspent resolve_unspent) (simp add: new_resolver_def assms)
  note rules = this local_books [THEN books_spent] node_calls_books [THEN books_spent] map_err_keeps
    act_keeps_rules sum_keeps
  show "act_keeps api_spent (resolve_blob E C b)"
    unfolding resolve_blob_def Let_def by (intro rules case_prod_keeps)
  show "act_keeps api_spent (resolve_blob_with_progress E C b)"
    unfolding resolve_blob_with_progress_def Let_def by (intro rules)
qed

lemma stream_keeps:
  assumes "act_keeps api_spent (resolve_blob_with_progress E C b :: ('w, 'p, 'm, 'a, 't, 'd, unit) hact)"
  shows "act_keeps api_spent (handle_resolve_stream E C b :: ('w, 'p, 'm, 'a, 't, 'd, http_event list) hact)"
  unfolding act_keeps_def
proof (intro allI impI)
  fix s s' :: "('w, 'p, 'm, 'a, 't, 'd) api_state" and r
  assume h: "handle_resolve_stream E C b s = (r, s')"
  obtain r1 s1 where p: "resolve_blob_with_progress E C b (s\<lparr>api_events := []\<rparr>) = (r1, s1)"
    by fastforce
  with h have "s' = s1\<lparr>api_events := api_events s\<rparr>" by (simp add: handle_resolve_stream_def)
  with act_keepsD [OF assms p] show "api_spent s' = api_spent s" by (simp add: api_spent_def)
qed

lemma resolves_unspent:
  assumes "hc_wallet C = None" and "resolves q"
  shows "act_keeps api_spent (serve E C q)"
proof (cases q)
  case (ReqResolve b)
  then show ?thesis unfolding ReqResolve serve.simps handle_resolve_def
    by (intro encode_keeps internal_keeps resolving_unspent assms(1))
next
  case (ReqResolveStream b)
  then show ?thesis unfolding ReqResolveStream serve.simps
    by (intro encode_keeps stream_keeps resolving_unspent assms(1))
qed (use assms(2) in simp_all)

lemma without_wallet:
  "hc_wallet C = None \<Longrightarrow> fst (route q) = POST \<Longrightarrow>
    serve E C q = act_ret (Inl (BAD_REQUEST, ''Wallet not configured''))"
  by (cases q) (simp_all add: json_def handle_register_def handle_update_peer_id_def handle_create_vault_def
    handle_claim_earnings_def handle_delegate_def handle_undelegate_def with_wallet_def)

lemma no_wallet_unspent:
  assumes "hc_wallet C = None"
  shows "act_keeps api_spent (serve E C q)"
proof (cases "resolves q")
  case True
  with assms show ?thesis by (rule resolves_unspent)
next
  case other: False
  show ?thesis
  proof (cases "fst (route q)")
    case GET
    with other show ?thesis by (intro books_spent reading_books)
  next
    case POST
    show ?thesis unfolding without_wallet [OF assms POST] by (rule act_keeps_ret)
  qed
qed

text \<open>
  C27: which requests can spend. Without a wallet no request touches the payment counter or
  submits a transaction, resolves included, and the requests made with POST are refused and
  change nothing. With one, every request made with GET but the two that resolve a blob leaves
  the counter, the transactions and the cache as they were, and those made with POST leave the
  cache.
\<close>

theorem requests_that_spend:
  assumes "serve E C q s = (r, s')"
  shows "(hc_wallet C = None \<longrightarrow> ledger (api_wallet s') = ledger (api_wallet s)) \<and>
    (hc_wallet C = None \<and> fst (route q) = POST \<longrightarrow>
      r = Ret (Inl (BAD_REQUEST, ''Wallet not configured'')) \<and> s' = s) \<and>
    (fst (route q) = GET \<and> \<not> resolves q \<longrightarrow>
      ledger (api_wallet s') = ledger (api_wallet s) \<and> api_store s' = api_store s) \<and>
    (fst (route q) = POST \<longrightarrow> api_store s' = api_store s)"
proof (intro conjI impI)
  show "ledger (api_wallet s') = ledger (api_wallet s)" if "hc_wallet C = None"
    using act_keepsD [OF no_wallet_unspent [OF that] assms] by (simp add: api_spent_def)
  show "r = Ret (Inl (BAD_REQUEST, ''Wallet not configured''))" "s' = s"
    if "hc_wallet C = None \<and> fst (route q) = POST"
    using assms unfolding without_wallet [OF that [THEN conjunct1] that [THEN conjunct2]] by simp_all
  show "ledger (api_wallet s') = ledger (api_wallet s)" "api_store s' = api_store s"
    if "fst (route q) = GET \<and> \<not> resolves q"
    using act_keepsD [OF reading_books [OF that [THEN conjunct1] that [THEN conjunct2]] assms]
    by (simp_all add: api_books_def api_spent_def)
  show "api_store s' = api_store s" if "fst (route q) = POST"
    using act_keepsD [OF posting_store [OF that] assms] .
qed

section \<open>The two ways to resolve\<close>

text \<open>What the plain endpoint answers is what \<open>build_blobinfo\<close> makes of the resolver's result.\<close>

lemma resolve_blob_alt:
  assumes "blob_parse E b = Inr i"
  shows "resolve_blob E C b =
     act_bind (on_mesh (resolve (he_mesh E) (new_resolver C) i)) (\<lambda>r. case r of
       Inl e \<Rightarrow> act_ret (Inl (zing_display e))
     | Inr result \<Rightarrow>
         act_bind (act_run (build_blobinfo E b (rr_data result) (source_name (rr_resolution result))
           (rr_cached result) (rr_payment_error result))) (\<lambda>info.
         act_bind (tell_node E (AnnounceBlob i)) (\<lambda>_. act_ret (Inr info))))"
proof
  fix s
  show "resolve_blob E C b s = act_bind (on_mesh (resolve (he_mesh E) (new_resolver C) i)) (\<lambda>r. case r of
       Inl e \<Rightarrow> act_ret (Inl (zing_display e))
     | Inr result \<Rightarrow>
         act_bind (act_run (build_blobinfo E b (rr_data result) (source_name (rr_resolution result))
           (rr_cached result) (rr_payment_error result))) (\<lambda>info.
         act_bind (tell_node E (AnnounceBlob i)) (\<lambda>_. act_ret (Inr info)))) s"
    using assms
    by (auto simp: resolve_blob_def act_try_def act_map_err_def act_bind_def build_blobinfo_def Let_def
        split: prod.splits run.splits sum.splits)
qed

text \<open>The events of a stream, and the rest of the state, which they do not touch.\<close>

definition shared :: "('w, 'p, 'm, 'a, 't, 'd) api_state \<Rightarrow> ('w, 'p, 'm, 'a, 't, 'd) api_state" where
  "shared s = s\<lparr>api_events := []\<rparr>"

lemma on_mesh_shared:
  "on_mesh m s = (r, s') \<Longrightarrow> on_mesh m (s\<lparr>api_events := ev\<rparr>) = (r, s'\<lparr>api_events := ev\<rparr>)"
  by (auto simp: on_mesh_def new_tables_def split: prod.splits)

lemma on_mesh_events: "on_mesh m s = (r, s') \<Longrightarrow> api_events s' = api_events s"
  by (auto simp: on_mesh_def split: prod.splits)

lemma on_mesh_hit:
  assumes "bs_get (api_store s) (wx_show_id (me_walrus (he_mesh E)) i) = Inr (Some d)"
  shows "on_mesh (resolve (he_mesh E) R i) s = (Ret (Inr \<lparr>rr_data = d, rr_resolution = LocalCache,
    rr_cached = True, rr_payment_error = None\<rparr>), s)"
  using assms by (simp add: on_mesh_def resolve_def local_blob_def new_tables_def act_try_def act_bind_def)

lemma tell_nodeE:
  obtains x s' where "tell_node E c s = (Ret x, s')" "api_events s' = api_events s"
    "\<And>ev. tell_node E c (s\<lparr>api_events := ev\<rparr>) = (Ret x, s'\<lparr>api_events := ev\<rparr>)"
proof -
  obtain h s' where h: "on_mesh (send_cmd (he_mesh E) (\<lambda>_. c)) s = (Ret h, s')"
    by (cases "ch_send (he_mesh E) c (ws_world (rs_wallet (new_tables s)))")
      (auto simp: on_mesh_def send_cmd_eq)
  from that [of "if h = None then Inl (send_error E) else Inr ()" s'] h on_mesh_events [OF h]
    on_mesh_shared [OF h]
  show thesis by (simp add: tell_node_def act_bind_def)
qed

text \<open>Where the stream goes when the blob is in the store, and when it is not.\<close>

lemma stream_hit:
  assumes "blob_parse E b = Inr i" and "bs_get (api_store s) b = Inr (Some d)"
  shows "resolve_blob_with_progress E C b (s\<lparr>api_events := []\<rparr>) =
    act_bind (act_run (build_blobinfo E b d ''L0 local cache'' True None)) (\<lambda>info.
    act_bind (emit (EvInfo info)) (\<lambda>_.
    act_bind (tell_node E (AnnounceBlob i)) (\<lambda>_. act_ret ())))
      (s\<lparr>api_events := [EvStatus ''Checking local cache...'' ''L0'']\<rparr>)"
  using assms by (simp add: resolve_blob_with_progress_def act_bind_def emit_def stored_def ok_opt_def)

definition searching :: "http_event list" where
  "searching = [EvStatus ''Checking local cache...'' ''L0'', EvStatus ''Searching P2P network...'' ''L1'']"

lemma stream_miss:
  assumes "blob_parse E b = Inr i" and "\<And>d. bs_get (api_store s) b \<noteq> Inr (Some d)"
    and "on_mesh (resolve (he_mesh E) (new_resolver C) i) s = (x, s1)"
  shows "resolve_blob_with_progress E C b (s\<lparr>api_events := []\<rparr>) =
    (case x of
       Panic \<Rightarrow> (Panic, s1\<lparr>api_events := searching\<rparr>)
     | Ret (Inl e) \<Rightarrow> (Ret (), s1\<lparr>api_events := searching @ [EvError (zing_display e)]\<rparr>)
     | Ret (Inr result) \<Rightarrow>
         let source = source_name (rr_resolution result)
         in act_bind (act_run (build_blobinfo E b (rr_data result) source (rr_cached result)
              (rr_payment_error result))) (\<lambda>info.
            act_bind (tell_node E (AnnounceBlob i)) (\<lambda>_. emit (EvInfo info)))
              (s1\<lparr>api_events := searching @ [EvResolved (''Resolved via '' @ source) (take 2 source) source]\<rparr>))"
  using assms(1,2) on_mesh_shared [OF assms(3)]
  by (cases "bs_get (api_store s) b"; cases x)
    (auto simp: resolve_blob_with_progress_def act_bind_def emit_def stored_def ok_opt_def searching_def Let_def
      split: option.splits sum.splits)

text \<open>How the end of a stream relates to the outcome of the plain endpoint.\<close>

definition same_outcome :: "(string + http_blob_info) run \<Rightarrow> http_event list \<Rightarrow> bool" where
  "same_outcome r evs \<longleftrightarrow>
     (\<forall>info. EvInfo info \<in> set evs \<longleftrightarrow> r = Ret (Inr info)) \<and>
     (\<forall>e. EvError e \<in> set evs \<longleftrightarrow> r = Ret (Inl e))"

lemma same_outcome_searching:
  "same_outcome Panic searching"
  "same_outcome (Ret (Inl e)) (searching @ [EvError e])"
  "same_outcome Panic (searching @ [EvResolved a c d])"
  "same_outcome (Ret (Inr info)) (searching @ [EvResolved a c d, EvInfo info])"
  by (auto simp: same_outcome_def searching_def)

lemma hit_outcome:
  assumes "blob_parse E b = Inr i" and "wx_show_id (me_walrus (he_mesh E)) i = b"
    and "bs_get (api_store s) b = Inr (Some d)" and "resolve_blob E C b s = (r, s1)"
    and "resolve_blob_with_progress E C b (s\<lparr>api_events := []\<rparr>) = (r', s2)"
  shows "s1 = s2\<lparr>api_events := api_events s\<rparr> \<and> same_outcome r (api_events s2)"
proof -
  note hit = on_mesh_hit [of s E i d, unfolded assms(2), OF assms(3)]
  obtain x s3 where t: "tell_node E (AnnounceBlob i) s = (Ret x, s3)" "api_events s3 = api_events s"
    "\<And>ev. tell_node E (AnnounceBlob i) (s\<lparr>api_events := ev\<rparr>) = (Ret x, s3\<lparr>api_events := ev\<rparr>)"
    by (rule tell_nodeE [of E "AnnounceBlob i" s]) (rule that)
  note plain = assms(4) [unfolded resolve_blob_alt [OF assms(1)]]
  note stream = assms(5) [unfolded stream_hit [OF assms(1,3)]]
  from plain stream hit t show ?thesis
    by (cases "build_blobinfo E b d ''L0 local cache'' True None")
      (auto simp: act_bind_def emit_def same_outcome_def)
qed

lemma miss_outcome:
  assumes "blob_parse E b = Inr i" and "\<And>d. bs_get (api_store s) b \<noteq> Inr (Some d)"
    and "resolve_blob E C b s = (r, s1)"
    and "resolve_blob_with_progress E C b (s\<lparr>api_events := []\<rparr>) = (r', s2)"
  shows "s1 = s2\<lparr>api_events := api_events s\<rparr> \<and> same_outcome r (api_events s2)"
proof -
  obtain x s0 where m: "on_mesh (resolve (he_mesh E) (new_resolver C) i) s = (x, s0)" by fastforce
  obtain y s3 where t: "tell_node E (AnnounceBlob i) s0 = (Ret y, s3)" "api_events s3 = api_events s0"
    "\<And>ev. tell_node E (AnnounceBlob i) (s0\<lparr>api_events := ev\<rparr>) = (Ret y, s3\<lparr>api_events := ev\<rparr>)"
    by (rule tell_nodeE [of E "AnnounceBlob i" s0]) (rule that)
  note plain = assms(3) [unfolded resolve_blob_alt [OF assms(1)]]
  note stream = assms(4) [unfolded stream_miss [OF assms(1,2) m]]
  show ?thesis
  proof (cases x)
    case Panic
    with plain stream m on_mesh_events [OF m] show ?thesis
      by (auto simp: act_bind_def same_outcome_searching)
  next
    case (Ret res)
    show ?thesis
    proof (cases res)
      case (Inl e)
      with Ret plain stream m on_mesh_events [OF m] show ?thesis
        by (auto simp: act_bind_def same_outcome_searching)
    next
      case (Inr result)
      with Ret plain stream m on_mesh_events [OF m] t show ?thesis
        by (cases "build_blobinfo E b (rr_data result) (source_name (rr_resolution result))
            (rr_cached result) (rr_payment_error result)")
          (auto simp: act_bind_def emit_def Let_def same_outcome_searching)
    qed
  qed
qed

text \<open>
  C26: the streaming endpoint and the plain one are the same service. For a blob id in its
  printed form both leave the same state - the same cache, payments and commands to the node,
  the announcement included - and the stream carries a result exactly when the plain request
  returns it, and an error exactly when the plain request returns that error. When the MIME guess
  panics, neither sends an answer.
\<close>

theorem stream_matches_plain:
  assumes "blob_parse E b = Inr i" and "wx_show_id (me_walrus (he_mesh E)) i = b"
    and "resolve_blob E C b s = (r, s1)" and "handle_resolve_stream E C b s = (r', s2)"
  shows "s2 = s1 \<and> (\<exists>evs. r' = Ret evs \<and>
     (\<forall>info. EvInfo info \<in> set evs \<longleftrightarrow> r = Ret (Inr info)) \<and>
     (\<forall>e. EvError e \<in> set evs \<longleftrightarrow> r = Ret (Inl e)))"
proof -
  obtain r1 s3 where p: "resolve_blob_with_progress E C b (s\<lparr>api_events := []\<rparr>) = (r1, s3)"
    by fastforce
  with assms(4) have e: "r' = Ret (api_events s3)" "s2 = s3\<lparr>api_events := api_events s\<rparr>"
    by (simp_all add: handle_resolve_stream_def)
  have "s1 = s3\<lparr>api_events := api_events s\<rparr> \<and> same_outcome r (api_events s3)"
  proof (cases "\<exists>d. bs_get (api_store s) b = Inr (Some d)")
    case True
    then show ?thesis using hit_outcome [OF assms(1,2) _ assms(3) p] by blast
  next
    case False
    then show ?thesis using miss_outcome [OF assms(1) _ assms(3) p] by blast
  qed
  with e show ?thesis by (simp add: same_outcome_def)
qed

end
