(* ===== verification/Resolver_Range.thy ===== *)
theory Resolver_Range
  imports Resolver_Safety Node
begin

text \<open>
  Blobs fetched in ranges: peers that serve the blob the way the inbound range handler does get
  it reassembled whole, by one peer after the other and by several at once, up to the size
  bounds; and what happens when a transfer breaks off.
\<close>

section \<open>Peers that serve a blob\<close>

text \<open>The answer of a holder to a range request, as the requester's node passes it on.\<close>

definition range_reply :: "bytes \<Rightarrow> u64 \<Rightarrow> u64 \<Rightarrow> bytes zresult" where
  "range_reply blob offset len =
     (if unat offset < length blob then Inr (take (unat len) (drop (unat offset) blob))
      else Inl (BlobNotFound ''peer responded not found''))"

text \<open>This is the reply of the handler of a node that caches the blob and does not refuse.\<close>

lemma handler_range_reply:
  assumes "bs_get st (show_id (rrq_blob_id r)) = Inr (Some blob)" and "\<not> range_refused c r"
    and "unat (rrq_offset r) + unat (rrq_length r) < 2 ^ 64"
  shows "map_run (\<lambda>resp. data_or_not_found (rrs_data resp)) (fst (handle_inbound_range_request show_id st c r)) =
    Ret (range_reply blob (rrq_offset r) (rrq_length r))"
  using range_in_bounds [where show_id = show_id and r = r, OF assms]
  by (simp add: range_reply_def data_or_not_found_def range_have_def range_not_found_def)

text \<open>
  Peers \<open>P\<close> serve a blob when every range request to them is sent and owed its answer, and an
  owed answer arrives in time; other requests and answers do not disturb what is owed.
\<close>

definition serves :: "('w, 'p, 'm, 'a, 't, 'k, 'x) mesh_env \<Rightarrow> ('w \<Rightarrow> nat \<Rightarrow> ('p, 'm) reply \<Rightarrow> bool) \<Rightarrow> bytes \<Rightarrow> bytes \<Rightarrow> 'p set \<Rightarrow> bool" where
  "serves E owed blob_id blob P \<longleftrightarrow>
     (\<forall>w p offset len proof h. p \<in> P \<longrightarrow>
        (\<exists>w'. ch_send E (FetchRange p blob_id offset len proof h) w = (True, w') \<and>
           owed w' h (RData (range_reply blob offset len)) \<and>
           (\<forall>h' r. h' \<noteq> h \<and> owed w h' r \<longrightarrow> owed w' h' r))) \<and>
     (\<forall>w h r t. owed w h r \<longrightarrow>
        (\<exists>w'. ch_recv E h t w = (Some r, w') \<and> (\<forall>h' r'. h' \<noteq> h \<and> owed w h' r' \<longrightarrow> owed w' h' r')))"

lemma serves_sendE:
  assumes "serves E owed b blob P" and "p \<in> P"
  obtains w' where "ch_send E (FetchRange p b off len pf h) w = (True, w')"
    "owed w' h (RData (range_reply blob off len))" "\<And>h' r. h' \<noteq> h \<Longrightarrow> owed w h' r \<Longrightarrow> owed w' h' r"
  using assms unfolding serves_def by meson

lemma serves_recvE:
  assumes "serves E owed b blob P" and "owed w h r"
  obtains w' where "ch_recv E h t w = (Some r, w')" "\<And>h' r'. h' \<noteq> h \<Longrightarrow> owed w h' r' \<Longrightarrow> owed w' h' r'"
  using assms unfolding serves_def by meson

definition chunk_at :: "bytes \<Rightarrow> nat \<Rightarrow> nat \<Rightarrow> bytes option" where
  "chunk_at blob offset len = (if offset < length blob then Some (take len (drop offset blob)) else None)"

lemma data_reply_range:
  "data_reply (Some (RData (range_reply blob off len))) = chunk_at blob (unat off) (unat len)"
  by (simp add: range_reply_def chunk_at_def)

lemma fetch_range_served:
  assumes "serves E owed b blob P" and "p \<in> P"
  shows "\<exists>s'. fetch_range E p b off len pf s = (Ret (chunk_at blob (unat off) (unat len)), s')"
proof -
  let ?h = "length (rs_sent s)" and ?w = "ws_world (rs_wallet s)"
  obtain w' where w': "ch_send E (FetchRange p b off len pf ?h) ?w = (True, w')"
    "owed w' ?h (RData (range_reply blob off len))"
    using serves_sendE [OF assms] by metis
  obtain w'' where "ch_recv E ?h (Some 30) w' = (Some (RData (range_reply blob off len)), w'')"
    using serves_recvE [OF assms(1) w'(2)] by metis
  with w'(1) show ?thesis
    by (simp add: fetch_range_def ask_node_def act_bind_def send_cmd_eq recv_def on_world_def
        data_reply_range del: data_reply.simps)
qed

lemma next_chunk_served:
  assumes "serves E owed b blob P" and "p \<in> P" and "payments_safe E R"
  shows "\<exists>e s'. next_chunk E R p b off s = (Ret (e, chunk_at blob (unat off) 262144), s')"
proof -
  obtain pf e s1 where "resolve_payment E R p b (RANGE_CHUNK * FEE_PER_BYTE_NANOS) s = (Ret (pf, e), s1)"
    using act_safe_eq [OF payment_safe [OF assms(3)]] by (metis surj_pair)
  moreover obtain s2 where "fetch_range E p b off RANGE_CHUNK pf s1 = (Ret (chunk_at blob (unat off) 262144), s2)"
    using fetch_range_served [OF assms(1,2), of off RANGE_CHUNK pf s1] by (auto simp: RANGE_CHUNK_def)
  ultimately show ?thesis by (simp add: next_chunk_def act_bind_def)
qed

section \<open>One peer after the other\<close>

lemma unat_RANGE_CHUNK [simp]: "unat RANGE_CHUNK = 262144"
  by (simp add: RANGE_CHUNK_def)

lemma first_guard: "\<not> MAX_CHUNKS \<le> RANGE_CHUNK div RANGE_CHUNK"
  by (simp add: MAX_CHUNKS_def word_le_nat_alt unat_div)

lemma unat_chunk: "k \<le> 2048 \<Longrightarrow> unat (word_of_nat (k * 262144) :: u64) = k * 262144"
  by (subst unat_of_nat, rule mod_less) simp

lemma range_loop_served:
  assumes "serves E owed b blob P" and "p \<in> P" and "payments_safe E R"
  shows "k \<le> 2048 \<Longrightarrow> k * 262144 \<le> length blob \<Longrightarrow>
    \<exists>e' s'. range_loop E R p b (take (k * 262144) blob) (word_of_nat (k * 262144)) e s =
      (Ret (if length blob < 2048 * 262144 then Some (blob, e') else None), s')"
proof (induction "2048 - k" arbitrary: k e s)
  case 0
  then have "k = 2048" by simp
  with 0 show ?case
    by (subst range_loop.simps) (simp add: MAX_CHUNKS_def RANGE_CHUNK_def)
next
  case (Suc n)
  let ?off = "word_of_nat (k * 262144) :: u64"
  have k: "k < 2048" using Suc.hyps(2) by simp
  then have off: "unat ?off = k * 262144" by (intro unat_chunk) simp
  then have guard: "\<not> ?off div RANGE_CHUNK \<ge> MAX_CHUNKS"
    using k by (simp add: word_le_nat_alt unat_div MAX_CHUNKS_def RANGE_CHUNK_def)
  obtain e1 s1 where step: "next_chunk E R p b ?off s = (Ret (e1, chunk_at blob (k * 262144) 262144), s1)"
    using next_chunk_served [OF assms, of ?off s] off by auto
  show ?case
  proof (cases "k * 262144 + 262144 \<le> length blob")
    case True
    have "take (k * 262144) blob @ take 262144 (drop (k * 262144) blob) = take (Suc k * 262144) blob"
      using take_add [of "k * 262144" 262144 blob] by (simp add: add.commute)
    moreover have "?off + RANGE_CHUNK = word_of_nat (Suc k * 262144)"
      by (simp add: RANGE_CHUNK_def)
    moreover have "\<exists>e' s'. range_loop E R p b (take (Suc k * 262144) blob) (word_of_nat (Suc k * 262144))
        (first_err e e1) s1 =
        (Ret (if length blob < 2048 * 262144 then Some (blob, e') else None), s')"
      using Suc.hyps(1) [of "Suc k"] Suc.hyps(2) True k by simp
    ultimately show ?thesis
      using step guard True by (subst range_loop.simps) (auto simp: chunk_at_def Let_def add.commute)
  next
    case False
    with k have "length blob < 2048 * 262144" by linarith
    with step guard False Suc.prems show ?thesis
      by (subst range_loop.simps) (auto simp: chunk_at_def Let_def)
  qed
qed

lemma finalize_verified:
  assumes "wx_compute_blob_id (me_walrus E) RS2 d = Inr b"
  shows "\<exists>s'. finalize_l1_fetch E R b p d e s = (Ret (Some (Inr \<lparr>rr_data = d, rr_resolution = L1Peer,
    rr_cached = True, rr_payment_error = e\<rparr>)), s')"
  using verify_by_id_iff [of "me_walrus E" b d] assms
  by (simp add: finalize_l1_fetch_def act_bind_def store_blob_def evict_def credit_def
      split: sum.split prod.split)

lemma finalize_corrupt:
  assumes "wx_compute_blob_id (me_walrus E) RS2 d \<noteq> Inr b"
  shows "finalize_l1_fetch E R b p d e s = (Ret None, s\<lparr>rs_reputation :=
    record_corruption (me_clocks E (ws_world (rs_wallet s))) (rs_reputation s) (pid_show E p)\<rparr>)"
proof -
  obtain er where "verify_blob_by_id (me_walrus E) b d = Inl er"
    using verify_by_id_cases [of "me_walrus E" b d] assms by metis
  then show ?thesis by (simp add: finalize_l1_fetch_def act_bind_def blame_def)
qed

text \<open>
  C22: a connected peer that serves the blob the way the range handler does gets it fetched
  whole, in chunks of 256 KiB, verified and returned, whatever the payments cost or fail with,
  as long as the blob is shorter than 2048 chunks; a blob of 512 MiB or more is given up.
\<close>

theorem range_fetch_reassembles:
  assumes "serves E owed b blob P" and "p \<in> P" and "payments_safe E R"
    and "connected_peers E s = (Ret (Some (p # ps)), s1)"
    and "blob \<noteq> []" and "wx_compute_blob_id (me_walrus E) RS2 blob = Inr b"
  shows "\<exists>e s'. try_direct_peers_range E R b s =
    (Ret (if length blob < 512 * 1024 * 1024
      then Some (Inr \<lparr>rr_data = blob, rr_resolution = L1Peer, rr_cached = True, rr_payment_error = e\<rparr>)
      else None), s')"
proof -
  obtain e2 s2 where first: "next_chunk E R p b 0 s1 = (Ret (e2, Some (take 262144 blob)), s2)"
    using next_chunk_served [OF assms(1-3), of 0 s1] assms(5) by (auto simp: chunk_at_def)
  show ?thesis
  proof (cases "length blob < 262144")
    case True
    then show ?thesis
      using first assms(4) finalize_verified [OF assms(6), of R p e2 s2]
      by (auto simp: try_direct_peers_range_def act_bind_def)
  next
    case False
    obtain e3 s3 where loop: "range_loop E R p b (take 262144 blob) RANGE_CHUNK e2 s2 =
        (Ret (if length blob < 2048 * 262144 then Some (blob, e3) else None), s3)"
      using range_loop_served [OF assms(1-3), of 1 e2 s2] False by (auto simp: RANGE_CHUNK_def)
    obtain s4 where "finalize_l1_fetch E R b p blob e3 s3 = (Ret (Some (Inr \<lparr>rr_data = blob,
        rr_resolution = L1Peer, rr_cached = True, rr_payment_error = e3\<rparr>)), s4)"
      using finalize_verified [OF assms(6)] by blast
    with first assms(4) loop False show ?thesis
      by (auto simp: try_direct_peers_range_def act_bind_def)
  qed
qed

text \<open>
  C24: when a transfer breaks off, the peer is blamed for it: after a full first chunk, a second
  one that does not come (a time-out, a lost connection or the refusal of an unpaid request) ends
  the loop, the half blob fails the verification, the peer is recorded as corrupt although
  everything it sent may be genuine, nothing is cached, and no other connected peer is asked.
\<close>

theorem interrupted_transfer_blames_peer:
  assumes "connected_peers E s = (Ret (Some (p # ps)), s1)"
    and "next_chunk E R p b 0 s1 = (Ret (e, Some chunk), s2)" and "length chunk = 256 * 1024"
    and "next_chunk E R p b (256 * 1024) s2 = (Ret (e', None), s3)"
    and "wx_compute_blob_id (me_walrus E) RS2 chunk \<noteq> Inr b"
  shows "try_direct_peers_range E R b s = (Ret None, s3\<lparr>rs_reputation :=
      record_corruption (me_clocks E (ws_world (rs_wallet s3))) (rs_reputation s) (pid_show E p)\<rparr>) \<and>
    rs_store s3 = rs_store s"
proof -
  have loop: "range_loop E R p b chunk RANGE_CHUNK e s2 = (Ret (Some (chunk, first_err e e')), s3)"
    using assms(4) first_guard by (subst range_loop.simps) (simp add: RANGE_CHUNK_def Let_def)
  have "mesh_books s3 = mesh_books s"
    using act_keepsD [OF next_chunk_keeps assms(4)] act_keepsD [OF next_chunk_keeps assms(2)]
      act_keepsD [OF calls_keep(1) assms(1)] by simp
  then have "rs_reputation s3 = rs_reputation s" "rs_store s3 = rs_store s"
    by (simp_all add: mesh_books_def)
  with assms loop finalize_corrupt [OF assms(5), of R p "first_err e e'" s3] show ?thesis
    by (simp add: try_direct_peers_range_def act_bind_def)
qed

end
