(* ===== verification/Resolver_Parallel.thy ===== *)
theory Resolver_Parallel
  imports Resolver_Range
begin

text \<open>
  The parallel range fetch: peers that serve the blob get it reassembled whole out of windows of
  64 KiB chunks.
\<close>

section \<open>A round of requests\<close>

lemma unat_CHUNK_SIZE [simp]: "unat CHUNK_SIZE = 65536"
  by (simp add: CHUNK_SIZE_def)

text \<open>The sends take fresh handles in order, and all answers are owed after the last one.\<close>

lemma sends_served:
  assumes "serves E owed b blob P"
  shows "\<forall>(c, p, off, pf) \<in> set reqs. p \<in> P \<Longrightarrow>
    \<exists>s'. act_map_all (\<lambda>(c, peer, offset, proof). send_cmd E (FetchRange peer b offset len proof)) reqs s =
        (Ret (map Some [length (rs_sent s)..<length (rs_sent s) + length reqs]), s') \<and>
      (\<forall>i < length reqs. owed (ws_world (rs_wallet s')) (length (rs_sent s) + i)
        (RData (range_reply blob (fst (snd (snd (reqs ! i)))) len))) \<and>
      (\<forall>h r. h < length (rs_sent s) \<and> owed (ws_world (rs_wallet s)) h r \<longrightarrow>
        owed (ws_world (rs_wallet s')) h r)"
proof (induction reqs arbitrary: s)
  case Nil
  then show ?case by simp
next
  case (Cons q reqs)
  let ?h = "length (rs_sent s)"
  obtain c p off pf where q: "q = (c, p, off, pf)" by (cases q)
  with Cons.prems have "p \<in> P" by simp
  then obtain w' where w': "ch_send E (FetchRange p b off len pf ?h) (ws_world (rs_wallet s)) = (True, w')"
    "owed w' ?h (RData (range_reply blob off len))"
    "\<And>h' r. h' \<noteq> ?h \<Longrightarrow> owed (ws_world (rs_wallet s)) h' r \<Longrightarrow> owed w' h' r"
    using serves_sendE [OF assms] by metis
  let ?s1 = "s\<lparr>rs_sent := rs_sent s @ [FetchRange p b off len pf ?h],
    rs_wallet := (rs_wallet s)\<lparr>ws_world := w'\<rparr>\<rparr>"
  obtain s' where s': "act_map_all (\<lambda>(c, peer, offset, proof). send_cmd E (FetchRange peer b offset len proof)) reqs ?s1 =
        (Ret (map Some [Suc ?h..<Suc ?h + length reqs]), s')"
      "\<And>i. i < length reqs \<Longrightarrow> owed (ws_world (rs_wallet s')) (Suc ?h + i)
        (RData (range_reply blob (fst (snd (snd (reqs ! i)))) len))"
      "\<And>h r. h < Suc ?h \<Longrightarrow> owed w' h r \<Longrightarrow> owed (ws_world (rs_wallet s')) h r"
    using Cons.IH [of ?s1] Cons.prems by auto
  have "act_map_all (\<lambda>(c, peer, offset, proof). send_cmd E (FetchRange peer b offset len proof)) (q # reqs) s =
      (Ret (map Some [?h..<?h + length (q # reqs)]), s')"
    using w'(1) s'(1) q by (simp add: act_bind_def send_cmd_eq upt_conv_Cons del: upt_Suc)
  moreover have "owed (ws_world (rs_wallet s')) (?h + i)
      (RData (range_reply blob (fst (snd (snd ((q # reqs) ! i)))) len))" if "i < length (q # reqs)" for i
  proof (cases i)
    case 0
    with s'(3) [of ?h] w'(2) q show ?thesis by simp
  next
    case (Suc j)
    with s'(2) [of j] that show ?thesis by simp
  qed
  moreover have "owed (ws_world (rs_wallet s')) h r" if "h < ?h" "owed (ws_world (rs_wallet s)) h r" for h r
    using s'(3) w'(3) that by simp
  ultimately show ?case by blast
qed

lemma recvs_served:
  assumes "serves E owed b blob P"
  shows "distinct (map snd futs) \<Longrightarrow>
    \<forall>(off, h) \<in> set futs. owed (ws_world (rs_wallet s)) h (RData (range_reply blob (g off) len)) \<Longrightarrow> 0 < unat len \<Longrightarrow>
    \<exists>s'. act_map_all (await_chunk E t) futs s =
      (Ret (map (\<lambda>(c, h). map_option (Pair c) (chunk_at blob (unat (g c)) (unat len))) futs), s')"
proof (induction futs arbitrary: s)
  case Nil
  then show ?case by simp
next
  case (Cons f futs)
  obtain c h where f: "f = (c, h)" by (cases f)
  with Cons.prems have "owed (ws_world (rs_wallet s)) h (RData (range_reply blob (g c) len))" by simp
  then obtain w' where w': "ch_recv E h (Some t) (ws_world (rs_wallet s)) = (Some (RData (range_reply blob (g c) len)), w')"
    "\<And>h' r. h' \<noteq> h \<Longrightarrow> owed (ws_world (rs_wallet s)) h' r \<Longrightarrow> owed w' h' r"
    using serves_recvE [OF assms] by metis
  let ?s1 = "s\<lparr>rs_wallet := (rs_wallet s)\<lparr>ws_world := w'\<rparr>\<rparr>"
  have "await_chunk E t f s = (Ret (map_option (Pair c) (chunk_at blob (unat (g c)) (unat len))), ?s1)"
    using w'(1) f Cons.prems(3)
    by (auto simp: await_chunk_def act_bind_def recv_def on_world_def data_reply_range chunk_at_def
        simp del: data_reply.simps)
  moreover have "\<forall>(off, h') \<in> set futs. owed w' h' (RData (range_reply blob (g off) len))"
    using Cons.prems(1,2) w'(2) f by force
  then have "\<exists>s'. act_map_all (await_chunk E t) futs ?s1 =
      (Ret (map (\<lambda>(c, h). map_option (Pair c) (chunk_at blob (unat (g c)) (unat len))) futs), s')"
    using Cons.IH [of ?s1] Cons.prems f by auto
  ultimately show ?case using f by (auto simp: act_bind_def)
qed

lemma present_map: "List.map_filter (\<lambda>r. r) (map f xs) = List.map_filter f xs"
  by (induction xs) (simp_all add: List.map_filter_simps split: option.split)

lemma round_served:
  assumes "serves E owed b blob P" and "\<forall>(c, p, off, pf) \<in> set reqs. p \<in> P \<and> off = g c" and "0 < unat len"
  shows "\<exists>s'. range_round E t b len reqs s = (Ret (List.map_filter
    (\<lambda>(c, _). map_option (Pair c) (chunk_at blob (unat (g c)) (unat len))) reqs), s')"
proof -
  let ?n = "length (rs_sent s)"
  have peers: "\<forall>(c, p, off, pf) \<in> set reqs. p \<in> P" using assms(2) by auto
  obtain s1 where s1: "act_map_all (\<lambda>(c, peer, offset, proof). send_cmd E (FetchRange peer b offset len proof)) reqs s =
        (Ret (map Some [?n..<?n + length reqs]), s1)"
      "\<And>i. i < length reqs \<Longrightarrow> owed (ws_world (rs_wallet s1)) (?n + i)
        (RData (range_reply blob (fst (snd (snd (reqs ! i)))) len))"
    using sends_served [OF assms(1) peers, of len s] by auto
  let ?futs = "zip (map fst reqs) [?n..<?n + length reqs]"
  have futs: "List.map_filter (\<lambda>(q, h). map_option (Pair (fst q)) h) (zip reqs (map Some [?n..<?n + length reqs])) = ?futs"
    by (simp add: List.map_filter_def zip_map1 zip_map2 filter_map o_def case_prod_unfold)
  have "\<forall>(c, h) \<in> set ?futs. owed (ws_world (rs_wallet s1)) h (RData (range_reply blob (g c) len))"
  proof (clarsimp simp: set_zip)
    fix i assume i: "i < length reqs"
    then have "reqs ! i \<in> set reqs" by simp
    with assms(2) have "fst (snd (snd (reqs ! i))) = g (fst (reqs ! i))" by fastforce
    with s1(2) [OF i] show "owed (ws_world (rs_wallet s1)) (?n + i) (RData (range_reply blob (g (fst (reqs ! i))) len))"
      by simp
  qed
  with recvs_served [OF assms(1), of ?futs s1 g len t] assms(3) obtain s2 where
    "act_map_all (await_chunk E t) ?futs s1 =
      (Ret (map (\<lambda>(c, h). map_option (Pair c) (chunk_at blob (unat (g c)) (unat len))) ?futs), s2)"
    by auto
  moreover have "List.map_filter (\<lambda>r. r) (map (\<lambda>(c, h). map_option (Pair c) (chunk_at blob (unat (g c)) (unat len))) ?futs) =
      List.map_filter (\<lambda>(c, _). map_option (Pair c) (chunk_at blob (unat (g c)) (unat len))) reqs"
  proof -
    have "map (\<lambda>(c, h). map_option (Pair c) (chunk_at blob (unat (g c)) (unat len))) ?futs =
        map (\<lambda>(c, _). map_option (Pair c) (chunk_at blob (unat (g c)) (unat len))) reqs"
      by (rule nth_equalityI) (auto simp: case_prod_unfold)
    then show ?thesis by (simp only: present_map)
  qed
  ultimately show ?thesis
    using s1(1) futs by (simp add: range_round_def act_bind_def)
qed

section \<open>Windows\<close>

text \<open>The chunks of a blob from the \<open>j\<close>th on, and what appending them gives.\<close>

fun chunks_from :: "bytes \<Rightarrow> nat \<Rightarrow> nat \<Rightarrow> (u64 \<times> bytes) list" where
  "chunks_from blob j 0 = []"
| "chunks_from blob j (Suc n) = (case chunk_at blob (j * 65536) 65536 of
     None \<Rightarrow> [] | Some c \<Rightarrow> (word_of_nat (j * 65536), c) # chunks_from blob (Suc j) n)"

lemma chunks_from_end: "length blob \<le> j * 65536 \<Longrightarrow> chunks_from blob j n = []"
  by (cases n) (simp_all add: chunk_at_def)

lemma chunks_from_filter:
  "List.map_filter (\<lambda>i. map_option (Pair (word_of_nat (i * 65536))) (chunk_at blob (i * 65536) 65536))
    [j..<j + n] = chunks_from blob j n"
proof (induction n arbitrary: j)
  case 0
  then show ?case by (simp add: List.map_filter_simps)
next
  case (Suc n)
  have "[j..<j + Suc n] = j # [Suc j..<Suc j + n]" by (simp add: upt_conv_Cons del: upt_Suc)
  moreover have "chunks_from blob (Suc j) n = []" if "chunk_at blob (j * 65536) 65536 = None"
    using that by (intro chunks_from_end) (auto simp: chunk_at_def split: if_splits)
  ultimately show ?case
    using Suc.IH [of "Suc j"] by (auto simp: List.map_filter_simps simp del: upt_Suc split: option.split)
qed

lemma append_chunks_from:
  "j * 65536 \<le> length blob \<Longrightarrow>
    \<exists>f. append_chunks (word_of_nat (j * 65536)) (take (j * 65536) blob) eof (chunks_from blob j n) =
      (take ((j + n) * 65536) blob, False, f) \<and> (f \<and> \<not> eof \<longrightarrow> length blob \<le> (j + n) * 65536)"
proof (induction n arbitrary: j eof)
  case 0
  then show ?case by simp
next
  case (Suc n)
  show ?case
  proof (cases "j * 65536 < length blob")
    case False
    then show ?thesis by (simp add: chunk_at_def)
  next
    case True
    let ?c = "take 65536 (drop (j * 65536) blob)"
    have c: "chunk_at blob (j * 65536) 65536 = Some ?c" using True by (simp add: chunk_at_def)
    have app: "take (j * 65536) blob @ ?c = take (Suc j * 65536) blob"
      using take_add [of "j * 65536" 65536 blob] by (simp add: add.commute)
    have run: "append_chunks (word_of_nat (j * 65536)) (take (j * 65536) blob) eof (chunks_from blob j (Suc n)) =
        append_chunks (word_of_nat (j * 65536) + word_of_nat (length ?c)) (take (Suc j * 65536) blob)
          (eof \<or> length ?c < 65536) (chunks_from blob (Suc j) n)"
      using c by (simp only: chunks_from.simps option.case append_chunks.simps app unat_CHUNK_SIZE if_False simp_thms)
    show ?thesis
    proof (cases "Suc j * 65536 \<le> length blob")
      case full: True
      then have len: "length ?c = 65536" by simp
      have off: "word_of_nat (j * 65536) + word_of_nat (length ?c) = (word_of_nat (Suc j * 65536) :: u64)"
        unfolding len by (simp add: add.commute)
      have eof: "(eof \<or> length ?c < 65536) = eof" using len by simp
      show ?thesis
        unfolding run off eof using Suc.IH [OF full, of eof] by simp
    next
      case short: False
      then have "length ?c < 65536" by simp
      moreover have "chunks_from blob (Suc j) n = []" using short by (intro chunks_from_end) simp
      moreover have "take ((j + Suc n) * 65536) blob = take (Suc j * 65536) blob"
        using short by simp
      moreover have "length blob \<le> (j + Suc n) * 65536" using short by simp
      ultimately show ?thesis unfolding run by simp
    qed
  qed
qed

lemma chunks_from_sorted:
  "length blob \<le> 2 ^ 60 \<Longrightarrow> sorted (map fst (chunks_from blob j n)) \<and>
    (\<forall>x \<in> set (map fst (chunks_from blob j n)). j * 65536 \<le> unat x)"
proof (induction n arbitrary: j)
  case (Suc n)
  show ?case
  proof (cases "j * 65536 < length blob")
    case True
    then have "j * 65536 < 2 ^ 64" using Suc.prems by simp
    then have x: "unat (word_of_nat (j * 65536) :: u64) = j * 65536"
      by (subst unat_of_nat) simp
    note IH = Suc.IH [OF Suc.prems, of "Suc j"]
    have "word_of_nat (j * 65536) \<le> y" if "y \<in> set (map fst (chunks_from blob (Suc j) n))" for y :: u64
      using IH that x by (fastforce simp: word_le_nat_alt)
    moreover have "j * 65536 \<le> unat y" if "y \<in> set (map fst (chunks_from blob (Suc j) n))" for y
      using IH that by fastforce
    ultimately show ?thesis
      using IH x True unfolding chunks_from.simps
      by (auto simp: chunk_at_def simp del: of_nat_mult chunks_from.simps)
  qed (simp add: chunk_at_def)
qed simp

lemma window_offset_eq: "window_offset n w i = word_of_nat ((w * n + i) * 65536)"
  by (simp add: window_offset_def CHUNK_SIZE_def algebra_simps)

lemma map_filter_zip: "length ys = length xs \<Longrightarrow>
    List.map_filter (\<lambda>(c, _). f c) (map (\<lambda>(i, p, q). (h i, p, h i, q)) (zip xs ys)) =
    List.map_filter (\<lambda>i. f (h i)) xs"
  by (induction xs ys rule: list_induct2') (auto simp: List.map_filter_simps split: option.split)

lemma map_filter_of_map: "List.map_filter f (map g xs) = List.map_filter (\<lambda>i. f (g i)) xs"
  by (induction xs) (simp_all add: List.map_filter_simps split: option.split)

lemma map_filter_shift:
  "List.map_filter (\<lambda>i. f (j + i)) [0..<n] = List.map_filter f [j..<j + n]"
proof -
  have "[j..<j + n] = map (\<lambda>i. j + i) [0..<n]" by (induction n) simp_all
  then show ?thesis by (simp add: map_filter_of_map)
qed

lemma map_filter_cong: "(\<And>x. x \<in> set xs \<Longrightarrow> f x = g x) \<Longrightarrow> List.map_filter f xs = List.map_filter g xs"
  by (induction xs) (auto simp: List.map_filter_simps split: option.split)

lemma window_served:
  assumes "serves E owed b blob P" and "set ws \<subseteq> P" and "length proofs = length ws"
    and "(w * length ws + length ws) * 65536 < 2 ^ 64"
  shows "\<exists>s'. window_chunks E b ws w proofs s =
    (Ret (chunks_from blob (w * length ws) (length ws)), s')"
proof -
  let ?n = "length ws"
  let ?reqs = "map (\<lambda>(i, peer, proof). (window_offset ?n w i, peer, window_offset ?n w i, proof))
    (zip [0..<?n] (zip ws proofs))"
  have "\<forall>(c, p, off, pf) \<in> set ?reqs. p \<in> P \<and> off = id c"
    using assms(2) by (auto dest: set_zip_rightD [where xs = "[0..<length ws]", THEN set_zip_leftD])
  from round_served [OF assms(1) this, of CHUNK_SIZE 30 s] obtain s' where
    "range_round E 30 b CHUNK_SIZE ?reqs s =
      (Ret (List.map_filter (\<lambda>(c, _). map_option (Pair c) (chunk_at blob (unat c) 65536)) ?reqs), s')"
    by auto
  moreover have "List.map_filter (\<lambda>(c, _). map_option (Pair c) (chunk_at blob (unat c) 65536)) ?reqs =
      chunks_from blob (w * ?n) ?n"
  proof -
    have "unat (window_offset ?n w i) = (w * ?n + i) * 65536" if "i < ?n" for i
    proof -
      have "(w * ?n + i) * 65536 \<le> (w * ?n + ?n) * 65536" using that by simp
      then have "(w * ?n + i) * 65536 < 2 ^ 64" using assms(4) by linarith
      then show ?thesis unfolding window_offset_eq by (subst unat_of_nat) simp
    qed
    then show ?thesis
      using assms(3) unfolding chunks_from_filter [symmetric]
      by (subst map_filter_zip, simp, subst map_filter_shift [symmetric])
        (auto intro!: map_filter_cong simp: window_offset_eq simp del: of_nat_mult)
  qed
  ultimately show ?thesis by (simp add: window_chunks_def)
qed

lemma verdict_served:
  assumes "length blob \<le> 2 ^ 60" and "0 < n" and "data = take (j * 65536) blob"
    and "length data \<le> MAX_TOTAL_SIZE"
  shows "(length blob \<le> j * 65536 \<and> data = blob \<and>
      window_verdict data e (chunks_from blob j n) = WBreak blob e) \<or>
    (MAX_TOTAL_SIZE < length blob \<and> window_verdict data e (chunks_from blob j n) = WAbort) \<or>
    (length blob \<le> MAX_TOTAL_SIZE \<and> window_verdict data e (chunks_from blob j n) = WEof blob e) \<or>
    (length (take ((j + n) * 65536) blob) \<le> MAX_TOTAL_SIZE \<and> (j + n) * 65536 \<le> MAX_TOTAL_SIZE + n * 65536 \<and>
      window_verdict data e (chunks_from blob j n) = WNext (take ((j + n) * 65536) blob) e)"
proof (cases "length blob \<le> j * 65536")
  case True
  with assms(3) show ?thesis by (simp add: chunks_from_end window_verdict_def)
next
  case False
  let ?cs = "chunks_from blob j n"
  have "?cs \<noteq> []" using False assms(2) by (cases n) (simp_all add: chunk_at_def)
  moreover have "sort_key fst ?cs = ?cs"
    using chunks_from_sorted [OF assms(1)] by (intro sort_key_id_if_sorted) auto
  moreover have len: "length data = j * 65536" using assms(3) False by simp
  moreover obtain f where f: "append_chunks (word_of_nat (j * 65536)) data False ?cs =
      (take ((j + n) * 65536) blob, False, f)" "f \<longrightarrow> length blob \<le> (j + n) * 65536"
    using append_chunks_from [of j blob False n] False assms(3) by auto
  ultimately have v: "window_verdict data e ?cs =
      (if MAX_TOTAL_SIZE < length (take ((j + n) * 65536) blob) then WAbort
       else if f then WEof (take ((j + n) * 65536) blob) e else WNext (take ((j + n) * 65536) blob) e)"
    by (simp add: window_verdict_def)
  have "f \<Longrightarrow> take ((j + n) * 65536) blob = blob" using f(2) by simp
  with v len assms(4) show ?thesis by (auto simp: algebra_simps)
qed

section \<open>The whole fetch\<close>

lemma pay_all_length:
  assumes "payments_safe E R"
  shows "\<exists>rs s'. pay_all E R b a ps s = (Ret rs, s') \<and> length rs = length ps"
proof -
  obtain rs s' where r: "pay_all E R b a ps s = (Ret rs, s')"
    using act_safe_eq [OF steps_safe(2) [OF assms]] by blast
  have "act_gives (pay_all E R b a ps) (list_all2 (\<lambda>_ _. True) ps)"
    unfolding pay_all_def by (rule act_gives_map_all) (simp add: act_gives_def)
  from act_givesD [OF this r] r show ?thesis by (auto simp: list_all2_lengthD)
qed

lemma window_loop_served:
  assumes "serves E owed b blob P" and "set ws \<subseteq> P" and "payments_safe E R"
    and "ws \<noteq> []" and "length ws \<le> 5" and "length blob \<le> 2 ^ 60"
  shows "data = take (w * length ws * 65536) blob \<Longrightarrow> length data \<le> MAX_TOTAL_SIZE \<Longrightarrow>
    w * length ws * 65536 \<le> MAX_TOTAL_SIZE + length ws * 65536 \<Longrightarrow>
    \<exists>r s'. window_loop E R b ws w data e s = (Ret r, s') \<and>
      (if length blob \<le> MAX_TOTAL_SIZE then \<exists>e'. r = WEof blob e' \<or> r = WBreak blob e' else r = WAbort)"
proof (induction "MAX_TOTAL_SIZE - length data" arbitrary: w data e s rule: less_induct)
  case less
  let ?n = "length ws" and ?j = "w * length ws"
  obtain rs s1 where pays: "pay_all E R b (CHUNK_SIZE * FEE_PER_BYTE_NANOS) ws s = (Ret rs, s1)"
    "length rs = ?n"
    using pay_all_length [OF assms(3)] by blast
  have "(?j + ?n) * 65536 < 2 ^ 64"
    using less.prems(3) assms(5) by (simp add: MAX_TOTAL_SIZE_def algebra_simps)
  then obtain s2 where "window_chunks E b ws w (map fst rs) s1 = (Ret (chunks_from blob ?j ?n), s2)"
    using window_served [OF assms(1,2), of "map fst rs" w s1] pays(2) by auto
  with pays(1) have step: "window_step E R b ws w data e s =
      (Ret (window_verdict data (first_err e (find_err rs)) (chunks_from blob ?j ?n)), s2)"
    by (simp add: window_step_def act_bind_def)
  have "0 < ?n" using assms(4) by simp
  from verdict_served [OF assms(6) this less.prems(1,2), of "first_err e (find_err rs)"]
  show ?case
  proof (elim disjE conjE)
    assume next_window: "length (take ((?j + ?n) * 65536) blob) \<le> MAX_TOTAL_SIZE"
      "(?j + ?n) * 65536 \<le> MAX_TOTAL_SIZE + ?n * 65536"
      and v: "window_verdict data (first_err e (find_err rs)) (chunks_from blob ?j ?n) =
        WNext (take ((?j + ?n) * 65536) blob) (first_err e (find_err rs))"
    let ?d = "take (Suc w * ?n * 65536) blob"
    have d: "?d = take ((?j + ?n) * 65536) blob" by (simp add: algebra_simps)
    from window_step_next [OF step [unfolded v]] have "length data < length ?d" unfolding d by blast
    then have "MAX_TOTAL_SIZE - length ?d < MAX_TOTAL_SIZE - length data"
      using next_window(1) unfolding d by linarith
    from less.hyps [OF this refl, of "first_err e (find_err rs)" s2] next_window
    obtain r s' where "window_loop E R b ws (Suc w) ?d (first_err e (find_err rs)) s2 = (Ret r, s')"
      "if length blob \<le> MAX_TOTAL_SIZE then \<exists>e'. r = WEof blob e' \<or> r = WBreak blob e' else r = WAbort"
      unfolding d by (auto simp: algebra_simps)
    with step v d show ?thesis by (subst window_loop.simps) simp
  qed (use step less.prems(2) in \<open>subst window_loop.simps, simp\<close>)+
qed

text \<open>
  C23: when the first five connected peers serve the blob, the parallel fetch returns it whole
  and verified, reassembled from 64 KiB chunks of all of them, up to 512 MiB; beyond that it
  gives the blob up.
\<close>

theorem parallel_fetch_reassembles:
  assumes "serves E owed b blob P" and "set (take 5 ps) \<subseteq> P" and "payments_safe E R"
    and "connected_peers E s = (Ret (Some ps), s1)" and "ps \<noteq> []"
    and "blob \<noteq> []" and "length blob \<le> 2 ^ 60" and "wx_compute_blob_id (me_walrus E) RS2 blob = Inr b"
  shows "\<exists>e s'. try_direct_peers_range_parallel E R b s =
    (Ret (if length blob \<le> 512 * 1024 * 1024
      then Some (Inr \<lparr>rr_data = blob, rr_resolution = L1Peer, rr_cached = True, rr_payment_error = e\<rparr>)
      else None), s')"
proof -
  let ?ws = "take 5 ps"
  obtain rs s2 where pays: "pay_all E R b (8 * FEE_PER_BYTE_NANOS) ?ws s1 = (Ret rs, s2)"
    "length rs = length ?ws"
    using pay_all_length [OF assms(3)] by blast
  let ?reqs = "map (\<lambda>(peer, proof). (peer, peer, 0 :: u64, proof)) (zip ?ws (map fst rs))"
  have "\<forall>(c, p, off, pf) \<in> set ?reqs. p \<in> P \<and> off = 0"
    using assms(2) by (auto dest!: set_zip_leftD)
  from round_served [OF assms(1), of ?reqs "\<lambda>_. 0" 8 5 s2, OF this] obtain s3 where
    "range_round E 5 b 8 ?reqs s2 =
      (Ret (List.map_filter (\<lambda>(c, _). map_option (Pair c) (chunk_at blob 0 8)) ?reqs), s3)"
    by auto
  moreover have "List.map_filter (\<lambda>(c, _). map_option (Pair c) (chunk_at blob 0 8)) ?reqs =
      map (\<lambda>p. (p, take 8 blob)) ?ws"
    using pays(2) assms(6)
    by (intro nth_equalityI) (auto simp: List.map_filter_def chunk_at_def o_def case_prod_unfold)
  ultimately have probes: "range_round E 5 b 8 ?reqs s2 = (Ret (map (\<lambda>p. (p, take 8 blob)) ?ws), s3)"
    by simp
  have ws: "map fst (map (\<lambda>p. (p, take 8 blob)) ?ws) = ?ws" by (simp add: o_def)
  have "?ws \<noteq> []" using assms(5) by simp
  from window_loop_served [OF assms(1-3) this _ assms(7), of "[]" 0 "find_err rs" s3] obtain r s4 where
    loop: "window_loop E R b ?ws 0 [] (find_err rs) s3 = (Ret r, s4)"
      "if length blob \<le> MAX_TOTAL_SIZE then \<exists>e'. r = WEof blob e' \<or> r = WBreak blob e' else r = WAbort"
    by auto
  have run: "try_direct_peers_range_parallel E R b s = (case r of
      WBreak data e \<Rightarrow> if data = [] then act_ret None else finalize_l1_fetch E R b (hd ?ws) data e
    | WEof data e \<Rightarrow> finalize_l1_fetch E R b (hd ?ws) data e | _ \<Rightarrow> act_ret None) s4"
    using assms(4,5) pays(1) probes loop(1) ws
    by (simp add: try_direct_peers_range_parallel_def act_bind_def MAX_PARALLEL_def Let_def
        split: window_end.split)
  show ?thesis
  proof (cases "length blob \<le> MAX_TOTAL_SIZE")
    case True
    with loop(2) obtain e' where "r = WEof blob e' \<or> r = WBreak blob e'" by auto
    with True run assms(6) finalize_verified [OF assms(8), of R "hd ?ws" e' s4] show ?thesis
      by (auto simp: MAX_TOTAL_SIZE_def)
  next
    case False
    with loop(2) run show ?thesis by (simp add: MAX_TOTAL_SIZE_def)
  qed
qed

end
