(* ===== verification/Resolver_Pay.thy ===== *)
theory Resolver_Pay
  imports Resolver_Safety Wallet_Safety
begin

text \<open>
  Payments of the resolver: who is asked for an address, what counts as the answer, and where
  the money goes.
\<close>

section \<open>Asking the node\<close>

text \<open>
  Sending and waiting leaves the address book and the wallet's counter and trace alone, and
  records the one command that was sent.
\<close>

definition addr_books :: "('w, 'p, 'm, 'a, 't, 'd) res_state \<Rightarrow>
    ('p \<rightharpoonup> bytes option) \<times> (u64 \<times> ('a, 't) ptb list)" where
  "addr_books s = (rs_sui_addr_cache s, ledger (rs_wallet s))"

lemma addr_books_eq:
  "addr_books s' = addr_books s \<longleftrightarrow>
    rs_sui_addr_cache s' = rs_sui_addr_cache s \<and> ledger (rs_wallet s') = ledger (rs_wallet s)"
  by (simp add: addr_books_def)

lemma send_effect:
  assumes "send_cmd E mk s = (r, s')"
  shows "addr_books s' = addr_books s \<and> rs_sent s' = rs_sent s @ [mk (length (rs_sent s))]"
  using assms by (auto simp: send_cmd_eq addr_books_def ledger_def split: prod.splits)

text \<open>
  The address a peer published, as far as the resolver learns it: what the node answers to the
  request for it within five seconds. No answer, an answer without an address, and a node that
  is gone count as none.
\<close>

definition published_address :: "('w, 'p, 'm, 'a, 't, 'k, 'x) mesh_env \<Rightarrow> 'p \<Rightarrow>
    ('w, 'p, 'm, 'a, 't, 'd) res_state \<Rightarrow> bytes option" where
  "published_address E p s =
     (let h = length (rs_sent s) in
      case ch_send E (GetPeerSuiAddress p h) (ws_world (rs_wallet s)) of
        (ok, w) \<Rightarrow> if ok then id_reply (fst (ch_recv E h (Some 5) w)) else None)"

lemma ask_address:
  assumes "ask_node E (GetPeerSuiAddress p) (Some 5) s = (Ret answer, s1)"
  shows "(case answer of None \<Rightarrow> None | Some r \<Rightarrow> id_reply r) = published_address E p s \<and>
    addr_books s1 = addr_books s \<and> rs_sent s1 = rs_sent s @ [GetPeerSuiAddress p (length (rs_sent s))]"
  using assms
  by (auto simp: ask_node_def act_bind_def send_cmd_eq recv_def on_world_def published_address_def addr_books_def
      ledger_def Let_def split: prod.splits if_splits)

lemma query_vault_effect:
  assumes "query_vault E p s = (r, s')"
  shows "addr_books s' = addr_books s \<and>
    rs_sent s' = rs_sent s @ (if rs_vault_addr_cache s p = None then [GetPeerVault p (length (rs_sent s))] else [])"
  using assms send_effect [of E "GetPeerVault p" s] by (auto simp: query_vault_def split: if_splits)

section \<open>Where the money goes\<close>

text \<open>
  The proof and the complaint that follow from what is known of the peer's address, with the
  wallet before and after: nothing is paid without an address or to one that cannot be read,
  and an address that can be read is what the wallet pays to.
\<close>

definition payment_outcome :: "('w, 'p, 'm, 'a, 't, 'k, 'x) mesh_env \<Rightarrow> ('a, 'k) zing_wallet \<Rightarrow> bytes option \<Rightarrow>
    bytes \<Rightarrow> u64 \<Rightarrow> ('w, 'a, 't) wallet_state \<Rightarrow> bytes \<times> string option \<Rightarrow> ('w, 'a, 't) wallet_state \<Rightarrow> bool" where
  "payment_outcome E W known h amt ws out ws' \<longleftrightarrow>
     (case known of
        None \<Rightarrow> fst out = replicate 32 0 \<and> ws' = ws
      | Some addr \<Rightarrow> (case addr_from_bytes E addr of
            Inl e \<Rightarrow> fst out = replicate 32 0 \<and> snd out \<noteq> None \<and> ws' = ws
          | Inr rc \<Rightarrow> (\<exists>res. pay_wal (me_sui E) W rc h amt ws = (Ret res, ws') \<and>
              out = (case res of Inr d \<Rightarrow> (d, None)
                | Inl e \<Rightarrow> (replicate 32 0, Some (''Payment failed: '' @ zing_display e))))))"

lemma pay_outcome:
  assumes "pay E W rc h a s = (Ret out, s')" and "addr_from_bytes E addr = Inr rc"
  shows "payment_outcome E W (Some addr) h a (rs_wallet s) out (rs_wallet s') \<and>
    rs_sent s' = rs_sent s \<and> rs_sui_addr_cache s' = rs_sui_addr_cache s"
  using assms by (auto simp: pay_def act_bind_def on_wallet_def payment_outcome_def split: prod.splits run.splits)

text \<open>An address that is known is used; nothing is sent for it.\<close>

lemma payment_known:
  assumes run: "resolve_payment E R p h a s = (Ret out, s')" and W: "rv_wallet R = Some W"
    and cached: "rs_sui_addr_cache s p = Some known"
  shows "payment_outcome E W known h a (rs_wallet s) out (rs_wallet s') \<and>
    rs_sent s' = rs_sent s \<and> rs_sui_addr_cache s' = rs_sui_addr_cache s"
proof (cases known)
  case None
  with assms show ?thesis by (auto simp: resolve_payment_def act_bind_def sui_cached_def payment_outcome_def)
next
  case (Some addr)
  show ?thesis
  proof (cases "addr_from_bytes E addr")
    case (Inl e)
    with assms Some show ?thesis by (auto simp: resolve_payment_def act_bind_def sui_cached_def payment_outcome_def)
  next
    case (Inr rc)
    with assms Some have "pay E W rc h a s = (Ret out, s')"
      by (simp add: resolve_payment_def act_bind_def sui_cached_def)
    from pay_outcome [OF this Inr] Some show ?thesis by simp
  qed
qed

text \<open>Of a peer nothing is known about, the node is asked, and its answer is kept and used.\<close>

lemma payment_asked:
  assumes run: "resolve_payment E R p h a s = (Ret out, s')" and W: "rv_wallet R = Some W"
    and fresh: "rs_sui_addr_cache s p = None"
  shows "rs_sui_addr_cache s' = (rs_sui_addr_cache s)(p \<mapsto> published_address E p s) \<and>
    (\<exists>ws. ledger ws = ledger (rs_wallet s) \<and>
      payment_outcome E W (published_address E p s) h a ws out (rs_wallet s')) \<and>
    (\<exists>vs. rs_sent s' = rs_sent s @ GetPeerSuiAddress p (length (rs_sent s)) # vs \<and>
      vs \<in> {[], [GetPeerVault p (Suc (length (rs_sent s)))]})"
proof -
  from assms have "act_bind (ask_node E (GetPeerSuiAddress p) (Some 5)) (\<lambda>answer. case answer of
      None \<Rightarrow> act_bind (sui_insert p None)
        (\<lambda>_. act_ret (replicate 32 0, Some ''Failed to get peer Sui address''))
    | Some r \<Rightarrow> act_bind (sui_insert p (id_reply r)) (\<lambda>_. act_bind (query_vault E p) (\<lambda>_. case id_reply r of
         None \<Rightarrow> act_ret (replicate 32 0, Some ''Peer has no Sui address'')
       | Some addr \<Rightarrow> (case addr_from_bytes E addr of
             Inl e \<Rightarrow> act_ret (replicate 32 0, Some (''Invalid Sui address from DHT: '' @ e))
           | Inr rc \<Rightarrow> pay E W rc h a)))) s = (Ret out, s')"
    by (simp add: resolve_payment_def act_bind_def sui_cached_def Let_def cong: option.case_cong)
  then show ?thesis
  proof (cases rule: act_bindE)
    case (go answer s1)
    note s1 = ask_address [OF go(1), unfolded addr_books_eq]
    show ?thesis
    proof (cases answer)
      case None
      with go(2) s1 show ?thesis by (auto simp: act_bind_def sui_insert_def payment_outcome_def)
    next
      case (Some r)
      then have known: "id_reply r = published_address E p s" using s1 by simp
      let ?s2 = "s1\<lparr>rs_sui_addr_cache := (rs_sui_addr_cache s1)(p \<mapsto> id_reply r)\<rparr>"
      obtain v s3 where q: "query_vault E p ?s2 = (v, s3)" by fastforce
      note s3 = query_vault_effect [OF q, unfolded addr_books_eq]
      have rest: "(case id_reply r of
           None \<Rightarrow> act_ret (replicate 32 0, Some ''Peer has no Sui address'')
         | Some addr \<Rightarrow> (case addr_from_bytes E addr of
             Inl e \<Rightarrow> act_ret (replicate 32 0, Some (''Invalid Sui address from DHT: '' @ e))
           | Inr rc \<Rightarrow> pay E W rc h a)) s3 = (Ret out, s')"
        using q go(2) Some by (cases v) (auto simp: act_bind_def sui_insert_def)
      have "rs_sui_addr_cache s' = rs_sui_addr_cache s3 \<and> rs_sent s' = rs_sent s3 \<and>
          payment_outcome E W (id_reply r) h a (rs_wallet s3) out (rs_wallet s')"
      proof (cases "id_reply r")
        case None
        with rest show ?thesis by (auto simp: payment_outcome_def)
      next
        case addr: (Some addr)
        show ?thesis
        proof (cases "addr_from_bytes E addr")
          case (Inl e)
          with rest addr show ?thesis by (auto simp: payment_outcome_def)
        next
          case (Inr rc)
          with rest addr have "pay E W rc h a s3 = (Ret out, s')" by simp
          from pay_outcome [OF this Inr] addr show ?thesis by simp
        qed
      qed
      with s1 s3 known show ?thesis by (intro conjI exI [of _ "rs_wallet s3"]) auto
    qed
  qed simp
qed

text \<open>
  C25: payments go where the peer said. What counts as the peer's address is the entry of the
  cache or, if there is none, the node's answer to the request for the address the peer
  published, no answer counting as no address. That is what the cache holds from then on, and
  nobody else's entry changes. The wallet pays this amount for this blob to exactly this address:
  the proof is what the payment returned, or zeros with the reason; without an address, or with
  one that cannot be read, the proof is zeros and the counter and the transactions of the wallet
  are untouched. A peer with an entry is not asked; otherwise the request for the address is sent,
  once, and after it at most one for the peer's vault.
\<close>

theorem payment_to_published_address:
  assumes "resolve_payment E R p h a s = (Ret (pf, err), s')" and "rv_wallet R = Some W"
  shows "let known = (case rs_sui_addr_cache s p of Some k \<Rightarrow> k | None \<Rightarrow> published_address E p s) in
    rs_sui_addr_cache s' = (rs_sui_addr_cache s)(p \<mapsto> known) \<and>
    (\<exists>ws. ws_counter ws = ws_counter (rs_wallet s) \<and> ws_submitted ws = ws_submitted (rs_wallet s) \<and>
      payment_outcome E W known h a ws (pf, err) (rs_wallet s')) \<and>
    (if rs_sui_addr_cache s p \<noteq> None then rs_sent s' = rs_sent s
     else \<exists>vs. rs_sent s' = rs_sent s @ GetPeerSuiAddress p (length (rs_sent s)) # vs \<and>
       vs \<in> {[], [GetPeerVault p (Suc (length (rs_sent s)))]})"
proof (cases "rs_sui_addr_cache s p")
  case None
  with payment_asked [OF assms None] show ?thesis by (simp add: ledger_eq)
next
  case (Some known)
  then have "(rs_sui_addr_cache s)(p \<mapsto> known) = rs_sui_addr_cache s" by (simp add: fun_upd_idem)
  with payment_known [OF assms Some] Some show ?thesis by auto
qed

end
