(* ===== verification/Resolver_Bound.thy ===== *)
theory Resolver_Bound
  imports Resolver_Safety
begin

text \<open>
  How much a resolve asks of the node: every attempt sends a bounded number of commands, whatever
  the peers answer, so a resolve ends. The two loops that fetch a blob piece by piece are bounded
  by their chunk count and by the size limit.
\<close>

section \<open>Counting the commands of an action\<close>

definition sends :: "nat \<Rightarrow> ('w, 'p, 'm, 'a, 't, 'd, 'r) ract \<Rightarrow> bool" where
  "sends n m \<longleftrightarrow> (\<forall>s r s'. m s = (r, s') \<longrightarrow> length (rs_sent s') \<le> length (rs_sent s) + n)"

lemma sendsD: "sends n m \<Longrightarrow> m s = (r, s') \<Longrightarrow> length (rs_sent s') \<le> length (rs_sent s) + n"
  unfolding sends_def by blast

lemma sends_mono: "sends n m \<Longrightarrow> n \<le> n' \<Longrightarrow> sends n' m"
  unfolding sends_def by (meson add_left_mono le_trans)

lemma sends_ret [simp]: "sends n (act_ret a)" "sends n (Pair (Ret a))"
  by (simp_all add: sends_def)

lemma sends_keeps: "act_keeps rs_sent m \<Longrightarrow> sends n m"
  by (simp add: sends_def act_keeps_def)

text \<open>The second action may rely on what the first one gives.\<close>

lemma sends_seq:
  assumes "sends a m" and "act_gives m P" and "\<And>x. P x \<Longrightarrow> sends b (f x)" and "a + b \<le> n"
  shows "sends n (act_bind m f)"
  unfolding sends_def
proof (intro allI impI)
  fix s r s'
  assume "act_bind m f s = (r, s')"
  then show "length (rs_sent s') \<le> length (rs_sent s) + n"
  proof (cases rule: act_bindE)
    case panic
    from sendsD [OF assms(1) panic(1)] assms(4) show ?thesis by linarith
  next
    case (go x s1)
    from sendsD [OF assms(1) go(1)] sendsD [OF assms(3) go(2)] act_givesD [OF assms(2) go(1)] assms(4)
    show ?thesis by linarith
  qed
qed

lemma sends_bind: "sends a m \<Longrightarrow> (\<And>x. sends b (f x)) \<Longrightarrow> a + b \<le> n \<Longrightarrow> sends n (act_bind m f)"
  by (rule sends_seq [where P = "\<lambda>_. True"]) (simp_all add: act_gives_def)

lemma sends_option:
  "sends n m \<Longrightarrow> (\<And>a. sends n (f a)) \<Longrightarrow> sends n (case x of None \<Rightarrow> m | Some a \<Rightarrow> f a)"
  by (cases x) simp_all

lemma sends_map_all:
  assumes "\<And>x. sends k (f x)"
  shows "sends (k * length xs) (act_map_all f xs)"
proof (induction xs)
  case (Cons x xs)
  show ?case
    unfolding act_map_all.simps
    by (rule sends_bind [OF assms, where b = "k * length xs"], rule sends_bind [OF Cons.IH, where b = 0]) simp_all
qed simp

lemma sends_send: "sends 1 (send_cmd E mk)"
  by (auto simp: sends_def send_cmd_eq split: prod.splits)

lemma world_sent: "act_keeps rs_sent (on_world op)" "act_keeps rs_sent (on_wallet m)"
  by (auto simp: act_keeps_def on_world_def on_wallet_def split: prod.splits)

lemma calls_sent [simp]: "sends n (recv E h t)" "sends n (sleep E ms)" "sends n (pay E W q b a)"
  unfolding recv_def sleep_def pay_def
  by (intro sends_keeps act_keeps_rules world_sent)+

lemma ask_sends: "sends 1 (ask_node E mk t)"
  unfolding ask_node_def
  by (rule sends_bind [OF sends_send, of 0]) (auto intro!: sends_option sends_bind [of 0 _ 0])

lemma payment_sends: "sends 2 (resolve_payment E R p h a)"
proof -
  have cached: "sends 0 (sui_cached p)" "sends 0 (sui_insert p r)" for p :: 'b and r
    by (simp_all add: sends_def sui_cached_def sui_insert_def)
  have vault: "sends 1 (query_vault E p)"
    using sends_send [of E "GetPeerVault p"] by (auto simp: sends_def query_vault_def)
  have last: "sends n (case r of None \<Rightarrow> act_ret x | Some addr \<Rightarrow> (case f addr of Inl e \<Rightarrow> act_ret (g e)
      | Inr w \<Rightarrow> pay E W w h a))" for n r x f g W
    by (auto split: option.split sum.split)
  show ?thesis
    unfolding resolve_payment_def Let_def
    by (auto split: option.split sum.split intro!: sends_bind [OF cached(1), of 2] sends_bind [OF ask_sends, of 1]
        sends_bind [OF cached(2), of 1] sends_bind [OF vault, of 0] last)
qed

lemma fetch_sends: "sends 1 (connected_peers E)" "sends 1 (fetch_blob E p b pr)" "sends 1 (fetch_range E p b off len pr)"
    "sends 1 (run_find_providers E b)" "sends 1 (dial_known E p)"
  unfolding connected_peers_def fetch_blob_def fetch_range_def run_find_providers_def dial_known_def
  by (rule sends_bind [OF ask_sends, of 0]; simp)+

lemma dial_asked_sends: "sends 2 (dial_asked E p)"
  unfolding dial_asked_def Let_def
  by (rule sends_bind [OF ask_sends, of 1]) (auto intro: sends_bind [OF ask_sends, of 0])

lemma next_chunk_sends: "sends 3 (next_chunk E R p b off)"
  unfolding next_chunk_def
  by (rule sends_bind [OF payment_sends, of 1])
    (auto split: prod.split intro!: sends_bind [OF fetch_sends(3), of 0])

lemma finalize_sends: "sends n (finalize_l1_fetch E R b p d e)"
proof -
  have "act_keeps rs_sent (finalize_l1_fetch E R b p d e)"
    unfolding finalize_l1_fetch_def
    by (auto simp: act_keeps_def blame_def credit_def store_blob_def evict_def act_bind_def
        split: sum.splits prod.splits)
  then show ?thesis by (rule sends_keeps)
qed

section \<open>The loops\<close>

text \<open>Range after range from one peer: at most \<open>MAX_CHUNKS\<close> of them.\<close>

lemma range_loop_sends:
  "range_loop E R p b d off e s = (r, s') \<Longrightarrow>
    length (rs_sent s') \<le> length (rs_sent s) + 3 * (2048 - unat (off div RANGE_CHUNK))"
proof (induction E R p b d off e s arbitrary: r s' rule: range_loop.induct)
  case (1 E R p b d off e s)
  obtain x s1 where x: "next_chunk E R p b off s = (x, s1)" by fastforce
  note one = sendsD [OF next_chunk_sends x]
  show ?case
  proof (cases "MAX_CHUNKS \<le> off div RANGE_CHUNK")
    case True
    with "1.prems" show ?thesis by (subst (asm) range_loop.simps) simp
  next
    case more: False
    note next_off = chunk_count_step [OF more]
    from more have left: "unat (off div RANGE_CHUNK) < 2048"
      by (simp add: word_le_nat_alt not_le MAX_CHUNKS_def)
    show ?thesis
    proof (cases "\<exists>ne c. x = Ret (ne, Some c) \<and> \<not> length c < unat RANGE_CHUNK")
      case True
      then obtain ne c where c: "x = Ret (ne, Some c)" "\<not> length c < unat RANGE_CHUNK" by blast
      then have "c \<noteq> []" by (auto simp: RANGE_CHUNK_def)
      with "1.prems" more x c have "range_loop E R p b (d @ c) (off + RANGE_CHUNK) (first_err e ne) s1 = (r, s')"
        by (subst (asm) range_loop.simps) simp
      with "1.IH" [OF more x [symmetric] _ refl refl refl] c \<open>c \<noteq> []\<close>
      have "length (rs_sent s') \<le> length (rs_sent s1) + 3 * (2048 - unat ((off + RANGE_CHUNK) div RANGE_CHUNK))"
        by auto
      with one left next_off show ?thesis by linarith
    next
      case False
      with "1.prems" more x have same: "s' = s1"
        by (subst (asm) range_loop.simps) (auto simp: Let_def split: run.splits prod.splits option.splits if_splits)
      show ?thesis using one left unfolding same by linarith
    qed
  qed
qed

lemma range_peers_sends: "sends (3 * length ps + 6141) (range_peers E R b ps)"
proof (induction ps)
  case (Cons p ps)
  have loop: "sends 6141 (range_loop E R p b c RANGE_CHUNK e)" for c e
    using range_loop_sends [of E R p b c RANGE_CHUNK e] by (auto simp: sends_def RANGE_CHUNK_def)
  with Cons.IH show ?case
    unfolding range_peers.simps
    by (intro sends_bind [OF next_chunk_sends, of "3 * length ps + 6141"])
      (auto intro!: finalize_sends sends_bind [OF sends_mono [OF loop], of _ 0] split: option.split)
qed simp

lemma direct_loop_sends: "sends (3 * length ps) (direct_loop E R b ps)"
proof (induction ps)
  case (Cons p ps)
  then show ?case
    unfolding direct_loop.simps
    by (intro sends_bind [OF payment_sends, of "1 + 3 * length ps"])
      (auto intro!: sends_bind [OF fetch_sends(2), of "3 * length ps"] finalize_sends split: option.split)
qed simp

text \<open>
  Windows of ranges: a window that is followed by another one brought whole chunks only, so that
  the size limit bounds their number.
\<close>

lemma append_chunks_whole:
  "append_chunks x d e cs = (d', False, False) \<Longrightarrow> length d' \<ge> length d + 65536 * length cs"
proof (induction x d e cs rule: append_chunks.induct)
  case (2 x d e off c cs)
  then have rest: "append_chunks (off + word_of_nat (length c)) (d @ c) (e \<or> length c < unat CHUNK_SIZE) cs =
      (d', False, False)" and off: "\<not> off \<noteq> x"
    by (auto split: if_splits)
  have "append_chunks y d True cs = (d', g, f) \<Longrightarrow> f" for y d d' g f cs
    by (induction cs arbitrary: y d) (auto split: if_splits)
  with rest have "\<not> (e \<or> length c < unat CHUNK_SIZE)" by (metis (full_types))
  with "2.IH" [OF off rest] show ?case by (simp add: CHUNK_SIZE_def)
qed simp

lemma window_verdict_whole:
  assumes "window_verdict d e cs = WNext d' e'"
  shows "length d + 65536 \<le> length d' \<and> length d' \<le> MAX_TOTAL_SIZE"
proof -
  from assms have "append_chunks (word_of_nat (length d)) d False (sort_key fst cs) = (d', False, False)"
    and some: "cs \<noteq> []" "length d' \<le> MAX_TOTAL_SIZE"
    by (auto simp: window_verdict_def split: prod.splits if_splits)
  from append_chunks_whole [OF this(1)] have "length d + 65536 * length cs \<le> length d'" by simp
  moreover have "length cs \<ge> 1" using some(1) by (cases cs) simp_all
  ultimately show ?thesis using some(2) by linarith
qed

lemma pay_all_sends: "sends (2 * length ps) (pay_all E R b a ps)"
  unfolding pay_all_def by (intro sends_map_all payment_sends)

lemma round_sends: "sends (length reqs) (range_round E t b len reqs)"
proof -
  have wait: "sends 0 (await_chunk E t f)" for f
    unfolding await_chunk_def by (auto intro!: sends_bind [of 0 _ 0] split: prod.split)
  have waits: "sends 0 (act_map_all (await_chunk E t) fs)" for fs
    using sends_map_all [of 0, OF wait, of fs] by simp
  have send: "sends (1 * length reqs) (act_map_all (\<lambda>(c, peer, off, pf). send_cmd E (FetchRange peer b off len pf)) reqs)"
    by (rule sends_map_all) (simp add: sends_send [simplified] split: prod.split)
  show ?thesis
    unfolding range_round_def Let_def
    by (rule sends_bind [OF send, of 0]) (auto intro!: sends_bind [OF waits, of 0])
qed

lemma round_length: "act_gives (range_round E t b len reqs) (\<lambda>cs. length cs \<le> length reqs)"
proof -
  have gives: "act_gives (act_map_all f xs) (\<lambda>ys. length ys = length xs)" for f xs
    using act_gives_map_all [of f "\<lambda>_ _. True" xs]
    by (rule act_gives_mono) (simp_all add: act_gives_def list_all2_lengthD)
  have filter_len: "length (List.map_filter f xs) \<le> length xs" for f xs
    by (induction xs) (simp_all add: map_filter_simps split: option.split)
  have "length (List.map_filter g rs) \<le> length xs" if "length rs = length (List.map_filter f (zip xs hs))" for f g rs xs hs
    using that filter_len [of g rs] filter_len [of f "zip xs hs"] by simp
  note shorter = this
  show ?thesis
    unfolding range_round_def Let_def
    by (rule act_gives_bind, rule act_gives_seq [OF gives], rule act_gives_ret, rule shorter, assumption)
qed

lemma window_step_sends: "sends (3 * length ws) (window_step E R b ws i d e)"
  unfolding window_step_def
proof (rule sends_bind [OF pay_all_sends, of "length ws"])
  fix rs :: "(bytes \<times> string option) list"
  let ?reqs = "map (\<lambda>(j, peer, proof). (window_offset (length ws) i j, peer, window_offset (length ws) i j, proof))
    (zip [0..<length ws] (zip ws (map fst rs)))"
  have "sends (length ?reqs) (window_chunks E b ws i (map fst rs))"
    unfolding window_chunks_def by (rule round_sends)
  then have "sends (length ws) (window_chunks E b ws i (map fst rs))"
    by (rule sends_mono) simp
  then show "sends (length ws) (act_bind (window_chunks E b ws i (map fst rs)) (\<lambda>chunks.
      act_ret (window_verdict d (first_err e (find_err rs)) chunks)))"
    by (rule sends_bind [where b = 0]) simp_all
qed simp

lemma window_step_whole:
  assumes "window_step E R b ws i d e s = (Ret (WNext d' e'), s')"
  shows "length d + 65536 \<le> length d' \<and> length d' \<le> MAX_TOTAL_SIZE"
  using assms unfolding window_step_def
  by (auto elim!: act_bindE dest: window_verdict_whole)

lemma window_loop_sends:
  "window_loop E R b ws i d e s = (r, s') \<Longrightarrow>
    length (rs_sent s') \<le> length (rs_sent s) + 3 * length ws * ((MAX_TOTAL_SIZE - length d) div 65536 + 1)"
proof (induction E R b ws i d e s arbitrary: r s' rule: window_loop.induct)
  case (1 E R b ws i d e s)
  let ?left = "\<lambda>d. (MAX_TOTAL_SIZE - length (d :: bytes)) div 65536"
  obtain x s1 where x: "window_step E R b ws i d e s = (x, s1)" by fastforce
  note one = sendsD [OF window_step_sends x]
  show ?case
  proof (cases "\<exists>d' e'. x = Ret (WNext d' e')")
    case True
    then obtain d' e' where n: "x = Ret (WNext d' e')" by blast
    with "1.prems" x have "window_loop E R b ws (Suc i) d' e' s1 = (r, s')"
      by (subst (asm) window_loop.simps) simp
    from "1.IH" [OF x [symmetric] n refl this]
    have rest: "length (rs_sent s') \<le> length (rs_sent s1) + 3 * length ws * (?left d' + 1)" .
    from window_step_whole [OF x [unfolded n]] have "?left d' + 1 \<le> ?left d" by linarith
    then have "3 * length ws * (?left d' + 1) \<le> 3 * length ws * ?left d" by (rule mult_le_mono2)
    with rest one show ?thesis by simp
  next
    case False
    with "1.prems" x have "s' = s1"
      by (subst (asm) window_loop.simps) (auto split: run.splits prod.splits window_end.splits)
    with one show ?thesis by simp
  qed
qed

section \<open>The attempts\<close>

text \<open>The node's answers name at most \<open>n\<close> peers.\<close>

definition small_answers :: "('w, 'p, 'm, 'a, 't, 'k, 'x) mesh_env \<Rightarrow> nat \<Rightarrow> bool" where
  "small_answers E n \<longleftrightarrow> (\<forall>h t w ps. fst (ch_recv E h t w) = Some (RPeers ps) \<longrightarrow> length ps \<le> n)"

lemma recv_small:
  assumes "small_answers E n"
  shows "act_gives (recv E h t) (\<lambda>r. length (peers_reply r) \<le> n)"
  unfolding act_gives_def
proof (intro allI impI)
  fix s :: "('a, 'b, 'c, 'd, 'e, 'h) res_state" and r s'
  assume "recv E h t s = (Ret r, s')"
  then have "r = fst (ch_recv E h t (ws_world (rs_wallet s)))"
    by (auto simp: recv_def on_world_def split: prod.splits)
  with assms have "length ps \<le> n" if "r = Some (RPeers ps)" for ps
    using that unfolding small_answers_def by metis
  then show "length (peers_reply r) \<le> n" by (cases r rule: peers_reply.cases) simp_all
qed

lemma ask_small:
  assumes "small_answers E n"
  shows "act_gives (ask_node E mk t) (\<lambda>r. \<forall>x. r = Some x \<longrightarrow> length (peers_reply x) \<le> n)"
  unfolding ask_node_def
  by (rule act_gives_bind, rule act_gives_option, rule act_gives_ret, simp,
      rule act_gives_seq [OF recv_small [OF assms]], rule act_gives_ret, simp)

lemma peers_small:
  assumes "small_answers E n"
  shows "act_gives (connected_peers E) (\<lambda>c. \<forall>ps. c = Some ps \<longrightarrow> length ps \<le> n)"
    and "act_gives (run_find_providers E b) (\<lambda>ps. length ps \<le> n)"
  unfolding connected_peers_def run_find_providers_def
  by (rule act_gives_seq [OF ask_small [OF assms]], rule act_gives_ret, auto split: option.split)+

lemma self_shorter: "length (without_self R ps) \<le> length ps"
  by (simp add: without_self_def)

lemma providers_small:
  assumes "small_answers E n"
  shows "act_gives (dht_providers E R b) (\<lambda>ps. length ps \<le> n)"
proof -
  have none: "act_gives (Pair (Ret [])) (\<lambda>ps. length ps \<le> n)" by (simp add: act_gives_def)
  have retry: "act_gives (retry_providers k E R b) (\<lambda>ps. length ps \<le> n)" for k
    by (induction k)
      (auto simp: Let_def intro!: none act_gives_ret act_gives_bind act_gives_seq [OF peers_small(2) [OF assms]]
        intro: le_trans [OF self_shorter] split: if_split)
  show ?thesis
    unfolding dht_providers_def Let_def
    by (rule act_gives_seq [OF peers_small(2) [OF assms]])
      (auto intro: retry act_gives_ret le_trans [OF self_shorter])
qed

lemma providers_sends: "sends 4 (dht_providers E R b)"
proof -
  have retry: "sends k (retry_providers k E R b)" for k
  proof (induction k)
    case (Suc k)
    then show ?case
      unfolding retry_providers.simps Let_def
      by (intro sends_bind [of 0 _ "Suc k"] sends_bind [OF fetch_sends(4), of k]) auto
  qed simp
  show ?thesis
    unfolding dht_providers_def Let_def
    by (rule sends_bind [OF fetch_sends(4), of 3]) (auto intro: retry)
qed

lemma poll_sends: "sends k (poll_connected k E ps)"
proof (induction k)
  case (Suc k)
  then show ?case
    unfolding poll_connected.simps
    by (intro sends_bind [of 0 _ "Suc k"] sends_bind [OF fetch_sends(1), of k]) (auto split: option.split)
qed simp

lemma attempts_send:
  assumes "small_answers E n"
  shows "sends (3 * n + 1) (try_direct_peers E R b)"
    and "sends (3 * n + 6142) (try_direct_peers_range E R b)"
  unfolding try_direct_peers_def try_direct_peers_range_def
  by (rule sends_seq [OF fetch_sends(1) peers_small(1) [OF assms], where b = "3 * n"],
      auto split: option.split intro: sends_mono [OF direct_loop_sends])
    (rule sends_seq [OF fetch_sends(1) peers_small(1) [OF assms], where b = "3 * n + 6141"],
      auto split: option.split intro: sends_mono [OF range_peers_sends])

lemma parallel_sends:
  fixes E :: "('w, 'p, 'm, 'a, 't, 'k, 'x) mesh_env"
  shows "sends 122911 (try_direct_peers_range_parallel E R b)"
proof -
  have loop: "sends 122895 (window_loop E R b ws 0 [] e)" if "length ws \<le> 5" for ws e
    unfolding sends_def
  proof (intro allI impI)
    fix s r s' assume "window_loop E R b ws 0 [] e s = (r, s')"
    from window_loop_sends [OF this] have "length (rs_sent s') \<le> length (rs_sent s) + 3 * length ws * 8193"
      by (simp add: MAX_TOTAL_SIZE_def)
    moreover have "3 * length ws * 8193 \<le> 122895" using that by simp
    ultimately show "length (rs_sent s') \<le> length (rs_sent s) + 122895" by linarith
  qed
  have ends: "sends 122895 (act_bind (window_loop E R b ws 0 [] e) f)"
    if "length ws \<le> 5" "\<And>x. sends 0 (f x)" for ws e f
    by (rule sends_bind [OF loop [OF that(1)] that(2)]) simp
  have pay5: "sends 10 (pay_all E R b a (take MAX_PARALLEL ps))" for a ps
    by (rule sends_mono [OF pay_all_sends]) (simp add: MAX_PARALLEL_def)
  have round5: "sends 5 (range_round E t b len (map f (zip (take MAX_PARALLEL ps) qs)))"
    "act_gives (range_round E t b len (map f (zip (take MAX_PARALLEL ps) qs))) (\<lambda>cs. length cs \<le> 5)"
    for t len ps and qs :: "bytes list" and f :: "'p \<times> bytes \<Rightarrow> 'p \<times> 'p \<times> u64 \<times> bytes"
    by (rule sends_mono [OF round_sends], simp add: MAX_PARALLEL_def)
      (rule act_gives_mono [OF round_length], simp add: MAX_PARALLEL_def)
  show ?thesis
    unfolding try_direct_peers_range_parallel_def Let_def
  proof (rule sends_bind [OF fetch_sends(1), of 122910], goal_cases)
    case (1 c)
    show ?case
      by (auto intro!: sends_bind [OF pay5, of 122900] sends_seq [OF round5, of 122895] ends finalize_sends
          split: option.split window_end.split)
  qed simp
qed

lemma dht_sends:
  assumes "small_answers E n"
  shows "sends (3 * n + 37) (try_dht_peers E R b)"
proof -
  have dial1: "sends n (act_map_all (dial_known E) ps)" if "length ps \<le> n" for ps
    by (rule sends_mono [OF sends_map_all [OF fetch_sends(5)]]) (use that in simp)
  have dial2: "sends (2 * n) (act_map_all (dial_asked E) ps)" if "length ps \<le> n" for ps
    by (rule sends_mono [OF sends_map_all [OF dial_asked_sends]]) (use that in simp)
  have poll: "sends 30 (poll_connected MAX_POLL_ITERATIONS E ps)" for ps
    using poll_sends [of MAX_POLL_ITERATIONS] by (simp add: MAX_POLL_ITERATIONS_def)
  show ?thesis
    unfolding try_dht_peers_def
    by (rule sends_seq [OF providers_sends providers_small [OF assms], where b = "3 * n + 33"])
      (auto intro!: sends_bind [OF dial1, of _ "2 * n + 33"] sends_bind [OF dial2, of _ 33] sends_bind [OF poll, of 3]
        sends_bind [OF payment_sends, of 1] sends_bind [OF fetch_sends(2), of 0] finalize_sends
        split: option.split)
qed

lemma or_else_sends: "sends k m \<Longrightarrow> sends l m' \<Longrightarrow> sends (k + l) (or_else m m')"
  unfolding or_else_def by (rule sends_bind) (auto split: option.split)

lemma l1_sends:
  assumes "small_answers E n"
  shows "sends (9 * n + 129091) (resolve_from_l1 E R b)"
proof -
  have "sends (122911 + (3 * n + 6142 + (3 * n + 1 + (3 * n + 37)))) (resolve_from_l1 E R b)"
    unfolding resolve_from_l1_def
    by (intro or_else_sends parallel_sends attempts_send [OF assms] dht_sends [OF assms])
  then show ?thesis by (rule sends_mono) simp
qed

lemma resolve_sends:
  assumes "small_answers E n"
  shows "sends (9 * n + 129091) (resolve E R b)"
proof -
  have quiet: "sends k (resolve_from_walrus E R b)" for k
  proof -
    have "act_keeps rs_sent (on_walrus m)" "act_keeps rs_sent (store_blob i d)" "act_keeps rs_sent (evict R)" for m i d
      by (auto simp: act_keeps_def on_walrus_def store_blob_def evict_def split: prod.splits sum.splits)
    then show ?thesis
      unfolding resolve_from_walrus_def by (intro sends_keeps act_keeps_try act_keeps_ret)
  qed
  have found: "sends 0 (local_blob E b)" by (simp add: sends_def local_blob_def)
  show ?thesis
    unfolding resolve_def act_try_def
    by (rule sends_bind [OF found, of "9 * n + 129091"])
      (auto intro!: quiet sends_bind [OF l1_sends [OF assms], of 0] split: sum.split option.split)
qed

text \<open>
  C36: a resolve ends. Whatever the peers, the blockchain and the storage answer, it returns after
  a number of commands to the node that only depends on how many peers an answer of the node
  names: when those are at most \<open>n\<close>, then at most \<open>9 n + 129091\<close> commands, of which the windows
  of parallel ranges may take 122911 and the 2048 ranges of one peer 6142.
\<close>

theorem resolve_ends:
  assumes "small_answers E n"
  shows "\<exists>r s'. resolve E R b s = (r, s') \<and> length (rs_sent s') \<le> length (rs_sent s) + (9 * n + 129091)"
  using resolve_sends [OF assms] unfolding sends_def by (metis prod.collapse)

end
