(* ===== verification/Resolver_Demo.thy ===== *)
theory Resolver_Demo
  imports Resolver_Parallel Resolver_Pay Resolver_Bound Wallet_Safety
begin

text \<open>
  A concrete network for the resolver: the world is a mailbox, the newest answer first; the one
  connected peer serves a blob up to an offset and publishes an address. Blob ids are the length
  of the data.
\<close>

type_synonym mail = "(nat \<times> (nat, nat) reply) list"

definition mail_sui :: "(mail, nat, string, bytes, nat) sui_env" where
  "mail_sui =
     \<lparr>se_sdk = demo_sdk, rpc_new = (\<lambda>_. Inr ()), rpc_build = (\<lambda>tx w. (Inr 12, w)),
      rpc_execute = (\<lambda>x sig w. (Inr (Some (Some ''d'')), w)), rpc_list_fields = (\<lambda>_ w. ([], w)),
      rpc_get_object = (\<lambda>_ w. (Inr None, w)), rpc_batch_get = (\<lambda>_ w. (Inr [], w)),
      rpc_list_owned = (\<lambda>_ _ w. (Inr [], w)), rpc_balance = (\<lambda>_ _ w. (Inr None, w)),
      key_sign = (\<lambda>k x. Inr []), key_of_seed = (\<lambda>s. s), key_address = length,
      addr_bytes = (\<lambda>a. replicate 32 0), addr_show = (\<lambda>a. ''0x0''), addr_show_alt = (\<lambda>a. ''0x0''),
      parse_digest = (\<lambda>s. Inr []), hex_encode = (\<lambda>bs. ''00''), bs58_decode = (\<lambda>s. Inr (replicate 32 9)),
      b64_decode = (\<lambda>s. Inr (0 # replicate 32 5)), sha256 = (\<lambda>m. replicate 32 7),
      lowercase = (\<lambda>s. s), pid_display = (\<lambda>b. None)\<rparr>"

definition length_walrus :: "bytes \<Rightarrow> mail walrus_sdk" where
  "length_walrus blob =
     \<lparr>wx_compute_blob_id = (\<lambda>_ d. Inr [word_of_nat (length d)]), wx_show_id = (\<lambda>b. ''k''),
      wx_read_blob = (\<lambda>b w. (Inr blob, w)), wx_blob_status = (\<lambda>b w. (Inl ''unknown'', w)),
      wx_initial_certified_epoch = (\<lambda>st. None),
      wx_retrieve_metadata = (\<lambda>e b w. (Inl ''unknown'', w))\<rparr>"

fun mail_answer :: "bytes \<Rightarrow> nat \<Rightarrow> (nat, nat) p2p_command \<Rightarrow> mail" where
  "mail_answer blob limit (FetchRange p b off len pf h) =
     [(h, RData (if unat off < limit then range_reply blob off len else Inl (P2PNetwork ''closed'')))]"
| "mail_answer blob limit (GetConnectedPeers h) = [(h, RPeers [7])]"
| "mail_answer blob limit (GetPeerSuiAddress p h) = [(h, RId (Some (replicate 32 1)))]"
| "mail_answer blob limit cmd = []"

definition mail_mesh :: "bytes \<Rightarrow> nat \<Rightarrow> (mail, nat, nat, nat, string, bytes, nat) mesh_env" where
  "mail_mesh blob limit =
     \<lparr>me_sui = mail_sui, me_walrus = length_walrus blob,
      ch_send = (\<lambda>cmd w. (True, mail_answer blob limit cmd @ w)),
      ch_recv = (\<lambda>h t w. (map_of w h, w)), me_sleep = (\<lambda>ms w. w),
      me_clocks = (\<lambda>w. \<lparr>ck_new = 0, ck_seen = 0, ck_decay = 0\<rparr>), pid_show = (\<lambda>p. ''peer''),
      addr_from_bytes = (\<lambda>b. Inr (length b))\<rparr>"

definition demo_resolver :: "(nat, nat, bytes) resolver" where
  "demo_resolver = \<lparr>rv_budget = 1000, rv_p2p_channel = True, rv_local_peer_id = None, rv_wallet = None\<rparr>"

definition paying_resolver :: "(nat, nat, bytes) resolver" where
  "paying_resolver = demo_resolver\<lparr>rv_wallet := Some (demo_wallet\<lparr>wl_settlement := None\<rparr>)\<rparr>"

definition demo_mesh_state :: "mem_db blob_store \<Rightarrow> (mail, nat, nat, nat, string, mem_db) res_state" where
  "demo_mesh_state st =
     \<lparr>rs_wallet = \<lparr>ws_world = [], ws_counter = 0, ws_submitted = []\<rparr>, rs_store = st,
      rs_reputation = rep_new, rs_sui_addr_cache = (\<lambda>_. None), rs_vault_addr_cache = (\<lambda>_. None),
      rs_sent = []\<rparr>"

lemma mail_serves:
  "serves (mail_mesh blob (2 ^ 64)) (\<lambda>w h r. map_of w h = Some r) b blob UNIV"
  using unat_bound [where 'a = 64]
  by (auto simp: serves_def mail_mesh_def)

lemma mail_pays: "payments_safe E demo_resolver"
  by (simp add: payments_safe_def demo_resolver_def)

lemma mail_connected:
  "connected_peers (mail_mesh blob limit) s =
    (Ret (Some [7]), s\<lparr>rs_sent := rs_sent s @ [GetConnectedPeers (length (rs_sent s))],
      rs_wallet := (rs_wallet s)\<lparr>ws_world := (length (rs_sent s), RPeers [7]) # ws_world (rs_wallet s)\<rparr>\<rparr>)"
  by (simp add: connected_peers_def ask_node_def act_bind_def send_cmd_eq recv_def on_world_def mail_mesh_def)

lemma mail_id: "wx_compute_blob_id (me_walrus (mail_mesh blob limit)) e d = Inr [word_of_nat (length d)]"
  by (simp add: mail_mesh_def length_walrus_def)

theorem resolve_result_verified_witness:
  "\<exists>res s'. resolve (mail_mesh [1, 2, 3] 0) demo_resolver [3] (demo_mesh_state serve_demo) = (Ret (Inr res), s') \<and>
     rr_data res = [1, 2, 3, 4] \<and> rr_resolution res = LocalCache"
proof -
  let ?res = "\<lparr>rr_data = [1, 2, 3, 4], rr_resolution = LocalCache, rr_cached = True, rr_payment_error = None\<rparr>"
  let ?s = "demo_mesh_state serve_demo"
  have run: "resolve (mail_mesh [1, 2, 3] 0) demo_resolver [3] ?s = (Ret (Inr ?res), ?s)"
    by (simp add: resolve_def act_try_def act_bind_def local_blob_def demo_mesh_state_def mail_mesh_def
        length_walrus_def serve_demo_get)
  from resolve_result_verified [OF run] run show ?thesis by auto
qed

theorem resolve_keeps_cache_sound_witness:
  "\<exists>r s'. resolve (mail_mesh [1, 2, 3] 0) demo_resolver [3] (demo_mesh_state mem_store) = (r, s') \<and>
     pinned (rs_store s') = pinned mem_store \<and> blobs_view (rs_store s') ''other'' = None"
proof -
  obtain r s' where run: "resolve (mail_mesh [1, 2, 3] 0) demo_resolver [3] (demo_mesh_state mem_store) = (r, s')"
    by fastforce
  have st: "rs_store (demo_mesh_state mem_store) = mem_store" by (simp add: demo_mesh_state_def)
  have "blobs_view mem_store ''other'' = None"
    by (simp add: cf_view_def mem_store_def mem_rocks_def)
  moreover have "wx_show_id (me_walrus (mail_mesh [1, 2, 3] 0)) [3] = ''k''"
    by (simp add: mail_mesh_def length_walrus_def)
  ultimately show ?thesis
    using resolve_keeps_cache_sound [OF run] run unfolding st by auto
qed

theorem peers_cannot_fail_a_resolve_witness:
  "\<exists>res s'. resolve (mail_mesh [1, 2, 3] 0) demo_resolver [3] (demo_mesh_state mem_store) = (Ret res, s')"
  using peers_cannot_fail_a_resolve [OF mail_pays] by blast

theorem range_fetch_reassembles_witness:
  "\<exists>res s'. try_direct_peers_range (mail_mesh [1, 2, 3] (2 ^ 64)) demo_resolver [3] (demo_mesh_state mem_store) =
     (Ret (Some (Inr res)), s') \<and> rr_data res = [1, 2, 3]"
  using range_fetch_reassembles [OF mail_serves UNIV_I mail_pays mail_connected, of "[1, 2, 3]" "[3]" "demo_mesh_state mem_store"]
  by (auto simp: mail_id)

theorem parallel_fetch_reassembles_witness:
  "\<exists>res s'. try_direct_peers_range_parallel (mail_mesh [1, 2, 3] (2 ^ 64)) demo_resolver [3] (demo_mesh_state mem_store) =
     (Ret (Some (Inr res)), s') \<and> rr_data res = [1, 2, 3]"
  using parallel_fetch_reassembles [OF mail_serves _ mail_pays mail_connected, of "[1, 2, 3]" "[3]" "demo_mesh_state mem_store"]
  by (auto simp: mail_id)

theorem interrupted_transfer_blames_peer_witness:
  "\<exists>s'. try_direct_peers_range (mail_mesh (replicate 300000 1) 262144) demo_resolver [224]
       (demo_mesh_state mem_store) = (Ret None, s') \<and>
     get_score (rs_reputation s') ''peer'' = Some (-3)"
proof -
  let ?E = "mail_mesh (replicate 300000 1) 262144"
  note eval = next_chunk_def resolve_payment_def fetch_range_def ask_node_def act_bind_def send_cmd_eq recv_def
    on_world_def mail_mesh_def demo_resolver_def range_reply_def
  obtain s1 where c: "connected_peers ?E (demo_mesh_state mem_store) = (Ret (Some [7]), s1)"
    using mail_connected by blast
  obtain s2 where n1: "next_chunk ?E demo_resolver 7 [224] 0 s1 = (Ret (None, Some (replicate 262144 1)), s2)"
    by (simp add: eval RANGE_CHUNK_def min_def)
  obtain s3 where n2: "next_chunk ?E demo_resolver 7 [224] (256 * 1024) s2 = (Ret (None, None), s3)"
    by (simp add: eval RANGE_CHUNK_def)
  from interrupted_transfer_blames_peer [OF c n1 _ n2]
  have "try_direct_peers_range ?E demo_resolver [224] (demo_mesh_state mem_store) = (Ret None, s3\<lparr>rs_reputation :=
      record_corruption (me_clocks ?E (ws_world (rs_wallet s3))) (rs_reputation (demo_mesh_state mem_store))
        (pid_show ?E 7)\<rparr>)"
    by (simp add: mail_id)
  then show ?thesis
    by (simp add: get_score_def record_corruption_def rep_entry_def fresh_score_def demo_mesh_state_def rep_new_def
        mail_mesh_def wrap_i32_def Let_def)
qed

text \<open>A resolver whose wallet settles on chain.\<close>

definition settling_resolver :: "(nat, nat, bytes) resolver" where
  "settling_resolver = demo_resolver\<lparr>rv_wallet := Some demo_wallet\<rparr>"

lemma mail_published:
  "published_address (mail_mesh blob limit) 7 (demo_mesh_state st) = Some (replicate 32 1)"
  by (simp add: published_address_def mail_mesh_def demo_mesh_state_def)

lemma mail_pay:
  assumes "build_pay_transaction demo_sdk demo_config 11 32 [3] 8 5 = Ret tx"
    and "pay_wal mail_sui demo_wallet 32 [3] 8 ws = (Ret res, ws')"
  shows "res = Inr (replicate 32 9) \<and> ws_submitted ws' = ws_submitted ws @ [tx]"
  using assms(2)
  by (auto simp: pay_eval assms(1) mail_sui_def)

theorem payment_to_published_address_witness:
  "\<exists>s' tx. resolve_payment (mail_mesh [1, 2, 3] 0) settling_resolver 7 [3] 8 (demo_mesh_state mem_store) =
      (Ret (replicate 32 9, None), s') \<and>
     build_pay_transaction demo_sdk demo_config 11 32 [3] 8 5 = Ret tx \<and>
     ws_submitted (rs_wallet s') = [tx] \<and>
     rs_sui_addr_cache s' 7 = Some (Some (replicate 32 1)) \<and>
     take 1 (rs_sent s') = [GetPeerSuiAddress 7 0]"
proof -
  let ?E = "mail_mesh [1, 2, 3] 0" and ?s = "demo_mesh_state mem_store"
  obtain tx where tx: "build_pay_transaction demo_sdk demo_config 11 32 [3] 8 5 = Ret tx"
    by (simp add: build_pay_transaction_def demo_tag Let_def split_beta)
  obtain pf err s' where run: "resolve_payment ?E settling_resolver 7 [3] 8 ?s = (Ret (pf, err), s')"
    by (simp add: resolve_payment_def ask_node_def act_bind_def send_cmd_eq recv_def on_world_def mail_mesh_def
        settling_resolver_def demo_resolver_def demo_mesh_state_def sui_cached_def sui_insert_def query_vault_def
        pay_def on_wallet_def pay_eval tx mail_sui_def)
  have W: "rv_wallet settling_resolver = Some demo_wallet" by (simp add: settling_resolver_def)
  have start: "rs_sui_addr_cache ?s 7 = None" "rs_sent ?s = []" "ws_submitted (rs_wallet ?s) = []"
    by (simp_all add: demo_mesh_state_def)
  from payment_to_published_address [OF run W] start obtain ws where
    cache: "rs_sui_addr_cache s' 7 = Some (Some (replicate 32 1))" and
    ws: "ws_submitted ws = []" and
    out: "payment_outcome ?E demo_wallet (Some (replicate 32 1)) [3] 8 ws (pf, err) (rs_wallet s')" and
    sent: "take 1 (rs_sent s') = [GetPeerSuiAddress 7 0]"
    by (auto simp: mail_published Let_def)
  from out obtain res where "pay_wal mail_sui demo_wallet 32 [3] 8 ws = (Ret res, rs_wallet s')"
    "(pf, err) = (case res of Inr d \<Rightarrow> (d, None) | Inl e \<Rightarrow> (replicate 32 0, Some (''Payment failed: '' @ zing_display e)))"
    by (auto simp: payment_outcome_def mail_mesh_def)
  with mail_pay [OF tx this(1)] ws have "(pf, err) = (replicate 32 9, None)" "ws_submitted (rs_wallet s') = [tx]"
    by auto
  with run tx cache sent show ?thesis by auto
qed

text \<open>The same network behind a node that names one peer at most.\<close>

definition narrow_mesh :: "bytes \<Rightarrow> nat \<Rightarrow> (mail, nat, nat, nat, string, bytes, nat) mesh_env" where
  "narrow_mesh blob limit = (mail_mesh blob limit)\<lparr>ch_recv := (\<lambda>h t w. (case map_of w h of
     Some (RPeers ps) \<Rightarrow> Some (RPeers (take 1 ps)) | r \<Rightarrow> r, w))\<rparr>"

theorem resolve_ends_witness:
  "\<exists>r s'. resolve (narrow_mesh [1, 2, 3] 0) demo_resolver [3] (demo_mesh_state mem_store) = (r, s') \<and>
     length (rs_sent s') \<le> 129100"
proof -
  have "small_answers (narrow_mesh [1, 2, 3] 0) 1"
    by (auto simp: small_answers_def narrow_mesh_def split: option.splits reply.splits)
  from resolve_ends [OF this, of demo_resolver "[3]" "demo_mesh_state mem_store"] show ?thesis
    by (simp add: demo_mesh_state_def)
qed

end
