(* ===== verification/Http_Demo.thy ===== *)
theory Http_Demo
  imports Http_Safety Resolver_Demo
begin

text \<open>
  What an answer of the resolve endpoint says about the blob, and concrete requests over the
  network of \<open>Resolver_Demo\<close>.
\<close>

section \<open>Answers\<close>

text \<open>Where the data behind an answer comes from.\<close>

definition blob_origin :: "('w, 'p, 'm, 'a, 't, 'k, 'x) http_env \<Rightarrow> bytes \<Rightarrow>
    ('w, 'p, 'm, 'a, 't, 'd) api_state \<Rightarrow> string \<Rightarrow> bytes \<Rightarrow> bool" where
  "blob_origin E i s source d \<longleftrightarrow>
     (let X = me_walrus (he_mesh E)
      in source = ''L0 local cache'' \<and> bs_get (api_store s) (wx_show_id X i) = Inr (Some d) \<or>
         source = ''L1 peer'' \<and> wx_compute_blob_id X RS2 d = Inr i \<or>
         source = ''L3 Walrus'' \<and> (\<exists>w w'. wx_read_blob X i w = (Inr d, w')))"

lemma on_mesh_origin:
  assumes "on_mesh (resolve (he_mesh E) R i) s = (Ret (Inr res), s')"
  shows "blob_origin E i s (source_name (rr_resolution res)) (rr_data res)"
proof -
  obtain rs where "resolve (he_mesh E) R i (new_tables s) = (Ret (Inr res), rs)"
    using assms by (auto simp: on_mesh_def split: prod.splits)
  from resolve_origin [OF this] show ?thesis by (auto simp: blob_origin_def new_tables_def Let_def)
qed

lemma tell_node_sent: "tell_node E c s = (r, s') \<Longrightarrow> api_sent s' = api_sent s @ [c]"
  by (auto simp: tell_node_def act_bind_def on_mesh_def send_cmd_eq new_tables_def split: prod.splits)

text \<open>What \<open>build_blobinfo\<close> makes of the data.\<close>

lemma build_blobinfoD:
  assumes "build_blobinfo E b d source c e = Ret info"
  shows "hb_blob_id info = b \<and> hb_size info = word_of_nat (length d) \<and> hb_source info = source \<and>
    hb_payment_error info = e \<and> detect_mime d = Ret (hb_mime_type info) \<and>
    (if is_image (hb_mime_type info) then hb_data_base64 info = b64_encode E d
     else hb_data_base64 info = [] \<and> hb_content info = text_preview d)"
  using assms by (auto simp: build_blobinfo_def Let_def split: run.splits if_splits)

lemma text_preview_valid: "utf8_valid d \<Longrightarrow> length d \<le> 2000 \<Longrightarrow> text_preview d = of_bytes d"
  by (simp add: text_preview_def from_utf8_lossy_def utf8_lossy_id)

text \<open>
  C28: a successful answer of the resolve endpoint is about the blob asked for: there is data that
  the cache had under that id, that was verified against it, or that Walrus delivered, as the
  answer's source says; the size is its length, an image is handed over whole in base64, a text
  of at most 2000 bytes of UTF-8 is handed over unchanged, and the last thing done is to announce
  the blob to the node.
\<close>

theorem resolve_answer_true:
  assumes "resolve_blob E C b s = (Ret (Inr info), s')"
  shows "\<exists>i d. blob_parse E b = Inr i \<and> blob_origin E i s (hb_source info) d \<and>
    hb_blob_id info = b \<and> hb_size info = word_of_nat (length d) \<and> detect_mime d = Ret (hb_mime_type info) \<and>
    (is_image (hb_mime_type info) \<longrightarrow> hb_data_base64 info = b64_encode E d) \<and>
    (\<not> is_image (hb_mime_type info) \<and> utf8_valid d \<and> length d \<le> 2000 \<longrightarrow> hb_content info = of_bytes d) \<and>
    last (api_sent s') = AnnounceBlob i"
proof -
  from assms obtain i where i: "blob_parse E b = Inr i"
    by (cases "blob_parse E b") (simp_all add: resolve_blob_def)
  from assms [unfolded resolve_blob_alt [OF i]] show ?thesis
  proof (cases rule: act_bindE)
    case (go r s1)
    then obtain res where r: "r = Inr res" by (cases r) simp_all
    note origin = on_mesh_origin [OF go(1) [unfolded r]]
    obtain s2 where info: "build_blobinfo E b (rr_data res) (source_name (rr_resolution res)) (rr_cached res)
        (rr_payment_error res) = Ret info" and t: "tell_node E (AnnounceBlob i) s1 = (s2, s')"
      using go(2) unfolding r by (auto simp: act_bind_def split: prod.splits run.splits)
    from build_blobinfoD [OF info] origin i text_preview_valid [of "rr_data res"] tell_node_sent [OF t]
    show ?thesis by (intro exI [of _ i] exI [of _ "rr_data res"]) (auto split: if_splits)
  qed simp
qed

section \<open>Concrete requests\<close>

definition demo_http :: "(mail, nat, nat, nat, string, bytes, nat) http_env" where
  "demo_http = \<lparr>he_mesh = mail_mesh [1, 2, 3] 0, blob_parse = (\<lambda>s. Inr [3]), b64_encode = (\<lambda>d. ''''),
     ma_parse = (\<lambda>s. None), ma_protocols = (\<lambda>m. []), ma_pop = (\<lambda>m. m), ma_show = (\<lambda>m. ''''),
     pid_to_bytes = (\<lambda>p. []), send_error = ''channel closed'', recv_error = ''channel closed''\<rparr>"

definition demo_conf :: "(nat, nat, nat, bytes) http_conf" where
  "demo_conf = \<lparr>hc_peer_id = 7, hc_listen_addr = 0, hc_cache_dir = ''cache'', hc_p2p_port = 34291,
     hc_wallet = None, hc_budget = 1000\<rparr>"

definition demo_api :: "(mail, nat, nat, nat, string, mem_db) api_state" where
  "demo_api = \<lparr>api_wallet = \<lparr>ws_world = [], ws_counter = 0, ws_submitted = []\<rparr>, api_store = serve_demo,
     api_sent = [], api_bootstrap = [], api_events = []\<rparr>"

lemma demo_ids: "blob_parse demo_http b = Inr [3]" "wx_show_id (me_walrus (he_mesh demo_http)) [3] = ''k''"
  by (simp_all add: demo_http_def mail_mesh_def length_walrus_def)

theorem requests_that_spend_witness:
  "\<exists>r s'. serve demo_http demo_conf ReqRegister demo_api = (r, s') \<and> s' = demo_api"
proof -
  obtain r s' where run: "serve demo_http demo_conf ReqRegister demo_api = (r, s')" by fastforce
  have "hc_wallet demo_conf = None" by (simp add: demo_conf_def)
  from requests_that_spend [OF run] this run show ?thesis by simp
qed

lemma demo_resolve:
  "\<exists>info s'. resolve_blob demo_http demo_conf ''k'' demo_api = (Ret (Inr info), s') \<and>
     hb_source info = ''L0 local cache'' \<and> hb_content info = of_bytes [1, 2, 3, 4]"
proof -
  have d: "bs_get (api_store demo_api) (wx_show_id (me_walrus (he_mesh demo_http)) [3]) = Inr (Some [1, 2, 3, 4])"
    by (simp add: demo_ids demo_api_def serve_demo_get)
  have mime: "detect_mime [1, 2, 3, 4] = Ret ''text/plain''"
    by (simp add: detect_mime_def starts_with_def is_webp_def as_bytes_def)
  have shown: "text_preview [1, 2, 3, 4] = of_bytes [1, 2, 3, 4]"
    by (rule text_preview_valid) simp_all
  obtain x s' where "tell_node demo_http (AnnounceBlob [3]) demo_api = (Ret x, s')" by (rule tell_nodeE)
  then show ?thesis
    by (simp add: resolve_blob_alt [OF demo_ids(1)] act_bind_def on_mesh_hit [OF d] build_blobinfo_def mime shown
        is_image_def)
qed

theorem stream_matches_plain_witness:
  "\<exists>evs s' info. handle_resolve_stream demo_http demo_conf ''k'' demo_api = (Ret evs, s') \<and>
     EvInfo info \<in> set evs \<and> hb_content info = of_bytes [1, 2, 3, 4]"
proof -
  obtain info s1 where run: "resolve_blob demo_http demo_conf ''k'' demo_api = (Ret (Inr info), s1)"
    and content: "hb_content info = of_bytes [1, 2, 3, 4]"
    using demo_resolve by blast
  obtain r' s2 where stream: "handle_resolve_stream demo_http demo_conf ''k'' demo_api = (r', s2)" by fastforce
  from stream_matches_plain [OF demo_ids run stream] content stream show ?thesis by auto
qed

theorem resolve_answer_true_witness:
  "\<exists>info s' d. resolve_blob demo_http demo_conf ''k'' demo_api = (Ret (Inr info), s') \<and>
     blob_origin demo_http [3] demo_api (hb_source info) d \<and> last (api_sent s') = AnnounceBlob [3]"
proof -
  obtain info s1 where run: "resolve_blob demo_http demo_conf ''k'' demo_api = (Ret (Inr info), s1)"
    using demo_resolve by blast
  from resolve_answer_true [OF run] run show ?thesis by (auto simp: demo_ids)
qed

end
