(* ===== verification/Cli_Safety.thy ===== *)
theory Cli_Safety
  imports Cli Http_Demo
begin

text \<open>
  What the commands do to the cache, and how the settings of the command line relate to the
  settings that \<^verbatim>\<open>SettlementConfig::mainnet\<close> has built in.
\<close>

section \<open>Pins and the commands\<close>

abbreviation cs_store :: "('w, 'p, 'm, 'a, 't, 'd) cli_state \<Rightarrow> 'd blob_store" where
  "cs_store s \<equiv> api_store (cs_api s)"

text \<open>The blob is in the cache and pinned.\<close>

definition guarded :: "string \<Rightarrow> bytes \<Rightarrow> 'd blob_store \<Rightarrow> bool" where
  "guarded k d st \<longleftrightarrow> store_ok st \<and> pinned st k \<and> blobs_view st k = Some d"

definition keeps_guard :: "string \<Rightarrow> bytes \<Rightarrow> ('w, 'p, 'm, 'a, 't, 'd) cli_state \<Rightarrow>
    ('w, 'p, 'm, 'a, 't, 'd) cli_state \<Rightarrow> bool" where
  "keeps_guard k d s s' \<longleftrightarrow> (guarded k d (cs_store s) \<longrightarrow> guarded k d (cs_store s'))"

lemma keeps_guard_order: "reflp (keeps_guard k d)" "transp (keeps_guard k d)"
  by (auto simp: keeps_guard_def intro: reflpI transpI)

lemma guard_store: "act_keeps cs_store m \<Longrightarrow> act_rel (keeps_guard k d) m"
  by (rule act_rel_keeps [OF keeps_guard_order]) (auto simp: keeps_guard_def)

lemma store_kept:
  "act_keeps cs_store (put_out bs)" "act_keeps cs_store (println l)" "act_keeps cs_store (on_store op)"
  by (simp_all add: act_keeps_def put_out_def println_def on_store_def)

lemma println_all_kept: "act_keeps cs_store (println_all ls)"
  by (induction ls; unfold println_all.simps; intro act_keeps_rules store_kept)

lemma api_kept: "act_keeps api_store m \<Longrightarrow> act_keeps cs_store (on_api m)"
  by (auto simp: act_keeps_def on_api_def split: prod.splits)

lemma walrus_kept: "act_keeps mesh_books (on_walrus m)"
  by (auto simp: act_keeps_def on_walrus_def mesh_books_def split: prod.splits)

lemma mesh_kept: "act_keeps mesh_books m \<Longrightarrow> act_keeps api_store (on_mesh m)"
  by (auto simp: act_keeps_def on_mesh_def mesh_books_def new_tables_def split: prod.splits)

lemma client_kept: "act_keeps cs_store (on_client m)"
  unfolding on_client_def by (intro api_kept mesh_kept walrus_kept)

lemma anyhow_kept: "act_keeps g m \<Longrightarrow> act_keeps g (anyhow m)"
  unfolding anyhow_def by (rule map_err_keeps)

lemma connect_kept: "act_keeps cs_store (connect_mainnet E)"
  unfolding connect_mainnet_def by (intro anyhow_kept client_kept)

lemma books_store: "act_keeps api_books m \<Longrightarrow> act_keeps api_store m"
  by (simp add: act_keeps_def api_books_def)

lemma tell_kept: "act_keeps api_store (tell_node E c)"
  by (rule books_store [OF node_calls_books(1)])

lemmas kept_rules = store_kept println_all_kept client_kept anyhow_kept connect_kept sum_keeps act_keeps_rules

text \<open>The commands that leave the store alone.\<close>

lemma list_entries_kept: "act_keeps cs_store (list_entries ids)"
  by (induction ids; unfold list_entries.simps; intro kept_rules)

lemma reading_commands_kept:
  "act_keeps cs_store (cmd_metadata E b)" "act_keeps cs_store (cmd_status E b)"
  "act_keeps cs_store (cmd_verify E b)" "act_keeps cs_store cmd_list" "act_keeps cs_store (cmd_info b)"
  unfolding cmd_metadata_def cmd_status_def cmd_verify_def cmd_list_def cmd_info_def Let_def
  by (intro kept_rules list_entries_kept)+

text \<open>Those that do not: they resolve, pin or unpin.\<close>

lemma on_mesh_guard:
  assumes "on_mesh (resolve E R i) s = (r, s')" and "guarded k d (api_store s)"
  shows "guarded k d (api_store s')"
proof -
  obtain rs where rs: "resolve E R i (new_tables s) = (r, rs)" "api_store s' = rs_store rs"
    using assms(1) by (auto simp: on_mesh_def split: prod.splits)
  have "rs_store (new_tables s) = api_store s" by (simp add: new_tables_def)
  with resolve_keeps_pinned [OF rs(1)] assms(2) rs(2) show ?thesis by (auto simp: guarded_def)
qed

lemma api_resolve_guard: "act_rel (keeps_guard k d) (on_api (on_mesh (resolve E R i)))"
  by (rule act_relI [OF keeps_guard_order])
    (auto simp: on_api_def keeps_guard_def split: prod.splits dest: on_mesh_guard)

lemma resolve_guard: "act_rel (keeps_guard k d) (cli_resolve E t p W i)"
  unfolding cli_resolve_def anyhow_def act_map_err_def
  by (rule act_rel_bind [OF api_resolve_guard]) (rule guard_store [OF act_keeps_ret(1)])

lemma change_guard:
  assumes "\<And>st st'. op st = Inr st' \<Longrightarrow> guarded k d st \<Longrightarrow> guarded k d st'"
  shows "act_rel (keeps_guard k d) (change_store op)"
  by (rule act_relI [OF keeps_guard_order])
    (auto simp: change_store_def keeps_guard_def split: sum.splits intro: assms)

lemma pin_guard:
  assumes "pin st b = Inr st'" and "guarded k d st"
  shows "guarded k d st'"
  using assms pins.put_ok [of st b st'] pins.put_view [of st b st'] pin_blobs [of st b st']
  by (auto simp: guarded_def pinned_pin_entry)

lemma unpin_guard:
  assumes "unpin st b = Inr st'" and "guarded k d st" and "b \<noteq> k"
  shows "guarded k d st'"
  using assms pins.del_ok [of st b st'] pins.del_view [of st b st'] unpin_blobs [of st b st']
  by (auto simp: guarded_def pinned_pin_entry)

lemmas guard_rules = resolve_guard act_rel_bind act_rel_try if_rel guard_store [OF connect_kept]
  guard_store [OF store_kept(1)] guard_store [OF store_kept(2)] guard_store [OF store_kept(3)]
  guard_store [OF act_keeps_ret(1)] guard_store [OF api_kept, OF tell_kept]

lemma command_guard:
  assumes "cmd \<noteq> Unpin k"
  shows "act_rel (keeps_guard k d) (run_command E dir t p W cmd)"
proof (cases cmd)
  case (Get b)
  then show ?thesis unfolding Get run_command.simps cmd_get_def Let_def by (intro guard_rules)
next
  case (Cat b)
  then show ?thesis unfolding Cat run_command.simps cmd_cat_def by (intro guard_rules)
next
  case (Pin b)
  then show ?thesis
    unfolding Pin run_command.simps cmd_pin_def by (intro guard_rules change_guard [OF pin_guard])
next
  case (Unpin b)
  with assms show ?thesis
    unfolding Unpin run_command.simps cmd_unpin_def
    by (intro guard_rules change_guard [OF unpin_guard]) simp_all
qed (simp_all add: guard_store reading_commands_kept)

text \<open>A sequence of runs of the program with commands, whatever their outcomes.\<close>

definition run_commands :: "('w, 'p, 'm, 'a, 't, 'k, 'x, 'c, 'o) cli_env \<Rightarrow> string \<Rightarrow> bool \<Rightarrow> 'p \<Rightarrow>
    ('a, 'k) zing_wallet \<Rightarrow> command list \<Rightarrow> ('w, 'p, 'm, 'a, 't, 'd) cli_state \<Rightarrow>
    ('w, 'p, 'm, 'a, 't, 'd) cli_state" where
  "run_commands E dir t p W cmds s = fold (\<lambda>cmd s. snd (run_command E dir t p W cmd s)) cmds s"

lemma commands_guard:
  "Unpin k \<notin> set cmds \<Longrightarrow> guarded k d (cs_store s) \<Longrightarrow> guarded k d (cs_store (run_commands E dir t p W cmds s))"
proof (induction cmds arbitrary: s)
  case (Cons cmd cmds)
  have "cmd \<noteq> Unpin k" using Cons.prems(1) by auto
  from act_relD [OF command_guard [OF this, of d E dir t p W], of s, OF prod.collapse [symmetric]] Cons.prems(2)
  have "guarded k d (cs_store (snd (run_command E dir t p W cmd s)))" by (simp add: keeps_guard_def)
  with Cons show ?case by (simp add: run_commands_def)
qed (simp add: run_commands_def)

lemma pin_command:
  assumes "cmd_pin b s = (Ret (Inr ()), s')" and "store_ok (cs_store s)"
  shows "\<exists>d. blobs_view (cs_store s) b = Some d \<and> guarded b d (cs_store s')"
proof -
  obtain d st where g: "bs_get (cs_store s) b = Inr (Some d)" and p: "pin (cs_store s) b = Inr st"
    and s': "cs_store s' = st"
    using assms(1)
    by (auto simp: cmd_pin_def act_try_def act_bind_def on_store_def change_store_def println_def put_out_def
        split: sum.splits if_splits prod.splits run.splits elim!: not_None_eq [THEN iffD1, THEN exE])
  have "blobs_view (cs_store s) b = Some d"
    using cf_get_view [OF assms(2)] g by (simp add: bs_get_def)
  moreover have "guarded b d st"
    using pins.put_ok [OF assms(2) p] pins.put_view [OF assms(2) p] pin_blobs [OF assms(2) p] calculation
    by (simp add: guarded_def pinned_pin_entry)
  ultimately show ?thesis using s' by blast
qed

text \<open>
  C31: a pin protects. After the command that pins a blob has succeeded, whatever commands are run,
  with whatever outcome - fetches that evict, other pins, unpinning other blobs - the blob is still
  in the cache with the same content and still pinned, unless it is unpinned itself.
\<close>

theorem pin_protects:
  assumes "store_ok (cs_store s)" and "run_command E dir t p W (Pin b) s = (Ret (Inr ()), s1)"
    and "Unpin b \<notin> set cmds"
  shows "\<exists>d. blobs_view (cs_store s) b = Some d \<and>
    blobs_view (cs_store (run_commands E dir t p W cmds s1)) b = Some d \<and>
    pinned (cs_store (run_commands E dir t p W cmds s1)) b"
proof -
  from assms(2) obtain d where "blobs_view (cs_store s) b = Some d" "guarded b d (cs_store s1)"
    using pin_command [OF _ assms(1)] by auto
  with commands_guard [OF assms(3), of d s1 E dir t p W] show ?thesis by (auto simp: guarded_def)
qed

section \<open>Hexadecimal ids\<close>

text \<open>Strings of pairs of hexadecimal digits, and the contract of the \<^verbatim>\<open>hex\<close> crate on them.\<close>

fun hex_pairs :: "string \<Rightarrow> bytes option" where
  "hex_pairs [] = Some []"
| "hex_pairs [c] = None"
| "hex_pairs (c # d # r) = (case (hex_digit c, hex_digit d, hex_pairs r) of
     (Some x, Some y, Some bs) \<Rightarrow> Some (word_of_nat (16 * x + y) # bs) | _ \<Rightarrow> None)"

definition hex_crate_ok :: "('a, 't) sui_sdk \<Rightarrow> bool" where
  "hex_crate_ok K \<longleftrightarrow> (\<forall>s bs. hex_pairs s = Some bs \<and> length bs = 32 \<longrightarrow> hex_decode_32 K s = Inr bs)"

lemma hex_pairs_nth:
  "hex_pairs s = Some bs \<Longrightarrow> length s = 2 * length bs \<and>
    (\<forall>i < length bs. \<exists>x y. hex_digit (s ! (2 * i)) = Some x \<and> hex_digit (s ! (2 * i + 1)) = Some y \<and>
      bs ! i = word_of_nat (16 * x + y))"
proof (induction s arbitrary: bs rule: hex_pairs.induct)
  case (3 c d r)
  then obtain x y bs' where h: "hex_digit c = Some x" "hex_digit d = Some y" "hex_pairs r = Some bs'"
    "bs = word_of_nat (16 * x + y) # bs'"
    by (auto split: option.splits)
  from "3.IH" [OF h(3)] h show ?case by (auto simp: nth_Cons split: nat.splits)
qed simp_all

lemma hex_digit_Some: "hex_digit c = Some x \<Longrightarrow> x < 16 \<and> (of_char c :: nat) < 128 \<and> c \<noteq> CHR ''+''"
  by (auto simp: hex_digit_def Let_def split: if_splits)

lemma hex_boundary:
  assumes "\<And>c. c \<in> set s \<Longrightarrow> (of_char c :: nat) < 128" and "i \<le> length s"
  shows "is_boundary s i"
proof (cases "i < length s")
  case True
  then have "(of_char (s ! i) :: nat) < 128" using assms(1) by simp
  then have "\<not> is_cont (as_bytes s ! i)"
    using True by (simp add: is_cont_def as_bytes_def word_le_nat_alt unat_of_nat)
  with True show ?thesis by (simp add: is_boundary_def)
qed (use assms(2) in \<open>simp add: is_boundary_def\<close>)

lemma from_radix_pair:
  assumes "hex_digit c = Some x" and "hex_digit d = Some y"
  shows "from_str_radix_16 [c, d] = Some (word_of_nat (16 * x + y))"
  using assms hex_digit_Some [OF assms(1)] hex_digit_Some [OF assms(2)]
  by (simp add: from_str_radix_16_def mult.commute)

lemma take2_drop: "i + 1 < length s \<Longrightarrow> take 2 (drop i s) = [s ! i, s ! (i + 1)]"
  by (simp add: numeral_2_eq_2 take_Suc_conv_app_nth Cons_nth_drop_Suc [symmetric])

lemma hex_at_pairs:
  assumes "hex_pairs s = Some bs" and "i < length bs"
  shows "hex_at s i = Ret (Some (bs ! i))"
proof -
  note p = hex_pairs_nth [OF assms(1)]
  have len: "i * 2 + 2 \<le> length s" using p assms(2) by simp
  have ascii: "(of_char c :: nat) < 128" if "c \<in> set s" for c
  proof -
    from that obtain j where j: "j < length s" "c = s ! j" by (auto simp: in_set_conv_nth)
    define n where "n = j div 2"
    have "n < length bs" "j = 2 * n \<or> j = 2 * n + 1" using j(1) p by (auto simp: n_def)
    with p j(2) show ?thesis using hex_digit_Some by metis
  qed
  from p assms(2) obtain x y where xy: "hex_digit (s ! (2 * i)) = Some x" "hex_digit (s ! (2 * i + 1)) = Some y"
    "bs ! i = word_of_nat (16 * x + y)" by blast
  have "str_slice (i * 2) (i * 2 + 2) s = Ret [s ! (2 * i), s ! (2 * i + 1)]"
    using len hex_boundary [OF ascii] take2_drop [of "2 * i" s]
    by (simp add: str_slice_def slice_def mult.commute)
  with from_radix_pair [OF xy(1,2)] xy(3) show ?thesis by (simp add: hex_at_def)
qed

lemma run_map_Ret: "(\<And>x. x \<in> set xs \<Longrightarrow> f x = Ret (g x)) \<Longrightarrow> run_map f xs = Ret (map g xs)"
  by (induction xs) simp_all

lemma table_id_pairs:
  assumes "hex_pairs s = Some bs" and "length bs = 32"
  shows "table_id s = Ret bs"
proof -
  have "length s = 64" using hex_pairs_nth [OF assms(1)] assms(2) by simp
  moreover have "run_map (\<lambda>i. bind_run (hex_at s i) (\<lambda>b. Ret (case b of Some b \<Rightarrow> b | None \<Rightarrow> 0))) [0..<32] =
      Ret (map ((!) bs) [0..<32])"
    by (rule run_map_Ret) (simp add: hex_at_pairs [OF assms(1)] assms(2))
  ultimately show ?thesis using map_nth [of bs] assms(2) by (simp add: table_id_def)
qed

section \<open>Flags against the built-in settings\<close>

lemma mainnet_table:
  "\<exists>bs. hex_pairs (strip_0x ''0x465bf3e99dff79a56705b111396ee5b9bd35f2a1aac70d118f466a7c581e0e07'') = Some bs \<and>
    length bs = 32"
  by (simp add: strip_0x_def hex_digit_def)

text \<open>
  C32: the command line's settings against \<^verbatim>\<open>SettlementConfig::mainnet\<close>. Given the package, the
  settlement object and a vault by flags and no configuration file, the program builds the
  configuration that is built in for that vault, but for one field: it knows no registry of
  vaults. A wallet with it cannot create a vault: it refuses before anything is submitted.
\<close>

theorem flags_match_mainnet:
  assumes "hex_crate_ok (se_sdk S)" and "mainnet (se_sdk S) v = Ret M"
    and "cl_settlement_package cli = Some ''0xb4307939d0cf205880746372d8a467af67f886122fde3ed69fd912885848e8f8''"
    and "cl_settlement_object cli = Some ''0xc58e9b7417fdc83743b46a3f9009b10868f05bb1f2283f08c7021ac3e7f6c308''"
    and "cl_vault_object cli = Some vs" and "parse_address (se_sdk S) vs = Inr v"
    and "cl_registry_object cli = None" and "zc_settlement cfg = None"
  shows "settlement_of (se_sdk S) cli cfg = Ret (Some (M\<lparr>peer_vault_registry_id := None\<rparr>)) \<and>
    create_vault S (W\<lparr>wl_settlement := Some (M\<lparr>peer_vault_registry_id := None\<rparr>)\<rparr>) s =
      (Ret (Inl (SuiClientErr ''peer_vault_registry_id not set in config'')), s)"
proof
  obtain bs where bs: "hex_pairs (strip_0x ''0x465bf3e99dff79a56705b111396ee5b9bd35f2a1aac70d118f466a7c581e0e07'') = Some bs"
    "length bs = 32" using mainnet_table by blast
  then have decoded: "hex_decode_32 (se_sdk S)
      (strip_0x ''0x465bf3e99dff79a56705b111396ee5b9bd35f2a1aac70d118f466a7c581e0e07'') = Inr bs"
    using assms(1) unfolding hex_crate_ok_def by blast
  from assms(2) decoded table_id_pairs [OF bs] show "settlement_of (se_sdk S) cli cfg = Ret (Some (M\<lparr>peer_vault_registry_id := None\<rparr>))"
    by (auto simp: settlement_of_def mainnet_def flag_or_def version_or_def parsed_or_def ok_opt_def expect_def
        assms(3-8) Let_def split: sum.splits)
  show "create_vault S (W\<lparr>wl_settlement := Some (M\<lparr>peer_vault_registry_id := None\<rparr>)\<rparr>) s =
      (Ret (Inl (SuiClientErr ''peer_vault_registry_id not set in config'')), s)"
    by (simp add: create_vault_def build_create_vault_transaction_def)
qed

section \<open>Concrete runs\<close>

definition demo_cli :: "nat cli" where
  "demo_cli = \<lparr>cl_cache_dir = ''~/.zing-cdn/cache'', cl_listen = 0, cl_external_addr = [], cl_bootstrap = [],
     cl_serve = False, cl_sui_keystore = None,
     cl_settlement_package = Some ''0xb4307939d0cf205880746372d8a467af67f886122fde3ed69fd912885848e8f8'',
     cl_settlement_object = Some ''0xc58e9b7417fdc83743b46a3f9009b10868f05bb1f2283f08c7021ac3e7f6c308'',
     cl_vault_object = Some ''0x5'', cl_registry_object = None, cl_api_port = 8080, cl_command = None\<rparr>"

definition hex_sui :: "(mail, nat, string, bytes, nat) sui_env" where
  "hex_sui = mail_sui\<lparr>se_sdk := demo_sdk\<lparr>parse_address := (\<lambda>s. Inr (length s)),
     hex_decode_32 := (\<lambda>s. case hex_pairs s of Some bs \<Rightarrow> Inr bs | None \<Rightarrow> Inl ''odd'')\<rparr>\<rparr>"

theorem flags_match_mainnet_witness:
  "\<exists>cfg. settlement_of (se_sdk hex_sui) demo_cli default_config = Ret (Some cfg) \<and>
     peer_vault_registry_id cfg = None \<and> vault_object_id cfg = Some 3"
proof -
  have ok: "hex_crate_ok (se_sdk hex_sui)" by (simp add: hex_crate_ok_def hex_sui_def)
  have "\<exists>M. mainnet (se_sdk hex_sui) 3 = Ret M"
    using mainnet_table by (auto simp: mainnet_def hex_sui_def)
  then obtain M where M: "mainnet (se_sdk hex_sui) 3 = Ret M" by blast
  then have "vault_object_id M = Some 3"
    using mainnet_table by (auto simp: mainnet_def hex_sui_def)
  with flags_match_mainnet [OF ok M, of demo_cli "''0x5''" default_config] show ?thesis
    by (simp add: demo_cli_def hex_sui_def default_config_def)
qed

definition demo_client :: "(mail, unit, unit) client_sdk" where
  "demo_client = \<lparr>object_id_hex = (\<lambda>s. Inr ()), contract_config = (\<lambda>a b. ()), push_rpc_url = (\<lambda>u c. c),
     new_retriable = (\<lambda>c. Inr ()), new_read_client = (\<lambda>c w. (Inr (), w)), build_refresher = (\<lambda>c w. (Inr 1000, w)),
     new_node_client = (\<lambda>c. Inr ())\<rparr>"

definition demo_env :: "(mail, nat, nat, nat, string, bytes, nat, unit, unit) cli_env" where
  "demo_env = \<lparr>cv_http = demo_http, cv_client = demo_client, cv_show_encoding = (\<lambda>e. ''RS2''),
     cv_peer_of_seed = (\<lambda>s. Some 7), cv_create_dir_all = (\<lambda>d. True)\<rparr>"

definition demo_start :: "(mail, nat, nat, nat, string, mem_db) cli_state" where
  "demo_start = \<lparr>cs_api = demo_api, cs_out = [], cs_node = None\<rparr>"

theorem pin_protects_witness:
  "\<exists>s1 d. run_command demo_env ''cache'' False 7 demo_wallet (Pin ''k'') demo_start = (Ret (Inr ()), s1) \<and>
     blobs_view (cs_store (run_commands demo_env ''cache'' False 7 demo_wallet [Get ''x'', Unpin ''y''] s1)) ''k'' = Some d"
proof -
  have ok: "store_ok (cs_store demo_start)" by (simp add: demo_start_def demo_api_def serve_demo_def)
  obtain st where st: "pin serve_demo ''k'' = Inr st"
    by (simp add: pin_def cf_put_def cf_handle_def serve_demo_def mem_store_def mem_rocks_def)
  have run: "\<exists>s1. run_command demo_env ''cache'' False 7 demo_wallet (Pin ''k'') demo_start = (Ret (Inr ()), s1)"
    by (simp add: cmd_pin_def act_try_def act_bind_def on_store_def change_store_def println_def put_out_def
        demo_start_def demo_api_def serve_demo_get st)
  then obtain s1 where run: "run_command demo_env ''cache'' False 7 demo_wallet (Pin ''k'') demo_start = (Ret (Inr ()), s1)"
    by blast
  have "Unpin ''k'' \<notin> set [Get ''x'', Unpin ''y'']" by simp
  from pin_protects [OF ok run this] run show ?thesis by blast
qed

end
