(* ===== verification/Discovery.thy ===== *)
theory Discovery
  imports Node
begin

text \<open>
  \<^verbatim>\<open>zing-cdn-core/src/p2p/behaviour.rs\<close>, the protocols the node speaks with their limits in
  seconds, and \<^verbatim>\<open>p2p/discovery.rs\<close>, the calls of the DHT with the errors they pass on. The event
  loop has its own calls instead of these.
\<close>

section \<open>The protocols\<close>

datatype support = Full_Support | Inbound_Support | Outbound_Support

record request_protocol =
  rp_name :: string
  rp_support :: support
  rp_timeout :: nat

record zing_behaviour =
  zb_kad_protocol :: string
  zb_data :: request_protocol
  zb_range :: request_protocol
  zb_sliver :: request_protocol
  zb_addr :: request_protocol
  zb_identify_protocol :: string
  zb_identify_interval :: nat
  zb_ping_interval :: nat

definition behaviour_new :: zing_behaviour where
  "behaviour_new =
     \<lparr>zb_kad_protocol = ''/zing-cdn/kad/1.0.0'',
      zb_data = \<lparr>rp_name = ''/zing-cdn/data/3.0'', rp_support = Full_Support, rp_timeout = 30\<rparr>,
      zb_range = \<lparr>rp_name = ''/zing-cdn/range/2.0'', rp_support = Full_Support, rp_timeout = 30\<rparr>,
      zb_sliver = \<lparr>rp_name = ''/zing-cdn/sliver/1.0'', rp_support = Full_Support, rp_timeout = 30\<rparr>,
      zb_addr = \<lparr>rp_name = ''/zing-cdn/addr/1.0'', rp_support = Full_Support, rp_timeout = 10\<rparr>,
      zb_identify_protocol = ''zing-cdn/0.1.0'', zb_identify_interval = 45, zb_ping_interval = 15\<rparr>"

text \<open>The names are those of \<^verbatim>\<open>protocol.rs\<close>, no two the same, and every node serves what it asks.\<close>

lemma protocol_names:
  "map rp_name [zb_data behaviour_new, zb_range behaviour_new, zb_sliver behaviour_new, zb_addr behaviour_new] =
     [ZING_CDN_BLOB_PROTOCOL, ZING_CDN_RANGE_PROTOCOL, ZING_CDN_SLIVER_PROTOCOL, ZING_CDN_ADDR_PROTOCOL]"
  "distinct (zb_kad_protocol behaviour_new # map rp_name
     [zb_data behaviour_new, zb_range behaviour_new, zb_sliver behaviour_new, zb_addr behaviour_new])"
  by (simp_all add: behaviour_new_def ZING_CDN_BLOB_PROTOCOL_def ZING_CDN_RANGE_PROTOCOL_def
      ZING_CDN_SLIVER_PROTOCOL_def ZING_CDN_ADDR_PROTOCOL_def)

section \<open>Calls of the DHT\<close>

definition dht_add_bootstrap_peer :: "('w, 'p, 'a) p2p_env \<Rightarrow> 'w \<Rightarrow> 'p \<Rightarrow> 'a \<Rightarrow> 'w" where
  "dht_add_bootstrap_peer E kad peer_id addr = sw_add_address E kad peer_id addr"

definition dht_start_providing :: "('w, 'p, 'a) p2p_env \<Rightarrow> 'w \<Rightarrow> bytes \<Rightarrow> 'w \<times> unit zresult" where
  "dht_start_providing E kad blob_id = apsnd (map_err P2PNetwork) (sw_start_providing E kad blob_id)"

definition dht_get_providers :: "('w, 'p, 'a) p2p_env \<Rightarrow> 'w \<Rightarrow> bytes \<Rightarrow> 'w \<times> nat" where
  "dht_get_providers E kad blob_id = sw_get_providers E kad blob_id"

definition dht_bootstrap :: "('w, 'p, 'a) p2p_env \<Rightarrow> 'w \<Rightarrow> 'w \<times> unit zresult" where
  "dht_bootstrap E kad = apsnd (map_err P2PNetwork) (sw_bootstrap E kad)"

text \<open>The loop's own announcement and search make the same calls and drop the error.\<close>

lemma node_makes_the_same_calls:
  "nd_swarm (start_providing E k n) = fst (dht_start_providing E (nd_swarm n) k)"
  "nd_swarm (handle_command E (FindProviders k h) n) = fst (dht_get_providers E (nd_swarm n) k)"
  "pending_finds (handle_command E (FindProviders k h) n) =
     (pending_finds n)(snd (dht_get_providers E (nd_swarm n) k) \<mapsto> h)"
  by (simp_all add: start_providing_def did_def dht_start_providing_def dht_get_providers_def Let_def
      split: prod.split)

end
