(* ===== verification/Gui_Api.thy ===== *)
theory Gui_Api
  imports Http
begin

text \<open>
  \<^verbatim>\<open>zing-cdn-gui/src-tauri/src/api_http.rs\<close>: the backend of the desktop app. It repeats most of
  the HTTP API over the same shared state, with errors as plain strings, a MIME guess of its own,
  and operations the API does not have: the dashboard, pinning, deleting and removing a peer.
  Where a function has the text of one in \<^verbatim>\<open>zing-cdn/src/http.rs\<close>, it is the definition of \<open>Http\<close>.
\<close>

section \<open>The cache\<close>

definition CACHE_BUDGET :: u64 where "CACHE_BUDGET = 500 * 1024 * 1024"

record dashboard_info =
  db_peer_id :: string
  db_wallet_address :: "string option"
  db_listen_addr :: string
  db_connected_peers :: "string list"
  db_cache_used :: u64
  db_cache_budget :: u64
  db_cache_count :: nat

definition read_store :: "('d blob_store \<Rightarrow> 'r zresult) \<Rightarrow> ('w, 'p, 'm, 'a, 't, 'd, string + 'r) hact" where
  "read_store op s = (Ret (map_err zing_display (op (api_store s))), s)"

definition write_store :: "('d blob_store \<Rightarrow> 'd blob_store zresult) \<Rightarrow>
    ('w, 'p, 'm, 'a, 't, 'd, string + unit) hact" where
  "write_store op s = (case op (api_store s) of
     Inl e \<Rightarrow> (Ret (Inl (zing_display e)), s)
   | Inr st \<Rightarrow> (Ret (Inr ()), s\<lparr>api_store := st\<rparr>))"

definition get_dashboard :: "('w, 'p, 'm, 'a, 't, 'k, 'x) http_env \<Rightarrow> ('p, 'm, 'a, 'k) http_conf \<Rightarrow>
    ('w, 'p, 'm, 'a, 't, 'd, string + dashboard_info) hact" where
  "get_dashboard E C =
     act_try (read_store bs_list_blob_ids) (\<lambda>ids.
     act_try (read_store bs_total_size) (\<lambda>cache_used.
     act_try (ask_connected E) (\<lambda>connected.
     act_ret (Inr \<lparr>db_peer_id = pid_show (he_mesh E) (hc_peer_id C),
       db_wallet_address = map_option (\<lambda>W. addr_show_alt (me_sui (he_mesh E)) (wl_address W)) (hc_wallet C),
       db_listen_addr = ma_show E (hc_listen_addr C),
       db_connected_peers = map (pid_show (he_mesh E)) connected, db_cache_used = cache_used,
       db_cache_budget = CACHE_BUDGET, db_cache_count = length ids\<rparr>))))"

fun list_cache_entries :: "string list \<Rightarrow> ('w, 'p, 'm, 'a, 't, 'd, string + cache_entry list) hact" where
  "list_cache_entries [] = act_ret (Inr [])"
| "list_cache_entries (i # is) =
     act_try (read_store (\<lambda>st. bs_blob_size st i)) (\<lambda>found.
     act_try (read_store (\<lambda>st. is_pinned st i)) (\<lambda>p.
     act_try (list_cache_entries is) (\<lambda>es.
     act_ret (Inr (\<lparr>ce_blob_id = i, ce_size = (case found of Some n \<Rightarrow> n | None \<Rightarrow> 0), ce_pinned = p\<rparr> # es)))))"

definition list_cache :: "('w, 'p, 'm, 'a, 't, 'd, string + cache_entry list) hact" where
  "list_cache = act_try (read_store bs_list_blob_ids) list_cache_entries"

definition pin_blob :: "string \<Rightarrow> ('w, 'p, 'm, 'a, 't, 'd, string + unit) hact" where
  "pin_blob blob_id = write_store (\<lambda>st. pin st blob_id)"

definition unpin_blob :: "string \<Rightarrow> ('w, 'p, 'm, 'a, 't, 'd, string + unit) hact" where
  "unpin_blob blob_id = write_store (\<lambda>st. unpin st blob_id)"

definition delete_blob :: "string \<Rightarrow> ('w, 'p, 'm, 'a, 't, 'd, string + unit) hact" where
  "delete_blob blob_id = write_store (\<lambda>st. bs_delete st blob_id)"

section \<open>Resolving\<close>

definition gui_detect_mime :: "bytes \<Rightarrow> string run" where
  "gui_detect_mime data =
     (if length data < 4 then Ret ''application/octet-stream''
      else if starts_with data [0x89, 0x50, 0x4E, 0x47] then Ret ''image/png''
      else if starts_with data [0xFF, 0xD8, 0xFF] then Ret ''image/jpeg''
      else if starts_with data [0x47, 0x49, 0x46, 0x38] then Ret ''image/gif''
      else (case is_webp data of
          Panic \<Rightarrow> Panic
        | Ret True \<Rightarrow> Ret ''image/webp''
        | Ret False \<Rightarrow> Ret ''text/plain''))"

definition gui_build_blobinfo :: "('w, 'p, 'm, 'a, 't, 'k, 'x) http_env \<Rightarrow> string \<Rightarrow> bytes \<Rightarrow> string \<Rightarrow> bool \<Rightarrow>
    string option \<Rightarrow> http_blob_info run" where
  "gui_build_blobinfo E blob_id data source cached payment_error =
     (case gui_detect_mime data of
        Panic \<Rightarrow> Panic
      | Ret mime_type \<Rightarrow>
          let (content, data_base64) =
            (if is_image mime_type then (binary_note (length data), b64_encode E data)
             else (text_preview data, []))
          in Ret \<lparr>hb_blob_id = blob_id, hb_size = word_of_nat (length data), hb_source = source,
               hb_cached = cached, hb_content = content, hb_mime_type = mime_type,
               hb_data_base64 = data_base64, hb_payment_error = payment_error\<rparr>)"

definition gui_resolve_blob :: "('w, 'p, 'm, 'a, 't, 'k, 'x) http_env \<Rightarrow> ('p, 'm, 'a, 'k) http_conf \<Rightarrow> string \<Rightarrow>
    ('w, 'p, 'm, 'a, 't, 'd, string + http_blob_info) hact" where
  "gui_resolve_blob E C blob_id =
     act_try (act_ret (map_err (\<lambda>e. ''invalid blob id: '' @ blob_id @ '': '' @ e) (blob_parse E blob_id))) (\<lambda>i.
     act_try (act_map_err zing_display (on_mesh (resolve (he_mesh E) (new_resolver C) i))) (\<lambda>result.
       let data = rr_data result;
           payment_error = rr_payment_error result;
           source = source_name (rr_resolution result)
       in act_bind (act_run (gui_detect_mime data)) (\<lambda>mime_type.
          let (content, data_base64) =
            (if is_image mime_type then (binary_note (length data), b64_encode E data)
             else (text_preview data, []))
          in act_bind (tell_node E (AnnounceBlob i)) (\<lambda>_.
             act_ret (Inr \<lparr>hb_blob_id = blob_id, hb_size = word_of_nat (length data), hb_source = source,
               hb_cached = rr_cached result, hb_content = content, hb_mime_type = mime_type,
               hb_data_base64 = data_base64, hb_payment_error = payment_error\<rparr>)))))"

definition gui_resolve_with_progress :: "('w, 'p, 'm, 'a, 't, 'k, 'x) http_env \<Rightarrow> ('p, 'm, 'a, 'k) http_conf \<Rightarrow>
    string \<Rightarrow> ('w, 'p, 'm, 'a, 't, 'd, unit) hact" where
  "gui_resolve_with_progress E C blob_id =
     (case blob_parse E blob_id of
        Inl e \<Rightarrow> emit (EvError (''invalid blob id: '' @ e))
      | Inr i \<Rightarrow>
          act_bind (emit (EvStatus ''Checking local cache...'' ''L0'')) (\<lambda>_.
          act_bind (stored blob_id) (\<lambda>found.
            case ok_opt found of
              Some (Some data) \<Rightarrow>
                act_bind (act_run (gui_build_blobinfo E blob_id data ''L0 local cache'' True None)) (\<lambda>info.
                act_bind (emit (EvInfo info)) (\<lambda>_.
                act_bind (tell_node E (AnnounceBlob i)) (\<lambda>_. act_ret ())))
            | _ \<Rightarrow>
              act_bind (emit (EvStatus ''Searching P2P network...'' ''L1'')) (\<lambda>_.
              act_bind (on_mesh (resolve (he_mesh E) (new_resolver C) i)) (\<lambda>r. case r of
                 Inr result \<Rightarrow>
                   let source = source_name (rr_resolution result)
                   in act_bind (emit (EvResolved (''Resolved via '' @ source) (take 2 source) source)) (\<lambda>_.
                      act_bind (act_run (gui_build_blobinfo E blob_id (rr_data result) source (rr_cached result)
                        (rr_payment_error result))) (\<lambda>info.
                      act_bind (tell_node E (AnnounceBlob i)) (\<lambda>_.
                      emit (EvInfo info))))
               | Inl e \<Rightarrow> emit (EvError (zing_display e)))))))"

section \<open>Peers\<close>

definition forget_peer :: "string \<Rightarrow> ('w, 'p, 'm, 'a, 't, 'd, unit) hact" where
  "forget_peer addr_str s = (Ret (), s\<lparr>api_bootstrap := filter (\<lambda>p. p \<noteq> addr_str) (api_bootstrap s)\<rparr>)"

definition peers_remove :: "('w, 'p, 'm, 'a, 't, 'k, 'x) http_env \<Rightarrow> string \<Rightarrow>
    ('w, 'p, 'm, 'a, 't, 'd, string + unit) hact" where
  "peers_remove E addr_str =
     act_bind (case Option.bind (ma_parse E addr_str) (\<lambda>addr. first_p2p (ma_protocols E addr)) of
         Some peer \<Rightarrow> act_bind (tell_node E (Disconnect peer)) (\<lambda>_. act_ret ())
       | None \<Rightarrow> act_ret ()) (\<lambda>_.
     act_bind (forget_peer addr_str) (\<lambda>_. act_ret (Inr ())))"

section \<open>The wallet\<close>

definition gui_wallet :: "('p, 'm, 'a, 'k) http_conf \<Rightarrow>
    (('a, 'k) zing_wallet \<Rightarrow> ('w, 'p, 'm, 'a, 't, 'd, string + 'r) hact) \<Rightarrow>
    ('w, 'p, 'm, 'a, 't, 'd, string + 'r) hact" where
  "gui_wallet C f = (case hc_wallet C of None \<Rightarrow> act_ret (Inl ''Wallet not configured'') | Some W \<Rightarrow> f W)"

definition gui_call :: "('w, 'a, 't, 'r zresult) wact \<Rightarrow> ('w, 'p, 'm, 'a, 't, 'd, string + 'r) hact" where
  "gui_call m = act_map_err zing_display (on_sui m)"

definition gui_peers_connected :: "('w, 'p, 'm, 'a, 't, 'k, 'x) http_env \<Rightarrow> ('a, 'k) zing_wallet \<Rightarrow>
    ('w, 'p, 'm, 'a, 't, 'd, string + peer_info list \<times> string list) hact" where
  "gui_peers_connected E W =
     act_try (gui_call (list_all_peers (me_sui (he_mesh E)) W)) (\<lambda>peers.
     act_try (ask_connected E) (\<lambda>connected.
       act_ret (Inr (peers, map (pid_show (he_mesh E)) connected))))"

definition list_staking :: "('w, 'p, 'm, 'a, 't, 'k, 'x) http_env \<Rightarrow> ('p, 'm, 'a, 'k) http_conf \<Rightarrow>
    ('w, 'p, 'm, 'a, 't, 'd, string + staking_peer_info list) hact" where
  "list_staking E C = gui_wallet C (\<lambda>W.
     act_try (gui_peers_connected E W) (\<lambda>(peers, connected_ids).
     act_bind (act_run (run_map (staking_view connected_ids) peers)) (\<lambda>result.
     act_ret (Inr result))))"

record gui_peer_info =
  gp_info :: my_peer_info
  gp_needs_update :: bool

definition get_my_peer_info :: "('w, 'p, 'm, 'a, 't, 'k, 'x) http_env \<Rightarrow> ('p, 'm, 'a, 'k) http_conf \<Rightarrow>
    ('w, 'p, 'm, 'a, 't, 'd, string + gui_peer_info) hact" where
  "get_my_peer_info E C = gui_wallet C (\<lambda>W.
     let wallet_address = addr_show_alt (me_sui (he_mesh E)) (wl_address W)
     in act_try (gui_peers_connected E W) (\<lambda>(peers, connected_ids).
        let my_peer = List.find (\<lambda>p. pi_sui_address p = wallet_address \<or>
              pi_sui_address p = strip_0x wallet_address) peers;
            needs_update = (case my_peer of
              Some p \<Rightarrow> pi_peer_id_b58 p \<noteq> pid_show (he_mesh E) (hc_peer_id C) | None \<Rightarrow> False)
        in act_bind (act_run (my_peer_view wallet_address connected_ids my_peer)) (\<lambda>info.
           act_ret (Inr \<lparr>gp_info = info, gp_needs_update = needs_update\<rparr>))))"

definition gui_get_wal_balance :: "('w, 'p, 'm, 'a, 't, 'k, 'x) http_env \<Rightarrow> ('p, 'm, 'a, 'k) http_conf \<Rightarrow>
    ('w, 'p, 'm, 'a, 't, 'd, string + wal_balance) hact" where
  "gui_get_wal_balance E C = gui_wallet C (\<lambda>W.
     act_try (gui_call (get_wal_balance (me_sui (he_mesh E)) W)) (\<lambda>balance.
     act_ret (Inr \<lparr>wb_balance = balance, wb_balance_wal = balance_wal balance\<rparr>)))"

definition gui_success :: "string \<Rightarrow> ('w, 'a, 't, unit zresult) wact \<Rightarrow>
    ('w, 'p, 'm, 'a, 't, 'd, string + register_result) hact" where
  "gui_success message m = act_try (gui_call m)
     (\<lambda>_. act_ret (Inr \<lparr>rg_success = True, rg_message = message\<rparr>))"

definition gui_delegate :: "('w, 'p, 'm, 'a, 't, 'k, 'x) http_env \<Rightarrow> ('p, 'm, 'a, 'k) http_conf \<Rightarrow>
    string \<Rightarrow> string \<Rightarrow> ('w, 'p, 'm, 'a, 't, 'd, string + register_result) hact" where
  "gui_delegate E C vault_object amount = gui_wallet C (\<lambda>W.
     act_try (act_ret (parse_wal_amount amount)) (\<lambda>amount_frost.
     gui_success ''Delegated successfully'' (delegate (me_sui (he_mesh E)) W vault_object amount_frost)))"

definition gui_register_peer :: "('w, 'p, 'm, 'a, 't, 'k, 'x) http_env \<Rightarrow> ('p, 'm, 'a, 'k) http_conf \<Rightarrow>
    ('w, 'p, 'm, 'a, 't, 'd, string + register_result) hact" where
  "gui_register_peer E C = gui_wallet C (\<lambda>W. gui_success ''Peer registered successfully''
     (register_peer (me_sui (he_mesh E)) W (pid_to_bytes E (hc_peer_id C))))"

definition get_my_vault :: "('w, 'p, 'm, 'a, 't, 'k, 'x) http_env \<Rightarrow> ('p, 'm, 'a, 'k) http_conf \<Rightarrow>
    ('w, 'p, 'm, 'a, 't, 'd, string + my_vault_info) hact" where
  "get_my_vault E C = gui_wallet C (\<lambda>W.
     act_try (gui_call (get_my_vault_info (me_sui (he_mesh E)) W)) (\<lambda>vault.
     act_ret (Inr (vault_view vault))))"

definition gui_create_vault :: "('w, 'p, 'm, 'a, 't, 'k, 'x) http_env \<Rightarrow> ('p, 'm, 'a, 'k) http_conf \<Rightarrow>
    ('w, 'p, 'm, 'a, 't, 'd, string + register_result) hact" where
  "gui_create_vault E C = gui_wallet C (\<lambda>W. gui_success ''Vault created successfully''
     (create_vault (me_sui (he_mesh E)) W))"

definition list_my_shares :: "('w, 'p, 'm, 'a, 't, 'k, 'x) http_env \<Rightarrow> ('p, 'm, 'a, 'k) http_conf \<Rightarrow>
    ('w, 'p, 'm, 'a, 't, 'd, string + share_view list) hact" where
  "list_my_shares E C = gui_wallet C (\<lambda>W.
     act_try (gui_call (list_my_share_certificates (me_sui (he_mesh E)) W)) (\<lambda>certs.
     act_bind (act_run (run_map share_view_of certs)) (\<lambda>result. act_ret (Inr result))))"

definition gui_claim_earnings :: "('w, 'p, 'm, 'a, 't, 'k, 'x) http_env \<Rightarrow> ('p, 'm, 'a, 'k) http_conf \<Rightarrow>
    ('w, 'p, 'm, 'a, 't, 'd, string + register_result) hact" where
  "gui_claim_earnings E C = gui_wallet C (\<lambda>W. gui_success ''Earnings claimed successfully''
     (claim_earnings (me_sui (he_mesh E)) W))"

definition gui_undelegate :: "('w, 'p, 'm, 'a, 't, 'k, 'x) http_env \<Rightarrow> ('p, 'm, 'a, 'k) http_conf \<Rightarrow>
    string \<Rightarrow> ('w, 'p, 'm, 'a, 't, 'd, string + register_result) hact" where
  "gui_undelegate E C cert_object_id = gui_wallet C (\<lambda>W. gui_success ''Undelegated successfully''
     (undelegate (me_sui (he_mesh E)) W cert_object_id))"

end
