(* ===== verification/Gui_Main.thy ===== *)
theory Gui_Main
  imports Gui_Api Cli
begin

text \<open>
  \<^verbatim>\<open>zing-cdn-gui/src-tauri/src/main.rs\<close>: the start of the desktop app, the file it keeps its
  bootstrap peers in, and the routes of its API, whose errors are answers like any other. Files are
  read through \<open>gs_files\<close>, which a write changes through the library's \<open>fs_write\<close>. The window,
  the logging set-up and the listener are library code.
\<close>

section \<open>Files\<close>

type_synonym files = "string \<Rightarrow> string + string"

record ('w, 'p, 'm, 'a, 't, 'k, 'x, 'c, 'o) gui_env =
  gv_cli :: "('w, 'p, 'm, 'a, 't, 'k, 'x, 'c, 'o) cli_env"
  gv_home_dir :: "string option"
  strings_json :: "string list \<Rightarrow> string option"
  fs_write :: "string \<Rightarrow> string \<Rightarrow> files \<Rightarrow> files"

abbreviation gv_http :: "('w, 'p, 'm, 'a, 't, 'k, 'x, 'c, 'o) gui_env \<Rightarrow> ('w, 'p, 'm, 'a, 't, 'k, 'x) http_env" where
  "gv_http V \<equiv> cv_http (gv_cli V)"

record ('w, 'p, 'm, 'a, 't, 'd) gui_state =
  gs_api :: "('w, 'p, 'm, 'a, 't, 'd) api_state"
  gs_files :: files
  gs_node :: "('p, 'm) node_args option"

type_synonym ('w, 'p, 'm, 'a, 't, 'd, 'r) gact = "(('w, 'p, 'm, 'a, 't, 'd) gui_state, 'r) act"

definition on_gui :: "('w, 'p, 'm, 'a, 't, 'd, 'r) hact \<Rightarrow> ('w, 'p, 'm, 'a, 't, 'd, 'r) gact" where
  "on_gui m s = (case m (gs_api s) of (r, a) \<Rightarrow> (r, s\<lparr>gs_api := a\<rparr>))"

definition load_peers :: "host \<Rightarrow> files \<Rightarrow> string \<Rightarrow> string list" where
  "load_peers H files cache_dir =
     (let path = path_join cache_dir ''peers.json''
      in case files path of
           Inr data \<Rightarrow> (case json_strings H data of Inr peers \<Rightarrow> peers | Inl _ \<Rightarrow> [])
         | Inl _ \<Rightarrow> [])"

definition save_peers :: "('w, 'p, 'm, 'a, 't, 'k, 'x, 'c, 'o) gui_env \<Rightarrow> string list \<Rightarrow> string \<Rightarrow> files \<Rightarrow> files" where
  "save_peers V peers cache_dir files =
     (let path = path_join cache_dir ''peers.json''
      in case strings_json V peers of Some js \<Rightarrow> fs_write V path js files | None \<Rightarrow> files)"

section \<open>The routes\<close>

datatype gui_answer =
    AnsDashboard dashboard_info
  | AnsCache "cache_entry list"
  | AnsBlob http_blob_info
  | AnsEvents "http_event list"
  | AnsOk
  | AnsPeers peers_info
  | AnsStaking "staking_peer_info list"
  | AnsMyPeer gui_peer_info
  | AnsBalance wal_balance
  | AnsDone register_result
  | AnsVault my_vault_info
  | AnsShares "share_view list"
  | AnsError string

text \<open>The \<^verbatim>\<open>match\<close> at the end of the handlers: an error is the answer \<^verbatim>\<open>{"error": e}\<close>.\<close>

definition answer :: "('r \<Rightarrow> gui_answer) \<Rightarrow> ('s, string + 'r) act \<Rightarrow> ('s, gui_answer) act" where
  "answer f m = act_bind m (\<lambda>r. act_ret (case r of Inr a \<Rightarrow> f a | Inl e \<Rightarrow> AnsError e))"

definition gui_handle_dashboard :: "('w, 'p, 'm, 'a, 't, 'k, 'x, 'c, 'o) gui_env \<Rightarrow> ('p, 'm, 'a, 'k) http_conf \<Rightarrow>
    ('w, 'p, 'm, 'a, 't, 'd, gui_answer) gact" where
  "gui_handle_dashboard V C = answer AnsDashboard (on_gui (get_dashboard (gv_http V) C))"

definition gui_handle_list_cache :: "('w, 'p, 'm, 'a, 't, 'd, gui_answer) gact" where
  "gui_handle_list_cache = answer AnsCache (on_gui list_cache)"

definition gui_handle_resolve :: "('w, 'p, 'm, 'a, 't, 'k, 'x, 'c, 'o) gui_env \<Rightarrow> ('p, 'm, 'a, 'k) http_conf \<Rightarrow>
    string \<Rightarrow> ('w, 'p, 'm, 'a, 't, 'd, gui_answer) gact" where
  "gui_handle_resolve V C blob_id = answer AnsBlob (on_gui (gui_resolve_blob (gv_http V) C blob_id))"

text \<open>The events of the spawned task, up to its end or its panic.\<close>

definition gui_stream :: "('w, 'p, 'm, 'a, 't, 'd, unit) hact \<Rightarrow> ('w, 'p, 'm, 'a, 't, 'd, http_event list) hact" where
  "gui_stream m s = (case m (s\<lparr>api_events := []\<rparr>) of
     (_, s') \<Rightarrow> (Ret (api_events s'), s'\<lparr>api_events := api_events s\<rparr>))"

definition gui_handle_resolve_stream :: "('w, 'p, 'm, 'a, 't, 'k, 'x, 'c, 'o) gui_env \<Rightarrow> ('p, 'm, 'a, 'k) http_conf \<Rightarrow>
    string \<Rightarrow> ('w, 'p, 'm, 'a, 't, 'd, gui_answer) gact" where
  "gui_handle_resolve_stream V C blob_id =
     act_bind (on_gui (gui_stream (gui_resolve_with_progress (gv_http V) C blob_id)))
       (\<lambda>evs. act_ret (AnsEvents evs))"

definition gui_handle_pin :: "string \<Rightarrow> ('w, 'p, 'm, 'a, 't, 'd, gui_answer) gact" where
  "gui_handle_pin blob_id = answer (\<lambda>_. AnsOk) (on_gui (pin_blob blob_id))"

definition gui_handle_unpin :: "string \<Rightarrow> ('w, 'p, 'm, 'a, 't, 'd, gui_answer) gact" where
  "gui_handle_unpin blob_id = answer (\<lambda>_. AnsOk) (on_gui (unpin_blob blob_id))"

definition gui_handle_delete :: "string \<Rightarrow> ('w, 'p, 'm, 'a, 't, 'd, gui_answer) gact" where
  "gui_handle_delete blob_id = answer (\<lambda>_. AnsOk) (on_gui (delete_blob blob_id))"

definition gui_handle_peers_list :: "('w, 'p, 'm, 'a, 't, 'k, 'x, 'c, 'o) gui_env \<Rightarrow> ('p, 'm, 'a, 'k) http_conf \<Rightarrow>
    ('w, 'p, 'm, 'a, 't, 'd, gui_answer) gact" where
  "gui_handle_peers_list V C = answer AnsPeers (on_gui (peers_list (gv_http V) C))"

definition save_bootstrap :: "('w, 'p, 'm, 'a, 't, 'k, 'x, 'c, 'o) gui_env \<Rightarrow> ('p, 'm, 'a, 'k) http_conf \<Rightarrow>
    ('w, 'p, 'm, 'a, 't, 'd, unit) gact" where
  "save_bootstrap V C s =
     (Ret (), s\<lparr>gs_files := save_peers V (api_bootstrap (gs_api s)) (hc_cache_dir C) (gs_files s)\<rparr>)"

definition gui_handle_peers_add :: "('w, 'p, 'm, 'a, 't, 'k, 'x, 'c, 'o) gui_env \<Rightarrow> ('p, 'm, 'a, 'k) http_conf \<Rightarrow>
    string \<Rightarrow> ('w, 'p, 'm, 'a, 't, 'd, gui_answer) gact" where
  "gui_handle_peers_add V C addr =
     answer (\<lambda>_. AnsOk) (act_try (on_gui (peers_add (gv_http V) addr)) (\<lambda>_.
       act_bind (save_bootstrap V C) (\<lambda>_. act_ret (Inr ()))))"

definition gui_handle_peers_remove :: "('w, 'p, 'm, 'a, 't, 'k, 'x, 'c, 'o) gui_env \<Rightarrow> ('p, 'm, 'a, 'k) http_conf \<Rightarrow>
    string \<Rightarrow> ('w, 'p, 'm, 'a, 't, 'd, gui_answer) gact" where
  "gui_handle_peers_remove V C addr =
     answer (\<lambda>_. AnsOk) (act_try (on_gui (peers_remove (gv_http V) addr)) (\<lambda>_.
       act_bind (save_bootstrap V C) (\<lambda>_. act_ret (Inr ()))))"

definition gui_handle_staking :: "('w, 'p, 'm, 'a, 't, 'k, 'x, 'c, 'o) gui_env \<Rightarrow> ('p, 'm, 'a, 'k) http_conf \<Rightarrow>
    ('w, 'p, 'm, 'a, 't, 'd, gui_answer) gact" where
  "gui_handle_staking V C = answer AnsStaking (on_gui (list_staking (gv_http V) C))"

definition gui_handle_my_peer :: "('w, 'p, 'm, 'a, 't, 'k, 'x, 'c, 'o) gui_env \<Rightarrow> ('p, 'm, 'a, 'k) http_conf \<Rightarrow>
    ('w, 'p, 'm, 'a, 't, 'd, gui_answer) gact" where
  "gui_handle_my_peer V C = answer AnsMyPeer (on_gui (get_my_peer_info (gv_http V) C))"

definition gui_handle_balance :: "('w, 'p, 'm, 'a, 't, 'k, 'x, 'c, 'o) gui_env \<Rightarrow> ('p, 'm, 'a, 'k) http_conf \<Rightarrow>
    ('w, 'p, 'm, 'a, 't, 'd, gui_answer) gact" where
  "gui_handle_balance V C = answer AnsBalance (on_gui (gui_get_wal_balance (gv_http V) C))"

definition gui_handle_register :: "('w, 'p, 'm, 'a, 't, 'k, 'x, 'c, 'o) gui_env \<Rightarrow> ('p, 'm, 'a, 'k) http_conf \<Rightarrow>
    ('w, 'p, 'm, 'a, 't, 'd, gui_answer) gact" where
  "gui_handle_register V C = answer AnsDone (on_gui (gui_register_peer (gv_http V) C))"

definition gui_handle_update_peer_id :: "('w, 'p, 'm, 'a, 't, 'k, 'x, 'c, 'o) gui_env \<Rightarrow> ('p, 'm, 'a, 'k) http_conf \<Rightarrow>
    ('w, 'p, 'm, 'a, 't, 'd, gui_answer) gact" where
  "gui_handle_update_peer_id V C =
     (case hc_wallet C of
        None \<Rightarrow> act_ret (AnsError ''Wallet not configured'')
      | Some W \<Rightarrow>
          answer AnsDone (on_gui (gui_success ''Peer ID updated successfully''
            (update_peer_id (me_sui (he_mesh (gv_http V))) W (pid_to_bytes (gv_http V) (hc_peer_id C))))))"

definition gui_handle_my_vault :: "('w, 'p, 'm, 'a, 't, 'k, 'x, 'c, 'o) gui_env \<Rightarrow> ('p, 'm, 'a, 'k) http_conf \<Rightarrow>
    ('w, 'p, 'm, 'a, 't, 'd, gui_answer) gact" where
  "gui_handle_my_vault V C = answer AnsVault (on_gui (get_my_vault (gv_http V) C))"

definition gui_handle_create_vault :: "('w, 'p, 'm, 'a, 't, 'k, 'x, 'c, 'o) gui_env \<Rightarrow> ('p, 'm, 'a, 'k) http_conf \<Rightarrow>
    ('w, 'p, 'm, 'a, 't, 'd, gui_answer) gact" where
  "gui_handle_create_vault V C = answer AnsDone (on_gui (gui_create_vault (gv_http V) C))"

definition gui_handle_my_shares :: "('w, 'p, 'm, 'a, 't, 'k, 'x, 'c, 'o) gui_env \<Rightarrow> ('p, 'm, 'a, 'k) http_conf \<Rightarrow>
    ('w, 'p, 'm, 'a, 't, 'd, gui_answer) gact" where
  "gui_handle_my_shares V C = answer AnsShares (on_gui (list_my_shares (gv_http V) C))"

definition gui_handle_claim_earnings :: "('w, 'p, 'm, 'a, 't, 'k, 'x, 'c, 'o) gui_env \<Rightarrow> ('p, 'm, 'a, 'k) http_conf \<Rightarrow>
    ('w, 'p, 'm, 'a, 't, 'd, gui_answer) gact" where
  "gui_handle_claim_earnings V C = answer AnsDone (on_gui (gui_claim_earnings (gv_http V) C))"

definition gui_handle_delegate :: "('w, 'p, 'm, 'a, 't, 'k, 'x, 'c, 'o) gui_env \<Rightarrow> ('p, 'm, 'a, 'k) http_conf \<Rightarrow>
    string \<Rightarrow> string \<Rightarrow> ('w, 'p, 'm, 'a, 't, 'd, gui_answer) gact" where
  "gui_handle_delegate V C vault_object amount =
     answer AnsDone (on_gui (gui_delegate (gv_http V) C vault_object amount))"

definition gui_handle_undelegate :: "('w, 'p, 'm, 'a, 't, 'k, 'x, 'c, 'o) gui_env \<Rightarrow> ('p, 'm, 'a, 'k) http_conf \<Rightarrow>
    string \<Rightarrow> ('w, 'p, 'm, 'a, 't, 'd, gui_answer) gact" where
  "gui_handle_undelegate V C cert_object_id =
     answer AnsDone (on_gui (gui_undelegate (gv_http V) C cert_object_id))"

datatype gui_request =
    GuiDashboard
  | GuiCache
  | GuiResolve string
  | GuiResolveStream string
  | GuiPin string
  | GuiUnpin string
  | GuiDelete string
  | GuiPeers
  | GuiPeersAdd string
  | GuiPeersRemove string
  | GuiStaking
  | GuiMyPeer
  | GuiBalance
  | GuiRegister
  | GuiUpdatePeerId
  | GuiMyVault
  | GuiCreateVault
  | GuiMyShares
  | GuiClaimEarnings
  | GuiDelegate string string
  | GuiUndelegate string

fun gui_route :: "gui_request \<Rightarrow> http_method \<times> string" where
  "gui_route GuiDashboard = (GET, ''/api/dashboard'')"
| "gui_route GuiCache = (GET, ''/api/cache'')"
| "gui_route (GuiResolve _) = (GET, ''/api/resolve_blob'')"
| "gui_route (GuiResolveStream _) = (GET, ''/api/resolve_blob_stream'')"
| "gui_route (GuiPin _) = (GET, ''/api/pin'')"
| "gui_route (GuiUnpin _) = (GET, ''/api/unpin'')"
| "gui_route (GuiDelete _) = (GET, ''/api/delete'')"
| "gui_route GuiPeers = (GET, ''/api/peers'')"
| "gui_route (GuiPeersAdd _) = (POST, ''/api/peers/add'')"
| "gui_route (GuiPeersRemove _) = (POST, ''/api/peers/remove'')"
| "gui_route GuiStaking = (GET, ''/api/staking'')"
| "gui_route GuiMyPeer = (GET, ''/api/my_peer'')"
| "gui_route GuiBalance = (GET, ''/api/balance'')"
| "gui_route GuiRegister = (POST, ''/api/register'')"
| "gui_route GuiUpdatePeerId = (POST, ''/api/update_peer_id'')"
| "gui_route GuiMyVault = (GET, ''/api/my_vault'')"
| "gui_route GuiCreateVault = (POST, ''/api/create_vault'')"
| "gui_route GuiMyShares = (GET, ''/api/my_shares'')"
| "gui_route GuiClaimEarnings = (POST, ''/api/claim_earnings'')"
| "gui_route (GuiDelegate _ _) = (POST, ''/api/delegate'')"
| "gui_route (GuiUndelegate _) = (POST, ''/api/undelegate'')"

fun gui_serve :: "('w, 'p, 'm, 'a, 't, 'k, 'x, 'c, 'o) gui_env \<Rightarrow> ('p, 'm, 'a, 'k) http_conf \<Rightarrow> gui_request \<Rightarrow>
    ('w, 'p, 'm, 'a, 't, 'd, gui_answer) gact" where
  "gui_serve V C GuiDashboard = gui_handle_dashboard V C"
| "gui_serve V C GuiCache = gui_handle_list_cache"
| "gui_serve V C (GuiResolve blob_id) = gui_handle_resolve V C blob_id"
| "gui_serve V C (GuiResolveStream blob_id) = gui_handle_resolve_stream V C blob_id"
| "gui_serve V C (GuiPin blob_id) = gui_handle_pin blob_id"
| "gui_serve V C (GuiUnpin blob_id) = gui_handle_unpin blob_id"
| "gui_serve V C (GuiDelete blob_id) = gui_handle_delete blob_id"
| "gui_serve V C GuiPeers = gui_handle_peers_list V C"
| "gui_serve V C (GuiPeersAdd addr) = gui_handle_peers_add V C addr"
| "gui_serve V C (GuiPeersRemove addr) = gui_handle_peers_remove V C addr"
| "gui_serve V C GuiStaking = gui_handle_staking V C"
| "gui_serve V C GuiMyPeer = gui_handle_my_peer V C"
| "gui_serve V C GuiBalance = gui_handle_balance V C"
| "gui_serve V C GuiRegister = gui_handle_register V C"
| "gui_serve V C GuiUpdatePeerId = gui_handle_update_peer_id V C"
| "gui_serve V C GuiMyVault = gui_handle_my_vault V C"
| "gui_serve V C GuiCreateVault = gui_handle_create_vault V C"
| "gui_serve V C GuiMyShares = gui_handle_my_shares V C"
| "gui_serve V C GuiClaimEarnings = gui_handle_claim_earnings V C"
| "gui_serve V C (GuiDelegate vault_object amount) = gui_handle_delegate V C vault_object amount"
| "gui_serve V C (GuiUndelegate cert_object_id) = gui_handle_undelegate V C cert_object_id"

section \<open>The start of the app\<close>

text \<open>The settings, from the configuration file only.\<close>

definition gui_settlement :: "('a, 't) sui_sdk \<Rightarrow> zing_config \<Rightarrow> 'a settlement_config option run" where
  "gui_settlement K cfg =
     (case zc_settlement cfg of
        None \<Rightarrow> Ret None
      | Some c \<Rightarrow>
     (case Option.bind (ss_package c) (\<lambda>v. ok_opt (parse_address K v)) of
        None \<Rightarrow> Ret None
      | Some package \<Rightarrow>
     (case Option.bind (ss_settlement_object c) (\<lambda>v. ok_opt (parse_address K v)) of
        None \<Rightarrow> Ret None
      | Some settlement \<Rightarrow>
          let vault = Option.bind (ss_vault_object c) (\<lambda>v. ok_opt (parse_address K v))
          in bind_run (table_id (strip_0x (case ss_peer_vaults_table c of
                 Some t \<Rightarrow> t
               | None \<Rightarrow> ''0x465bf3e99dff79a56705b111396ee5b9bd35f2a1aac70d118f466a7c581e0e07''))) (\<lambda>vaults_table.
               let vault_registry = Option.bind (ss_peer_vault_registry c) (\<lambda>v. ok_opt (parse_address K v))
               in bind_run (parsed_or K (ss_registry_object c)
                    ''0x97b5153b9e9897ad1630cdd06e5caa81ebbf8865e96003f38e50c5f1d6752527'') (\<lambda>registry.
                  bind_run (parsed_or K (ss_registry_peers_table c)
                    ''0xbcd17d4df8489569fdca7bc9a795c16a73560efbde2355d91ef9195bf676ea00'') (\<lambda>peers_table.
                  bind_run (expect (parse_address K
                    ''0x356a26eb9e012a68958082340d4c4116e7f55615cf27affcff209cf0ae544f59'')) (\<lambda>wal.
                  Ret (Some
                    \<lparr>package_id = package, settlement_object_id = settlement, registry_object_id = registry,
                     registry_peers_table_id = peers_table, peer_vaults_table_id = vaults_table,
                     peer_vault_registry_id = vault_registry, vault_object_id = vault,
                     wal_coin_type =
                       ''0x356a26eb9e012a68958082340d4c4116e7f55615cf27affcff209cf0ae544f59::wal::WAL'',
                     wal_package_id = wal,
                     registry_initial_shared_version = (case ss_registry_version c of Some v \<Rightarrow> v | None \<Rightarrow> 921074118),
                     settlement_initial_shared_version =
                       (case ss_settlement_version c of Some v \<Rightarrow> v | None \<Rightarrow> 921074118),
                     vault_initial_shared_version = (case ss_vault_version c of Some v \<Rightarrow> v | None \<Rightarrow> 921074119),
                     peer_vaults_initial_shared_version =
                       (case ss_peer_vaults_version c of Some v \<Rightarrow> v | None \<Rightarrow> 923306507),
                     peer_vault_registry_initial_shared_version =
                       (case ss_peer_vault_registry_version c of Some v \<Rightarrow> v | None \<Rightarrow> 923306507),
                     share_certificate_type =
                       ''0x9dd1a5dc551e322dd1b0394514ece30eb1e5f54d5de5b1f6fe135ebe24032b9c::peer_vault::ShareCertificate''\<rparr>))))))))"

definition gui_cache_dir :: "('w, 'p, 'm, 'a, 't, 'k, 'x, 'c, 'o) gui_env \<Rightarrow> host \<Rightarrow> string" where
  "gui_cache_dir V H = (case env_var H ''ZING_CACHE_DIR'' of
     Some dir \<Rightarrow> dir
   | None \<Rightarrow> path_join (path_join (case gv_home_dir V of Some h \<Rightarrow> h | None \<Rightarrow> []) ''.zing-cdn'') ''cache'')"

text \<open>\<^verbatim>\<open>str::parse::<u16>\<close>, of which only success matters.\<close>

definition parse_u16 :: "string \<Rightarrow> u16 option" where
  "parse_u16 s = (case parse_u64 s of
     Inr n \<Rightarrow> if unat n < 2 ^ 16 then Some (ucast n) else None
   | Inl _ \<Rightarrow> None)"

definition env_port :: "host \<Rightarrow> string \<Rightarrow> u16 \<Rightarrow> u16" where
  "env_port H name dflt = (case env_var H name of
     None \<Rightarrow> dflt
   | Some s \<Rightarrow> (case parse_u16 s of Some p \<Rightarrow> p | None \<Rightarrow> dflt))"

definition external_addrs :: "('w, 'p, 'm, 'a, 't, 'k, 'x) http_env \<Rightarrow> host \<Rightarrow> 'm list run" where
  "external_addrs E H = (case env_var H ''ZING_EXTERNAL_ADDR'' of
     None \<Rightarrow> Ret []
   | Some s \<Rightarrow> run_map (\<lambda>a. case ma_parse E a of Some m \<Rightarrow> Ret m | None \<Rightarrow> Panic)
       (filter (\<lambda>a. a \<noteq> []) (map trim (split_on CHR '','' s))))"

text \<open>\<^verbatim>\<open>expect\<close> on the outcome of an action.\<close>

definition act_expect :: "('s, 'e + 'r) act \<Rightarrow> ('s, 'r) act" where
  "act_expect m = act_bind m (\<lambda>r. case r of Inl _ \<Rightarrow> act_run Panic | Inr a \<Rightarrow> act_ret a)"

definition gui_open_cache :: "('w, 'p, 'm, 'a, 't, 'k, 'x, 'c, 'o) gui_env \<Rightarrow> 'd rocksdb \<Rightarrow> string \<Rightarrow>
    ('w, 'p, 'm, 'a, 't, 'd, unit) gact" where
  "gui_open_cache V K cache_dir s = (case bs_open K cache_dir of
     Inl _ \<Rightarrow> (Panic, s)
   | Inr st \<Rightarrow> (Ret (), s\<lparr>gs_api := (gs_api s)\<lparr>api_store := st\<rparr>\<rparr>))"

definition gui_start :: "string list \<Rightarrow> ('p, 'm) node_args \<Rightarrow> ('w, 'p, 'm, 'a, 't, 'd, unit) gact" where
  "gui_start peers args s =
     (Ret (), s\<lparr>gs_api := (gs_api s)\<lparr>api_bootstrap := peers\<rparr>, gs_node := Some args\<rparr>)"

definition saved_peers :: "host \<Rightarrow> string \<Rightarrow> ('w, 'p, 'm, 'a, 't, 'd, string list) gact" where
  "saved_peers H cache_dir s =
     (Ret (fold (\<lambda>bp ps. if bp \<in> set ps then ps else ps @ [bp]) DEFAULT_BOOTSTRAP
        (load_peers H (gs_files s) cache_dir)), s)"

definition gui_setup :: "('w, 'p, 'm, 'a, 't, 'k, 'x, 'c, 'o) gui_env \<Rightarrow> host \<Rightarrow> 'd rocksdb \<Rightarrow>
    ('w, 'p, 'm, 'a, 't, 'd, ('p, 'm, 'a, 'k) http_conf \<times> u16) gact" where
  "gui_setup V H K =
     (let E = gv_http V; S = me_sui (he_mesh E); cache_dir = gui_cache_dir V H
      in act_bind (act_run (if cv_create_dir_all (gv_cli V) cache_dir then Ret () else Panic)) (\<lambda>_.
         let p2p_port = env_port H ''ZING_P2P_PORT'' 34291
         in act_bind (act_run (case ma_parse E (''/ip4/0.0.0.0/udp/'' @ dec (unat p2p_port) @ ''/quic-v1'') of
                Some addr \<Rightarrow> Ret addr | None \<Rightarrow> Panic)) (\<lambda>listen_addr.
            act_bind (act_run (external_addrs E H)) (\<lambda>external.
            act_bind (gui_open_cache V K cache_dir) (\<lambda>_.
              let cfg = load H
              in act_bind (act_run (gui_settlement (se_sdk S) cfg)) (\<lambda>settlement.
                 act_bind (act_expect (act_ret (from_keystore S H (env_var H ''ZING_SUI_KEYSTORE'') settlement))) (\<lambda>W.
                 act_bind (act_run (case cv_peer_of_seed (gv_cli V) (wl_seed W) of
                     Some p \<Rightarrow> Ret p | None \<Rightarrow> Panic)) (\<lambda>peer_id.
                 act_bind (act_run (vault_bytes (Option.bind (zc_settlement cfg) ss_vault_object))) (\<lambda>vault.
                 act_bind (act_expect (on_gui (on_mesh (on_walrus
                   (from_mainnet (cv_client (gv_cli V)) :: ('w, 'p zing_client zresult) act))))) (\<lambda>client.
                 act_bind (saved_peers H cache_dir) (\<lambda>peers.
                 act_bind (gui_start peers \<lparr>na_listen = listen_addr,
                     na_bootstrap = parse_bootstrap_peers E peers, na_external = external,
                     na_sui_address = Some (addr_bytes S (wl_address W)), na_vault = vault\<rparr>) (\<lambda>_.
                 act_ret (\<lparr>hc_peer_id = peer_id, hc_listen_addr = listen_addr, hc_cache_dir = cache_dir,
                   hc_p2p_port = p2p_port, hc_wallet = Some W, hc_budget = CACHE_BUDGET\<rparr>,
                   env_port H ''ZING_API_PORT'' 13420)))))))))))))"

end
