(* ===== verification/Ipc.thy ===== *)
theory Ipc
  imports Gui_Main
begin

text \<open>
  \<^verbatim>\<open>zing-cdn-gui/src/ipc.rs\<close>: how the desktop app's front end asks its backend. JSON values are
  written out, with the fields that the structs on both sides derive; the text of JSON and the
  sending of requests are the library's (\<open>ipc_env\<close>). The front end runs as WebAssembly, where a
  \<^verbatim>\<open>usize\<close> has 32 bits.
\<close>

section \<open>JSON\<close>

datatype jnumber = PosInt u64 | NegInt "64 word" | Float64 "64 word"

datatype jvalue =
    JNull
  | JBool bool
  | JNum jnumber
  | JStr string
  | JArr "jvalue list"
  | JObj "(string \<times> jvalue) list"

definition jget :: "string \<Rightarrow> jvalue \<Rightarrow> jvalue option" where
  "jget k v = (case v of JObj fs \<Rightarrow> map_of fs k | _ \<Rightarrow> None)"

definition as_str :: "jvalue \<Rightarrow> string option" where
  "as_str v = (case v of JStr s \<Rightarrow> Some s | _ \<Rightarrow> None)"

text \<open>\<^verbatim>\<open>Serialize\<close> of the parts.\<close>

definition u64_json :: "u64 \<Rightarrow> jvalue" where
  "u64_json n = JNum (PosInt n)"

definition strs_json :: "string list \<Rightarrow> jvalue" where
  "strs_json ss = JArr (map JStr ss)"

definition opt_json :: "('a \<Rightarrow> jvalue) \<Rightarrow> 'a option \<Rightarrow> jvalue" where
  "opt_json f x = (case x of None \<Rightarrow> JNull | Some a \<Rightarrow> f a)"

text \<open>\<^verbatim>\<open>Deserialize\<close> of the parts. \<^verbatim>\<open>None\<close> is an error, whose text is the library's.\<close>

definition de_bool :: "jvalue \<Rightarrow> bool option" where
  "de_bool v = (case v of JBool b \<Rightarrow> Some b | _ \<Rightarrow> None)"

definition de_u64 :: "jvalue \<Rightarrow> u64 option" where
  "de_u64 v = (case v of JNum (PosInt n) \<Rightarrow> Some n | _ \<Rightarrow> None)"

definition de_usize :: "jvalue \<Rightarrow> nat option" where
  "de_usize v = (case v of JNum (PosInt n) \<Rightarrow> if unat n < 2 ^ 32 then Some (unat n) else None | _ \<Rightarrow> None)"

fun de_all :: "(jvalue \<Rightarrow> 'a option) \<Rightarrow> jvalue list \<Rightarrow> 'a list option" where
  "de_all f [] = Some []"
| "de_all f (v # vs) = Option.bind (f v) (\<lambda>a. map_option ((#) a) (de_all f vs))"

definition de_list :: "(jvalue \<Rightarrow> 'a option) \<Rightarrow> jvalue \<Rightarrow> 'a list option" where
  "de_list f v = (case v of JArr vs \<Rightarrow> de_all f vs | _ \<Rightarrow> None)"

text \<open>
  The fields of a derived struct, in an object by their names, in an array by their places. Other
  names are ignored. A field that is absent is an error, unless its type is an \<^verbatim>\<open>Option\<close>.
\<close>

definition struct_fields :: "string list \<Rightarrow> jvalue \<Rightarrow> jvalue option list option" where
  "struct_fields ks v = (case v of
     JObj fs \<Rightarrow> Some (map (map_of fs) ks)
   | JArr vs \<Rightarrow> if length vs = length ks then Some (map Some vs) else None
   | _ \<Rightarrow> None)"

definition req :: "(jvalue \<Rightarrow> 'a option) \<Rightarrow> jvalue option \<Rightarrow> ('a \<Rightarrow> 'b option) \<Rightarrow> 'b option" where
  "req f x g = Option.bind (Option.bind x f) g"

definition opt :: "(jvalue \<Rightarrow> 'a option) \<Rightarrow> jvalue option \<Rightarrow> ('a option \<Rightarrow> 'b option) \<Rightarrow> 'b option" where
  "opt f x g = (case x of
     None \<Rightarrow> g None
   | Some JNull \<Rightarrow> g None
   | Some v \<Rightarrow> Option.bind (f v) (\<lambda>a. g (Some a)))"

section \<open>The structs on both sides\<close>

text \<open>What the backend sends.\<close>

definition dashboard_json :: "dashboard_info \<Rightarrow> jvalue" where
  "dashboard_json d = JObj [(''peer_id'', JStr (db_peer_id d)),
     (''wallet_address'', opt_json JStr (db_wallet_address d)), (''listen_addr'', JStr (db_listen_addr d)),
     (''connected_peers'', strs_json (db_connected_peers d)), (''cache_used'', u64_json (db_cache_used d)),
     (''cache_budget'', u64_json (db_cache_budget d)), (''cache_count'', u64_json (word_of_nat (db_cache_count d)))]"

definition cache_entry_json :: "cache_entry \<Rightarrow> jvalue" where
  "cache_entry_json e = JObj [(''blob_id'', JStr (ce_blob_id e)), (''size'', u64_json (ce_size e)),
     (''pinned'', JBool (ce_pinned e))]"

definition blob_info_json :: "http_blob_info \<Rightarrow> jvalue" where
  "blob_info_json i = JObj [(''blob_id'', JStr (hb_blob_id i)), (''size'', u64_json (hb_size i)),
     (''source'', JStr (hb_source i)), (''cached'', JBool (hb_cached i)), (''content'', JStr (hb_content i)),
     (''mime_type'', JStr (hb_mime_type i)), (''data_base64'', JStr (hb_data_base64 i)),
     (''payment_error'', opt_json JStr (hb_payment_error i))]"

definition peers_json :: "peers_info \<Rightarrow> jvalue" where
  "peers_json p = JObj [(''bootstrap'', strs_json (ps_bootstrap p)), (''connected'', strs_json (ps_connected p)),
     (''listen_addr'', JStr (ps_listen_addr p)), (''cache_dir'', JStr (ps_cache_dir p)),
     (''peer_id'', JStr (ps_peer_id p)), (''p2p_addr'', JStr (ps_p2p_addr p))]"

definition staking_json :: "staking_peer_info \<Rightarrow> jvalue" where
  "staking_json p = JObj [(''sui_address'', JStr (sp_sui_address p)), (''peer_id_short'', JStr (sp_peer_id_short p)),
     (''peer_object_id'', JStr (sp_peer_object_id p)), (''bond'', u64_json (sp_bond p)),
     (''is_active'', JBool (sp_is_active p)), (''is_live'', JBool (sp_is_live p)),
     (''vault_reserves'', opt_json u64_json (sp_vault_reserves p)),
     (''vault_total_shares'', opt_json u64_json (sp_vault_total_shares p)),
     (''vault_commission_bps'', opt_json u64_json (sp_vault_commission_bps p)),
     (''vault_peer_earnings'', opt_json u64_json (sp_vault_peer_earnings p)),
     (''vault_object_id'', opt_json JStr (sp_vault_object_id p))]"

definition my_peer_json :: "gui_peer_info \<Rightarrow> jvalue" where
  "my_peer_json g = (let m = gp_info g in JObj [(''wallet_address'', JStr (mp_wallet_address m)),
     (''peer_object_id'', JStr (mp_peer_object_id m)), (''peer_id_short'', opt_json JStr (mp_peer_id_short m)),
     (''bond'', opt_json u64_json (mp_bond m)), (''is_active'', opt_json JBool (mp_is_active m)),
     (''is_live'', opt_json JBool (mp_is_live m)), (''is_registered'', JBool (mp_is_registered m)),
     (''needs_update'', JBool (gp_needs_update g))])"

definition balance_json :: "wal_balance \<Rightarrow> jvalue" where
  "balance_json b = JObj [(''balance'', u64_json (wb_balance b)), (''balance_wal'', JStr (wb_balance_wal b))]"

definition done_json :: "register_result \<Rightarrow> jvalue" where
  "done_json r = JObj [(''success'', JBool (rg_success r)), (''message'', JStr (rg_message r))]"

definition vault_json :: "my_vault_info \<Rightarrow> jvalue" where
  "vault_json m = JObj [(''has_vault'', JBool (mv_has_vault m)), (''reserves'', opt_json u64_json (mv_reserves m)),
     (''total_shares'', opt_json u64_json (mv_total_shares m)),
     (''commission_bps'', opt_json u64_json (mv_commission_bps m)),
     (''peer_earnings'', opt_json u64_json (mv_peer_earnings m)),
     (''vault_object_id'', opt_json JStr (mv_vault_object_id m))]"

definition share_json :: "share_view \<Rightarrow> jvalue" where
  "share_json c = JObj [(''cert_object_id'', JStr (sv_cert_object_id c)), (''vault_address'', JStr (sv_vault_address c)),
     (''shares'', u64_json (sv_shares c)), (''estimated_value'', u64_json (sv_estimated_value c))]"

fun event_json :: "http_event \<Rightarrow> jvalue" where
  "event_json (EvStatus st layer) = JObj [(''type'', JStr ''status''), (''status'', JStr st), (''layer'', JStr layer)]"
| "event_json (EvResolved st layer source) =
     JObj [(''type'', JStr ''status''), (''status'', JStr st), (''layer'', JStr layer), (''source'', JStr source)]"
| "event_json (EvInfo i) = JObj [(''type'', JStr ''result''), (''info'', blob_info_json i)]"
| "event_json (EvError e) = JObj [(''type'', JStr ''error''), (''error'', JStr e)]"

text \<open>The body of an answer; the events of a stream are sent one by one.\<close>

fun answer_json :: "gui_answer \<Rightarrow> jvalue option" where
  "answer_json (AnsDashboard d) = Some (dashboard_json d)"
| "answer_json (AnsCache es) = Some (JArr (map cache_entry_json es))"
| "answer_json (AnsBlob i) = Some (blob_info_json i)"
| "answer_json (AnsEvents evs) = None"
| "answer_json AnsOk = Some (JObj [(''ok'', JBool True)])"
| "answer_json (AnsPeers p) = Some (peers_json p)"
| "answer_json (AnsStaking ps) = Some (JArr (map staking_json ps))"
| "answer_json (AnsMyPeer g) = Some (my_peer_json g)"
| "answer_json (AnsBalance b) = Some (balance_json b)"
| "answer_json (AnsDone r) = Some (done_json r)"
| "answer_json (AnsVault v) = Some (vault_json v)"
| "answer_json (AnsShares cs) = Some (JArr (map share_json cs))"
| "answer_json (AnsError e) = Some (JObj [(''error'', JStr e)])"


text \<open>What the front end reads.\<close>

definition de_dashboard :: "jvalue \<Rightarrow> dashboard_info option" where
  "de_dashboard v = (case struct_fields [''peer_id'', ''wallet_address'', ''listen_addr'', ''connected_peers'',
       ''cache_used'', ''cache_budget'', ''cache_count''] v of
     Some [a, b, c, d, e, f, g] \<Rightarrow>
       req as_str a (\<lambda>a. opt as_str b (\<lambda>b. req as_str c (\<lambda>c. req (de_list as_str) d (\<lambda>d.
       req de_u64 e (\<lambda>e. req de_u64 f (\<lambda>f. req de_usize g (\<lambda>g.
       Some \<lparr>db_peer_id = a, db_wallet_address = b, db_listen_addr = c, db_connected_peers = d,
         db_cache_used = e, db_cache_budget = f, db_cache_count = g\<rparr>)))))))
   | _ \<Rightarrow> None)"

definition de_cache_entry :: "jvalue \<Rightarrow> cache_entry option" where
  "de_cache_entry v = (case struct_fields [''blob_id'', ''size'', ''pinned''] v of
     Some [a, b, c] \<Rightarrow> req as_str a (\<lambda>a. req de_u64 b (\<lambda>b. req de_bool c (\<lambda>c.
       Some \<lparr>ce_blob_id = a, ce_size = b, ce_pinned = c\<rparr>)))
   | _ \<Rightarrow> None)"

record ui_peers_info =
  up_bootstrap :: "string list"
  up_connected :: "string list"
  up_listen_addr :: string
  up_cache_dir :: string
  up_p2p_addr :: string

definition de_peers :: "jvalue \<Rightarrow> ui_peers_info option" where
  "de_peers v = (case struct_fields [''bootstrap'', ''connected'', ''listen_addr'', ''cache_dir'', ''p2p_addr''] v of
     Some [a, b, c, d, e] \<Rightarrow>
       req (de_list as_str) a (\<lambda>a. req (de_list as_str) b (\<lambda>b. req as_str c (\<lambda>c. req as_str d (\<lambda>d.
       req as_str e (\<lambda>e.
       Some \<lparr>up_bootstrap = a, up_connected = b, up_listen_addr = c, up_cache_dir = d, up_p2p_addr = e\<rparr>)))))
   | _ \<Rightarrow> None)"

definition de_staking_peer :: "jvalue \<Rightarrow> staking_peer_info option" where
  "de_staking_peer v = (case struct_fields [''sui_address'', ''peer_id_short'', ''peer_object_id'', ''bond'',
       ''is_active'', ''is_live'', ''vault_reserves'', ''vault_total_shares'', ''vault_commission_bps'',
       ''vault_peer_earnings'', ''vault_object_id''] v of
     Some [a, b, c, d, e, f, g, h, i, j, k] \<Rightarrow>
       req as_str a (\<lambda>a. req as_str b (\<lambda>b. req as_str c (\<lambda>c. req de_u64 d (\<lambda>d. req de_bool e (\<lambda>e.
       req de_bool f (\<lambda>f. opt de_u64 g (\<lambda>g. opt de_u64 h (\<lambda>h. opt de_u64 i (\<lambda>i. opt de_u64 j (\<lambda>j.
       opt as_str k (\<lambda>k.
       Some \<lparr>sp_sui_address = a, sp_peer_id_short = b, sp_peer_object_id = c, sp_bond = d, sp_is_active = e,
         sp_is_live = f, sp_vault_reserves = g, sp_vault_total_shares = h, sp_vault_commission_bps = i,
         sp_vault_peer_earnings = j, sp_vault_object_id = k\<rparr>)))))))))))
   | _ \<Rightarrow> None)"

definition de_my_peer :: "jvalue \<Rightarrow> gui_peer_info option" where
  "de_my_peer v = (case struct_fields [''wallet_address'', ''peer_object_id'', ''peer_id_short'', ''bond'',
       ''is_active'', ''is_live'', ''is_registered'', ''needs_update''] v of
     Some [a, b, c, d, e, f, g, h] \<Rightarrow>
       req as_str a (\<lambda>a. req as_str b (\<lambda>b. opt as_str c (\<lambda>c. opt de_u64 d (\<lambda>d. opt de_bool e (\<lambda>e.
       opt de_bool f (\<lambda>f. req de_bool g (\<lambda>g. req de_bool h (\<lambda>h.
       Some \<lparr>gp_info = \<lparr>mp_wallet_address = a, mp_peer_object_id = b, mp_peer_id_short = c, mp_bond = d,
           mp_is_active = e, mp_is_live = f, mp_is_registered = g\<rparr>, gp_needs_update = h\<rparr>))))))))
   | _ \<Rightarrow> None)"

definition de_balance :: "jvalue \<Rightarrow> wal_balance option" where
  "de_balance v = (case struct_fields [''balance'', ''balance_wal''] v of
     Some [a, b] \<Rightarrow> req de_u64 a (\<lambda>a. req as_str b (\<lambda>b. Some \<lparr>wb_balance = a, wb_balance_wal = b\<rparr>))
   | _ \<Rightarrow> None)"

definition de_vault :: "jvalue \<Rightarrow> my_vault_info option" where
  "de_vault v = (case struct_fields [''has_vault'', ''reserves'', ''total_shares'', ''commission_bps'',
       ''peer_earnings'', ''vault_object_id''] v of
     Some [a, b, c, d, e, f] \<Rightarrow>
       req de_bool a (\<lambda>a. opt de_u64 b (\<lambda>b. opt de_u64 c (\<lambda>c. opt de_u64 d (\<lambda>d. opt de_u64 e (\<lambda>e.
       opt as_str f (\<lambda>f.
       Some \<lparr>mv_has_vault = a, mv_reserves = b, mv_total_shares = c, mv_commission_bps = d,
         mv_peer_earnings = e, mv_vault_object_id = f\<rparr>))))))
   | _ \<Rightarrow> None)"

definition de_share :: "jvalue \<Rightarrow> share_view option" where
  "de_share v = (case struct_fields [''cert_object_id'', ''vault_address'', ''shares'', ''estimated_value''] v of
     Some [a, b, c, d] \<Rightarrow> req as_str a (\<lambda>a. req as_str b (\<lambda>b. req de_u64 c (\<lambda>c. req de_u64 d (\<lambda>d.
       Some \<lparr>sv_cert_object_id = a, sv_vault_address = b, sv_shares = c, sv_estimated_value = d\<rparr>))))
   | _ \<Rightarrow> None)"

section \<open>Requests\<close>

text \<open>
  The page: the global and the attribute that may name the port, the sending of a request, whose
  answer is the text of the body or an error of reading it, and the text of JSON.
\<close>

record 'u ipc_env =
  js_port :: "u16 option"
  html_port :: "string option"
  ip_send :: "http_method \<Rightarrow> string \<Rightarrow> string option \<Rightarrow> 'u \<Rightarrow> (string + (string + string)) \<times> 'u"
  from_str :: "string \<Rightarrow> string + jvalue"
  to_text :: "jvalue \<Rightarrow> string"
  de_error :: "string \<Rightarrow> jvalue \<Rightarrow> string"

definition API_PORT :: u16 where "API_PORT = 13420"

definition get_api_port :: "'u ipc_env \<Rightarrow> u16" where
  "get_api_port E =
     (let from_html = (case html_port E of
          Some v \<Rightarrow> (case parse_u16 v of Some p \<Rightarrow> if p > 0 then p else API_PORT | None \<Rightarrow> API_PORT)
        | None \<Rightarrow> API_PORT)
      in case js_port E of Some port \<Rightarrow> if port > 0 then port else from_html | None \<Rightarrow> from_html)"

definition base_url :: "'u ipc_env \<Rightarrow> string" where
  "base_url E = ''http://127.0.0.1:'' @ dec (unat (get_api_port E))"

definition ipc_fetch :: "'u ipc_env \<Rightarrow> http_method \<Rightarrow> string \<Rightarrow> string option \<Rightarrow>
    ('u, string + (string + string)) act" where
  "ipc_fetch E m url body u = (case ip_send E m url body u of (r, u') \<Rightarrow> (Ret r, u'))"

text \<open>The JSON value of the answer, unless it is one with an error.\<close>

definition read_value :: "'u ipc_env \<Rightarrow> http_method \<Rightarrow> string \<Rightarrow> ('u, string + jvalue) act" where
  "read_value E m url =
     act_try (act_map_err (\<lambda>e. ''http error: '' @ e) (ipc_fetch E m url None)) (\<lambda>response.
     act_try (act_ret (map_err (\<lambda>e. ''http error: '' @ e) response)) (\<lambda>raw.
     act_try (act_ret (map_err (\<lambda>e. ''json error: '' @ e) (from_str E raw))) (\<lambda>v.
     act_ret (case Option.bind (jget ''error'' v) as_str of Some msg \<Rightarrow> Inl msg | None \<Rightarrow> Inr v))))"

definition read_answer :: "'u ipc_env \<Rightarrow> string \<Rightarrow> string \<Rightarrow> (jvalue \<Rightarrow> 'r option) \<Rightarrow> ('u, string + 'r) act" where
  "read_answer E url type_name de =
     act_try (read_value E GET url) (\<lambda>v.
     act_ret (ok_or (''json error: '' @ de_error E type_name v) (de v)))"

definition post_message :: "'u ipc_env \<Rightarrow> string \<Rightarrow> ('u, string + string) act" where
  "post_message E url =
     act_try (read_value E POST url) (\<lambda>v.
     act_ret (ok_or ''No message in response'' (Option.bind (jget ''message'' v) as_str)))"

definition query_of :: "'u ipc_env \<Rightarrow> (string \<times> jvalue) list \<Rightarrow> string" where
  "query_of E obj = concat (map (\<lambda>(i, k, v).
     (if i = 0 then ''?'' else ''&'') @ k @ ''='' @ (case v of JStr s \<Rightarrow> s | other \<Rightarrow> to_text E other))
     (List.enumerate 0 obj))"

definition invoke_cmd :: "'u ipc_env \<Rightarrow> string \<Rightarrow> string \<Rightarrow> (jvalue \<Rightarrow> 'r option) \<Rightarrow> string + jvalue \<Rightarrow>
    ('u, string + 'r) act" where
  "invoke_cmd E cmd type_name de args =
     act_try (act_ret args) (\<lambda>args_value.
       let query = (case args_value of JObj obj \<Rightarrow> query_of E obj | _ \<Rightarrow> [])
       in read_answer E (base_url E @ ''/api/'' @ cmd @ query) type_name de)"

definition ipc_get_dashboard :: "'u ipc_env \<Rightarrow> ('u, string + dashboard_info) act" where
  "ipc_get_dashboard E = invoke_cmd E ''dashboard'' ''DashboardInfo'' de_dashboard (Inr JNull)"

definition ipc_list_cache :: "'u ipc_env \<Rightarrow> ('u, string + cache_entry list) act" where
  "ipc_list_cache E = invoke_cmd E ''cache'' ''Vec<CacheEntry>'' (de_list de_cache_entry) (Inr JNull)"

text \<open>The requests that change the cache or the peers, whose answers are not read.\<close>

definition ipc_pin_blob :: "'u ipc_env \<Rightarrow> string \<Rightarrow> ('u, string + unit) act" where
  "ipc_pin_blob E blob_id =
     act_try (ipc_fetch E GET (base_url E @ ''/api/pin?blob_id='' @ blob_id) None) (\<lambda>_. act_ret (Inr ()))"

definition ipc_unpin_blob :: "'u ipc_env \<Rightarrow> string \<Rightarrow> ('u, string + unit) act" where
  "ipc_unpin_blob E blob_id =
     act_try (ipc_fetch E GET (base_url E @ ''/api/unpin?blob_id='' @ blob_id) None) (\<lambda>_. act_ret (Inr ()))"

definition ipc_delete_blob :: "'u ipc_env \<Rightarrow> string \<Rightarrow> ('u, string + unit) act" where
  "ipc_delete_blob E blob_id =
     act_try (ipc_fetch E GET (base_url E @ ''/api/delete?blob_id='' @ blob_id) None) (\<lambda>_. act_ret (Inr ()))"

definition ipc_list_peers :: "'u ipc_env \<Rightarrow> ('u, string + ui_peers_info) act" where
  "ipc_list_peers E = invoke_cmd E ''peers'' ''PeersInfo'' de_peers (Inr JNull)"

definition ipc_add_peer :: "'u ipc_env \<Rightarrow> string \<Rightarrow> ('u, string + unit) act" where
  "ipc_add_peer E addr =
     act_try (act_map_err (\<lambda>e. ''http error: '' @ e) (ipc_fetch E POST (base_url E @ ''/api/peers/add'')
       (Some (to_text E (JObj [(''addr'', JStr addr)]))))) (\<lambda>_. act_ret (Inr ()))"

definition ipc_remove_peer :: "'u ipc_env \<Rightarrow> string \<Rightarrow> ('u, string + unit) act" where
  "ipc_remove_peer E addr =
     act_try (act_map_err (\<lambda>e. ''http error: '' @ e) (ipc_fetch E POST (base_url E @ ''/api/peers/remove'')
       (Some (to_text E (JObj [(''addr'', JStr addr)]))))) (\<lambda>_. act_ret (Inr ()))"

definition ipc_list_staking :: "'u ipc_env \<Rightarrow> ('u, string + staking_peer_info list) act" where
  "ipc_list_staking E = read_answer E (base_url E @ ''/api/staking'') ''Vec<StakingPeerInfo>'' (de_list de_staking_peer)"

definition ipc_get_my_peer_info :: "'u ipc_env \<Rightarrow> ('u, string + gui_peer_info) act" where
  "ipc_get_my_peer_info E = read_answer E (base_url E @ ''/api/my_peer'') ''MyPeerInfo'' de_my_peer"

definition ipc_get_wal_balance :: "'u ipc_env \<Rightarrow> ('u, string + wal_balance) act" where
  "ipc_get_wal_balance E = read_answer E (base_url E @ ''/api/balance'') ''WalBalance'' de_balance"

definition ipc_register_peer :: "'u ipc_env \<Rightarrow> ('u, string + string) act" where
  "ipc_register_peer E = post_message E (base_url E @ ''/api/register'')"

definition ipc_get_my_vault_info :: "'u ipc_env \<Rightarrow> ('u, string + my_vault_info) act" where
  "ipc_get_my_vault_info E = read_answer E (base_url E @ ''/api/my_vault'') ''MyVaultInfo'' de_vault"

definition ipc_create_vault :: "'u ipc_env \<Rightarrow> ('u, string + string) act" where
  "ipc_create_vault E = post_message E (base_url E @ ''/api/create_vault'')"

definition ipc_list_my_shares :: "'u ipc_env \<Rightarrow> ('u, string + share_view list) act" where
  "ipc_list_my_shares E = read_answer E (base_url E @ ''/api/my_shares'') ''Vec<ShareCertificateInfo>'' (de_list de_share)"

definition ipc_claim_earnings :: "'u ipc_env \<Rightarrow> ('u, string + string) act" where
  "ipc_claim_earnings E = post_message E (base_url E @ ''/api/claim_earnings'')"

definition ipc_delegate :: "'u ipc_env \<Rightarrow> string \<Rightarrow> string \<Rightarrow> ('u, string + string) act" where
  "ipc_delegate E vault_object amount = post_message E
     (base_url E @ ''/api/delegate?vault_object_id='' @ vault_object @ ''&amount='' @ amount)"

definition ipc_undelegate :: "'u ipc_env \<Rightarrow> string \<Rightarrow> ('u, string + string) act" where
  "ipc_undelegate E cert_object_id = post_message E
     (base_url E @ ''/api/undelegate?cert_object_id='' @ cert_object_id)"

definition ipc_update_peer_id :: "'u ipc_env \<Rightarrow> ('u, string + string) act" where
  "ipc_update_peer_id E = post_message E (base_url E @ ''/api/update_peer_id'')"

end
