(* ===== verification/Views.thy ===== *)
theory Views
  imports Ipc
begin

text \<open>
  \<^verbatim>\<open>zing-cdn-gui/src/components\<close>: the state behind the pages of the desktop app and what their
  buttons and events do to it. Markup, colours and the timers that reload a page are left out; an
  action that awaits a request is an action over the world \<open>'u\<close> of \<open>ipc_env\<close>.
\<close>

section \<open>Toasts\<close>

datatype toast_level = ToastError | ToastSuccess | ToastInfo

record toast =
  t_id :: u64
  t_message :: string
  t_level :: toast_level

record toasts =
  ts_next :: u64
  ts_list :: "toast list"

definition add_toast :: "string \<Rightarrow> toast_level \<Rightarrow> toasts \<Rightarrow> toasts" where
  "add_toast message level s = s\<lparr>ts_next := ts_next s + 1,
     ts_list := ts_list s @ [\<lparr>t_id = ts_next s, t_message = message, t_level = level\<rparr>]\<rparr>"

definition remove_toast :: "u64 \<Rightarrow> toasts \<Rightarrow> toasts" where
  "remove_toast i s = s\<lparr>ts_list := filter (\<lambda>t. t_id t \<noteq> i) (ts_list s)\<rparr>"

text \<open>The background, the border and the text.\<close>

fun toast_colours :: "toast_level \<Rightarrow> string \<times> string \<times> string" where
  "toast_colours ToastError = (''#fee2e2'', ''#ef4444'', ''#991b1b'')"
| "toast_colours ToastSuccess = (''#dcfce7'', ''#22c55e'', ''#166534'')"
| "toast_colours ToastInfo = (''#dbeafe'', ''#3b82f6'', ''#1e40af'')"

text \<open>The toast that reports a request.\<close>

definition report :: "string \<Rightarrow> string + string \<Rightarrow> toasts \<Rightarrow> toasts" where
  "report what r = (case r of
     Inr msg \<Rightarrow> add_toast msg ToastSuccess
   | Inl e \<Rightarrow> add_toast (what @ '' failed: '' @ e) ToastError)"

section \<open>The blob browser\<close>

definition de_blob_info :: "jvalue \<Rightarrow> http_blob_info option" where
  "de_blob_info v = (case struct_fields [''blob_id'', ''size'', ''source'', ''cached'', ''content'', ''mime_type'',
       ''data_base64'', ''payment_error''] v of
     Some [a, b, c, d, e, f, g, h] \<Rightarrow>
       req as_str a (\<lambda>a. req de_u64 b (\<lambda>b. req as_str c (\<lambda>c. req de_bool d (\<lambda>d. req as_str e (\<lambda>e.
       req as_str f (\<lambda>f. req as_str g (\<lambda>g. opt as_str h (\<lambda>h.
       Some \<lparr>hb_blob_id = a, hb_size = b, hb_source = c, hb_cached = d, hb_content = e, hb_mime_type = f,
         hb_data_base64 = g, hb_payment_error = h\<rparr>))))))))
   | _ \<Rightarrow> None)"

text \<open>
  The signals of the page, and the event sources that are open, numbered in the order they were
  made: a second fetch does not close the first.
\<close>

record browser =
  bb_input :: string
  bb_info :: "http_blob_info option"
  bb_err :: "string option"
  bb_loading :: bool
  bb_status :: string
  bb_layer :: string
  bb_made :: nat
  bb_open :: "nat set"
  bb_toasts :: toasts

definition stream_url :: "'u ipc_env \<Rightarrow> string \<Rightarrow> string" where
  "stream_url E i = base_url E @ ''/api/resolve_blob_stream?blob_id='' @ i"

text \<open>A click on Fetch. \<open>connect\<close> is \<^verbatim>\<open>EventSource::new\<close>, with the text of its error.\<close>

definition fetch_clicked :: "'u ipc_env \<Rightarrow> (string \<Rightarrow> string option) \<Rightarrow> browser \<Rightarrow> browser" where
  "fetch_clicked E connect s =
     (if bb_input s = [] then s
      else let s1 = s\<lparr>bb_err := None, bb_info := None, bb_loading := True, bb_status := ''Starting...'', bb_layer := []\<rparr>
        in case connect (stream_url E (bb_input s)) of
             Some e \<Rightarrow> s1\<lparr>bb_err := Some (''Failed to connect: '' @ e), bb_loading := False\<rparr>
           | None \<Rightarrow> s1\<lparr>bb_made := bb_made s + 1, bb_open := insert (bb_made s) (bb_open s)\<rparr>)"

text \<open>\<^verbatim>\<open>v[key]\<close>, which is null when there is none.\<close>

definition jindex :: "jvalue \<Rightarrow> string \<Rightarrow> jvalue" where
  "jindex v k = (case jget k v of Some x \<Rightarrow> x | None \<Rightarrow> JNull)"

definition str_or_empty :: "jvalue \<Rightarrow> string" where
  "str_or_empty v = (case as_str v of Some s \<Rightarrow> s | None \<Rightarrow> [])"

definition show_result :: "jvalue \<Rightarrow> browser \<Rightarrow> browser" where
  "show_result v s = (case de_blob_info v of
     Some i \<Rightarrow>
       s\<lparr>bb_toasts := (case hb_payment_error i of
           Some perr \<Rightarrow> add_toast (''Payment failed: '' @ perr) ToastError (bb_toasts s)
         | None \<Rightarrow> bb_toasts s),
         bb_info := Some i\<rparr>
   | None \<Rightarrow> s)"

definition on_event :: "nat \<Rightarrow> jvalue \<Rightarrow> browser \<Rightarrow> browser" where
  "on_event k v s =
     (let typ = str_or_empty (jindex v ''type'')
      in if typ = ''status'' then
           s\<lparr>bb_status := str_or_empty (jindex v ''status''), bb_layer := str_or_empty (jindex v ''layer'')\<rparr>
         else if typ = ''result'' then
           (show_result (jindex v ''info'') s)\<lparr>bb_loading := False, bb_open := bb_open s - {k}\<rparr>
         else if typ = ''error'' then
           s\<lparr>bb_err := Some (str_or_empty (jindex v ''error'')), bb_loading := False, bb_open := bb_open s - {k}\<rparr>
         else s)"

text \<open>A message of the source \<open>k\<close>, with its data if that is a string; a closed source has none.\<close>

definition on_message :: "'u ipc_env \<Rightarrow> nat \<Rightarrow> string option \<Rightarrow> browser \<Rightarrow> browser" where
  "on_message E k raw s =
     (if k \<notin> bb_open s then s
      else case raw of
        None \<Rightarrow> s
      | Some raw \<Rightarrow> (case from_str E raw of Inl _ \<Rightarrow> s | Inr v \<Rightarrow> on_event k v s))"

text \<open>An error of the source, which is closed if the browser has given up on it.\<close>

definition on_error :: "nat \<Rightarrow> bool \<Rightarrow> browser \<Rightarrow> browser" where
  "on_error k closed s = (if closed then s\<lparr>bb_open := bb_open s - {k}\<rparr> else s)"

definition img_src :: "http_blob_info option \<Rightarrow> string" where
  "img_src info = (case info of
     Some i \<Rightarrow> if is_image (hb_mime_type i) \<and> hb_data_base64 i \<noteq> []
       then ''data:'' @ hb_mime_type i @ '';base64,'' @ hb_data_base64 i else []
   | None \<Rightarrow> [])"

datatype preview = Loading_Preview | Image_Preview string | Text_Preview string "u64 option" | No_Preview

definition preview_of :: "browser \<Rightarrow> preview" where
  "preview_of s =
     (if bb_loading s then Loading_Preview
      else if (case bb_info s of Some i \<Rightarrow> is_image (hb_mime_type i) | None \<Rightarrow> False) \<and> img_src (bb_info s) \<noteq> []
        then Image_Preview (img_src (bb_info s))
      else case bb_info s of
        Some i \<Rightarrow> Text_Preview (hb_content i) (if hb_size i > 2000 then Some (hb_size i) else None)
      | None \<Rightarrow> No_Preview)"

section \<open>The settings\<close>

definition default_peers :: ui_peers_info where
  "default_peers = \<lparr>up_bootstrap = [], up_connected = [], up_listen_addr = ''loading...'',
     up_cache_dir = ''loading...'', up_p2p_addr = ''loading...''\<rparr>"

record peers_page =
  pp_input :: string
  pp_status :: string

definition load_peers_page :: "'u ipc_env \<Rightarrow> ('u, ui_peers_info) act" where
  "load_peers_page E = act_bind (ipc_list_peers E)
     (\<lambda>r. act_ret (case ok_opt r of Some p \<Rightarrow> p | None \<Rightarrow> default_peers))"

definition add_clicked :: "'u ipc_env \<Rightarrow> peers_page \<Rightarrow> ('u, peers_page) act" where
  "add_clicked E s =
     (let addr = pp_input s
      in if addr = [] then act_ret s
         else act_bind (ipc_add_peer E addr) (\<lambda>r. act_ret (case r of
           Inr _ \<Rightarrow> s\<lparr>pp_status := ''Added'', pp_input := []\<rparr>
         | Inl e \<Rightarrow> s\<lparr>pp_status := ''Error: '' @ e\<rparr>)))"

definition remove_clicked :: "'u ipc_env \<Rightarrow> string \<Rightarrow> ('u, unit) act" where
  "remove_clicked E addr = act_bind (ipc_remove_peer E addr) (\<lambda>_. act_ret ())"

section \<open>The cache\<close>

definition cache_rows :: "'u ipc_env \<Rightarrow> ('u, cache_entry list) act" where
  "cache_rows E = act_bind (ipc_list_cache E) (\<lambda>r. act_ret (case r of Inr es \<Rightarrow> es | Inl _ \<Rightarrow> []))"

definition toggle_clicked :: "'u ipc_env \<Rightarrow> cache_entry \<Rightarrow> ('u, cache_entry list) act" where
  "toggle_clicked E entry =
     act_bind (if ce_pinned entry then ipc_unpin_blob E (ce_blob_id entry) else ipc_pin_blob E (ce_blob_id entry))
       (\<lambda>_. cache_rows E)"

definition delete_clicked :: "'u ipc_env \<Rightarrow> cache_entry \<Rightarrow> ('u, cache_entry list) act" where
  "delete_clicked E entry = act_bind (ipc_delete_blob E (ce_blob_id entry)) (\<lambda>_. cache_rows E)"


section \<open>The dashboard\<close>

record dash_view =
  dv_peer_id :: string
  dv_wallet :: string
  dv_balance :: string
  dv_listen :: string
  dv_connected :: "string list"
  dv_cache_count :: nat
  dv_usage :: string

definition wallet_display :: "string option \<Rightarrow> string run" where
  "wallet_display addr = (case addr of
     Some a \<Rightarrow>
       if length a > 12 then
         bind_run (str_slice 0 6 a) (\<lambda>front. bind_run (str_slice (length a - 4) (length a) a) (\<lambda>back.
           Ret (front @ ''...'' @ back)))
       else Ret a
   | None \<Rightarrow> Ret ''No wallet'')"

definition wal_display :: "wal_balance option \<Rightarrow> string" where
  "wal_display wal = (case wal of Some b \<Rightarrow> wb_balance_wal b @ '' WAL'' | None \<Rightarrow> ''N/A'')"

definition disk_usage :: "u64 \<Rightarrow> u64 \<Rightarrow> string" where
  "disk_usage used budget =
     dec (unat (used div (1024 * 1024))) @ '' MB / '' @ dec (unat (budget div (1024 * 1024))) @ '' MB''"

definition dash_of :: "dashboard_info option \<Rightarrow> wal_balance option \<Rightarrow> dash_view run" where
  "dash_of inner wal =
     bind_run (wallet_display (Option.bind inner db_wallet_address)) (\<lambda>wallet.
     let used = (case inner of Some d \<Rightarrow> db_cache_used d | None \<Rightarrow> 0);
         budget = (case inner of Some d \<Rightarrow> db_cache_budget d | None \<Rightarrow> 500 * 1024 * 1024)
     in Ret \<lparr>dv_peer_id = (case inner of Some d \<Rightarrow> db_peer_id d | None \<Rightarrow> ''connecting...''), dv_wallet = wallet,
          dv_balance = wal_display wal,
          dv_listen = (case inner of Some d \<Rightarrow> db_listen_addr d | None \<Rightarrow> ''connecting...''),
          dv_connected = (case inner of Some d \<Rightarrow> db_connected_peers d | None \<Rightarrow> []),
          dv_cache_count = (case inner of Some d \<Rightarrow> db_cache_count d | None \<Rightarrow> 0),
          dv_usage = disk_usage used budget\<rparr>)"

definition load_dash :: "'u ipc_env \<Rightarrow> ('u, dash_view) act" where
  "load_dash E =
     act_bind (ipc_get_dashboard E) (\<lambda>info.
     act_bind (ipc_get_wal_balance E) (\<lambda>balance.
     act_run (dash_of (ok_opt info) (ok_opt balance))))"

section \<open>Staking\<close>

definition format_wal :: "u64 \<Rightarrow> string" where
  "format_wal amount =
     dec (unat (amount div 1000000000)) @ ''.'' @ pad_left (dec (unat (amount mod 1000000000)))"

datatype marker = Own_Marker | Live_Marker | Active_Marker | Inactive_Marker

record peer_row =
  pr_info :: staking_peer_info
  pr_is_own :: bool
  pr_addr_short :: string

definition peer_row_of :: "string option \<Rightarrow> staking_peer_info \<Rightarrow> peer_row run" where
  "peer_row_of my_wallet p =
     bind_run (str_slice 0 6 (sp_sui_address p)) (\<lambda>front.
     bind_run (str_slice (length (sp_sui_address p) - 4) (length (sp_sui_address p)) (sp_sui_address p)) (\<lambda>back.
     Ret \<lparr>pr_info = p, pr_is_own = (my_wallet = Some (sp_sui_address p)), pr_addr_short = front @ ''...'' @ back\<rparr>))"

definition row_marker :: "peer_row \<Rightarrow> marker" where
  "row_marker r =
     (if pr_is_own r then Own_Marker
      else if sp_is_live (pr_info r) then Live_Marker
      else if sp_is_active (pr_info r) then Active_Marker
      else Inactive_Marker)"

definition row_bond :: "peer_row \<Rightarrow> string" where
  "row_bond r = format_wal (sp_bond (pr_info r))"

text \<open>The vault of a row that is expanded: reserves, earnings, commission in percent and shares.\<close>

definition or_zero :: "u64 option \<Rightarrow> u64" where
  "or_zero x = (case x of Some n \<Rightarrow> n | None \<Rightarrow> 0)"

definition row_vault :: "staking_peer_info \<Rightarrow> (string \<times> string \<times> u64 \<times> u64) option" where
  "row_vault i = map_option (\<lambda>_. (format_wal (or_zero (sp_vault_reserves i)),
     format_wal (or_zero (sp_vault_peer_earnings i)), or_zero (sp_vault_commission_bps i) div 100,
     or_zero (sp_vault_total_shares i))) (sp_vault_reserves i)"

definition row_clicked :: "staking_peer_info \<Rightarrow> string option \<Rightarrow> string option" where
  "row_clicked i expanded = (if expanded = Some (sp_sui_address i) then None else Some (sp_sui_address i))"

record delegate_form =
  df_mode :: bool
  df_amount :: string

text \<open>A certificate's row: its vault, its shares and what they are worth.\<close>

definition share_row :: "share_view \<Rightarrow> string \<times> u64 \<times> string" where
  "share_row c = (sv_vault_address c, sv_shares c, format_wal (sv_estimated_value c) @ '' WAL'')"

text \<open>Pages that submit a transaction, with the toasts that report it.\<close>

definition delegate_clicked :: "'u ipc_env \<Rightarrow> staking_peer_info \<Rightarrow> delegate_form \<Rightarrow> toasts \<Rightarrow>
    ('u, delegate_form \<times> toasts) act" where
  "delegate_clicked E i form ts =
     (let vid = (case sp_vault_object_id i of Some v \<Rightarrow> v | None \<Rightarrow> []); amt = df_amount form
      in if amt = [] then act_ret (form, ts)
         else act_bind (ipc_delegate E vid amt) (\<lambda>r. act_ret
           (case r of Inr _ \<Rightarrow> form\<lparr>df_mode := False, df_amount := []\<rparr> | Inl _ \<Rightarrow> form, report ''Delegate'' r ts)))"

definition undelegate_clicked :: "'u ipc_env \<Rightarrow> share_view \<Rightarrow> toasts \<Rightarrow> ('u, toasts) act" where
  "undelegate_clicked E c ts =
     act_bind (ipc_undelegate E (sv_cert_object_id c)) (\<lambda>r. act_ret (report ''Undelegate'' r ts))"

definition register_clicked :: "'u ipc_env \<Rightarrow> toasts \<Rightarrow> ('u, toasts) act" where
  "register_clicked E ts = act_bind (ipc_register_peer E) (\<lambda>r. act_ret (report ''Register'' r ts))"

definition update_peer_id_clicked :: "'u ipc_env \<Rightarrow> toasts \<Rightarrow> ('u, toasts) act" where
  "update_peer_id_clicked E ts = act_bind (ipc_update_peer_id E) (\<lambda>r. act_ret (report ''Update'' r ts))"

definition create_vault_clicked :: "'u ipc_env \<Rightarrow> toasts \<Rightarrow> ('u, toasts) act" where
  "create_vault_clicked E ts = act_bind (ipc_create_vault E) (\<lambda>r. act_ret (report ''Create vault'' r ts))"

definition claim_earnings_clicked :: "'u ipc_env \<Rightarrow> toasts \<Rightarrow> ('u, toasts) act" where
  "claim_earnings_clicked E ts = act_bind (ipc_claim_earnings E) (\<lambda>r. act_ret (report ''Claim earnings'' r ts))"

text \<open>The cards at the top of the page.\<close>

datatype peer_card =
    Registered_Card string string string "string option" bool bool
  | Not_Registered_Card

definition my_peer_card :: "gui_peer_info option \<Rightarrow> peer_card option" where
  "my_peer_card my = map_option (\<lambda>g. let m = gp_info g
     in if mp_is_registered m then
          Registered_Card (mp_wallet_address m) (mp_peer_object_id m)
            (case mp_peer_id_short m of Some s \<Rightarrow> s | None \<Rightarrow> ''N/A'') (map_option format_wal (mp_bond m))
            (case mp_is_active m of Some b \<Rightarrow> b | None \<Rightarrow> False) (gp_needs_update g)
        else Not_Registered_Card) my"

datatype vault_card =
    Vault_Card string string u64 u64 string bool
  | No_Vault_Card

definition my_vault_card :: "my_vault_info option \<Rightarrow> vault_card option" where
  "my_vault_card vault = map_option (\<lambda>v.
     if mv_has_vault v then
       Vault_Card (format_wal (or_zero (mv_reserves v))) (format_wal (or_zero (mv_peer_earnings v)))
         (or_zero (mv_commission_bps v) div 100) (or_zero (mv_total_shares v))
         (case mv_vault_object_id v of Some i \<Rightarrow> i | None \<Rightarrow> ''N/A'') (or_zero (mv_peer_earnings v) > 0)
     else No_Vault_Card) vault"

record staking_page =
  sg_my_peer :: "peer_card option"
  sg_my_vault :: "vault_card option"
  sg_shares :: "(string \<times> u64 \<times> string) list"
  sg_rows :: "peer_row list"

definition staking_page_of :: "staking_peer_info list \<Rightarrow> gui_peer_info option \<Rightarrow> my_vault_info option \<Rightarrow>
    share_view list \<Rightarrow> staking_page run" where
  "staking_page_of peers my_peer my_vault my_shares =
     (let my_wallet = map_option (\<lambda>g. mp_wallet_address (gp_info g)) my_peer
      in bind_run (run_map (peer_row_of my_wallet) peers) (\<lambda>rows.
         Ret \<lparr>sg_my_peer = my_peer_card my_peer, sg_my_vault = my_vault_card my_vault,
           sg_shares = map share_row my_shares,
           sg_rows = rows\<rparr>))"

definition load_staking :: "'u ipc_env \<Rightarrow> ('u, staking_page) act" where
  "load_staking E =
     act_bind (ipc_list_staking E) (\<lambda>peers.
     act_bind (ipc_get_my_peer_info E) (\<lambda>my_peer.
     act_bind (ipc_get_my_vault_info E) (\<lambda>my_vault.
     act_bind (ipc_list_my_shares E) (\<lambda>shares.
     act_run (staking_page_of (case peers of Inr ps \<Rightarrow> ps | Inl _ \<Rightarrow> []) (ok_opt my_peer) (ok_opt my_vault)
       (case shares of Inr cs \<Rightarrow> cs | Inl _ \<Rightarrow> []))))))"

section \<open>The app\<close>

datatype tab = Dashboard_Tab | Blob_Browser_Tab | Cache_Tab | Staking_Tab | Settings_Tab

record app =
  ap_tab :: tab
  ap_toasts :: toasts

definition app_start :: "u64 \<Rightarrow> app" where
  "app_start next_id = \<lparr>ap_tab = Dashboard_Tab, ap_toasts = \<lparr>ts_next = next_id, ts_list = []\<rparr>\<rparr>"

definition tab_clicked :: "tab \<Rightarrow> app \<Rightarrow> app" where
  "tab_clicked t s = s\<lparr>ap_tab := t\<rparr>"

end
