(* ===== verification/Gui_Safety.thy ===== *)
theory Gui_Safety
  imports Gui_Main Cli_Safety
begin

text \<open>
  The desktop app's API against an abstract cache: a map of blobs and a set of pins. Every request
  is a step of the abstract cache, so that what holds of its steps holds of the app. Then the
  bootstrap peers, which survive a restart, and the settings, which are those of the command line.
\<close>

section \<open>An abstract cache\<close>

record cache_spec =
  spec_blobs :: "string \<rightharpoonup> bytes"
  spec_pins :: "string set"

text \<open>
  A resolve: blobs that are not pinned may go, and good data may come under one key, though not in
  the place of a pinned blob.
\<close>

definition spec_moves :: "(string \<Rightarrow> bytes \<Rightarrow> bool) \<Rightarrow> cache_spec \<Rightarrow> cache_spec \<Rightarrow> bool" where
  "spec_moves G c c' \<longleftrightarrow> spec_pins c' = spec_pins c \<and>
     (\<forall>k. spec_blobs c' k = spec_blobs c k \<or> (k \<notin> spec_pins c \<and> spec_blobs c' k = None) \<or>
        ((k \<in> spec_pins c \<longrightarrow> spec_blobs c k = None) \<and> (\<exists>d. G k d \<and> spec_blobs c' k = Some d)))"

text \<open>The listing: every blob once, in the order of the keys' bytes, with its size and pin.\<close>

definition spec_entry :: "cache_spec \<Rightarrow> string \<Rightarrow> cache_entry" where
  "spec_entry c k = \<lparr>ce_blob_id = k,
     ce_size = (case spec_blobs c k of Some d \<Rightarrow> word_of_nat (length d) | None \<Rightarrow> 0),
     ce_pinned = (k \<in> spec_pins c)\<rparr>"

definition spec_lists :: "cache_spec \<Rightarrow> cache_entry list \<Rightarrow> bool" where
  "spec_lists c es \<longleftrightarrow> (\<exists>ks. es = map (spec_entry c) ks \<and> set ks = dom (spec_blobs c) \<and>
     sorted_wrt (<) (map as_bytes ks))"

definition spec_size :: "cache_spec \<Rightarrow> nat" where
  "spec_size c = (\<Sum>k\<in>dom (spec_blobs c). length (the (spec_blobs c k)))"

fun gui_resolves :: "gui_request \<Rightarrow> string option" where
  "gui_resolves (GuiResolve b) = Some b"
| "gui_resolves (GuiResolveStream b) = Some b"
| "gui_resolves _ = None"

fun edits_cache :: "gui_request \<Rightarrow> bool" where
  "edits_cache (GuiPin _) = True"
| "edits_cache (GuiUnpin _) = True"
| "edits_cache (GuiDelete _) = True"
| "edits_cache _ = False"

fun spec_edit :: "gui_request \<Rightarrow> cache_spec \<Rightarrow> cache_spec" where
  "spec_edit (GuiPin b) c = c\<lparr>spec_pins := insert b (spec_pins c)\<rparr>"
| "spec_edit (GuiUnpin b) c = c\<lparr>spec_pins := spec_pins c - {b}\<rparr>"
| "spec_edit (GuiDelete b) c = c\<lparr>spec_blobs := (spec_blobs c)(b := None)\<rparr>"
| "spec_edit _ c = c"

text \<open>The answers an abstract cache gives to the requests that show it.\<close>

fun spec_shows :: "cache_spec \<Rightarrow> gui_answer \<Rightarrow> bool" where
  "spec_shows c (AnsCache es) = spec_lists c es"
| "spec_shows c (AnsDashboard d) =
     (db_cache_count d = card (dom (spec_blobs c)) \<and> db_cache_used d = word_of_nat (spec_size c) \<and>
      db_cache_budget d = CACHE_BUDGET)"
| "spec_shows c _ = True"

inductive spec_step :: "(string \<Rightarrow> string \<Rightarrow> bytes \<Rightarrow> bool) \<Rightarrow> cache_spec \<Rightarrow> gui_request \<Rightarrow> gui_answer run \<Rightarrow>
    cache_spec \<Rightarrow> bool" for G where
  edit: "edits_cache q \<Longrightarrow> spec_step G c q (Ret AnsOk) (spec_edit q c)"
| refused: "edits_cache q \<Longrightarrow> spec_step G c q (Ret (AnsError e)) c"
| resolve: "gui_resolves q = Some b \<Longrightarrow> spec_moves (G b) c c' \<Longrightarrow> spec_step G c q r c'"
| other: "\<not> edits_cache q \<Longrightarrow> gui_resolves q = None \<Longrightarrow> (\<And>a. r = Ret a \<Longrightarrow> spec_shows c a) \<Longrightarrow>
    spec_step G c q r c"

inductive spec_run :: "(string \<Rightarrow> string \<Rightarrow> bytes \<Rightarrow> bool) \<Rightarrow> cache_spec \<Rightarrow>
    (gui_request \<times> gui_answer run) list \<Rightarrow> cache_spec \<Rightarrow> bool" for G where
  stop: "spec_run G c [] c"
| step: "spec_step G c q r c1 \<Longrightarrow> spec_run G c1 tr c' \<Longrightarrow> spec_run G c ((q, r) # tr) c'"

text \<open>
  A fact about the abstract cache: a pinned blob stays, with its content, through every run in
  which it is neither unpinned nor deleted.
\<close>

lemma spec_step_guard:
  assumes "spec_step G c q r c'" and "q \<notin> {GuiUnpin k, GuiDelete k}"
    and "k \<in> spec_pins c" and "spec_blobs c k = Some d"
  shows "k \<in> spec_pins c' \<and> spec_blobs c' k = Some d"
  using assms(1)
proof cases
  case edit
  with assms(2-4) show ?thesis by (cases q) auto
next
  case (resolve b)
  with assms(3,4) show ?thesis unfolding spec_moves_def by (metis option.distinct(1))
qed (use assms(3,4) in simp_all)

lemma spec_run_guard:
  "spec_run G c tr c' \<Longrightarrow> GuiUnpin k \<notin> fst ` set tr \<Longrightarrow> GuiDelete k \<notin> fst ` set tr \<Longrightarrow>
    k \<in> spec_pins c \<Longrightarrow> spec_blobs c k = Some d \<Longrightarrow> k \<in> spec_pins c' \<and> spec_blobs c' k = Some d"
proof (induction rule: spec_run.induct)
  case (step c q r c1 tr c')
  then have "k \<in> spec_pins c1 \<and> spec_blobs c1 k = Some d"
    using spec_step_guard [OF step.hyps(1), of k d] by auto
  with step show ?case by auto
qed simp

lemma spec_moves_refl: "spec_moves G c c"
  by (simp add: spec_moves_def)

lemma spec_moves_trans: "spec_moves G a b \<Longrightarrow> spec_moves G b c \<Longrightarrow> spec_moves G a c"
  unfolding spec_moves_def by (smt (verit, best))

section \<open>The app is such a cache\<close>

definition abs_cache :: "'d blob_store \<Rightarrow> cache_spec" where
  "abs_cache st = \<lparr>spec_blobs = blobs_view st, spec_pins = {k. pinned st k}\<rparr>"

abbreviation gs_store :: "('w, 'p, 'm, 'a, 't, 'd) gui_state \<Rightarrow> 'd blob_store" where
  "gs_store s \<equiv> api_store (gs_api s)"

text \<open>The data a resolve of a blob id may bring, and the key it comes under.\<close>

definition gui_good :: "('w, 'p, 'm, 'a, 't, 'k, 'x) http_env \<Rightarrow> string \<Rightarrow> string \<Rightarrow> bytes \<Rightarrow> bool" where
  "gui_good E b k d \<longleftrightarrow> (\<exists>i. blob_parse E b = Inr i \<and> k = wx_show_id (me_walrus (he_mesh E)) i \<and>
     good_data (me_walrus (he_mesh E)) i d)"

definition api_moves :: "(string \<Rightarrow> bytes \<Rightarrow> bool) \<Rightarrow> ('w, 'p, 'm, 'a, 't, 'd) api_state \<Rightarrow>
    ('w, 'p, 'm, 'a, 't, 'd) api_state \<Rightarrow> bool" where
  "api_moves G s s' \<longleftrightarrow> (store_ok (api_store s) \<longrightarrow>
     store_ok (api_store s') \<and> spec_moves G (abs_cache (api_store s)) (abs_cache (api_store s')))"

lemma api_moves_order: "reflp (api_moves G)" "transp (api_moves G)"
  by (auto simp: api_moves_def spec_moves_refl intro!: reflpI transpI elim: spec_moves_trans)

lemma moves_store: "act_keeps api_store m \<Longrightarrow> act_rel (api_moves G) m"
  by (rule act_rel_keeps [OF api_moves_order]) (auto simp: api_moves_def spec_moves_refl)

lemma resolve_untouched:
  "resolve E R i s = (r, s') \<Longrightarrow> bs_get (rs_store s) (wx_show_id (me_walrus E) i) \<noteq> Inr None \<Longrightarrow> s' = s"
  by (erule resolve_cases) auto

lemma cache_step_moves:
  assumes "cache_step G key st st'" and "store_ok st" and "blobs_view st key = None"
    and "\<And>d. G d \<Longrightarrow> H key d"
  shows "store_ok st' \<and> spec_moves H (abs_cache st) (abs_cache st')"
proof -
  have same: "store_ok st'" "pinned st' = pinned st"
    and came: "blobs_view st' k \<in> {None, blobs_view st k} \<or> (k = key \<and> (\<exists>d. G d \<and> blobs_view st' k = Some d))"
    and kept: "pinned st k \<Longrightarrow> blobs_view st k \<noteq> None \<Longrightarrow> blobs_view st' k \<noteq> None" for k
    using assms(1,2) unfolding cache_step_def store_ok_def by metis+
  have "blobs_view st' k = blobs_view st k \<or> (\<not> pinned st k \<and> blobs_view st' k = None) \<or>
      ((pinned st k \<longrightarrow> blobs_view st k = None) \<and> (\<exists>d. H k d \<and> blobs_view st' k = Some d))" for k
    using came [of k] kept [of k] assms(3,4) by (metis insertE singletonD)
  with same show ?thesis by (simp add: spec_moves_def abs_cache_def)
qed

lemma resolve_moves:
  assumes "blob_parse E b = Inr i"
  shows "act_rel (api_moves (gui_good E b)) (on_mesh (resolve (he_mesh E) R i))"
proof (rule act_relI [OF api_moves_order])
  fix s r s'
  assume "on_mesh (resolve (he_mesh E) R i) s = (r, s')"
  then obtain rs where rs: "resolve (he_mesh E) R i (new_tables s) = (r, rs)" "api_store s' = rs_store rs"
    by (auto simp: on_mesh_def split: prod.splits)
  let ?X = "me_walrus (he_mesh E)"
  have st: "rs_store (new_tables s) = api_store s" by (simp add: new_tables_def)
  have step: "cache_step (good_data ?X i) (wx_show_id ?X i) (api_store s) (api_store s')"
    using resolve_cache_rel [OF rs(1)] rs(2) st by (simp add: cache_rel_def)
  show "api_moves (gui_good E b) s s'"
    unfolding api_moves_def
  proof
    assume ok: "store_ok (api_store s)"
    show "store_ok (api_store s') \<and> spec_moves (gui_good E b) (abs_cache (api_store s)) (abs_cache (api_store s'))"
    proof (cases "bs_get (api_store s) (wx_show_id ?X i) = Inr None")
      case False
      then have "rs = new_tables s" using resolve_untouched [OF rs(1)] st by simp
      with ok rs(2) st show ?thesis by (simp add: spec_moves_refl)
    next
      case True
      then have absent: "blobs_view (api_store s) (wx_show_id ?X i) = None"
        using cf_get_view [OF ok] by (simp add: bs_get_def)
      show ?thesis
        by (rule cache_step_moves [OF step ok absent]) (use assms in \<open>auto simp: gui_good_def\<close>)
    qed
  qed
qed

lemma map_err_rel: "reflp Q \<Longrightarrow> transp Q \<Longrightarrow> act_rel Q m \<Longrightarrow> act_rel Q (act_map_err f m)"
  unfolding act_map_err_def by (intro act_rel_bind) (simp_all add: act_rel_def reflpD)

lemma local_store:
  "act_keeps api_store (emit e)" "act_keeps api_store (stored b)" "act_keeps api_store bootstrap_list"
  "act_keeps api_store (remember_peer a)" "act_keeps api_store (forget_peer a)" "act_keeps api_store (read_store op)"
  by (simp_all add: act_keeps_def emit_def stored_def bootstrap_list_def remember_peer_def forget_peer_def
      read_store_def)

lemma node_store: "act_keeps api_store (tell_node E cmd)" "act_keeps api_store (ask_connected E)"
  by (rule books_store, rule node_calls_books)+

lemma await_store: "act_keeps api_store (await_connected n E p)"
  by (rule books_store [OF await_books])

lemma sum_rel:
  "(\<And>e. act_rel Q (f e)) \<Longrightarrow> (\<And>a. act_rel Q (h a)) \<Longrightarrow> act_rel Q (case x of Inl e \<Rightarrow> f e | Inr a \<Rightarrow> h a)"
  by (cases x) simp_all

lemmas move_rules = act_rel_bind act_rel_try option_rel sum_rel case_prod_rel map_err_rel [OF api_moves_order]
  moves_store [OF local_store(1)] moves_store [OF local_store(2)] moves_store [OF node_store(1)]
  moves_store [OF act_keeps_ret(1)] moves_store [OF act_keeps_ret(2)]

lemma gui_resolve_moves:
  "act_rel (api_moves (gui_good E b)) (gui_resolve_blob E C b)"
  "act_rel (api_moves (gui_good E b)) (gui_resolve_with_progress E C b)"
proof -
  consider (bad) e where "blob_parse E b = Inl e" | (id) i where "blob_parse E b = Inr i"
    by (cases "blob_parse E b")
  then show "act_rel (api_moves (gui_good E b)) (gui_resolve_blob E C b)"
  proof cases
    case bad
    then show ?thesis by (simp add: gui_resolve_blob_def moves_store)
  next
    case id
    then show ?thesis
      unfolding gui_resolve_blob_def Let_def
      by (simp only: map_err_simps act_try_ret, intro move_rules resolve_moves)
  qed
  show "act_rel (api_moves (gui_good E b)) (gui_resolve_with_progress E C b)"
    unfolding gui_resolve_with_progress_def Let_def
    by (cases "blob_parse E b"; simp only: sum.case; intro move_rules resolve_moves)
qed


text \<open>Actions of the API run inside the app, and the answers.\<close>

lemma on_gui_keeps: "act_keeps api_store m \<Longrightarrow> act_keeps gs_store (on_gui m)"
  by (auto simp: act_keeps_def on_gui_def split: prod.splits)

lemma answer_keeps: "act_keeps g m \<Longrightarrow> act_keeps g (answer f m)"
  unfolding answer_def by (intro act_keeps_rules)

lemma save_keeps: "act_keeps gs_store (save_bootstrap V C)"
  by (simp add: act_keeps_def save_bootstrap_def)

lemma gui_call_store: "act_keeps api_store (gui_call m)"
  unfolding gui_call_def by (intro map_err_keeps sui_store)

lemma gui_wallet_keeps: "(\<And>W. act_keeps g (f W)) \<Longrightarrow> act_keeps g (gui_wallet C f)"
  unfolding gui_wallet_def by (intro act_keeps_rules)

lemma gui_success_store: "act_keeps api_store (gui_success msg m)"
  unfolding gui_success_def by (intro act_keeps_rules gui_call_store)

lemma list_entries_store: "act_keeps api_store (list_cache_entries ids)"
  by (induction ids; unfold list_cache_entries.simps; intro act_keeps_rules local_store)

lemmas gui_rules = answer_keeps on_gui_keeps save_keeps gui_wallet_keeps gui_success_store gui_call_store
  local_store node_store await_store list_entries_store case_prod_keeps act_keeps_rules

lemmas gui_handlers = gui_handle_dashboard_def gui_handle_list_cache_def gui_handle_peers_list_def
  gui_handle_peers_add_def gui_handle_peers_remove_def gui_handle_staking_def gui_handle_my_peer_def
  gui_handle_balance_def gui_handle_register_def gui_handle_update_peer_id_def gui_handle_my_vault_def
  gui_handle_create_vault_def gui_handle_my_shares_def gui_handle_claim_earnings_def gui_handle_delegate_def
  gui_handle_undelegate_def

lemmas gui_functions = get_dashboard_def list_cache_def peers_list_def peers_add_def peers_remove_def
  list_staking_def gui_peers_connected_def get_my_peer_info_def gui_get_wal_balance_def gui_register_peer_def
  get_my_vault_def gui_create_vault_def list_my_shares_def gui_claim_earnings_def gui_delegate_def gui_undelegate_def

lemma other_keeps:
  assumes "\<not> edits_cache q" and "gui_resolves q = None"
  shows "act_keeps gs_store (gui_serve V C q)"
  using assms
  by (cases q; simp only: edits_cache.simps gui_resolves.simps option.distinct not_True_eq_False gui_serve.simps;
      unfold gui_handlers gui_functions Let_def; intro gui_rules)


text \<open>What the listing and the dashboard show.\<close>

lemma list_cache_entries_spec:
  assumes "store_ok (api_store s)" and "list_cache_entries ids s = (Ret (Inr es), s')"
  shows "es = map (spec_entry (abs_cache (api_store s))) ids"
  using assms
proof (induction ids arbitrary: es s')
  case (Cons i ids)
  from Cons.prems(2) obtain n p es' where e:
    "bs_blob_size (api_store s) i = Inr n" "is_pinned (api_store s) i = Inr p"
    "list_cache_entries ids s = (Ret (Inr es'), s')"
    "es = \<lparr>ce_blob_id = i, ce_size = (case n of Some n \<Rightarrow> n | None \<Rightarrow> 0), ce_pinned = p\<rparr> # es'"
    by (auto simp: read_store_def elim!: act_tryE)
  from bs_blob_size_spec [OF Cons.prems(1) e(1)] is_pinned_spec [OF Cons.prems(1) e(2)]
    Cons.IH [OF Cons.prems(1) e(3)] e(4)
  show ?case by (auto simp: spec_entry_def abs_cache_def split: option.splits)
qed simp

lemma listed_keys:
  assumes "store_ok st" and "bs_list_blob_ids st = Inr ids"
  shows "set ids = dom (blobs_view st)" "sorted_wrt (<) (map as_bytes ids)" "distinct ids"
proof -
  have l: "cf_list st BLOBS_CF = Inr ids" using assms(2) by (simp add: bs_list_blob_ids_def)
  show "set ids = dom (blobs_view st)" using cf_list_mem [OF assms(1) l] by blast
  show "sorted_wrt (<) (map as_bytes ids)" by (rule cf_list_spec(1) [OF assms(1) l])
  show "distinct ids" by (rule cf_list_distinct [OF assms(1) l])
qed

lemma list_cache_spec:
  assumes "store_ok (api_store s)" and "list_cache s = (Ret (Inr es), s')"
  shows "spec_lists (abs_cache (api_store s)) es"
proof -
  from assms(2) obtain ids where ids: "bs_list_blob_ids (api_store s) = Inr ids"
    "list_cache_entries ids s = (Ret (Inr es), s')"
    by (auto simp: list_cache_def read_store_def elim!: act_tryE)
  from list_cache_entries_spec [OF assms(1) ids(2)] listed_keys(1,2) [OF assms(1) ids(1)]
  show ?thesis by (auto simp: spec_lists_def abs_cache_def)
qed

lemma spec_size_abs: "spec_size (abs_cache st) = blob_bytes st"
  by (auto simp: spec_size_def blob_bytes_def abs_cache_def blob_len_def dom_def intro!: sum.cong)

lemma dashboard_spec:
  assumes "store_ok (api_store s)" and "get_dashboard E C s = (Ret (Inr d), s')"
  shows "spec_shows (abs_cache (api_store s)) (AnsDashboard d)"
proof -
  from assms(2) obtain ids where "bs_list_blob_ids (api_store s) = Inr ids" "db_cache_count d = length ids"
    "bs_total_size (api_store s) = Inr (db_cache_used d)" "db_cache_budget d = CACHE_BUDGET"
    by (auto simp: get_dashboard_def read_store_def elim!: act_tryE)
  moreover from this(1) have "card (dom (blobs_view (api_store s))) = length ids"
    using listed_keys(1,3) [OF assms(1)] distinct_card by metis
  ultimately show ?thesis
    using bs_total_size_spec [OF assms(1)] spec_size_abs [of "api_store s"] by (simp add: abs_cache_def)
qed

lemma answerE:
  assumes "answer f m s = (Ret a, s')"
  obtains (ok) x where "m s = (Ret (Inr x), s')" "a = f x" | (err) e where "m s = (Ret (Inl e), s')" "a = AnsError e"
  using assms by (auto simp: answer_def elim!: act_bindE split: sum.splits)

lemma on_guiE:
  assumes "on_gui m s = (r, s')"
  obtains a where "m (gs_api s) = (r, a)" "s' = s\<lparr>gs_api := a\<rparr>"
  using assms by (auto simp: on_gui_def split: prod.splits)

lemma other_shows:
  assumes "gui_serve V C q s = (Ret a, s')" and "store_ok (gs_store s)"
  shows "spec_shows (abs_cache (gs_store s)) a"
proof (cases q)
  case GuiDashboard
  with assms show ?thesis
    by (auto simp: gui_handle_dashboard_def simp del: spec_shows.simps(2) elim!: answerE on_guiE
        intro: dashboard_spec)
next
  case GuiCache
  with assms show ?thesis
    by (auto simp: gui_handle_list_cache_def elim!: answerE on_guiE intro: list_cache_spec)
qed (use assms in \<open>auto simp: gui_handlers gui_handle_resolve_def gui_handle_resolve_stream_def gui_handle_pin_def
  gui_handle_unpin_def gui_handle_delete_def elim!: answerE act_bindE split: option.splits\<close>)


lemma write_storeE:
  assumes "answer (\<lambda>_. AnsOk) (on_gui (write_store op)) s = (r, s')"
  obtains (ok) st where "op (gs_store s) = Inr st" "r = Ret AnsOk" "gs_store s' = st"
    | (err) e where "r = Ret (AnsError e)" "s' = s"
  using assms by (cases "op (gs_store s)") (auto simp: answer_def on_gui_def write_store_def act_bind_def)

lemma edit_step:
  assumes "gui_serve V C q s = (r, s')" and "edits_cache q" and "store_ok (gs_store s)"
  shows "store_ok (gs_store s') \<and> spec_step G (abs_cache (gs_store s)) q r (abs_cache (gs_store s'))"
proof -
  obtain op where op: "answer (\<lambda>_. AnsOk) (on_gui (write_store op)) s = (r, s')"
    and eff: "\<And>st. op (gs_store s) = Inr st \<Longrightarrow> store_ok st \<and> abs_cache st = spec_edit q (abs_cache (gs_store s))"
  proof (cases q)
    case (GuiPin b)
    have "abs_cache st = spec_edit q (abs_cache (gs_store s))" if "pin (gs_store s) b = Inr st" for st
      using pins.put_view [OF assms(3) that] pin_blobs [OF assms(3) that]
      by (auto simp: GuiPin abs_cache_def pinned_pin_entry)
    with GuiPin assms pins.put_ok [OF assms(3)] that [of "\<lambda>st. pin st b"] show thesis
      by (simp add: gui_handle_pin_def pin_blob_def)
  next
    case (GuiUnpin b)
    have "abs_cache st = spec_edit q (abs_cache (gs_store s))" if "unpin (gs_store s) b = Inr st" for st
      using pins.del_view [OF assms(3) that] unpin_blobs [OF assms(3) that]
      by (auto simp: GuiUnpin abs_cache_def pinned_pin_entry)
    with GuiUnpin assms pins.del_ok [OF assms(3)] that [of "\<lambda>st. unpin st b"] show thesis
      by (simp add: gui_handle_unpin_def unpin_blob_def)
  next
    case (GuiDelete b)
    have "abs_cache st = spec_edit q (abs_cache (gs_store s))" if "bs_delete (gs_store s) b = Inr st" for st
      using blobs.del_view [OF assms(3) that] delete_pinned [OF assms(3) that]
      by (auto simp: GuiDelete abs_cache_def)
    with GuiDelete assms blobs.del_ok [OF assms(3)] that [of "\<lambda>st. bs_delete st b"] show thesis
      by (simp add: gui_handle_delete_def delete_blob_def)
  qed (use assms(2) in simp_all)
  from op show ?thesis
  proof (cases rule: write_storeE)
    case (ok st)
    with eff spec_step.edit [OF assms(2), of G "abs_cache (gs_store s)"] show ?thesis by simp
  next
    case (err e)
    with assms(2,3) show ?thesis by (simp add: spec_step.refused)
  qed
qed

lemma gui_stream_moves:
  assumes "act_rel (api_moves G) m" and "gui_stream m s = (r, s')"
  shows "api_moves G s s'"
proof -
  obtain r1 s1 where m: "m (s\<lparr>api_events := []\<rparr>) = (r1, s1)" by fastforce
  with assms(2) have "api_store s' = api_store s1" by (auto simp: gui_stream_def)
  with act_relD [OF assms(1) m] show ?thesis by (simp add: api_moves_def)
qed

lemma answer_runE:
  assumes "answer f m s = (r, s')"
  obtains r1 where "m s = (r1, s')"
  using assms by (auto simp: answer_def elim!: act_bindE)

lemma resolve_step:
  assumes "gui_serve V C q s = (r, s')" and "gui_resolves q = Some b"
  shows "api_moves (gui_good (gv_http V) b) (gs_api s) (gs_api s')"
proof (cases q)
  case (GuiResolve b')
  with assms obtain r1 a where "gui_resolve_blob (gv_http V) C b (gs_api s) = (r1, a)" "s' = s\<lparr>gs_api := a\<rparr>"
    by (auto simp: gui_handle_resolve_def elim!: answer_runE on_guiE)
  then show ?thesis using act_relD [OF gui_resolve_moves(1)] by simp
next
  case (GuiResolveStream b')
  with assms obtain r1 a where "gui_stream (gui_resolve_with_progress (gv_http V) C b) (gs_api s) = (r1, a)"
    "s' = s\<lparr>gs_api := a\<rparr>"
    by (auto simp: gui_handle_resolve_stream_def elim!: act_bindE on_guiE)
  then show ?thesis using gui_stream_moves [OF gui_resolve_moves(2)] by simp
qed (use assms(2) in simp_all)

lemma gui_step:
  assumes "gui_serve V C q s = (r, s')" and "store_ok (gs_store s)"
  shows "store_ok (gs_store s') \<and>
    spec_step (gui_good (gv_http V)) (abs_cache (gs_store s)) q r (abs_cache (gs_store s'))"
proof (cases "edits_cache q")
  case True
  with assms show ?thesis by (intro edit_step)
next
  case read: False
  show ?thesis
  proof (cases "gui_resolves q")
    case None
    have same: "gs_store s' = gs_store s" by (rule act_keepsD [OF other_keeps [OF read None] assms(1)])
    have "spec_step (gui_good (gv_http V)) (abs_cache (gs_store s)) q r (abs_cache (gs_store s))"
      by (rule spec_step.other [OF read None]) (use assms other_shows in blast)
    with same assms(2) show ?thesis by simp
  next
    case (Some b)
    with resolve_step [OF assms(1) Some] assms(2) show ?thesis
      by (auto simp: api_moves_def intro: spec_step.resolve)
  qed
qed

text \<open>A sequence of requests. A panic ends the request, not the server.\<close>

fun gui_trace :: "('w, 'p, 'm, 'a, 't, 'k, 'x, 'c, 'o) gui_env \<Rightarrow> ('p, 'm, 'a, 'k) http_conf \<Rightarrow> gui_request list \<Rightarrow>
    ('w, 'p, 'm, 'a, 't, 'd) gui_state \<Rightarrow> (gui_request \<times> gui_answer run) list \<times> ('w, 'p, 'm, 'a, 't, 'd) gui_state" where
  "gui_trace V C [] s = ([], s)"
| "gui_trace V C (q # qs) s = (case gui_serve V C q s of (r, s1) \<Rightarrow>
     (case gui_trace V C qs s1 of (tr, s2) \<Rightarrow> ((q, r) # tr, s2)))"

lemma gui_trace_run:
  "gui_trace V C qs s = (tr, s') \<Longrightarrow> store_ok (gs_store s) \<Longrightarrow> map fst tr = qs \<and>
    spec_run (gui_good (gv_http V)) (abs_cache (gs_store s)) tr (abs_cache (gs_store s'))"
proof (induction qs arbitrary: s tr)
  case Nil
  then show ?case by (auto intro: spec_run.stop)
next
  case (Cons q qs)
  from Cons.prems(1) obtain r s1 tr1 where t: "gui_serve V C q s = (r, s1)" "gui_trace V C qs s1 = (tr1, s')"
    "tr = (q, r) # tr1"
    by (auto split: prod.splits)
  note st = gui_step [OF t(1) Cons.prems(2)]
  from Cons.IH [OF t(2)] st show ?case by (auto simp: t(3) intro: spec_run.step)
qed

text \<open>
  C33: the desktop app's API refines a map of blobs with a set of pins. Whatever requests come, in
  whatever order and with whatever outcome, the answers and the cache after them are those of a run
  of the abstract cache: pinning, unpinning and deleting edit it exactly or are refused and change
  nothing, a resolve drops only unpinned blobs and adds only verified data or data of Walrus under its own id, the
  listing and the dashboard show exactly the contents, and nothing else touches it. So a blob that
  is pinned and cached stays, with its content, as long as no request unpins or deletes it.
\<close>

theorem gui_refines_cache:
  assumes "store_ok (gs_store s)" and "gui_trace V C qs s = (tr, s')"
  shows "map fst tr = qs \<and>
    spec_run (gui_good (gv_http V)) (abs_cache (gs_store s)) tr (abs_cache (gs_store s')) \<and>
    (\<forall>k d. pinned (gs_store s) k \<and> blobs_view (gs_store s) k = Some d \<and> GuiUnpin k \<notin> set qs \<and> GuiDelete k \<notin> set qs
      \<longrightarrow> pinned (gs_store s') k \<and> blobs_view (gs_store s') k = Some d)"
proof -
  from gui_trace_run [OF assms(2,1)] have run: "map fst tr = qs"
    "spec_run (gui_good (gv_http V)) (abs_cache (gs_store s)) tr (abs_cache (gs_store s'))" by simp_all
  have "set qs = fst ` set tr" using run(1) by (auto simp flip: run(1))
  with run spec_run_guard [OF run(2)] show ?thesis by (auto simp: abs_cache_def)
qed


section \<open>Bootstrap peers across a restart\<close>

text \<open>What is relied on: a written file reads back, and so does a list of strings as JSON.\<close>

definition disk_ok :: "('w, 'p, 'm, 'a, 't, 'k, 'x, 'c, 'o) gui_env \<Rightarrow> bool" where
  "disk_ok V \<longleftrightarrow> (\<forall>p c fs. fs_write V p c fs p = Inr c)"

definition serde_ok :: "('w, 'p, 'm, 'a, 't, 'k, 'x, 'c, 'o) gui_env \<Rightarrow> host \<Rightarrow> bool" where
  "serde_ok V H \<longleftrightarrow> (\<forall>ps. \<exists>js. strings_json V ps = Some js \<and> json_strings H js = Inr ps)"

lemma save_then_load:
  assumes "disk_ok V" and "serde_ok V H"
  shows "load_peers H (save_peers V ps dir fs) dir = ps"
proof -
  obtain js where "strings_json V ps = Some js" "json_strings H js = Inr ps"
    using assms(2) unfolding serde_ok_def by blast
  with assms(1) show ?thesis by (simp add: load_peers_def save_peers_def disk_ok_def Let_def)
qed

text \<open>How the list in memory changes.\<close>

lemma bootstrap_kept:
  "act_keeps api_bootstrap (on_mesh m)" "act_keeps api_bootstrap (tell_node E c)"
  "act_keeps api_bootstrap (await_connected n E p)"
proof -
  show mesh: "act_keeps api_bootstrap (on_mesh m)" for m
    by (auto simp: act_keeps_def on_mesh_def split: prod.splits)
  show "act_keeps api_bootstrap (tell_node E c)"
    unfolding tell_node_def by (intro act_keeps_rules mesh)
  show "act_keeps api_bootstrap (await_connected n E p)"
    by (induction n; unfold await_connected.simps; intro act_keeps_rules mesh)
qed

text \<open>The list of peers that adding or removing an address is meant to leave.\<close>

fun edit_peers :: "gui_request \<Rightarrow> string list \<Rightarrow> string list" where
  "edit_peers (GuiPeersAdd a) ps = (if a \<in> set ps then ps else ps @ [a])"
| "edit_peers (GuiPeersRemove a) ps = filter (\<lambda>p. p \<noteq> a) ps"
| "edit_peers _ ps = ps"

lemma peers_add_bootstrap:
  assumes "peers_add E a s = (Ret (Inr u), s')"
  shows "api_bootstrap s' = edit_peers (GuiPeersAdd a) (api_bootstrap s)"
  using assms
  by (auto simp: peers_add_def Let_def remember_peer_def elim!: act_tryE act_bindE
      dest!: act_keepsD [OF bootstrap_kept(2)] act_keepsD [OF bootstrap_kept(3)])

lemma peers_remove_bootstrap:
  assumes "peers_remove E a s = (r, s')"
  shows "r = Ret (Inr ()) \<Longrightarrow> api_bootstrap s' = edit_peers (GuiPeersRemove a) (api_bootstrap s)"
  using assms
  by (auto simp: peers_remove_def forget_peer_def elim!: act_bindE split: option.splits
      dest!: act_keepsD [OF bootstrap_kept(2)])

lemma peers_saved:
  assumes "disk_ok V" and "serde_ok V H" and "q = GuiPeersAdd a \<or> q = GuiPeersRemove a"
    and "gui_serve V C q s = (Ret AnsOk, s')"
  shows "load_peers H (gs_files s') (hc_cache_dir C) = edit_peers q (api_bootstrap (gs_api s))"
proof -
  let ?ask = "case q of GuiPeersAdd a \<Rightarrow> peers_add (gv_http V) a | _ \<Rightarrow> peers_remove (gv_http V) a"
  from assms(3,4) have "act_try (on_gui ?ask) (\<lambda>_. act_bind (save_bootstrap V C) (\<lambda>_. act_ret (Inr ()))) s =
      (Ret (Inr ()), s')"
    by (auto simp: gui_handle_peers_add_def gui_handle_peers_remove_def elim!: answerE)
  then obtain u api fs where api: "?ask (gs_api s) = (Ret (Inr u), api)"
    and s': "gs_files s' = save_peers V (api_bootstrap api) (hc_cache_dir C) fs"
    by (auto simp: save_bootstrap_def elim!: act_tryE act_bindE on_guiE)
  have "api_bootstrap api = edit_peers q (api_bootstrap (gs_api s))"
    using assms(3) api peers_add_bootstrap peers_remove_bootstrap by fastforce
  with s' save_then_load [OF assms(1,2)] show ?thesis by simp
qed

text \<open>The start of the app reads the file and hands the addresses in it to the node.\<close>

lemma setup_files:
  "act_keeps gs_files (gui_open_cache V K dir)" "act_keeps gs_files (on_gui m)"
  by (auto simp: act_keeps_def gui_open_cache_def on_gui_def split: sum.splits prod.splits)

lemma act_expect_keeps: "act_keeps g m \<Longrightarrow> act_keeps g (act_expect m)"
  unfolding act_expect_def by (intro act_keeps_rules sum_keeps)

lemma gui_setup_peers:
  assumes "gui_setup V H K s = (Ret C, s')"
  shows "\<exists>args. gs_node s' = Some args \<and>
    api_bootstrap (gs_api s') = load_peers H (gs_files s) (gui_cache_dir V H) \<and>
    na_bootstrap args = parse_bootstrap_peers (gv_http V) (api_bootstrap (gs_api s'))"
  using assms unfolding gui_setup_def Let_def
  by (auto simp: saved_peers_def gui_start_def DEFAULT_BOOTSTRAP_def elim!: act_bindE
      dest!: act_keepsD [OF setup_files(1)] act_keepsD [OF act_expect_keeps [OF setup_files(2)]]
        act_keepsD [OF act_expect_keeps [OF act_keeps_ret(1)], where g = gs_files])

text \<open>
  C34: the peers added in the app are there after a restart. After adding or removing a peer was
  answered with success, a later start of the app with the same files has the edited list - each
  address once more or no more - and starts the node with the peers and addresses parsed from it.
\<close>

theorem peers_survive_restart:
  assumes "disk_ok V" and "serde_ok V H" and "q = GuiPeersAdd a \<or> q = GuiPeersRemove a"
    and "gui_serve V C q s = (Ret AnsOk, s1)" and "hc_cache_dir C = gui_cache_dir V H"
    and "gs_files s2 = gs_files s1" and "gui_setup V H K s2 = (Ret C', s3)"
  shows "api_bootstrap (gs_api s3) = edit_peers q (api_bootstrap (gs_api s)) \<and>
    (\<exists>args. gs_node s3 = Some args \<and>
      na_bootstrap args = parse_bootstrap_peers (gv_http V) (edit_peers q (api_bootstrap (gs_api s))))"
  using gui_setup_peers [OF assms(7)] peers_saved [OF assms(1-4)] assms(5,6) by auto

section \<open>Settings\<close>

lemma bind_run_eq_Ret: "bind_run m f = Ret r \<longleftrightarrow> (\<exists>a. m = Ret a \<and> f a = Ret r)"
  by (cases m) simp_all

text \<open>
  C35: the app and the command line program read the same settings from the configuration file:
  without flags, whenever the program's settings can be built and the address of the WAL package
  parses, the app's are the same.
\<close>

theorem gui_settings_match_cli:
  assumes "settlement_of K cli cfg = Ret r"
    and "cl_settlement_package cli = None" and "cl_settlement_object cli = None"
    and "cl_vault_object cli = None" and "cl_registry_object cli = None"
    and "parse_address K ''0x356a26eb9e012a68958082340d4c4116e7f55615cf27affcff209cf0ae544f59'' = Inr w"
  shows "gui_settlement K cfg = Ret r"
proof (cases "zc_settlement cfg")
  case None
  with assms show ?thesis by (simp add: settlement_of_def gui_settlement_def flag_or_def)
next
  case c: (Some c)
  note flags = flag_or_def version_or_def assms(2-6) c
  show ?thesis
  proof (cases "ss_package c")
    case None
    with assms(1) show ?thesis by (simp add: settlement_of_def gui_settlement_def flags)
  next
    case pkg: (Some pkg)
    show ?thesis
    proof (cases "ss_settlement_object c")
      case None
      with pkg assms(1) show ?thesis
        by (cases "parse_address K pkg") (simp_all add: settlement_of_def gui_settlement_def flags ok_opt_def)
    next
      case obj: (Some obj)
      show ?thesis
        using assms(1) pkg obj
        by (cases "parse_address K pkg"; cases "parse_address K obj")
          (auto simp add: settlement_of_def gui_settlement_def flags bind_run_eq_Ret Let_def ok_opt_def expect_def)
    qed
  qed
qed

end
