(* ===== verification/Gui_Demo.thy ===== *)
theory Gui_Demo
  imports Gui_Safety
begin

text \<open>Concrete runs of the desktop app's backend, over the network of \<open>Resolver_Demo\<close> and a disk in memory.\<close>

text \<open>An encoding of lists of strings, in the place of JSON.\<close>

definition plain_strings :: "string list \<Rightarrow> string" where
  "plain_strings ps = concat (map (\<lambda>p. concat (map (\<lambda>c. [CHR ''c'', c]) p) @ ''n'') ps)"

fun read_strings :: "string \<Rightarrow> string \<Rightarrow> string list" where
  "read_strings acc [] = []"
| "read_strings acc [c] = [acc]"
| "read_strings acc (c # d # cs) = (if c = CHR ''c'' then read_strings (acc @ [d]) cs else acc # read_strings [] (d # cs))"

lemma read_string:
  "read_strings acc (concat (map (\<lambda>c. [CHR ''c'', c]) p) @ ''n'' @ rest) = (acc @ p) # read_strings [] rest"
  by (induction p arbitrary: acc) (cases rest; simp)+

lemma read_plain_strings: "read_strings [] (plain_strings ps) = ps"
  by (induction ps) (simp_all add: plain_strings_def read_string [where acc = "[]", simplified])

definition gui_host :: host where
  "gui_host = \<lparr>env_var = (\<lambda>v. if v = ''ZING_CDN_SUI_PRIVATE_KEY'' then Some ''key'' else None),
     read_to_string = (\<lambda>p. Inl ''not found''), toml_config = (\<lambda>c. None),
     json_strings = (\<lambda>js. Inr (read_strings [] js))\<rparr>"

definition gui_http :: "(mail, nat, nat, nat, string, bytes, nat) http_env" where
  "gui_http = demo_http\<lparr>ma_parse := (\<lambda>s. Some (length s)), ma_protocols := (\<lambda>m. [Udp 34291, P2p 5])\<rparr>"

definition gui_demo :: "(mail, nat, nat, nat, string, bytes, nat, unit, unit) gui_env" where
  "gui_demo = \<lparr>gv_cli = demo_env\<lparr>cv_http := gui_http\<rparr>, gv_home_dir = Some ''/home/u'',
     strings_json = (\<lambda>ps. Some (plain_strings ps)), fs_write = (\<lambda>p c fs. fs(p := Inr c))\<rparr>"

definition gui_demo_start :: "(mail, nat, nat, nat, string, mem_db) gui_state" where
  "gui_demo_start = \<lparr>gs_api = demo_api\<lparr>api_bootstrap := [''a'', ''b'']\<rparr>, gs_files = (\<lambda>p. Inl ''not found''), gs_node = None\<rparr>"

definition gui_demo_conf :: "(nat, nat, nat, bytes) http_conf" where
  "gui_demo_conf = demo_conf\<lparr>hc_cache_dir := gui_cache_dir gui_demo gui_host\<rparr>"

lemma gui_demo_disk: "disk_ok gui_demo" "serde_ok gui_demo gui_host"
  by (simp_all add: disk_ok_def serde_ok_def gui_demo_def gui_host_def read_plain_strings)

lemma gui_demo_fields:
  "cv_create_dir_all (gv_cli gui_demo) d" "ma_parse (gv_http gui_demo) a = Some (length a)"
  "me_sui (he_mesh (gv_http gui_demo)) = mail_sui" "cv_peer_of_seed (gv_cli gui_demo) x = Some 7"
  "cv_client (gv_cli gui_demo) = demo_client" "env_var gui_host ''ZING_SUI_KEYSTORE'' = None"
  by (simp_all add: gui_demo_def demo_env_def gui_http_def demo_http_def mail_mesh_def gui_host_def)

lemma gui_demo_key: "\<exists>W. from_keystore mail_sui gui_host None None = Inr W"
  by (simp add: from_keystore_def load_key_def gui_host_def decode_and_derive_def decode_keys.simps mail_sui_def
      Let_def)

lemma gui_demo_config: "load gui_host = default_config" "external_addrs E gui_host = Ret []"
  by (simp_all add: load_def load_from_def external_addrs_def gui_host_def)

lemma gui_demo_mainnet:
  "\<exists>c s'. act_expect (on_gui (on_mesh (on_walrus (from_mainnet demo_client)))) s = (Ret c, s')"
  by (simp add: act_expect_def act_bind_def on_gui_def on_mesh_def on_walrus_def from_mainnet_def from_config_def
      mainnet_config_def act_try_def sdk_call_def demo_client_def expect_def split: prod.splits)

lemma gui_demo_setup: "\<exists>C s'. gui_setup gui_demo gui_host mem_rocks s = (Ret C, s')"
proof -
  obtain W where W: "from_keystore mail_sui gui_host None None = Inr W" using gui_demo_key by blast
  obtain s1 where s1: "gui_open_cache gui_demo mem_rocks (gui_cache_dir gui_demo gui_host) s = (Ret (), s1)"
    by (simp add: gui_open_cache_def bs_open_def mem_rocks_def)
  obtain c :: "nat zing_client" and s2
    where s2: "act_expect (on_gui (on_mesh (on_walrus (from_mainnet demo_client)))) s1 = (Ret c, s2)"
    using gui_demo_mainnet by blast
  have none: "gui_settlement K default_config = Ret None" "vault_bytes None = Ret None"
    "Option.bind (zc_settlement default_config) ss_vault_object = None" for K
    by (simp_all add: gui_settlement_def default_config_def vault_bytes_def)
  show ?thesis
    unfolding gui_setup_def Let_def gui_demo_fields gui_demo_config none
    using W s1 s2 gui_demo_fields(1)
    by (simp add: act_bind_cases act_expect_def [of "act_ret r" for r] saved_peers_def gui_start_def)
qed

lemma gui_demo_remove:
  "\<exists>s'. gui_serve gui_demo gui_demo_conf (GuiPeersRemove ''a'') gui_demo_start = (Ret AnsOk, s')"
proof -
  obtain x s' where "tell_node gui_http (Disconnect 5) (gs_api gui_demo_start) = (Ret x, s')" by (rule tell_nodeE)
  then show ?thesis
    by (simp add: gui_handle_peers_remove_def answer_def act_try_def act_bind_def on_gui_def peers_remove_def
        gui_demo_def forget_peer_def save_bootstrap_def gui_http_def)
qed

theorem peers_survive_restart_witness:
  "\<exists>s1 C' s3. gui_serve gui_demo gui_demo_conf (GuiPeersRemove ''a'') gui_demo_start = (Ret AnsOk, s1) \<and>
     gui_setup gui_demo gui_host mem_rocks s1 = (Ret C', s3) \<and> api_bootstrap (gs_api s3) = [''b'']"
proof -
  obtain s1 where run: "gui_serve gui_demo gui_demo_conf (GuiPeersRemove ''a'') gui_demo_start = (Ret AnsOk, s1)"
    using gui_demo_remove by blast
  obtain C' s3 where started: "gui_setup gui_demo gui_host mem_rocks s1 = (Ret C', s3)"
    using gui_demo_setup by blast
  have dir: "hc_cache_dir gui_demo_conf = gui_cache_dir gui_demo gui_host" by (simp add: gui_demo_conf_def)
  from peers_survive_restart [OF gui_demo_disk _ run dir refl started, of "''a''"] run started
  show ?thesis by (auto simp: gui_demo_start_def)
qed

text \<open>The demo's cache has one blob, which is pinned and then survives a resolve and the deletion of another.\<close>

theorem gui_refines_cache_witness:
  "\<exists>tr s' c. gui_trace gui_demo gui_demo_conf [GuiPin ''k'', GuiResolve ''x'', GuiDelete ''y''] gui_demo_start = (tr, s') \<and>
     length tr = 3 \<and> spec_run (gui_good gui_http) (abs_cache serve_demo) tr c"
proof -
  have ok: "store_ok (gs_store gui_demo_start)" by (simp add: gui_demo_start_def demo_api_def serve_demo_def)
  have st: "gs_store gui_demo_start = serve_demo" "gv_http gui_demo = gui_http"
    by (simp_all add: gui_demo_start_def demo_api_def gui_demo_def)
  obtain tr s' where run: "gui_trace gui_demo gui_demo_conf [GuiPin ''k'', GuiResolve ''x'', GuiDelete ''y''] gui_demo_start = (tr, s')"
    by fastforce
  from gui_refines_cache [OF ok run] have "map fst tr = [GuiPin ''k'', GuiResolve ''x'', GuiDelete ''y'']"
    "spec_run (gui_good gui_http) (abs_cache serve_demo) tr (abs_cache (gs_store s'))"
    unfolding st by simp_all
  moreover from this(1) have "length tr = 3" by (metis length_map length_Cons list.size(3) numeral_3_eq_3)
  ultimately show ?thesis using run by blast
qed

definition file_config :: zing_config where
  "file_config = \<lparr>zc_settlement = Some \<lparr>ss_package = Some ''0xab'', ss_settlement_object = Some ''0xcd'',
     ss_vault_object = None, ss_registry_object = None, ss_registry_peers_table = None,
     ss_peer_vaults_table = Some ''0x0'', ss_peer_vault_registry = Some ''0x1'', ss_registry_version = None,
     ss_settlement_version = None, ss_vault_version = Some 7, ss_peer_vaults_version = None,
     ss_peer_vault_registry_version = None\<rparr>\<rparr>"

definition bare_cli :: "nat cli" where
  "bare_cli = demo_cli\<lparr>cl_settlement_package := None, cl_settlement_object := None, cl_vault_object := None\<rparr>"

theorem gui_settings_match_cli_witness:
  "\<exists>cfg. gui_settlement (se_sdk hex_sui) file_config = Ret (Some cfg) \<and> vault_initial_shared_version cfg = 7"
proof -
  have cli: "\<exists>cfg. settlement_of (se_sdk hex_sui) bare_cli file_config = Ret (Some cfg) \<and>
      vault_initial_shared_version cfg = 7"
    by (simp add: settlement_of_def flag_or_def version_or_def bare_cli_def demo_cli_def file_config_def hex_sui_def
        parsed_or_def ok_opt_def table_id_def strip_0x_def)
  have wal: "\<exists>w. parse_address (se_sdk hex_sui)
      ''0x356a26eb9e012a68958082340d4c4116e7f55615cf27affcff209cf0ae544f59'' = Inr w"
    by (simp add: hex_sui_def)
  from cli wal gui_settings_match_cli [of "se_sdk hex_sui" bare_cli file_config] show ?thesis
    by (auto simp: bare_cli_def demo_cli_def)
qed

end
