(* ===== verification/Ipc_Safety.thy ===== *)
theory Ipc_Safety
  imports Ipc Gui_Demo
begin

text \<open>
  The front end's requests against the backend that answers them: what the calls of \<open>Ipc\<close> return
  is what the functions of \<open>Gui_Api\<close> computed, except for the requests whose answer is not read.
\<close>

section \<open>Structs survive the way through JSON\<close>

lemma de_simps [simp]:
  "as_str (JStr s) = Some s" "de_bool (JBool b) = Some b" "de_u64 (u64_json n) = Some n"
  by (simp_all add: as_str_def de_bool_def de_u64_def u64_json_def)

lemma req_Some [simp]: "f v = Some a \<Longrightarrow> req f (Some v) g = g a"
  by (simp add: req_def)

lemma opt_json [simp]:
  "opt as_str (Some (opt_json JStr x)) g = g x" "opt de_u64 (Some (opt_json u64_json y)) h = h y"
  "opt de_bool (Some (opt_json JBool z)) k = k z"
  by (auto simp: opt_def opt_json_def u64_json_def de_u64_def as_str_def de_bool_def split: option.splits)

lemma de_all_map: "(\<And>x. x \<in> set xs \<Longrightarrow> f (g x) = Some x) \<Longrightarrow> de_all f (map g xs) = Some xs"
  by (induction xs) auto

lemma de_list_json [simp]:
  "(\<And>x. f (g x) = Some x) \<Longrightarrow> de_list f (JArr (map g xs)) = Some xs" "de_list as_str (strs_json ss) = Some ss"
  by (simp_all add: de_list_def de_all_map strs_json_def)

lemma de_cache_entry_json [simp]: "de_cache_entry (cache_entry_json e) = Some e"
  by (simp add: de_cache_entry_def cache_entry_json_def struct_fields_def)

lemma de_staking_json [simp]: "de_staking_peer (staking_json p) = Some p"
  by (simp add: de_staking_peer_def staking_json_def struct_fields_def)

lemma de_my_peer_json [simp]: "de_my_peer (my_peer_json g) = Some g"
  by (cases g) (simp add: de_my_peer_def my_peer_json_def struct_fields_def Let_def)

lemma de_balance_json [simp]: "de_balance (balance_json b) = Some b"
  by (simp add: de_balance_def balance_json_def struct_fields_def)

lemma de_vault_json [simp]: "de_vault (vault_json m) = Some m"
  by (simp add: de_vault_def vault_json_def struct_fields_def)

lemma de_share_json [simp]: "de_share (share_json c) = Some c"
  by (simp add: de_share_def share_json_def struct_fields_def)

lemma de_usize_json: "n < 2 ^ 32 \<Longrightarrow> de_usize (u64_json (word_of_nat n)) = Some n"
  by (simp add: de_usize_def u64_json_def unat_of_nat)

lemma de_dashboard_json: "db_cache_count d < 2 ^ 32 \<Longrightarrow> de_dashboard (dashboard_json d) = Some d"
  by (simp add: de_dashboard_def dashboard_json_def struct_fields_def de_usize_json)

definition ui_peers :: "peers_info \<Rightarrow> ui_peers_info" where
  "ui_peers p = \<lparr>up_bootstrap = ps_bootstrap p, up_connected = ps_connected p, up_listen_addr = ps_listen_addr p,
     up_cache_dir = ps_cache_dir p, up_p2p_addr = ps_p2p_addr p\<rparr>"

lemma de_peers_json: "de_peers (peers_json p) = Some (ui_peers p)"
  by (simp add: de_peers_def peers_json_def struct_fields_def ui_peers_def)

section \<open>The backend as the other side\<close>

text \<open>
  The URL and the body of a request, as the front end writes them, with arguments that a URL
  carries as they are. \<open>R\<close> is the router, with its reading of queries and bodies.
\<close>

definition plain_arg :: "string \<Rightarrow> bool" where
  "plain_arg s \<longleftrightarrow> list_all (\<lambda>c. let n = of_char c :: nat
     in 48 \<le> n \<and> n \<le> 57 \<or> 65 \<le> n \<and> n \<le> 90 \<or> 97 \<le> n \<and> n \<le> 122 \<or> c \<in> set ''-_.~'') s"

fun ui_query :: "gui_request \<Rightarrow> string" where
  "ui_query (GuiResolve b) = ''?blob_id='' @ b"
| "ui_query (GuiResolveStream b) = ''?blob_id='' @ b"
| "ui_query (GuiPin b) = ''?blob_id='' @ b"
| "ui_query (GuiUnpin b) = ''?blob_id='' @ b"
| "ui_query (GuiDelete b) = ''?blob_id='' @ b"
| "ui_query (GuiDelegate v a) = ''?vault_object_id='' @ v @ ''&amount='' @ a"
| "ui_query (GuiUndelegate c) = ''?cert_object_id='' @ c"
| "ui_query _ = []"

fun plain_request :: "gui_request \<Rightarrow> bool" where
  "plain_request (GuiResolve b) = plain_arg b"
| "plain_request (GuiResolveStream b) = plain_arg b"
| "plain_request (GuiPin b) = plain_arg b"
| "plain_request (GuiUnpin b) = plain_arg b"
| "plain_request (GuiDelete b) = plain_arg b"
| "plain_request (GuiDelegate v a) = (plain_arg v \<and> plain_arg a)"
| "plain_request (GuiUndelegate c) = plain_arg c"
| "plain_request _ = True"

definition ui_url :: "'u ipc_env \<Rightarrow> gui_request \<Rightarrow> string" where
  "ui_url E q = base_url E @ snd (gui_route q) @ ui_query q"

fun ui_body :: "'u ipc_env \<Rightarrow> gui_request \<Rightarrow> string option" where
  "ui_body E (GuiPeersAdd a) = Some (to_text E (JObj [(''addr'', JStr a)]))"
| "ui_body E (GuiPeersRemove a) = Some (to_text E (JObj [(''addr'', JStr a)]))"
| "ui_body E _ = None"

definition backend_send :: "('w, 'p, 'm, 'a, 't, 'k, 'x, 'c, 'o) gui_env \<Rightarrow> ('p, 'm, 'a, 'k) http_conf \<Rightarrow>
    (http_method \<Rightarrow> string \<Rightarrow> string option \<Rightarrow> gui_request option) \<Rightarrow> (jvalue \<Rightarrow> string) \<Rightarrow> string \<Rightarrow>
    http_method \<Rightarrow> string \<Rightarrow> string option \<Rightarrow> ('w, 'p, 'm, 'a, 't, 'd) gui_state \<Rightarrow>
    (string + (string + string)) \<times> ('w, 'p, 'm, 'a, 't, 'd) gui_state" where
  "backend_send V C R text_of lost m url body s = (case R m url body of
     None \<Rightarrow> (Inr (Inr []), s)
   | Some q \<Rightarrow> (case gui_serve V C q s of
       (Panic, s') \<Rightarrow> (Inl lost, s')
     | (Ret a, s') \<Rightarrow> (Inr (Inr (case answer_json a of Some v \<Rightarrow> text_of v | None \<Rightarrow> [])), s')))"

definition link_ok :: "('w, 'p, 'm, 'a, 't, 'd) gui_state ipc_env \<Rightarrow>
    ('w, 'p, 'm, 'a, 't, 'k, 'x, 'c, 'o) gui_env \<Rightarrow> ('p, 'm, 'a, 'k) http_conf \<Rightarrow> bool" where
  "link_ok E V C \<longleftrightarrow> (\<forall>v. from_str E (to_text E v) = Inr v) \<and>
     (\<exists>R lost. ip_send E = backend_send V C R (to_text E) lost \<and>
       (\<forall>q. plain_request q \<longrightarrow> R (fst (gui_route q)) (ui_url E q) (ui_body E q) = Some q))"

lemma fetch_answer:
  assumes "link_ok E V C" and "plain_request q" and "gui_serve V C q s = (Ret a, s')"
  shows "ipc_fetch E (fst (gui_route q)) (ui_url E q) (ui_body E q) s =
    (Ret (Inr (Inr (case answer_json a of Some v \<Rightarrow> to_text E v | None \<Rightarrow> []))), s')"
  using assms by (auto simp: link_ok_def ipc_fetch_def backend_send_def)

lemma read_value_answer:
  assumes "link_ok E V C" and "plain_request q" and "gui_serve V C q s = (Ret a, s')"
    and "answer_json a = Some v" and "ui_body E q = None"
  shows "read_value E (fst (gui_route q)) (ui_url E q) s =
    (Ret (case Option.bind (jget ''error'' v) as_str of Some msg \<Rightarrow> Inl msg | None \<Rightarrow> Inr v), s')"
proof -
  have "from_str E (to_text E v) = Inr v" using assms(1) by (simp add: link_ok_def)
  with fetch_answer [OF assms(1-3)] assms(4,5) show ?thesis
    by (simp add: read_value_def act_try_def act_bind_def act_map_err_def)
qed

text \<open>A function of the backend, the handler's wrapping of its result, and what is read of it.\<close>

lemma read_handler:
  assumes "link_ok E V C" and "plain_request q" and "ui_body E q = None"
    and "gui_serve V C q = answer f (on_gui m)" and "on_gui m s = (Ret x, s')"
    and "\<And>r. answer_json (f r) = Some (j r)" and "\<And>r. jget ''error'' (j r) = None"
  shows "read_value E (fst (gui_route q)) (ui_url E q) s = (Ret (case x of Inl e \<Rightarrow> Inl e | Inr r \<Rightarrow> Inr (j r)), s')"
proof -
  have run: "gui_serve V C q s = (Ret (case x of Inl e \<Rightarrow> AnsError e | Inr r \<Rightarrow> f r), s')"
    using assms(4,5) by (simp add: answer_def act_bind_def split: sum.split)
  show ?thesis
  proof (cases x)
    case (Inl e)
    with read_value_answer [OF assms(1,2) run, of "JObj [(''error'', JStr e)]"] assms(3)
    show ?thesis by (simp add: jget_def)
  next
    case (Inr r)
    with read_value_answer [OF assms(1,2) run, of "j r"] assms(3,6,7) show ?thesis by simp
  qed
qed

lemma read_answer_handler:
  assumes "link_ok E V C" and "plain_request q" and "ui_body E q = None" and "fst (gui_route q) = GET"
    and "gui_serve V C q = answer f (on_gui m)" and "on_gui m s = (Ret x, s')"
    and "\<And>r. answer_json (f r) = Some (j r)" and "\<And>r. jget ''error'' (j r) = None"
    and "\<And>r. x = Inr r \<Longrightarrow> de (j r) = Some (h r)"
  shows "read_answer E (ui_url E q) n de s = (Ret (case x of Inl e \<Rightarrow> Inl e | Inr r \<Rightarrow> Inr (h r)), s')"
  using read_handler [OF assms(1-3,5-8)] assms(4,9)
  by (cases x) (simp_all add: read_answer_def act_try_def act_bind_def)

lemma post_handler:
  assumes "link_ok E V C" and "plain_request q" and "ui_body E q = None" and "fst (gui_route q) = POST"
    and "gui_serve V C q = answer AnsDone (on_gui m)" and "on_gui m s = (Ret x, s')"
  shows "post_message E (ui_url E q) s = (Ret (case x of Inl e \<Rightarrow> Inl e | Inr r \<Rightarrow> Inr (rg_message r)), s')"
proof -
  have "read_value E (fst (gui_route q)) (ui_url E q) s =
      (Ret (case x of Inl e \<Rightarrow> Inl e | Inr r \<Rightarrow> Inr (done_json r)), s')"
    by (rule read_handler [OF assms(1-3,5,6)]) (simp_all add: done_json_def jget_def)
  with assms(4) show ?thesis
    by (cases x) (simp_all add: post_message_def act_try_def act_bind_def done_json_def jget_def)
qed


section \<open>The front end's calls\<close>

definition relays :: "('s, string + 'a) act \<Rightarrow> ('a \<Rightarrow> 'b) \<Rightarrow> ('s, string + 'b) act \<Rightarrow> 's \<Rightarrow> bool" where
  "relays m h m' s \<longleftrightarrow> (\<forall>x s'. m s = (Ret x, s') \<longrightarrow>
     m' s = (Ret (case x of Inl e \<Rightarrow> Inl e | Inr r \<Rightarrow> Inr (h r)), s'))"

lemma jget_structs:
  "jget ''error'' (JArr vs) = None" "jget ''error'' (dashboard_json d) = None"
  "jget ''error'' (peers_json p) = None" "jget ''error'' (my_peer_json g) = None"
  "jget ''error'' (balance_json b) = None" "jget ''error'' (vault_json m) = None"
  by (simp_all add: jget_def dashboard_json_def peers_json_def my_peer_json_def balance_json_def vault_json_def
      Let_def)

lemma invoke_unit: "invoke_cmd E cmd n de (Inr JNull) = read_answer E (base_url E @ ''/api/'' @ cmd) n de"
  by (simp add: invoke_cmd_def)

lemmas ui_handlers = gui_handle_dashboard_def gui_handle_list_cache_def gui_handle_peers_list_def
  gui_handle_staking_def gui_handle_my_peer_def gui_handle_balance_def gui_handle_my_vault_def
  gui_handle_my_shares_def gui_handle_register_def gui_handle_create_vault_def gui_handle_claim_earnings_def
  gui_handle_delegate_def gui_handle_undelegate_def

lemma relay_read:
  assumes "link_ok E V C" and "plain_request q" and "ui_body E q = None" and "fst (gui_route q) = GET"
    and "gui_serve V C q = answer f (on_gui m)"
    and "\<And>r. answer_json (f r) = Some (j r)" and "\<And>r. jget ''error'' (j r) = None"
    and "\<And>r. de (j r) = Some (h r)"
  shows "relays (on_gui m) h (read_answer E (ui_url E q) n de) s"
  unfolding relays_def using read_answer_handler [OF assms(1-5) _ assms(6,7)] assms(8) by blast

lemma relay_post:
  assumes "link_ok E V C" and "plain_request q" and "ui_body E q = None" and "fst (gui_route q) = POST"
    and "gui_serve V C q = answer AnsDone (on_gui m)"
  shows "relays (on_gui m) rg_message (post_message E (ui_url E q)) s"
  unfolding relays_def using post_handler [OF assms] by blast

lemma relay_lists:
  assumes "link_ok E V C"
  shows "relays (on_gui list_cache) id (ipc_list_cache E) s"
    and "relays (on_gui (list_staking (gv_http V) C)) id (ipc_list_staking E) s"
    and "relays (on_gui (list_my_shares (gv_http V) C)) id (ipc_list_my_shares E) s"
  using relay_read [OF assms, of GuiCache AnsCache list_cache "\<lambda>es. JArr (map cache_entry_json es)" "de_list de_cache_entry" id]
    relay_read [OF assms, of GuiStaking AnsStaking "list_staking (gv_http V) C" "\<lambda>ps. JArr (map staking_json ps)"
      "de_list de_staking_peer" id]
    relay_read [OF assms, of GuiMyShares AnsShares "list_my_shares (gv_http V) C" "\<lambda>cs. JArr (map share_json cs)"
      "de_list de_share" id]
  by (simp_all add: ui_handlers jget_structs ipc_list_cache_def ipc_list_staking_def ipc_list_my_shares_def
      invoke_unit ui_url_def)

lemma relay_structs:
  assumes "link_ok E V C"
  shows "relays (on_gui (get_my_peer_info (gv_http V) C)) id (ipc_get_my_peer_info E) s"
    and "relays (on_gui (gui_get_wal_balance (gv_http V) C)) id (ipc_get_wal_balance E) s"
    and "relays (on_gui (get_my_vault (gv_http V) C)) id (ipc_get_my_vault_info E) s"
    and "relays (on_gui (peers_list (gv_http V) C)) ui_peers (ipc_list_peers E) s"
  using relay_read [OF assms, of GuiMyPeer AnsMyPeer "get_my_peer_info (gv_http V) C" my_peer_json de_my_peer id]
    relay_read [OF assms, of GuiBalance AnsBalance "gui_get_wal_balance (gv_http V) C" balance_json de_balance id]
    relay_read [OF assms, of GuiMyVault AnsVault "get_my_vault (gv_http V) C" vault_json de_vault id]
    relay_read [OF assms, of GuiPeers AnsPeers "peers_list (gv_http V) C" peers_json de_peers ui_peers]
  by (simp_all add: ui_handlers jget_structs ipc_get_my_peer_info_def ipc_get_wal_balance_def
      ipc_get_my_vault_info_def ipc_list_peers_def invoke_unit ui_url_def de_peers_json)

lemma relay_dashboard:
  assumes "link_ok E V C" and "on_gui (get_dashboard (gv_http V) C) s = (Ret x, s')"
    and "\<And>d. x = Inr d \<Longrightarrow> db_cache_count d < 2 ^ 32"
  shows "ipc_get_dashboard E s = (Ret x, s')"
  using read_answer_handler [OF assms(1), of GuiDashboard AnsDashboard "get_dashboard (gv_http V) C" s x s'
      dashboard_json de_dashboard id] assms(2,3)
  by (cases x) (simp_all add: ui_handlers jget_structs ipc_get_dashboard_def invoke_unit ui_url_def de_dashboard_json)

lemma relay_posts:
  assumes "link_ok E V C"
  shows "relays (on_gui (gui_register_peer (gv_http V) C)) rg_message (ipc_register_peer E) s"
    and "relays (on_gui (gui_create_vault (gv_http V) C)) rg_message (ipc_create_vault E) s"
    and "relays (on_gui (gui_claim_earnings (gv_http V) C)) rg_message (ipc_claim_earnings E) s"
    and "plain_arg v \<Longrightarrow> plain_arg a \<Longrightarrow>
      relays (on_gui (gui_delegate (gv_http V) C v a)) rg_message (ipc_delegate E v a) s"
    and "plain_arg c \<Longrightarrow> relays (on_gui (gui_undelegate (gv_http V) C c)) rg_message (ipc_undelegate E c) s"
  using relay_post [OF assms, of GuiRegister] relay_post [OF assms, of GuiCreateVault]
    relay_post [OF assms, of GuiClaimEarnings] relay_post [OF assms, of "GuiDelegate v a"]
    relay_post [OF assms, of "GuiUndelegate c"]
  by (simp_all add: ui_handlers ipc_register_peer_def ipc_create_vault_def ipc_claim_earnings_def ipc_delegate_def
      ipc_undelegate_def ui_url_def)

text \<open>
  C39: asking through the front end is asking the backend. When the requests reach the router and
  the text of JSON is read back, every reading call of the front end returns what the function of
  the backend computed, its errors included, and every call that submits a transaction returns its
  message; the page of peers is the backend's but for the peer id, and the dashboard arrives if it
  counts fewer than \<open>2 ^ 32\<close> blobs.
\<close>

theorem front_end_relays:
  assumes "link_ok E V C"
  shows "relays (on_gui list_cache) id (ipc_list_cache E) s \<and>
    relays (on_gui (list_staking (gv_http V) C)) id (ipc_list_staking E) s \<and>
    relays (on_gui (list_my_shares (gv_http V) C)) id (ipc_list_my_shares E) s \<and>
    relays (on_gui (get_my_peer_info (gv_http V) C)) id (ipc_get_my_peer_info E) s \<and>
    relays (on_gui (gui_get_wal_balance (gv_http V) C)) id (ipc_get_wal_balance E) s \<and>
    relays (on_gui (get_my_vault (gv_http V) C)) id (ipc_get_my_vault_info E) s \<and>
    relays (on_gui (peers_list (gv_http V) C)) ui_peers (ipc_list_peers E) s \<and>
    (\<forall>x s'. on_gui (get_dashboard (gv_http V) C) s = (Ret x, s') \<and> (\<forall>d. x = Inr d \<longrightarrow> db_cache_count d < 2 ^ 32)
      \<longrightarrow> ipc_get_dashboard E s = (Ret x, s')) \<and>
    relays (on_gui (gui_register_peer (gv_http V) C)) rg_message (ipc_register_peer E) s \<and>
    relays (on_gui (gui_create_vault (gv_http V) C)) rg_message (ipc_create_vault E) s \<and>
    relays (on_gui (gui_claim_earnings (gv_http V) C)) rg_message (ipc_claim_earnings E) s \<and>
    (plain_arg v \<and> plain_arg a \<longrightarrow>
      relays (on_gui (gui_delegate (gv_http V) C v a)) rg_message (ipc_delegate E v a) s) \<and>
    (plain_arg c \<longrightarrow> relays (on_gui (gui_undelegate (gv_http V) C c)) rg_message (ipc_undelegate E c) s)"
  using relay_lists [OF assms] relay_structs [OF assms] relay_dashboard [OF assms] relay_posts [OF assms]
  by blast

text \<open>The requests whose answer is not read.\<close>

lemma edits_ignore_answer:
  assumes "link_ok E V C" and "plain_request q" and "gui_serve V C q s = (Ret a, s')"
  shows "q = GuiPin b \<Longrightarrow> ipc_pin_blob E b s = (Ret (Inr ()), s')"
    and "q = GuiUnpin b \<Longrightarrow> ipc_unpin_blob E b s = (Ret (Inr ()), s')"
    and "q = GuiDelete b \<Longrightarrow> ipc_delete_blob E b s = (Ret (Inr ()), s')"
    and "q = GuiPeersAdd b \<Longrightarrow> ipc_add_peer E b s = (Ret (Inr ()), s')"
    and "q = GuiPeersRemove b \<Longrightarrow> ipc_remove_peer E b s = (Ret (Inr ()), s')"
  using fetch_answer [OF assms]
  by (auto simp: ipc_pin_blob_def ipc_unpin_blob_def ipc_delete_blob_def ipc_add_peer_def ipc_remove_peer_def
      ui_url_def act_try_def act_bind_def act_map_err_def)

end
