(* ===== verification/Views_Safety.thy ===== *)
theory Views_Safety
  imports Views Ipc_Safety
begin

text \<open>
  The pages of the desktop app together with the backend: what the blob browser shows after a
  fetch, what the page of peers says after adding one, and what the cache page shows after a click.
\<close>

section \<open>The stream of a fetch\<close>

fun progress :: "http_event \<Rightarrow> bool" where
  "progress (EvStatus _ _) = True"
| "progress (EvResolved _ _ _) = True"
| "progress _ = False"

text \<open>The events so far are progress, then at most one that ends the stream.\<close>

definition stream_shape :: "unit run \<Rightarrow> http_event list \<Rightarrow> bool" where
  "stream_shape r evs \<longleftrightarrow> (case r of
     Panic \<Rightarrow> list_all progress evs
   | Ret _ \<Rightarrow> evs \<noteq> [] \<and> list_all progress (butlast evs) \<and> \<not> progress (last evs))"

lemma searching_progress: "list_all progress searching"
  by (simp add: searching_def)

lemma emit_then: "act_bind (emit ev) f s = f () (s\<lparr>api_events := api_events s @ [ev]\<rparr>)"
  by (simp add: act_bind_def emit_def)

lemma stored_then: "act_bind (stored b) f s = f (bs_get (api_store s) b) s"
  by (simp add: act_bind_def stored_def)

lemma run_then: "act_bind (act_run r) f s = (case r of Ret a \<Rightarrow> f a s | Panic \<Rightarrow> (Panic, s))"
  by (simp add: act_bind_def act_run_def split: run.splits)

lemma tell_then_emit:
  obtains s' where "act_bind (tell_node E c) (\<lambda>_. emit ev) s = (Ret (), s')" "api_events s' = api_events s @ [ev]"
proof (rule tell_nodeE [of E c s])
  fix x s1 assume "tell_node E c s = (Ret x, s1)" and "api_events s1 = api_events s"
  then show thesis by (intro that [of "s1\<lparr>api_events := api_events s1 @ [ev]\<rparr>"]) (simp_all add: act_bind_def emit_def)
qed

lemma gui_stream_shape:
  assumes "gui_resolve_with_progress E C b (s\<lparr>api_events := []\<rparr>) = (r, s')"
  shows "stream_shape r (api_events s')"
proof (cases "blob_parse E b")
  case (Inl e)
  with assms show ?thesis
    by (auto simp: gui_resolve_with_progress_def emit_def stream_shape_def)
next
  case (Inr i)
  show ?thesis
  proof (cases "\<exists>d. bs_get (api_store s) b = Inr (Some d)")
    case True
    then obtain d where d: "bs_get (api_store s) b = Inr (Some d)" by blast
    show ?thesis
    proof (cases "gui_build_blobinfo E b d ''L0 local cache'' True None")
      case Panic
      have "gui_resolve_with_progress E C b (s\<lparr>api_events := []\<rparr>) =
          (Panic, s\<lparr>api_events := [EvStatus ''Checking local cache...'' ''L0'']\<rparr>)"
        using Inr d Panic by (simp add: gui_resolve_with_progress_def emit_then run_then stored_then ok_opt_def)
      with assms show ?thesis by (auto simp: stream_shape_def)
    next
      case (Ret info)
      let ?s = "s\<lparr>api_events := [EvStatus ''Checking local cache...'' ''L0'', EvInfo info]\<rparr>"
      have run: "gui_resolve_with_progress E C b (s\<lparr>api_events := []\<rparr>) =
          act_bind (tell_node E (AnnounceBlob i)) (\<lambda>_. act_ret ()) ?s"
        using Inr d Ret by (simp add: gui_resolve_with_progress_def emit_then run_then stored_then ok_opt_def)
      obtain s1 where "act_bind (tell_node E (AnnounceBlob i)) (\<lambda>_. act_ret ()) ?s = (Ret (), s1)"
        "api_events s1 = api_events ?s"
        by (rule tell_nodeE [of E "AnnounceBlob i" ?s]) (simp add: act_bind_def act_ret_def)
      with run assms show ?thesis by (auto simp: stream_shape_def)
    qed
  next
    case False
    let ?s = "s\<lparr>api_events := searching\<rparr>"
    obtain x s1 where m: "on_mesh (resolve (he_mesh E) (new_resolver C) i) ?s = (x, s1)" by fastforce
    note ev = on_mesh_events [OF m]
    have run: "gui_resolve_with_progress E C b (s\<lparr>api_events := []\<rparr>) = (case x of
        Panic \<Rightarrow> (Panic, s1)
      | Ret (Inl e) \<Rightarrow> emit (EvError (zing_display e)) s1
      | Ret (Inr result) \<Rightarrow>
          let source = source_name (rr_resolution result)
          in act_bind (emit (EvResolved (''Resolved via '' @ source) (take 2 source) source)) (\<lambda>_.
             act_bind (act_run (gui_build_blobinfo E b (rr_data result) source (rr_cached result)
               (rr_payment_error result))) (\<lambda>info.
             act_bind (tell_node E (AnnounceBlob i)) (\<lambda>_. emit (EvInfo info)))) s1)"
      using m False Inr
      by (cases "bs_get (api_store s) b"; cases x)
        (auto simp: gui_resolve_with_progress_def act_bind_def emit_def stored_def ok_opt_def searching_def Let_def
          split: option.splits sum.splits)
    show ?thesis
    proof (cases x)
      case Panic
      with run assms ev show ?thesis by (auto simp: stream_shape_def searching_progress butlast_append)
    next
      case (Ret res)
      show ?thesis
      proof (cases res)
        case (Inl e)
        with Ret run assms ev show ?thesis by (auto simp: emit_def stream_shape_def searching_progress butlast_append)
      next
        case (Inr result)
        let ?src = "source_name (rr_resolution result)"
        let ?ev = "EvResolved (''Resolved via '' @ ?src) (take 2 ?src) ?src"
        let ?info = "gui_build_blobinfo E b (rr_data result) ?src (rr_cached result) (rr_payment_error result)"
        let ?s2 = "s1\<lparr>api_events := api_events s1 @ [?ev]\<rparr>"
        have ends: "(case ?info of Ret info \<Rightarrow> act_bind (tell_node E (AnnounceBlob i)) (\<lambda>_. emit (EvInfo info)) ?s2
            | Panic \<Rightarrow> (Panic, ?s2)) = (r, s')"
          using assms unfolding run Ret Inr by (simp only: run.case sum.case emit_then run_then Let_def)
        show ?thesis
        proof (cases ?info)
          case Panic
          with ends ev show ?thesis by (auto simp: stream_shape_def searching_progress)
        next
          case (Ret info)
          obtain s3 where "act_bind (tell_node E (AnnounceBlob i)) (\<lambda>_. emit (EvInfo info)) ?s2 = (Ret (), s3)"
            "api_events s3 = api_events ?s2 @ [EvInfo info]" by (rule tell_then_emit)
          with ends Ret ev show ?thesis by (auto simp: stream_shape_def searching_progress butlast_append)
        qed
      qed
    qed
  qed
qed

section \<open>The page of a fetch\<close>

lemma de_blob_info_json [simp]: "de_blob_info (blob_info_json i) = Some i"
  by (simp add: de_blob_info_def blob_info_json_def struct_fields_def)

text \<open>The events of the source \<open>k\<close>, as the backend writes them.\<close>

definition deliver :: "'u ipc_env \<Rightarrow> nat \<Rightarrow> http_event list \<Rightarrow> browser \<Rightarrow> browser" where
  "deliver E k evs p = foldl (\<lambda>p ev. on_message E k (Some (to_text E (event_json ev))) p) p evs"

lemma deliver_simps [simp]:
  "deliver E k [] p = p"
  "deliver E k (ev # evs) p = deliver E k evs (on_message E k (Some (to_text E (event_json ev))) p)"
  "deliver E k (evs @ evs') p = deliver E k evs' (deliver E k evs p)"
  by (simp_all add: deliver_def)

lemma message_event:
  assumes "\<And>v. from_str E (to_text E v) = Inr v" and "k \<in> bb_open p"
  shows "on_message E k (Some (to_text E (event_json ev))) p = (case ev of
      EvStatus st layer \<Rightarrow> p\<lparr>bb_status := st, bb_layer := layer\<rparr>
    | EvResolved st layer source \<Rightarrow> p\<lparr>bb_status := st, bb_layer := layer\<rparr>
    | EvInfo i \<Rightarrow> p\<lparr>bb_toasts := (case hb_payment_error i of
          Some e \<Rightarrow> add_toast (''Payment failed: '' @ e) ToastError (bb_toasts p) | None \<Rightarrow> bb_toasts p),
        bb_info := Some i, bb_loading := False, bb_open := bb_open p - {k}\<rparr>
    | EvError e \<Rightarrow> p\<lparr>bb_err := Some e, bb_loading := False, bb_open := bb_open p - {k}\<rparr>)"
  using assms
  by (cases ev) (auto simp: on_message_def on_event_def jindex_def jget_def str_or_empty_def as_str_def Let_def
      show_result_def split: option.splits)

lemma deliver_progress:
  assumes "\<And>v. from_str E (to_text E v) = Inr v" and "k \<in> bb_open p" and "list_all progress evs"
  shows "\<exists>st ly. deliver E k evs p = p\<lparr>bb_status := st, bb_layer := ly\<rparr>"
  using assms(2,3)
proof (induction evs arbitrary: p)
  case Nil
  have "deliver E k [] p = p\<lparr>bb_status := bb_status p, bb_layer := bb_layer p\<rparr>" by simp
  then show ?case by blast
next
  case (Cons ev evs)
  then obtain st ly where "on_message E k (Some (to_text E (event_json ev))) p = p\<lparr>bb_status := st, bb_layer := ly\<rparr>"
    using message_event [OF assms(1) Cons.prems(1), of ev] by (cases ev) auto
  with Cons.IH [of "p\<lparr>bb_status := st, bb_layer := ly\<rparr>"] Cons.prems show ?case by auto
qed

text \<open>
  C37: what the page shows after a fetch. When its event source opens and the backend's events
  arrive, a resolve that ended leaves a page that no longer loads, with its source closed and with
  either the blob or the error, the one that ended the stream; a resolve that panicked leaves the
  page loading with its source open and neither of them.
\<close>

theorem browser_shows_outcome:
  assumes "\<And>v. from_str E (to_text E v) = Inr v" and "bb_input p \<noteq> []"
    and "connect (stream_url E (bb_input p)) = None"
    and "gui_resolve_with_progress H C (bb_input p) (a\<lparr>api_events := []\<rparr>) = (r, a')"
    and "p' = deliver E (bb_made p) (api_events a') (fetch_clicked E connect p)"
  shows "case r of
      Ret _ \<Rightarrow> \<not> bb_loading p' \<and> bb_made p \<notin> bb_open p' \<and>
        (case last (api_events a') of
           EvInfo i \<Rightarrow> bb_info p' = Some i \<and> bb_err p' = None
         | EvError e \<Rightarrow> bb_info p' = None \<and> bb_err p' = Some e
         | _ \<Rightarrow> False)
    | Panic \<Rightarrow> bb_loading p' \<and> bb_made p \<in> bb_open p' \<and> bb_info p' = None \<and> bb_err p' = None"
proof -
  let ?p = "fetch_clicked E connect p" and ?k = "bb_made p"
  have start: "?k \<in> bb_open ?p" "bb_info ?p = None" "bb_err ?p = None" "bb_loading ?p"
    using assms(2,3) by (simp_all add: fetch_clicked_def Let_def)
  note shape = gui_stream_shape [OF assms(4)]
  show ?thesis
  proof (cases r)
    case Panic
    with shape have "list_all progress (api_events a')" by (simp add: stream_shape_def)
    then obtain st ly where "p' = ?p\<lparr>bb_status := st, bb_layer := ly\<rparr>"
      using deliver_progress [OF assms(1) start(1)] assms(5) by blast
    with Panic start show ?thesis by simp
  next
    case (Ret u)
    define fst_evs ev where "fst_evs = butlast (api_events a')" and "ev = last (api_events a')"
    with Ret shape have evs: "api_events a' = fst_evs @ [ev]" "list_all progress fst_evs" "\<not> progress ev"
      by (simp_all add: stream_shape_def)
    obtain st ly where mid: "deliver E ?k fst_evs ?p = ?p\<lparr>bb_status := st, bb_layer := ly\<rparr>"
      using deliver_progress [OF assms(1) start(1) evs(2)] by blast
    then have "p' = on_message E ?k (Some (to_text E (event_json ev))) (?p\<lparr>bb_status := st, bb_layer := ly\<rparr>)"
      by (simp add: assms(5) evs(1))
    with message_event [OF assms(1), of ?k "?p\<lparr>bb_status := st, bb_layer := ly\<rparr>" ev] start evs(3) Ret show ?thesis
      by (cases ev) (simp_all add: evs(1))
  qed
qed

section \<open>The page of the cache\<close>

text \<open>The request that a click on a row's pin is.\<close>

definition toggle_of :: "cache_entry \<Rightarrow> gui_request" where
  "toggle_of e = (if ce_pinned e then GuiUnpin (ce_blob_id e) else GuiPin (ce_blob_id e))"

lemma click_then_rows:
  assumes "link_ok E V C" and "plain_request q" and "gui_serve V C q s = (Ret a, s1)"
    and "gui_serve V C GuiCache s1 = (Ret (AnsCache es), s2)"
  shows "q = toggle_of e \<Longrightarrow> toggle_clicked E e s = (Ret es, s2)"
    and "q = GuiDelete (ce_blob_id e) \<Longrightarrow> delete_clicked E e s = (Ret es, s2)"
proof -
  obtain x where x: "on_gui list_cache s1 = (Ret x, s2)" and "x = Inr es"
    using assms(4) by (auto simp: gui_handle_list_cache_def answer_def act_bind_def split: prod.splits run.splits sum.splits)
  then have rows: "cache_rows E s1 = (Ret es, s2)"
    using relay_lists(1) [OF assms(1), of s1] by (simp add: relays_def cache_rows_def act_bind_def)
  show "q = toggle_of e \<Longrightarrow> toggle_clicked E e s = (Ret es, s2)"
    using edits_ignore_answer(1,2) [OF assms(1-3)] rows
    by (simp add: toggle_clicked_def toggle_of_def act_bind_def split: if_splits)
  show "q = GuiDelete (ce_blob_id e) \<Longrightarrow> delete_clicked E e s = (Ret es, s2)"
    using edits_ignore_answer(3) [OF assms(1-3)] rows by (simp add: delete_clicked_def act_bind_def)
qed

text \<open>
  C38: the cache page after a click on a row. Whatever the backend answered to the pin, unpin or
  delete of the row, the page shows the cache as it then is: every blob once, in order, with its
  size and its pin, with the change if the backend made it and without it if it was refused.
\<close>

theorem cache_page_shows_click:
  assumes "link_ok E V C" and "plain_request q" and "edits_cache q" and "store_ok (gs_store s)"
    and "gui_serve V C q s = (Ret a, s1)" and "gui_serve V C GuiCache s1 = (Ret (AnsCache es), s2)"
  shows "(q = toggle_of e \<longrightarrow> toggle_clicked E e s = (Ret es, s2)) \<and>
    (q = GuiDelete (ce_blob_id e) \<longrightarrow> delete_clicked E e s = (Ret es, s2)) \<and>
    spec_lists (if a = AnsOk then spec_edit q (abs_cache (gs_store s)) else abs_cache (gs_store s)) es"
proof -
  have no: "gui_resolves q = None" using assms(3) by (cases q) simp_all
  note step = gui_step [OF assms(5,4)]
  then have "abs_cache (gs_store s1) = (if a = AnsOk then spec_edit q (abs_cache (gs_store s)) else abs_cache (gs_store s))"
    using no assms(3) by (auto elim: spec_step.cases)
  with other_shows [OF assms(6)] step click_then_rows [OF assms(1,2,5,6)] show ?thesis by simp
qed

section \<open>The page of peers\<close>

text \<open>
  C40: five requests of the front end report success whatever the backend says: pinning, unpinning
  and deleting a blob and adding and removing a peer; the page of peers shows ''Added'' for an
  address that the backend refused. The answer of the backend, which may be an error, is not read;
  only a lost connection is noticed.
\<close>

theorem edits_report_success:
  assumes "link_ok E V C" and "plain_request q" and "gui_serve V C q s = (Ret a, s')"
  shows "(q = GuiPin b \<longrightarrow> ipc_pin_blob E b s = (Ret (Inr ()), s')) \<and>
    (q = GuiUnpin b \<longrightarrow> ipc_unpin_blob E b s = (Ret (Inr ()), s')) \<and>
    (q = GuiDelete b \<longrightarrow> ipc_delete_blob E b s = (Ret (Inr ()), s')) \<and>
    (q = GuiPeersAdd b \<and> b \<noteq> [] \<longrightarrow> add_clicked E \<lparr>pp_input = b, pp_status = t\<rparr> s =
      (Ret \<lparr>pp_input = [], pp_status = ''Added''\<rparr>, s')) \<and>
    (q = GuiPeersRemove b \<longrightarrow> remove_clicked E b s = (Ret (), s'))"
  using edits_ignore_answer [OF assms, of b]
  by (simp add: add_clicked_def remove_clicked_def act_bind_def act_ret_def)

end
