(* ===== verification/Views_Demo.thy ===== *)
theory Views_Demo
  imports Views_Safety
begin

text \<open>
  A page in front of the backend of \<open>Gui_Demo\<close>: a text of JSON values that reads back, a router
  that takes URLs apart, and concrete clicks.
\<close>

section \<open>A text of JSON values\<close>

definition str_out :: "string \<Rightarrow> string" where
  "str_out s = concat (map (\<lambda>c. [CHR ''c'', c]) s) @ ''n''"

fun str_in :: "string \<Rightarrow> string \<times> string" where
  "str_in (c # d # cs) = (if c = CHR ''c'' then apfst ((#) d) (str_in cs) else ([], d # cs))"
| "str_in cs = ([], [])"

definition num_out :: "64 word \<Rightarrow> string" where
  "num_out n = replicate (unat n) CHR ''i'' @ ''n''"

fun num_in :: "string \<Rightarrow> nat \<times> string" where
  "num_in (c # cs) = (if c = CHR ''i'' then apfst Suc (num_in cs) else (0, cs))"
| "num_in [] = (0, [])"

primrec items_out :: "(string \<times> string) list \<Rightarrow> string" where
  "items_out [] = ''n''"
| "items_out (e # es) = ''y'' @ str_out (fst e) @ snd e @ items_out es"

primrec json_out :: "jvalue \<Rightarrow> string" where
  "json_out JNull = ''z''"
| "json_out (JBool b) = (if b then ''t'' else ''f'')"
| "json_out (JNum x) = (case x of PosInt n \<Rightarrow> ''p'' @ num_out n | NegInt n \<Rightarrow> ''m'' @ num_out n | Float64 n \<Rightarrow> ''d'' @ num_out n)"
| "json_out (JStr s) = ''s'' @ str_out s"
| "json_out (JArr vs) = ''a'' @ items_out (map (\<lambda>w. ([], w)) (map json_out vs))"
| "json_out (JObj fs) = ''o'' @ items_out (map (map_prod id json_out) fs)"

fun json_in :: "nat \<Rightarrow> string \<Rightarrow> jvalue \<times> string" and items_in :: "nat \<Rightarrow> string \<Rightarrow> (string \<times> jvalue) list \<times> string" where
  "json_in (Suc n) (c # cs) =
     (if c = CHR ''z'' then (JNull, cs)
      else if c = CHR ''t'' then (JBool True, cs)
      else if c = CHR ''f'' then (JBool False, cs)
      else if c = CHR ''p'' then apfst (\<lambda>n. JNum (PosInt (word_of_nat n))) (num_in cs)
      else if c = CHR ''m'' then apfst (\<lambda>n. JNum (NegInt (word_of_nat n))) (num_in cs)
      else if c = CHR ''d'' then apfst (\<lambda>n. JNum (Float64 (word_of_nat n))) (num_in cs)
      else if c = CHR ''s'' then apfst JStr (str_in cs)
      else if c = CHR ''a'' then apfst (\<lambda>es. JArr (map snd es)) (items_in n cs)
      else apfst JObj (items_in n cs))"
| "json_in _ cs = (JNull, cs)"
| "items_in (Suc n) (c # cs) =
     (if c = CHR ''y'' then (case str_in cs of (k, cs) \<Rightarrow> case json_in n cs of (v, cs) \<Rightarrow> apfst ((#) (k, v)) (items_in n cs))
      else ([], cs))"
| "items_in _ cs = ([], cs)"

lemma str_in_out [simp]: "str_in (str_out s @ r) = (s, r)"
proof (induction s)
  case Nil
  then show ?case by (cases r) (simp_all add: str_out_def)
qed (simp add: str_out_def)

lemma num_in_rep: "num_in (replicate n CHR ''i'' @ CHR ''n'' # r) = (n, r)"
  by (induction n) simp_all

lemma num_in_out [simp]: "num_in (num_out n @ r) = (unat n, r)"
  by (simp add: num_out_def num_in_rep)

lemma json_in_out:
  "(length (json_out v) \<le> n \<longrightarrow> json_in n (json_out v @ r) = (v, r)) \<and>
   (length (items_out (map (map_prod id json_out) fs)) \<le> n \<longrightarrow>
     items_in n (items_out (map (map_prod id json_out) fs) @ r') = (fs, r'))"
proof (induction n arbitrary: v r fs r')
  case 0
  then show ?case by (cases v; cases fs) (auto split: jnumber.splits)
next
  case (Suc n)
  have arr: "map (\<lambda>w. ([], w)) (map json_out vs) = map (map_prod id json_out) (map (\<lambda>v. ([], v)) vs)" for vs
    by simp
  have "json_in (Suc n) (json_out v @ r) = (v, r)" if len: "length (json_out v) \<le> Suc n"
  proof (cases v)
    case (JNum x)
    then show ?thesis by (cases x) simp_all
  next
    case (JArr vs)
    with Suc.IH [THEN conjunct2, rule_format, of "map (\<lambda>v. ([], v)) vs" r] len show ?thesis
      by (simp only: json_out.simps arr) (simp add: o_def)
  next
    case (JObj es)
    with Suc.IH [THEN conjunct2, rule_format, of es r] len show ?thesis by simp
  qed auto
  moreover have "items_in (Suc n) (items_out (map (map_prod id json_out) fs) @ r') = (fs, r')"
    if "length (items_out (map (map_prod id json_out) fs)) \<le> Suc n"
  proof (cases fs)
    case (Cons e es)
    with that Suc.IH [THEN conjunct1, rule_format, of "snd e"] Suc.IH [THEN conjunct2, rule_format, of es r']
    show ?thesis by simp
  qed simp
  ultimately show ?case by blast
qed

definition page_from_str :: "string \<Rightarrow> string + jvalue" where
  "page_from_str s = Inr (fst (json_in (length s) s))"

lemma page_json: "page_from_str (json_out v) = Inr v"
  using json_in_out [of v "length (json_out v)" "[]"] by (simp add: page_from_str_def)

section \<open>A router\<close>

definition after_eq :: "string \<Rightarrow> string" where
  "after_eq s = tl (dropWhile (\<lambda>c. c \<noteq> CHR ''='') s)"

text \<open>The requests of a URL's arguments and a body, of which the router takes the one of its path.\<close>

definition page_requests :: "string \<Rightarrow> string option \<Rightarrow> gui_request list" where
  "page_requests query body =
     (let first = takeWhile (\<lambda>c. c \<noteq> CHR ''&'') query; a = after_eq first;
          b = after_eq (drop (Suc (length first)) query);
          addr = (case Option.bind (Option.bind body (ok_opt \<circ> page_from_str)) (\<lambda>v. Option.bind (jget ''addr'' v) as_str) of
            Some s \<Rightarrow> s | None \<Rightarrow> [])
      in [GuiDashboard, GuiCache, GuiPeers, GuiStaking, GuiMyPeer, GuiBalance, GuiRegister, GuiUpdatePeerId,
          GuiMyVault, GuiCreateVault, GuiMyShares, GuiClaimEarnings, GuiResolve a, GuiResolveStream a, GuiPin a,
          GuiUnpin a, GuiDelete a, GuiPeersAdd addr, GuiPeersRemove addr, GuiDelegate a b, GuiUndelegate a])"

definition page_router :: "string \<Rightarrow> http_method \<Rightarrow> string \<Rightarrow> string option \<Rightarrow> gui_request option" where
  "page_router base m url body =
     (let rest = drop (length base) url; path = takeWhile (\<lambda>c. c \<noteq> CHR ''?'') rest
      in find (\<lambda>q. gui_route q = (m, path)) (page_requests (drop (Suc (length path)) rest) body))"

definition page_base :: string where
  "page_base = ''http://127.0.0.1:'' @ dec 13420"

definition gui_page :: "(mail, nat, nat, nat, string, bytes, nat, unit, unit) gui_env \<Rightarrow>
    (mail, nat, nat, nat, string, mem_db) gui_state ipc_env" where
  "gui_page V = \<lparr>js_port = None, html_port = None,
     ip_send = backend_send V gui_demo_conf (page_router page_base) json_out ''closed'',
     from_str = page_from_str, to_text = json_out, de_error = (\<lambda>t v. t)\<rparr>"

lemma plain_chars: "plain_arg s \<Longrightarrow> c \<in> set s \<Longrightarrow> c \<noteq> CHR ''&'' \<and> c \<noteq> CHR ''='' \<and> c \<noteq> CHR ''?''"
  by (auto simp: plain_arg_def list_all_iff Let_def)

lemma page_args:
  "plain_arg a \<Longrightarrow> takeWhile (\<lambda>c. c \<noteq> CHR ''&'') a = a"
  "plain_arg a \<Longrightarrow> takeWhile (\<lambda>c. c \<noteq> CHR ''&'') (a @ CHR ''&'' # b) = a"
  using plain_chars [of a] by (auto simp: takeWhile_eq_all_conv takeWhile_append2)

lemma page_routes:
  assumes "plain_request q"
  shows "page_router page_base (fst (gui_route q)) (ui_url (gui_page V) q) (ui_body (gui_page V) q) = Some q"
proof -
  have base: "base_url (gui_page V) = page_base"
    by (simp add: base_url_def get_api_port_def gui_page_def page_base_def API_PORT_def)
  have out: "to_text (gui_page V) = json_out" by (simp add: gui_page_def)
  show ?thesis
    using assms
    by (cases q) (simp_all add: page_router_def page_requests_def ui_url_def base Let_def after_eq_def page_args
        out page_json jget_def as_str_def ok_opt_def del: json_out.simps)
qed

lemma gui_page_link: "link_ok (gui_page V) V gui_demo_conf"
proof -
  have "ip_send (gui_page V) = backend_send V gui_demo_conf (page_router page_base) (to_text (gui_page V)) ''closed''"
    "from_str (gui_page V) = page_from_str" "to_text (gui_page V) = json_out"
    by (simp_all add: gui_page_def)
  then show ?thesis using page_routes [of _ V] by (auto simp: link_ok_def page_json)
qed

section \<open>Clicks\<close>

theorem front_end_relays_witness:
  "relays (on_gui list_cache) id (ipc_list_cache (gui_page gui_demo)) gui_demo_start \<and>
   relays (on_gui (gui_delegate (gv_http gui_demo) gui_demo_conf ''0x1'' ''1.5'')) rg_message
     (ipc_delegate (gui_page gui_demo) ''0x1'' ''1.5'') gui_demo_start"
  using front_end_relays [OF gui_page_link, of gui_demo gui_demo_start "''0x1''" "''1.5''"]
  by (simp add: plain_arg_def)

text \<open>A backend that reads no addresses refuses to add a peer.\<close>

definition deaf_gui :: "(mail, nat, nat, nat, string, bytes, nat, unit, unit) gui_env" where
  "deaf_gui = gui_demo\<lparr>gv_cli := (gv_cli gui_demo)\<lparr>cv_http := gui_http\<lparr>ma_parse := (\<lambda>s. None)\<rparr>\<rparr>\<rparr>"

lemma deaf_refuses:
  "\<exists>e. gui_serve deaf_gui gui_demo_conf (GuiPeersAdd ''x'') gui_demo_start = (Ret (AnsError e), gui_demo_start)"
  by (simp add: gui_handle_peers_add_def answer_def act_bind_def act_try_def on_gui_def peers_add_def deaf_gui_def)

theorem edits_report_success_witness:
  "\<exists>e. gui_serve deaf_gui gui_demo_conf (GuiPeersAdd ''x'') gui_demo_start = (Ret (AnsError e), gui_demo_start) \<and>
     add_clicked (gui_page deaf_gui) \<lparr>pp_input = ''x'', pp_status = []\<rparr> gui_demo_start =
       (Ret \<lparr>pp_input = [], pp_status = ''Added''\<rparr>, gui_demo_start)"
proof -
  obtain e where e: "gui_serve deaf_gui gui_demo_conf (GuiPeersAdd ''x'') gui_demo_start = (Ret (AnsError e), gui_demo_start)"
    using deaf_refuses by blast
  from edits_report_success [OF gui_page_link _ e, of "''x''" "[]"] e show ?thesis by simp
qed

definition pinned_demo :: "mem_db blob_store" where
  "pinned_demo = mem_store\<lparr>bs_db := (\<lambda>_. [])(BLOBS_CF := [(as_bytes ''k'', [1, 2, 3, 4])],
     PINS_CF := [(as_bytes ''k'', as_bytes ''1'')])\<rparr>"

lemma pinned_demo_eval:
  "pin serve_demo ''k'' = Inr pinned_demo" "bs_list_blob_ids pinned_demo = Inr [''k'']"
  "bs_blob_size pinned_demo ''k'' = Inr (Some 4)" "is_pinned pinned_demo ''k'' = Inr True"
  by (simp_all add: pinned_demo_def serve_demo_def store_eval char_of_def bit_0 fun_upd_twist)

definition demo_row :: "bool \<Rightarrow> cache_entry" where
  "demo_row p = \<lparr>ce_blob_id = ''k'', ce_size = 4, ce_pinned = p\<rparr>"

lemma demo_pin_list:
  "\<exists>s1. gui_serve gui_demo gui_demo_conf (GuiPin ''k'') gui_demo_start = (Ret AnsOk, s1) \<and>
     gui_serve gui_demo gui_demo_conf GuiCache s1 = (Ret (AnsCache [demo_row True]), s1)"
  by (simp add: gui_handle_pin_def gui_handle_list_cache_def answer_def act_bind_def act_try_def on_gui_def pin_blob_def
      write_store_def list_cache_def read_store_def gui_demo_start_def demo_api_def pinned_demo_eval act_ret_def
      demo_row_def)

theorem cache_page_shows_click_witness:
  "\<exists>s1. toggle_clicked (gui_page gui_demo) (demo_row False) gui_demo_start = (Ret [demo_row True], s1) \<and>
     spec_lists (spec_edit (GuiPin ''k'') (abs_cache serve_demo)) [demo_row True]"
proof -
  obtain s1 where run: "gui_serve gui_demo gui_demo_conf (GuiPin ''k'') gui_demo_start = (Ret AnsOk, s1)"
    "gui_serve gui_demo gui_demo_conf GuiCache s1 = (Ret (AnsCache [demo_row True]), s1)"
    using demo_pin_list by blast
  have "plain_request (GuiPin ''k'')" "edits_cache (GuiPin ''k'')" "store_ok (gs_store gui_demo_start)"
    "gs_store gui_demo_start = serve_demo" "toggle_of (demo_row False) = GuiPin ''k''"
    by (simp_all add: plain_arg_def gui_demo_start_def demo_api_def serve_demo_def toggle_of_def demo_row_def)
  with cache_page_shows_click [OF gui_page_link _ _ _ run, of "demo_row False"] show ?thesis by simp
qed

lemma demo_stream:
  "\<exists>i s'. gui_resolve_with_progress gui_http gui_demo_conf ''k'' (demo_api\<lparr>api_events := []\<rparr>) = (Ret (), s') \<and>
     last (api_events s') = EvInfo i \<and> hb_content i = of_bytes [1, 2, 3, 4]"
proof -
  have d: "blob_parse gui_http ''k'' = Inr [3]" "bs_get (api_store demo_api) ''k'' = Inr (Some [1, 2, 3, 4])"
    by (simp_all add: gui_http_def demo_http_def mail_mesh_def length_walrus_def demo_api_def serve_demo_get)
  have mime: "gui_detect_mime [1, 2, 3, 4] = Ret ''text/plain''"
    by (simp add: gui_detect_mime_def starts_with_def is_webp_def as_bytes_def)
  have shown: "text_preview [1, 2, 3, 4] = of_bytes [1, 2, 3, 4]"
    by (rule text_preview_valid) simp_all
  obtain i where i: "gui_build_blobinfo gui_http ''k'' [1, 2, 3, 4] ''L0 local cache'' True None = Ret i"
    "hb_content i = of_bytes [1, 2, 3, 4]"
    by (simp add: gui_build_blobinfo_def mime shown is_image_def)
  let ?s = "demo_api\<lparr>api_events := [EvStatus ''Checking local cache...'' ''L0'', EvInfo i]\<rparr>"
  obtain s' where "act_bind (tell_node gui_http (AnnounceBlob [3])) (\<lambda>_. act_ret ()) ?s = (Ret (), s')"
    "api_events s' = api_events ?s"
    by (rule tell_nodeE [of gui_http "AnnounceBlob [3]" ?s]) (simp add: act_bind_def act_ret_def)
  with i d show ?thesis
    by (simp add: gui_resolve_with_progress_def emit_then run_then stored_then ok_opt_def)
qed

definition demo_browser :: browser where
  "demo_browser = \<lparr>bb_input = ''k'', bb_info = None, bb_err = None, bb_loading = False, bb_status = [],
     bb_layer = [], bb_made = 0, bb_open = {}, bb_toasts = \<lparr>ts_next = 0, ts_list = []\<rparr>\<rparr>"

theorem browser_shows_outcome_witness:
  "\<exists>s' i p'. gui_resolve_with_progress gui_http gui_demo_conf ''k'' (demo_api\<lparr>api_events := []\<rparr>) = (Ret (), s') \<and>
     p' = deliver (gui_page gui_demo) 0 (api_events s') (fetch_clicked (gui_page gui_demo) (\<lambda>_. None) demo_browser) \<and>
     \<not> bb_loading p' \<and> bb_info p' = Some i \<and> hb_content i = of_bytes [1, 2, 3, 4]"
proof -
  obtain i s' where run: "gui_resolve_with_progress gui_http gui_demo_conf ''k'' (demo_api\<lparr>api_events := []\<rparr>) = (Ret (), s')"
    and i: "last (api_events s') = EvInfo i" "hb_content i = of_bytes [1, 2, 3, 4]"
    using demo_stream by blast
  have "from_str (gui_page gui_demo) (to_text (gui_page gui_demo) v) = Inr v" for v
    by (simp add: gui_page_def page_json)
  from browser_shows_outcome [of "gui_page gui_demo" demo_browser "\<lambda>_. None" gui_http gui_demo_conf demo_api "Ret ()" s',
      OF this _ _ _ refl] run i
  show ?thesis by (simp add: demo_browser_def)
qed

end
