(* ===== verification/Spec2Isabelle.thy ===== *)
theory Spec2Isabelle
  imports Eviction Reputation Handler Node_Demo Wallet_Safety Cli_Safety Discovery Views_Demo
begin

text \<open>
  \<^bold>\<open>zing-cdn\<close>, a peer-to-peer cache for blobs of the Walrus network. A node keeps blobs in a
  local store, serves them to other peers over libp2p, pays peers in WAL for what it fetches, and
  answers a command line, an HTTP API and a desktop app. This development models the Rust code under
  \<^verbatim>\<open>src/zing-cdn/zing-cdn-core/src\<close>, \<^verbatim>\<open>src/zing-cdn/zing-cdn/src\<close> and \<^verbatim>\<open>src/zing-cdn/zing-cdn-gui\<close>.

  \<^bold>\<open>Theories and sources.\<close>
  \<^item> \<open>Prelude\<close>, \<open>Zing_Types\<close>: results, panics (\<open>run\<close>), words and their little-endian form, slices,
    integer parsing, UTF-8; the enums and the error type of \<^verbatim>\<open>types.rs\<close> with its texts.
  \<^item> \<open>Table\<close>: the locales \<open>keyed_table\<close> and \<open>framed_table\<close>, what a client may rely on of a table with
    failing operations. \<open>Blob_Store\<close> (\<^verbatim>\<open>cache/store.rs\<close>) and \<open>Pinning\<close> (\<^verbatim>\<open>cache/pinning.rs\<close>)
    interpret them for the blobs and for the pins, over a record \<open>rocksdb\<close> of the database's calls
    whose documented behaviour is \<open>rocks_ok\<close>; \<open>mem_rocks\<close> is an instance. \<open>Eviction\<close>
    (\<^verbatim>\<open>cache/eviction.rs\<close>): pinned blobs stay, the budget is met, in key order, no more than needed.
  \<^item> \<open>Reputation\<close> (\<^verbatim>\<open>mesh/reputation.rs\<close>): scores as sums over the history of a peer.
  \<^item> \<open>Codec\<close> (\<^verbatim>\<open>p2p/protocol.rs\<close>): the four wire protocols. The locale \<open>framed_codec\<close> has the round
    trip and the cut stream; each message type interprets it. \<open>Handler\<close> (\<^verbatim>\<open>p2p/handler.rs\<close>): the
    answers to inbound requests, with the spot check of unpaid ones and the panic on an
    overflowing range.
  \<^item> \<open>Swarm\<close>, \<open>Node\<close> (\<^verbatim>\<open>p2p/node.rs\<close>): the event loop as the step relation \<open>node_step\<close> on its state,
    over the record \<open>p2p_env\<close> of the swarm's calls, with the reachable states \<open>node_reach\<close>.
    \<open>Node_Safety\<close>: every reply sender is waiting or answered once. \<open>Node_Publish\<close>: how often the DHT
    records are published, over the steps labelled with what caused them (\<open>node_history\<close>).
    \<open>Node_Behaviour\<close>: what single events do. \<open>Node_Demo\<close>: a concrete swarm.
    \<open>Discovery\<close> (\<^verbatim>\<open>p2p/behaviour.rs\<close>, \<^verbatim>\<open>p2p/discovery.rs\<close>): the protocols' names and limits.
  \<^item> \<open>Effects\<close>: actions over a state shared with the outside world, which may panic, and the
    predicates the safety proofs use: \<open>act_keeps\<close> a part of the state, \<open>act_rel\<close> a reflexive and
    transitive relation between the states, \<open>act_gives\<close> a property of the results, \<open>act_safe\<close> no panic.
  \<^item> \<open>Settlement\<close> (\<^verbatim>\<open>sui/settlement.rs\<close>): the transactions, checked against the contract's signatures.
    \<open>Wallet\<close>, \<open>Wallet_Safety\<close> (\<^verbatim>\<open>sui/wallet.rs\<close>): payments, registration, vaults and shares over the
    record \<open>sui_env\<close> of the RPC and key calls, with a trace of the submitted transactions.
  \<^item> \<open>Walrus\<close> (\<^verbatim>\<open>walrus/client.rs\<close>, \<^verbatim>\<open>walrus/verify.rs\<close>) and \<open>Resolver\<close> (\<^verbatim>\<open>mesh/resolver.rs\<close>): how a
    blob is found, in the cache, from peers by parallel ranges, by ranges, whole, through the DHT, and
    from Walrus, with the payments. \<open>Resolver_Safety\<close>: the results are verified, the cache stays
    sound, no peer can make a resolve fail. \<open>Resolver_Range\<close>, \<open>Resolver_Parallel\<close>: what serving
    peers deliver is reassembled; the peers' answers are those of \<open>Handler\<close>. \<open>Resolver_Pay\<close>: whom a
    payment goes to, tied to the node's answer (\<open>published_address\<close>).
    \<open>Resolver_Bound\<close>: a resolve ends, and how many commands it sends before it does.
    \<open>Resolver_Demo\<close>: a concrete network.
  \<^item> \<open>Http_Text\<close>, \<open>Http\<close> (\<^verbatim>\<open>zing-cdn/src/http.rs\<close>): every handler of the HTTP API and its routes,
    over the resolver and the wallet. \<open>Http_Safety\<close>, \<open>Http_Demo\<close>: which requests can spend, the two
    resolve endpoints agree, answers are about the blob asked for.
  \<^item> \<open>Config\<close> (\<^verbatim>\<open>config.rs\<close>, the loading of keys in \<^verbatim>\<open>sui/wallet.rs\<close>, the settings in \<^verbatim>\<open>main.rs\<close>) and
    \<open>Cli\<close> (\<^verbatim>\<open>main.rs\<close>, \<^verbatim>\<open>client.rs\<close>): the program, its start and its commands. \<open>Cli_Safety\<close>: a pin
    protects a blob against every sequence of commands; settings by flags against built-in ones.
  \<^item> \<open>Gui_Api\<close> (\<^verbatim>\<open>zing-cdn-gui/src-tauri/src/api_http.rs\<close>) and \<open>Gui_Main\<close> (\<^verbatim>\<open>main.rs\<close> beside it): the
    backend of the desktop app, its handlers, routes, settings, file of peers and start; functions with
    the text of \<^verbatim>\<open>http.rs\<close> are those of \<open>Http\<close>. \<open>Gui_Safety\<close>: the API refines an abstract cache, a map of
    blobs with a set of pins (\<open>cache_spec\<close>, \<open>spec_step\<close>, abstraction \<open>abs_cache\<close>), the edited peers survive a
    restart, the settings are those of the command line. \<open>Gui_Demo\<close>: concrete runs.
  \<^item> \<open>Ipc\<close> (\<^verbatim>\<open>zing-cdn-gui/src/ipc.rs\<close>): the front end's requests with the structs that both sides derive,
    as JSON values. \<open>Ipc_Safety\<close>: asking through the front end is asking the backend. \<open>Views\<close>
    (\<^verbatim>\<open>zing-cdn-gui/src/components\<close>, \<^verbatim>\<open>lib.rs\<close>): the state behind the pages. \<open>Views_Safety\<close>: what the pages
    show after a fetch and after a click, in terms of the backend and the abstract cache.
    \<open>Views_Demo\<close>: a page with a text of JSON and a router.

  \<^bold>\<open>How the parts meet.\<close> The state of the outside world is one type \<open>'w\<close>: the chain, Walrus and the
  channel to the node's loop act on it through the records of their calls. A wallet's action runs
  inside the resolver's state (\<open>on_wallet\<close>), the resolver inside the API's (\<open>on_mesh\<close>), the API inside
  the program's (\<open>on_api\<close>) or the desktop app's (\<open>on_gui\<close>), and the front end's requests are actions on the state of the
  backend that answers them (\<open>backend_send\<close>). The commands that the resolver and the API send are those that the node's
  loop handles (\<open>p2p_command\<close>), and the store the handlers serve from is the one the resolver fills.

  \<^bold>\<open>Panics, errors and overflow.\<close> A Rust panic is the value \<open>Panic\<close>; errors are values of a sum type
  with the texts of the code. Machine integers are words; where the code saturates or checks, the
  model does.

  \<^bold>\<open>Loops.\<close> Every function is total. The retries (3), the polls of the resolver (30) and of the
  API (15) carry the number of rounds left, which are the code's own bounds. The range loop ends because the
  quotient of the offset by the chunk size grows up to 2048; the loop over windows of parallel ranges has no bound in
  the code: it ends because every further window has more data and 512 MiB is the limit. \<open>resolve_ends\<close> bounds the commands of a resolve:
  the windows are at most 8193, because a window that has a successor brought a whole chunk of 64 KiB.

  \<^bold>\<open>Concurrency.\<close> The node's loop handles one event at a time, in any order that the swarm and the
  commands produce. Within one resolve, the futures of a \<^verbatim>\<open>join_all\<close> run in their order and no other
  task runs between the awaits; requests of the API run one after the other.

  \<^bold>\<open>Parameters.\<close> RocksDB, libp2p, the Sui and Walrus SDKs, base64, hex, TOML, JSON, hashing and the clock
  are records of functions. What the code relies on of them are named hypotheses (\<open>rocks_ok\<close>,
  \<open>swarm_ok\<close>, \<open>addr_lib_ok\<close>, \<open>hex_crate_ok\<close>, \<open>serves\<close>, \<open>disk_ok\<close>, \<open>serde_ok\<close>,
  \<open>link_ok\<close>, \<open>small_answers\<close>), each with an instance that satisfies it.

  \<^bold>\<open>Not modelled.\<close> Of the desktop app's pages the markup, the dashboard's usage bar, which is computed in
  binary64, and the timers, which load a page again or remove a toast; a page's state is kept
  when another tab is shown, which the code drops; \<^verbatim>\<open>sui/client.rs\<close>, \<^verbatim>\<open>sui/article.rs\<close> and
  \<^verbatim>\<open>sui/epoch.rs\<close>, an accessor and plain data that nothing uses; the Move contracts, of which only the
  signatures are used; log output, argument parsing and sockets.
\<close>

end
